(* ===== verification/Prelude.thy ===== *)
theory Prelude
  imports Main "HOL-Library.AList" "HOL-Library.Sublist"
begin

text \<open>
  Shared vocabulary of the development.

  \<^item> Effects. A Python operation that may raise and may change the outside world (the
    cluster, the in-memory dry-run state, the upstream service) is a function
    \<open>'w \<Rightarrow> ('e + 'a) \<times> 'w\<close>: the world goes in, and either an exception or a result
    comes out together with the world as it is then. A raise does not roll the world back.
  \<^item> Dictionaries. A Python \<open>dict\<close> keeps insertion order, and several answers of the
    service depend on it (the order of taints, of results, of reported keys), so a dictionary is
    an association list written with \<open>AList.update\<close> and \<open>AList.delete\<close>, which overwrite in
    place and append at the end exactly as a Python assignment does.
  \<^item> Options. \<open>None\<close> of Python is \<open>None\<close>; \<open>x or default\<close> on an optional value
    is \<open>or_else\<close>.
\<close>

named_theorems io_simps \<open>evaluation of the effect combinators\<close>
named_theorems dict_simps \<open>lookups after dictionary updates\<close>

section \<open>Effects: a world and an error\<close>

type_synonym ('w, 'e, 'a) io = "'w \<Rightarrow> ('e + 'a) \<times> 'w"

definition return_io :: "'a \<Rightarrow> ('w, 'e, 'a) io" where
  "return_io x = (\<lambda>w. (Inr x, w))"

definition raise_io :: "'e \<Rightarrow> ('w, 'e, 'a) io" where
  "raise_io e = (\<lambda>w. (Inl e, w))"

definition bind_io :: "('w, 'e, 'a) io \<Rightarrow> ('a \<Rightarrow> ('w, 'e, 'b) io) \<Rightarrow> ('w, 'e, 'b) io" where
  "bind_io m f = (\<lambda>w. case m w of (Inl e, w') \<Rightarrow> (Inl e, w') | (Inr x, w') \<Rightarrow> f x w')"

text \<open>\<open>catch_io m h\<close> is \<open>try: m except e: h(e)\<close>; the handler runs in the world the
  failing block left behind.\<close>

definition catch_io :: "('w, 'e, 'a) io \<Rightarrow> ('e \<Rightarrow> ('w, 'e, 'a) io) \<Rightarrow> ('w, 'e, 'a) io" where
  "catch_io m h = (\<lambda>w. case m w of (Inl e, w') \<Rightarrow> h e w' | (Inr x, w') \<Rightarrow> (Inr x, w'))"

lemma return_io_apply [simp, io_simps]: "return_io x w = (Inr x, w)"
  by (simp add: return_io_def)

lemma raise_io_apply [simp, io_simps]: "raise_io e w = (Inl e, w)"
  by (simp add: raise_io_def)

lemma bind_io_Inr [simp, io_simps]: "m w = (Inr x, w') \<Longrightarrow> bind_io m f w = f x w'"
  by (simp add: bind_io_def)

lemma bind_io_Inl [simp, io_simps]: "m w = (Inl e, w') \<Longrightarrow> bind_io m f w = (Inl e, w')"
  by (simp add: bind_io_def)

lemma catch_io_Inr [simp, io_simps]: "m w = (Inr x, w') \<Longrightarrow> catch_io m h w = (Inr x, w')"
  by (simp add: catch_io_def)

lemma catch_io_Inl [simp, io_simps]: "m w = (Inl e, w') \<Longrightarrow> catch_io m h w = h e w'"
  by (simp add: catch_io_def)

lemma bind_io_return [simp]: "bind_io (return_io x) f = f x"
  by (rule ext) (simp add: bind_io_def)

lemma bind_io_raise [simp]: "bind_io (raise_io e) f = raise_io e"
  by (rule ext) (simp add: bind_io_def)

lemma bind_io_return_right: "bind_io m return_io = m"
  by (rule ext) (auto simp: bind_io_def split: prod.split sum.split)

lemma bind_io_assoc: "bind_io (bind_io m f) g = bind_io m (\<lambda>x. bind_io (f x) g)"
  by (rule ext) (auto simp: bind_io_def split: prod.split sum.split)

text \<open>Inversion: which way a sequence of two operations ended.\<close>

lemma bind_io_Inr_iff:
  "bind_io m f w = (Inr y, w') \<longleftrightarrow> (\<exists>x v. m w = (Inr x, v) \<and> f x v = (Inr y, w'))"
  by (auto simp: bind_io_def split: prod.splits sum.splits)

lemma bind_io_Inl_iff:
  "bind_io m f w = (Inl e, w') \<longleftrightarrow>
     m w = (Inl e, w') \<or> (\<exists>x v. m w = (Inr x, v) \<and> f x v = (Inl e, w'))"
  by (auto simp: bind_io_def split: prod.splits sum.splits)

lemma bind_io_InrE:
  assumes "bind_io m f w = (Inr y, w')"
  obtains x v where "m w = (Inr x, v)" and "f x v = (Inr y, w')"
  using assms by (auto simp: bind_io_Inr_iff)

lemma bind_io_InlE:
  assumes "bind_io m f w = (Inl e, w')"
  obtains (first) "m w = (Inl e, w')"
    | (second) x v where "m w = (Inr x, v)" and "f x v = (Inl e, w')"
  using assms by (auto simp: bind_io_Inl_iff)

lemma io_cases:
  obtains (raised) e w' where "m w = (Inl e, w')" | (returned) x w' where "m w = (Inr x, w')"
  by (cases "m w"; cases "fst (m w)") auto

text \<open>A \<open>for\<close> loop whose body may raise: the first raise ends the loop.\<close>

fun for_io :: "('a \<Rightarrow> ('w, 'e, unit) io) \<Rightarrow> 'a list \<Rightarrow> ('w, 'e, unit) io" where
  "for_io f [] = return_io ()"
| "for_io f (x # xs) = bind_io (f x) (\<lambda>_. for_io f xs)"

text \<open>Code that only reads: it never changes the world.\<close>

definition reads_only :: "('w, 'e, 'a) io \<Rightarrow> bool" where
  "reads_only m \<longleftrightarrow> (\<forall>w. snd (m w) = w)"

lemma reads_onlyD: "reads_only m \<Longrightarrow> m w = (r, w') \<Longrightarrow> w' = w"
  by (metis reads_only_def snd_conv)

lemma reads_only_bind:
  assumes "reads_only m" and "\<And>x. reads_only (f x)"
  shows "reads_only (bind_io m f)"
  unfolding reads_only_def
proof
  fix w
  from assms(1) have m: "snd (m w) = w" by (simp add: reads_only_def)
  show "snd (bind_io m f w) = w"
    using m assms(2) by (auto simp: bind_io_def reads_only_def split: prod.splits sum.splits)
qed

lemma reads_only_return [simp]: "reads_only (return_io x)"
  and reads_only_raise [simp]: "reads_only (raise_io e)"
  by (simp_all add: reads_only_def)

section \<open>Optional values\<close>

definition or_else :: "'a option \<Rightarrow> 'a \<Rightarrow> 'a" where
  "or_else x d = (case x of None \<Rightarrow> d | Some v \<Rightarrow> v)"

lemma or_else_simps [simp]: "or_else None d = d" "or_else (Some v) d = v"
  by (simp_all add: or_else_def)

section \<open>Dictionaries that keep insertion order\<close>

type_synonym ('k, 'v) dict = "('k \<times> 'v) list"

definition keys :: "('k, 'v) dict \<Rightarrow> 'k list" where
  "keys d = map fst d"

definition wf_dict :: "('k, 'v) dict \<Rightarrow> bool" where
  "wf_dict d \<longleftrightarrow> distinct (map fst d)"

text \<open>\<open>d.get(k)\<close>, \<open>d[k] = v\<close>, \<open>d.pop(k, None)\<close>, \<open>{**d, **e}\<close> and
  \<open>dict.fromkeys(ks, v)\<close>.\<close>

abbreviation dict_get :: "('k, 'v) dict \<Rightarrow> 'k \<Rightarrow> 'v option" where
  "dict_get d k \<equiv> map_of d k"

abbreviation dict_set :: "'k \<Rightarrow> 'v \<Rightarrow> ('k, 'v) dict \<Rightarrow> ('k, 'v) dict" where
  "dict_set k v d \<equiv> AList.update k v d"

abbreviation dict_pop :: "'k \<Rightarrow> ('k, 'v) dict \<Rightarrow> ('k, 'v) dict" where
  "dict_pop k d \<equiv> AList.delete k d"

fun dict_update :: "('k, 'v) dict \<Rightarrow> ('k, 'v) dict \<Rightarrow> ('k, 'v) dict" where
  "dict_update d [] = d"
| "dict_update d ((k, v) # e) = dict_update (dict_set k v d) e"

definition dict_fromkeys :: "'k list \<Rightarrow> 'v \<Rightarrow> ('k, 'v) dict" where
  "dict_fromkeys ks v = dict_update [] (map (\<lambda>k. (k, v)) ks)"

lemma dict_get_set [simp, dict_simps]:
  "dict_get (dict_set k v d) k' = (if k' = k then Some v else dict_get d k')"
  by (simp add: update_conv')

lemma dict_get_pop [simp, dict_simps]:
  "dict_get (dict_pop k d) k' = (if k' = k then None else dict_get d k')"
  by (simp add: delete_conv')

lemma wf_dict_Nil [simp]: "wf_dict []"
  by (simp add: wf_dict_def)

lemma wf_dict_set [simp, intro]: "wf_dict d \<Longrightarrow> wf_dict (dict_set k v d)"
  by (simp add: wf_dict_def distinct_update)

lemma wf_dict_pop [simp, intro]: "wf_dict d \<Longrightarrow> wf_dict (dict_pop k d)"
  by (simp add: wf_dict_def distinct_delete)

lemma wf_dict_update [simp, intro]: "wf_dict d \<Longrightarrow> wf_dict (dict_update d e)"
  by (induction d e rule: dict_update.induct) auto

lemma wf_dict_fromkeys [simp, intro]: "wf_dict (dict_fromkeys ks v)"
  by (simp add: dict_fromkeys_def)

lemma dict_get_update_gen:
  "wf_dict e \<Longrightarrow> dict_get (dict_update d e) k =
     (case dict_get e k of Some v \<Rightarrow> Some v | None \<Rightarrow> dict_get d k)"
proof (induction d e rule: dict_update.induct)
  case (2 d k' v e)
  then have "map_of e k' = None" by (auto simp: wf_dict_def map_of_eq_None_iff)
  with 2 show ?case by (auto simp: wf_dict_def split: option.split)
qed simp

lemma set_keys_set [simp]: "fst ` set (dict_set k v d) = insert k (fst ` set d)"
  by (induction d) auto

lemma dict_get_update_const:
  "dict_get (dict_update d (map (\<lambda>k. (k, v)) ks)) k =
     (if k \<in> set ks then Some v else dict_get d k)"
  by (induction ks arbitrary: d) auto

lemma dict_get_fromkeys [simp, dict_simps]:
  "dict_get (dict_fromkeys ks v) k = (if k \<in> set ks then Some v else None)"
  by (simp add: dict_fromkeys_def dict_get_update_const)

lemma find_append: "find P (xs @ ys) = (case find P xs of Some x \<Rightarrow> Some x | None \<Rightarrow> find P ys)"
  by (induction xs) auto

lemma find_SomeD: "find P xs = Some x \<Longrightarrow> x \<in> set xs \<and> P x"
  by (induction xs) (auto split: if_splits)

text \<open>A dictionary filled from a list: the last entry of a key wins.\<close>

lemma dict_get_update_map:
  "dict_get (dict_update d (map (\<lambda>x. (f x, g x)) xs)) k =
     (case find (\<lambda>x. f x = k) (rev xs) of Some x \<Rightarrow> Some (g x) | None \<Rightarrow> dict_get d k)"
  by (induction xs arbitrary: d) (auto simp: find_append split: option.split)

lemma dict_get_foldl_pop:
  "dict_get (foldl (\<lambda>d x. dict_pop (f x) d) d xs) k =
     (if k \<in> set (map f xs) then None else dict_get d k)"
  by (induction xs arbitrary: d) auto

lemma wf_dict_foldl_pop [simp, intro]: "wf_dict d \<Longrightarrow> wf_dict (foldl (\<lambda>d x. dict_pop (f x) d) d xs)"
  by (induction xs arbitrary: d) auto

text \<open>What every entry satisfies, through updates and removals.\<close>

lemma set_dict_set: "x \<in> set (dict_set k v d) \<Longrightarrow> x = (k, v) \<or> x \<in> set d"
  by (induction d) (auto split: if_splits)

lemma set_dict_update: "x \<in> set (dict_update d e) \<Longrightarrow> x \<in> set d \<union> set e"
proof (induction d e rule: dict_update.induct)
  case (2 d k v e)
  then show ?case by (auto dest: set_dict_set)
qed simp

lemma set_dict_pop: "set (dict_pop k d) \<subseteq> set d"
  by (induction d) auto

lemma set_foldl_pop: "x \<in> set (foldl (\<lambda>d y. dict_pop (f y) d) d ys) \<Longrightarrow> x \<in> set d"
proof (induction ys arbitrary: d)
  case (Cons y ys)
  then have "x \<in> set (dict_pop (f y) d)" by simp
  then show ?case by (rule subsetD[OF set_dict_pop])
qed simp

lemma dict_update_nonempty: "e \<noteq> [] \<Longrightarrow> dict_update d e \<noteq> []"
proof -
  have set_ne: "dict_set k v d' \<noteq> []" for k v and d' :: "('a, 'b) dict"
    by (cases d') auto
  have keep: "d' \<noteq> [] \<Longrightarrow> dict_update d' e' \<noteq> []" for d' e' :: "('a, 'b) dict"
    by (induction d' e' rule: dict_update.induct) (auto simp: set_ne)
  assume "e \<noteq> []"
  then show ?thesis by (cases e) (auto simp: set_ne keep)
qed

lemma dict_fromkeys_eq_Nil [simp]: "dict_fromkeys ks v = [] \<longleftrightarrow> ks = []"
  using dict_update_nonempty[of "map (\<lambda>k. (k, v)) ks" "[]"]
  by (auto simp: dict_fromkeys_def)

section \<open>De-duplication in first-seen order\<close>

text \<open>\<open>list(dict.fromkeys(xs))\<close>.\<close>

fun unique :: "'a list \<Rightarrow> 'a list" where
  "unique [] = []"
| "unique (x # xs) = x # unique (filter (\<lambda>y. y \<noteq> x) xs)"

lemma set_unique [simp]: "set (unique xs) = set xs"
  by (induction xs rule: unique.induct) auto

lemma distinct_unique [simp]: "distinct (unique xs)"
  by (induction xs rule: unique.induct) auto

lemma unique_id: "distinct xs \<Longrightarrow> unique xs = xs"
proof (induction xs)
  case (Cons x xs)
  then have "filter (\<lambda>y. y \<noteq> x) xs = xs" by (auto intro!: filter_True)
  with Cons show ?case by simp
qed simp

lemma unique_idem [simp]: "unique (unique xs) = unique xs"
  by (simp add: unique_id)

lemma unique_eq_Nil [simp]: "unique xs = [] \<longleftrightarrow> xs = []"
  by (cases xs) auto

lemma unique_filter: "unique (filter P xs) = filter P (unique xs)"
proof (induction xs rule: unique.induct)
  case (2 x xs)
  have "filter P (filter (\<lambda>y. y \<noteq> x) xs) = filter (\<lambda>y. y \<noteq> x) (filter P xs)"
    by (simp add: conj_commute)
  moreover have "filter (\<lambda>y. y \<noteq> x) (filter P xs) = filter P xs" if "\<not> P x"
    by (rule filter_True) (use that in auto)
  ultimately show ?case using 2 by (auto simp: conj_commute)
qed simp

lemma keys_dict_update_const:
  "keys (dict_update d (map (\<lambda>k. (k, v)) ks)) =
     keys d @ unique (filter (\<lambda>k. k \<notin> set (keys d)) ks)"
proof (induction ks arbitrary: d)
  case (Cons k ks)
  show ?case
  proof (cases "k \<in> set (keys d)")
    case True
    then have "keys (dict_set k v d) = keys d" by (simp add: keys_def update_keys)
    with Cons True show ?thesis by simp
  next
    case False
    then have "keys (dict_set k v d) = keys d @ [k]" by (auto simp: keys_def update_keys)
    with Cons False show ?thesis by (simp add: conj_commute)
  qed
qed (simp add: keys_def)

lemma keys_dict_fromkeys: "keys (dict_fromkeys ks v) = unique ks"
  using keys_dict_update_const[of "[]" v ks] by (simp add: dict_fromkeys_def keys_def)

end
