(* ===== verification/Py_Text.thy ===== *)
theory Py_Text
  imports Prelude
begin

text \<open>
  Python's \<open>str\<close> methods and regular expressions, as far as the service uses them. A
  \<open>str\<close> is a \<open>string\<close> whose characters are the code points up to 255; \<open>lower\<close>
  and \<open>strip\<close> follow the Unicode tables on that range.

  A compiled pattern is an abstract syntax tree (the tree of the literal in the source), matched by
  derivatives; \<open>re_matches\<close> is its language and \<open>re_full_iff\<close> says the matcher
  decides it. \<open>re_match_anchored\<close> is what \<open>re.match\<close> does with a pattern
  \<open>^r$\<close>: \<open>$\<close> also matches just before one trailing line feed.
\<close>

section \<open>String methods\<close>

definition code_point :: "char \<Rightarrow> nat" where
  "code_point c = of_char c"

definition newline :: char where
  "newline = CHR 0x0A"

definition startswith :: "string \<Rightarrow> string \<Rightarrow> bool" where
  "startswith s p = prefix p s"

definition endswith :: "string \<Rightarrow> string \<Rightarrow> bool" where
  "endswith s p = suffix p s"

definition removeprefix :: "string \<Rightarrow> string \<Rightarrow> string" where
  "removeprefix s p = (if prefix p s then drop (length p) s else s)"

definition char_lower :: "char \<Rightarrow> char" where
  "char_lower c =
     (let n = code_point c
      in if 65 \<le> n \<and> n \<le> 90 \<or> 192 \<le> n \<and> n \<le> 222 \<and> n \<noteq> 215
         then char_of (n + 32) else c)"

definition lower :: "string \<Rightarrow> string" where
  "lower = map char_lower"

definition is_space :: "char \<Rightarrow> bool" where
  "is_space c =
     (let n = code_point c
      in 9 \<le> n \<and> n \<le> 13 \<or> 28 \<le> n \<and> n \<le> 32 \<or> n = 133 \<or> n = 160)"

definition strip :: "string \<Rightarrow> string" where
  "strip s = rev (dropWhile is_space (rev (dropWhile is_space s)))"

text \<open>\<open>s.rpartition(c)\<close>: what precedes the last \<open>c\<close>, whether there is one, and what
  follows it (the whole of \<open>s\<close> if there is none).\<close>

definition rpartition :: "char \<Rightarrow> string \<Rightarrow> string \<times> bool \<times> string" where
  "rpartition c s =
     (if c \<in> set s
      then (let tail = takeWhile (\<lambda>x. x \<noteq> c) (rev s)
            in (rev (drop (Suc (length tail)) (rev s)), True, rev tail))
      else ([], False, s))"

text \<open>\<open>s.split(c)\<close> for a one-character separator.\<close>

fun split_on :: "char \<Rightarrow> string \<Rightarrow> string list" where
  "split_on c [] = [[]]"
| "split_on c (x # xs) =
     (if x = c then [] # split_on c xs
      else (case split_on c xs of [] \<Rightarrow> [[x]] | y # ys \<Rightarrow> (x # y) # ys))"

text \<open>\<open>s or d\<close> for an optional string: the empty string is false too.\<close>

definition str_or :: "string option \<Rightarrow> string \<Rightarrow> string" where
  "str_or s d = (case s of None \<Rightarrow> d | Some t \<Rightarrow> (if t = [] then d else t))"

text \<open>\<open>s.partition(sep)\<close>: what precedes the first \<open>sep\<close>, whether there is one, and what
  follows it.\<close>

fun str_partition :: "string \<Rightarrow> string \<Rightarrow> string \<times> bool \<times> string" where
  "str_partition sep [] = (if sep = [] then ([], True, []) else ([], False, []))"
| "str_partition sep (c # cs) =
     (if prefix sep (c # cs) then ([], True, drop (length sep) (c # cs))
      else (case str_partition sep cs of (before, found, rest) \<Rightarrow> (c # before, found, rest)))"

text \<open>\<open>str(n)\<close> of a natural number and of an integer.\<close>

fun str_of_nat :: "nat \<Rightarrow> string" where
  "str_of_nat n =
     (if n < 10 then [char_of (48 + n)] else str_of_nat (n div 10) @ [char_of (48 + n mod 10)])"

declare str_of_nat.simps [simp del]

definition str_of_int :: "int \<Rightarrow> string" where
  "str_of_int i = (if i < 0 then ''-'' @ str_of_nat (nat (- i)) else str_of_nat (nat i))"

text \<open>\<open>sep.join(parts)\<close>, and \<open>repr\<close> of a string and of a list of strings, as an
  f-string prints them.\<close>

fun join :: "string \<Rightarrow> string list \<Rightarrow> string" where
  "join sep [] = []"
| "join sep [x] = x"
| "join sep (x # xs) = x @ sep @ join sep xs"

definition hex_digit :: "nat \<Rightarrow> char" where
  "hex_digit n = char_of (if n < 10 then 48 + n else 87 + n)"

definition repr_char :: "char \<Rightarrow> char \<Rightarrow> string" where
  "repr_char quote c =
     (let n = code_point c
      in if c = quote \<or> n = 92 then [char_of (92 :: nat), c]
         else if n = 9 then [char_of (92 :: nat), CHR ''t'']
         else if n = 10 then [char_of (92 :: nat), CHR ''n'']
         else if n = 13 then [char_of (92 :: nat), CHR ''r'']
         else if n < 32 \<or> 127 \<le> n \<and> n \<le> 160 \<or> n = 173
           then [char_of (92 :: nat), CHR ''x'', hex_digit (n div 16), hex_digit (n mod 16)]
         else [c])"

definition repr_str :: "string \<Rightarrow> string" where
  "repr_str s =
     (let single = CHR 0x27; double = CHR 0x22;
          quote = (if single \<in> set s \<and> double \<notin> set s then double else single)
      in [quote] @ concat (map (repr_char quote) s) @ [quote])"

definition repr_list :: "string list \<Rightarrow> string" where
  "repr_list xs = ''['' @ join '', '' (map repr_str xs) @ '']''"

text \<open>The decimal text of a number determines it.\<close>

definition nat_of_digits :: "string \<Rightarrow> nat" where
  "nat_of_digits s = foldl (\<lambda>n c. n * 10 + (code_point c - 48)) 0 s"

lemma nat_of_digits_str [simp]: "nat_of_digits (str_of_nat n) = n"
proof (induction n rule: str_of_nat.induct)
  case (1 n)
  have digit: "code_point (char_of (48 + d)) = 48 + d" if "d < 10" for d
    using that by (simp add: code_point_def)
  show ?case
  proof (cases "n < 10")
    case True
    then show ?thesis by (subst str_of_nat.simps) (simp add: nat_of_digits_def digit)
  next
    case False
    then have "nat_of_digits (str_of_nat (n div 10)) = n div 10" by (rule 1)
    with False show ?thesis
      by (subst str_of_nat.simps) (simp add: nat_of_digits_def digit)
  qed
qed

lemma str_of_nat_inject [simp]: "str_of_nat m = str_of_nat n \<longleftrightarrow> m = n"
  by (metis nat_of_digits_str)

lemma strip_Nil [simp]: "strip [] = []"
  by (simp add: strip_def)

lemma strip_no_space_ends:
  "strip s = [] \<or> \<not> is_space (hd (strip s)) \<and> \<not> is_space (last (strip s))"
proof -
  define t where "t = dropWhile is_space s"
  define u where "u = dropWhile is_space (rev t)"
  have strip: "strip s = rev u" by (simp add: strip_def t_def u_def)
  show ?thesis
  proof (cases "u = []")
    case True
    then show ?thesis by (simp add: strip)
  next
    case False
    then have "\<not> is_space (hd u)" by (metis u_def hd_dropWhile)
    moreover have "\<not> is_space (last u)"
    proof -
      have "t \<noteq> []" using False by (auto simp: u_def)
      then have "\<not> is_space (hd t)" by (metis t_def hd_dropWhile)
      moreover have "last u = hd t"
      proof -
        have "suffix u (rev t)" by (simp add: u_def suffix_dropWhile)
        then obtain v where "rev t = v @ u" by (auto simp: suffix_def)
        then have "last u = last (rev t)" using False by simp
        then show ?thesis using \<open>t \<noteq> []\<close> by (simp add: last_rev)
      qed
      ultimately show ?thesis by simp
    qed
    ultimately show ?thesis using False by (simp add: strip hd_rev last_rev)
  qed
qed

lemma strip_id: "s \<noteq> [] \<Longrightarrow> \<not> is_space (hd s) \<Longrightarrow> \<not> is_space (last s) \<Longrightarrow> strip s = s"
proof -
  assume s: "s \<noteq> []" "\<not> is_space (hd s)" "\<not> is_space (last s)"
  then have "dropWhile is_space s = s" and "dropWhile is_space (rev s) = rev s"
    by (simp_all add: dropWhile_eq_self_iff hd_rev)
  then show ?thesis by (simp add: strip_def)
qed

lemma strip_idem [simp]: "strip (strip s) = strip s"
  using strip_no_space_ends[of s] strip_id[of "strip s"] by (cases "strip s = []") auto

lemma rpartition_found:
  assumes "rpartition c s = (p, True, n)"
  shows "s = p @ c # n \<and> c \<notin> set n"
proof -
  from assms have c: "c \<in> set s" by (auto simp: rpartition_def split: if_splits)
  define tl where "tl = takeWhile (\<lambda>x. x \<noteq> c) (rev s)"
  from c have "dropWhile (\<lambda>x. x \<noteq> c) (rev s) \<noteq> []" by (simp add: dropWhile_eq_Nil_conv)
  then obtain r where r: "dropWhile (\<lambda>x. x \<noteq> c) (rev s) = c # r"
    by (metis (mono_tags, lifting) hd_dropWhile list.collapse)
  then have split: "rev s = tl @ c # r"
    by (metis takeWhile_dropWhile_id tl_def)
  then have "drop (Suc (length tl)) (rev s) = r" by simp
  with assms c have "p = rev r" "n = rev tl"
    by (auto simp: rpartition_def Let_def tl_def)
  moreover have "s = rev r @ c # rev tl" using arg_cong[OF split, of rev] by simp
  moreover have "c \<notin> set tl" by (auto simp: tl_def dest: set_takeWhileD)
  ultimately show ?thesis by simp
qed

lemma rpartition_not_found: "rpartition c s = (p, False, n) \<Longrightarrow> p = [] \<and> n = s \<and> c \<notin> set s"
  by (auto simp: rpartition_def Let_def split: if_splits)

lemma rpartition_append: "c \<notin> set n \<Longrightarrow> rpartition c (p @ c # n) = (p, True, n)"
proof -
  assume "c \<notin> set n"
  then have "takeWhile (\<lambda>x. x \<noteq> c) (rev n @ c # rev p) = rev n"
    by (metis (mono_tags, lifting) set_rev takeWhile_append2 takeWhile.simps(2) append_Nil2)
  then show ?thesis by (simp add: rpartition_def)
qed

lemma rpartition_none: "c \<notin> set s \<Longrightarrow> rpartition c s = ([], False, s)"
  by (simp add: rpartition_def)

lemma split_on_nonempty [simp]: "split_on c s \<noteq> []"
  by (induction s) (auto split: list.split)

lemma split_on_no_sep: "c \<notin> set s \<Longrightarrow> split_on c s = [s]"
  by (induction s) auto

lemma split_on_append: "c \<notin> set s \<Longrightarrow> split_on c (s @ c # t) = s # split_on c t"
  by (induction s) auto

lemma split_on_parts: "t \<in> set (split_on c s) \<Longrightarrow> c \<notin> set t"
  by (induction s arbitrary: t) (auto split: list.splits if_splits)

section \<open>Regular expressions\<close>

datatype rexp =
    RNone
  | REmpty
  | RSet "char \<Rightarrow> bool"
  | RAlt rexp rexp
  | RSeq rexp rexp
  | RStar rexp

definition ROpt :: "rexp \<Rightarrow> rexp" where
  "ROpt r = RAlt r REmpty"

definition RChr :: "char \<Rightarrow> rexp" where
  "RChr c = RSet (\<lambda>x. x = c)"

inductive re_matches :: "rexp \<Rightarrow> string \<Rightarrow> bool" where
  empty: "re_matches REmpty []"
| single: "p c \<Longrightarrow> re_matches (RSet p) [c]"
| alt_left: "re_matches r s \<Longrightarrow> re_matches (RAlt r q) s"
| alt_right: "re_matches q s \<Longrightarrow> re_matches (RAlt r q) s"
| seq: "re_matches r s \<Longrightarrow> re_matches q t \<Longrightarrow> re_matches (RSeq r q) (s @ t)"
| star_none: "re_matches (RStar r) []"
| star_more: "re_matches r s \<Longrightarrow> re_matches (RStar r) t \<Longrightarrow> re_matches (RStar r) (s @ t)"

inductive_simps re_matches_simps [simp]:
  "re_matches RNone s" "re_matches REmpty s" "re_matches (RSet p) s" "re_matches (RAlt r q) s"
  "re_matches (RSeq r q) s"

inductive_cases re_matches_starE: "re_matches (RStar r) s"

fun re_null :: "rexp \<Rightarrow> bool" where
  "re_null RNone = False"
| "re_null REmpty = True"
| "re_null (RSet p) = False"
| "re_null (RAlt r q) = (re_null r \<or> re_null q)"
| "re_null (RSeq r q) = (re_null r \<and> re_null q)"
| "re_null (RStar r) = True"

fun re_step :: "char \<Rightarrow> rexp \<Rightarrow> rexp" where
  "re_step c RNone = RNone"
| "re_step c REmpty = RNone"
| "re_step c (RSet p) = (if p c then REmpty else RNone)"
| "re_step c (RAlt r q) = RAlt (re_step c r) (re_step c q)"
| "re_step c (RSeq r q) =
     (if re_null r then RAlt (RSeq (re_step c r) q) (re_step c q) else RSeq (re_step c r) q)"
| "re_step c (RStar r) = RSeq (re_step c r) (RStar r)"

text \<open>\<open>pattern.fullmatch(s) is not None\<close>.\<close>

fun re_full :: "rexp \<Rightarrow> string \<Rightarrow> bool" where
  "re_full r [] = re_null r"
| "re_full r (c # s) = re_full (re_step c r) s"

text \<open>\<open>re.match(r"^\<dots>$", s) is not None\<close>.\<close>

definition re_match_anchored :: "rexp \<Rightarrow> string \<Rightarrow> bool" where
  "re_match_anchored r s \<longleftrightarrow>
     re_full r s \<or> s \<noteq> [] \<and> last s = newline \<and> re_full r (butlast s)"

lemma re_null_iff: "re_null r \<longleftrightarrow> re_matches r []"
  by (induction r) (auto intro: re_matches.star_none)

lemma re_star_step:
  "re_matches (RStar r) (c # s) \<longleftrightarrow>
     (\<exists>u v. s = u @ v \<and> re_matches r (c # u) \<and> re_matches (RStar r) v)"
proof
  have "re_matches q x \<Longrightarrow> q = RStar r \<Longrightarrow> x = c # s \<Longrightarrow>
      \<exists>u v. s = u @ v \<and> re_matches r (c # u) \<and> re_matches (RStar r) v" for q x
  proof (induction arbitrary: s rule: re_matches.induct)
    case (star_more q' y t)
    show ?case
    proof (cases y)
      case Nil
      with star_more show ?thesis by simp
    next
      case (Cons d u)
      with star_more show ?thesis by auto
    qed
  qed simp_all
  then show "re_matches (RStar r) (c # s) \<Longrightarrow>
      \<exists>u v. s = u @ v \<and> re_matches r (c # u) \<and> re_matches (RStar r) v" by blast
next
  assume "\<exists>u v. s = u @ v \<and> re_matches r (c # u) \<and> re_matches (RStar r) v"
  then show "re_matches (RStar r) (c # s)"
    using re_matches.star_more[of r "c # _"] by auto
qed

lemma re_step_iff: "re_matches (re_step c r) s \<longleftrightarrow> re_matches r (c # s)"
proof (induction r arbitrary: s)
  case (RSeq r q)
  have "(\<exists>u v. c # s = u @ v \<and> re_matches r u \<and> re_matches q v) \<longleftrightarrow>
      re_matches r [] \<and> re_matches q (c # s) \<or>
      (\<exists>u v. s = u @ v \<and> re_matches r (c # u) \<and> re_matches q v)"
    by (auto simp: Cons_eq_append_conv)
  with RSeq show ?case by (auto simp: re_null_iff)
next
  case (RStar r)
  then show ?case by (auto simp: re_star_step)
qed auto

lemma re_full_iff: "re_full r s \<longleftrightarrow> re_matches r s"
  by (induction s arbitrary: r) (simp_all add: re_null_iff re_step_iff)

lemma re_full_alt [simp]: "re_full (RAlt r q) s \<longleftrightarrow> re_full r s \<or> re_full q s"
  and re_full_empty [simp]: "re_full REmpty s \<longleftrightarrow> s = []"
  and re_full_set [simp]: "re_full (RSet p) s \<longleftrightarrow> (\<exists>c. s = [c] \<and> p c)"
  and re_full_seq: "re_full (RSeq r q) s \<longleftrightarrow> (\<exists>u v. s = u @ v \<and> re_full r u \<and> re_full q v)"
  by (auto simp: re_full_iff)

lemma re_full_star_set [simp]: "re_full (RStar (RSet p)) s \<longleftrightarrow> (\<forall>c \<in> set s. p c)"
proof (induction s)
  case Nil
  show ?case by simp
next
  case (Cons c s)
  then show ?case by (auto simp: re_full_iff re_star_step)
qed

text \<open>The shape \<open>E(M*E)?\<close> of every name pattern of the service: characters \<open>E\<close> at both
  ends, \<open>M\<close> in between.\<close>

definition RName :: "(char \<Rightarrow> bool) \<Rightarrow> (char \<Rightarrow> bool) \<Rightarrow> rexp" where
  "RName e m = RSeq (RSet e) (ROpt (RSeq (RStar (RSet m)) (RSet e)))"

lemma re_full_RName:
  assumes "\<And>c. e c \<Longrightarrow> m c"
  shows "re_full (RName e m) s \<longleftrightarrow>
    s \<noteq> [] \<and> e (hd s) \<and> e (last s) \<and> (\<forall>c \<in> set s. m c)"
proof
  assume "re_full (RName e m) s"
  then show "s \<noteq> [] \<and> e (hd s) \<and> e (last s) \<and> (\<forall>c \<in> set s. m c)"
    using assms by (auto simp: RName_def ROpt_def re_full_seq)
next
  assume s: "s \<noteq> [] \<and> e (hd s) \<and> e (last s) \<and> (\<forall>c \<in> set s. m c)"
  then obtain a r where ar: "s = a # r" by (cases s) auto
  show "re_full (RName e m) s"
  proof (cases r rule: rev_cases)
    case Nil
    with s ar show ?thesis by (auto simp: RName_def ROpt_def re_full_seq)
  next
    case (snoc mid z)
    with s ar have "re_full (RSeq (RStar (RSet m)) (RSet e)) r"
      unfolding re_full_seq by (intro exI[of _ mid] exI[of _ "[z]"]) auto
    moreover have "re_full (RSet e) [a]" using s ar by simp
    ultimately show ?thesis
      unfolding RName_def ROpt_def re_full_seq[of "RSet e"] using ar
      by (intro exI[of _ "[a]"] exI[of _ r]) auto
  qed
qed

end
