(* ===== verification/Label_Rules.thy ===== *)
theory Label_Rules
  imports Py_Text
begin

text \<open>
  \<open>app/domain/label_rules.py\<close>: the naming rules for label keys and values, annotation keys and
  the provenance prefix. A \<open>ValueError\<close> is the list of its problems in the order the code
  joins them, each carrying the keys it names; \<open>problems_text\<close> is the message.

  The lemmas give each predicate a reading that does not mention the regular expressions or
  \<open>rpartition\<close>, and say that the two key checks accept exactly the keys that are well formed and
  not reserved and otherwise name every offender.
\<close>

section \<open>Patterns\<close>

definition is_lower_alnum :: "char \<Rightarrow> bool" where
  "is_lower_alnum c =
     (let n = code_point c in 97 \<le> n \<and> n \<le> 122 \<or> 48 \<le> n \<and> n \<le> 57)"

definition is_alnum :: "char \<Rightarrow> bool" where
  "is_alnum c = (is_lower_alnum c \<or> (let n = code_point c in 65 \<le> n \<and> n \<le> 90))"

definition is_dns_middle :: "char \<Rightarrow> bool" where
  "is_dns_middle c = (is_lower_alnum c \<or> c = CHR ''-'')"

definition is_name_middle :: "char \<Rightarrow> bool" where
  "is_name_middle c = (is_alnum c \<or> c = CHR ''-'' \<or> c = CHR ''_'' \<or> c = CHR ''.'')"

definition DNS_LABEL :: rexp where
  "DNS_LABEL = RName is_lower_alnum is_dns_middle"

definition DNS_SUBDOMAIN :: rexp where
  "DNS_SUBDOMAIN = RSeq DNS_LABEL (RStar (RSeq (RChr CHR ''.'') DNS_LABEL))"

definition DNS_SUBDOMAIN_MAX :: nat where
  "DNS_SUBDOMAIN_MAX = 253"

definition LABEL_NAME :: rexp where
  "LABEL_NAME = RName is_alnum is_name_middle"

definition LABEL_NAME_MAX :: nat where
  "LABEL_NAME_MAX = 63"

section \<open>The rules\<close>

definition RESERVED_DOMAINS :: "string list" where
  "RESERVED_DOMAINS = [''kubernetes.io'', ''k8s.io'']"

definition is_dns_subdomain :: "string \<Rightarrow> bool" where
  "is_dns_subdomain value =
     (length value \<le> DNS_SUBDOMAIN_MAX \<and> re_match_anchored DNS_SUBDOMAIN value)"

definition is_domain_or_subdomain :: "string \<Rightarrow> string \<Rightarrow> bool" where
  "is_domain_or_subdomain domain root = (domain = root \<or> endswith domain (''.'' @ root))"

definition is_reserved_domain :: "string \<Rightarrow> bool" where
  "is_reserved_domain domain = list_ex (is_domain_or_subdomain domain) RESERVED_DOMAINS"

definition is_under_domain :: "string \<Rightarrow> string \<Rightarrow> bool" where
  "is_under_domain key domain =
     (case rpartition CHR ''/'' key of (pre, _, _) \<Rightarrow>
        is_domain_or_subdomain (if pre = [] then key else pre) domain)"

definition malformed_key :: "string \<Rightarrow> bool" where
  "malformed_key key =
     (case rpartition CHR ''/'' key of (pre, slash, name) \<Rightarrow>
        if slash \<and> \<not> is_dns_subdomain pre then True
        else length name > LABEL_NAME_MAX \<or> \<not> re_match_anchored LABEL_NAME name)"

definition malformed_value :: "string \<Rightarrow> bool" where
  "malformed_value value =
     (value \<noteq> [] \<and> (length value > LABEL_NAME_MAX \<or> \<not> re_match_anchored LABEL_NAME value))"

definition is_reserved_label_key :: "string \<Rightarrow> bool" where
  "is_reserved_label_key key =
     (case rpartition CHR ''/'' key of (pre, slash, _) \<Rightarrow> slash \<and> is_reserved_domain pre)"

datatype label_problem =
    MalformedLabelKeys "string list"
  | ReservedLabelKeys "string list"
  | MalformedAnnotationKeys "string list"
  | ReservedAnnotationKeys "string list"
  | MalformedLabelValues "string list"

fun problem_text :: "label_problem \<Rightarrow> string" where
  "problem_text (MalformedLabelKeys ks) = ''malformed label keys '' @ repr_list ks"
| "problem_text (ReservedLabelKeys ks) =
     ''label keys '' @ repr_list ks @ '' are reserved for Kubernetes (kubernetes.io, k8s.io)''"
| "problem_text (MalformedAnnotationKeys ks) = ''malformed annotation keys '' @ repr_list ks"
| "problem_text (ReservedAnnotationKeys ks) =
     ''annotation keys '' @ repr_list ks @ '' are reserved for Kubernetes (kubernetes.io, k8s.io)''"
| "problem_text (MalformedLabelValues ks) = ''malformed label values for keys '' @ repr_list ks"

definition problems_text :: "label_problem list \<Rightarrow> string" where
  "problems_text ps = join ''; '' (map problem_text ps)"

definition raise_problems :: "label_problem list \<Rightarrow> label_problem list + unit" where
  "raise_problems problems = (if problems = [] then Inr () else Inl problems)"

definition check_label_keys :: "string list \<Rightarrow> label_problem list + unit" where
  "check_label_keys ks =
     (let malformed = filter malformed_key ks;
          reserved = filter (\<lambda>k. k \<notin> set malformed \<and> is_reserved_label_key k) ks
      in raise_problems
           ((if malformed = [] then [] else [MalformedLabelKeys malformed]) @
            (if reserved = [] then [] else [ReservedLabelKeys reserved])))"

definition check_annotation_keys :: "string list \<Rightarrow> label_problem list + unit" where
  "check_annotation_keys ks =
     (let malformed = filter malformed_key ks;
          reserved = filter (\<lambda>k. k \<notin> set malformed \<and> is_reserved_label_key k) ks
      in raise_problems
           ((if malformed = [] then [] else [MalformedAnnotationKeys malformed]) @
            (if reserved = [] then [] else [ReservedAnnotationKeys reserved])))"

definition check_labels :: "(string, string) dict \<Rightarrow> label_problem list + unit" where
  "check_labels labels =
     (let problems = (case check_label_keys (keys labels) of Inl ps \<Rightarrow> ps | Inr _ \<Rightarrow> []);
          bad_values = map fst (filter (\<lambda>(k, v). malformed_value v) labels)
      in raise_problems
           (problems @ (if bad_values = [] then [] else [MalformedLabelValues bad_values])))"

section \<open>What a DNS name is\<close>

definition dns_label :: "string \<Rightarrow> bool" where
  "dns_label s \<longleftrightarrow>
     s \<noteq> [] \<and> is_lower_alnum (hd s) \<and> is_lower_alnum (last s) \<and> (\<forall>c \<in> set s. is_dns_middle c)"

definition dns_name :: "string \<Rightarrow> bool" where
  "dns_name s \<longleftrightarrow> (\<forall>part \<in> set (split_on CHR ''.'' s). dns_label part)"

definition label_name :: "string \<Rightarrow> bool" where
  "label_name s \<longleftrightarrow>
     s \<noteq> [] \<and> is_alnum (hd s) \<and> is_alnum (last s) \<and> (\<forall>c \<in> set s. is_name_middle c)"

text \<open>A trailing line feed passes an anchored pattern.\<close>

definition up_to_newline :: "(string \<Rightarrow> bool) \<Rightarrow> string \<Rightarrow> bool" where
  "up_to_newline P s \<longleftrightarrow> P s \<or> (\<exists>t. s = t @ [newline] \<and> P t)"

lemma re_match_anchored_iff:
  "re_match_anchored r s \<longleftrightarrow> up_to_newline (re_full r) s"
  unfolding re_match_anchored_def up_to_newline_def
  by (cases s rule: rev_cases) auto

lemma is_lower_alnum_dash [simp]: "is_lower_alnum c \<Longrightarrow> is_dns_middle c"
  by (simp add: is_dns_middle_def)

lemma is_alnum_middle [simp]: "is_alnum c \<Longrightarrow> is_name_middle c"
  by (simp add: is_name_middle_def)

lemma not_dns_middle [simp]: "\<not> is_dns_middle CHR ''.''" "\<not> is_dns_middle newline"
  by (simp_all add: is_dns_middle_def is_lower_alnum_def code_point_def newline_def)

lemma not_name_middle [simp]: "\<not> is_name_middle newline" "\<not> is_name_middle CHR ''/''"
  by (simp_all add: is_name_middle_def is_alnum_def is_lower_alnum_def code_point_def newline_def)

lemma re_full_dns_label [simp]: "re_full DNS_LABEL s \<longleftrightarrow> dns_label s"
  by (simp add: DNS_LABEL_def dns_label_def re_full_RName)

lemma re_full_label_name [simp]: "re_full LABEL_NAME s \<longleftrightarrow> label_name s"
  by (simp add: LABEL_NAME_def label_name_def re_full_RName)

lemma dns_label_no_dot: "dns_label s \<Longrightarrow> CHR ''.'' \<notin> set s"
  by (auto simp: dns_label_def)

lemma dns_name_label: "dns_label s \<Longrightarrow> dns_name s"
  by (simp add: dns_name_def split_on_no_sep dns_label_no_dot)

lemma dns_name_cons: "dns_label s \<Longrightarrow> dns_name (s @ CHR ''.'' # t) \<longleftrightarrow> dns_name t"
  by (simp add: dns_name_def split_on_append dns_label_no_dot)

lemma more_labels:
  "re_full (RStar (RSeq (RChr CHR ''.'') DNS_LABEL)) t \<Longrightarrow> dns_label s \<Longrightarrow> dns_name (s @ t)"
proof -
  have "re_matches q t \<Longrightarrow> q = RStar (RSeq (RChr CHR ''.'') DNS_LABEL) \<Longrightarrow> dns_label s \<Longrightarrow>
      dns_name (s @ t)" for q t s
  proof (induction arbitrary: s rule: re_matches.induct)
    case (star_more r u v)
    then obtain l where u: "u = CHR ''.'' # l" and l: "dns_label l"
      by (auto simp: re_full_iff [symmetric] RChr_def re_full_seq)
    with star_more show ?case by (simp add: dns_name_cons)
  qed (simp_all add: dns_name_label)
  then show "re_full (RStar (RSeq (RChr CHR ''.'') DNS_LABEL)) t \<Longrightarrow> dns_label s \<Longrightarrow>
      dns_name (s @ t)" by (simp add: re_full_iff)
qed

lemma name_has_more_labels:
  "dns_name s \<Longrightarrow> re_full DNS_SUBDOMAIN s"
proof (induction "length s" arbitrary: s rule: less_induct)
  case less
  let ?more = "RStar (RSeq (RChr CHR ''.'') DNS_LABEL)"
  show ?case
  proof (cases "CHR ''.'' \<in> set s")
    case False
    with less.prems have "dns_label s" by (simp add: dns_name_def split_on_no_sep)
    then show ?thesis
      unfolding DNS_SUBDOMAIN_def re_full_seq
      by (intro exI[of _ s] exI[of _ "[]"]) simp
  next
    case True
    then obtain l t where s: "s = l @ CHR ''.'' # t" and l: "CHR ''.'' \<notin> set l"
      by (meson split_list_first)
    with less.prems have dl: "dns_label l" and "dns_name t"
      by (auto simp: dns_name_def split_on_append)
    with less.hyps[of t] s have "re_full DNS_SUBDOMAIN t" by simp
    then obtain u v where t: "t = u @ v" and u: "dns_label u" and v: "re_full ?more v"
      by (auto simp: DNS_SUBDOMAIN_def re_full_seq)
    have "re_full (RSeq (RChr CHR ''.'') DNS_LABEL) (CHR ''.'' # u)"
      unfolding re_full_seq RChr_def using u by (intro exI[of _ "[CHR ''.'']"] exI[of _ u]) simp
    then have "re_full ?more ((CHR ''.'' # u) @ v)"
      using v unfolding re_full_iff by (rule re_matches.star_more)
    then show ?thesis
      unfolding DNS_SUBDOMAIN_def re_full_seq
      using dl s t by (intro exI[of _ l] exI[of _ "CHR ''.'' # u @ v"]) simp
  qed
qed

lemma re_full_dns_subdomain [simp]: "re_full DNS_SUBDOMAIN s \<longleftrightarrow> dns_name s"
  using name_has_more_labels more_labels
  by (auto simp: DNS_SUBDOMAIN_def re_full_seq)

section \<open>Readings of the predicates\<close>

lemma is_dns_subdomain_iff:
  "is_dns_subdomain s \<longleftrightarrow> length s \<le> 253 \<and> up_to_newline dns_name s"
  by (simp add: is_dns_subdomain_def DNS_SUBDOMAIN_MAX_def re_match_anchored_iff up_to_newline_def)

lemma is_domain_or_subdomain_iff:
  "is_domain_or_subdomain d root \<longleftrightarrow> d = root \<or> (\<exists>sub. d = sub @ ''.'' @ root)"
  by (auto simp: is_domain_or_subdomain_def endswith_def suffix_def)

lemma is_reserved_domain_iff:
  "is_reserved_domain d \<longleftrightarrow>
     (\<exists>root \<in> {''kubernetes.io'', ''k8s.io''}. d = root \<or> (\<exists>sub. d = sub @ ''.'' @ root))"
  by (simp add: is_reserved_domain_def RESERVED_DOMAINS_def is_domain_or_subdomain_iff)

lemma key_cases:
  obtains (prefixed) p n where "key = p @ CHR ''/'' # n" and "CHR ''/'' \<notin> set n"
      and "rpartition CHR ''/'' key = (p, True, n)"
    | (bare) "CHR ''/'' \<notin> set key" and "rpartition CHR ''/'' key = ([], False, key)"
proof (cases "CHR ''/'' \<in> set key")
  case True
  then obtain p n where "key = p @ CHR ''/'' # n" and "CHR ''/'' \<notin> set n"
    by (meson split_list_last)
  then show thesis using prefixed rpartition_append by blast
next
  case False
  then show thesis using bare rpartition_none by blast
qed

lemma malformed_key_prefixed:
  "CHR ''/'' \<notin> set n \<Longrightarrow> malformed_key (p @ CHR ''/'' # n) \<longleftrightarrow>
     \<not> (is_dns_subdomain p \<and> length n \<le> 63 \<and> up_to_newline label_name n)"
  by (auto simp: malformed_key_def rpartition_append LABEL_NAME_MAX_def re_match_anchored_iff
      up_to_newline_def)

lemma malformed_key_bare:
  "CHR ''/'' \<notin> set n \<Longrightarrow> malformed_key n \<longleftrightarrow> \<not> (length n \<le> 63 \<and> up_to_newline label_name n)"
  by (auto simp: malformed_key_def rpartition_none LABEL_NAME_MAX_def re_match_anchored_iff
      up_to_newline_def)

lemma malformed_value_iff:
  "malformed_value v \<longleftrightarrow> v \<noteq> [] \<and> \<not> (length v \<le> 63 \<and> up_to_newline label_name v)"
  by (auto simp: malformed_value_def LABEL_NAME_MAX_def re_match_anchored_iff up_to_newline_def)

lemma is_reserved_label_key_iff:
  "is_reserved_label_key key \<longleftrightarrow>
     (\<exists>p n. key = p @ CHR ''/'' # n \<and> CHR ''/'' \<notin> set n \<and> is_reserved_domain p)"
proof (cases key rule: key_cases)
  case (prefixed p n)
  have same: "p' = p" if "key = p' @ CHR ''/'' # n'" and "CHR ''/'' \<notin> set n'" for p' n'
    using prefixed(3) rpartition_append[OF that(2), of p'] unfolding that(1) by simp
  have "is_reserved_label_key key \<longleftrightarrow> is_reserved_domain p"
    using prefixed(3) by (simp add: is_reserved_label_key_def)
  then show ?thesis using prefixed(1,2) same by metis
next
  case bare
  then show ?thesis by (auto simp: is_reserved_label_key_def)
qed

lemma is_under_domain_prefixed:
  "CHR ''/'' \<notin> set n \<Longrightarrow> p \<noteq> [] \<Longrightarrow>
     is_under_domain (p @ CHR ''/'' # n) d \<longleftrightarrow> p = d \<or> (\<exists>sub. p = sub @ ''.'' @ d)"
  by (simp add: is_under_domain_def rpartition_append is_domain_or_subdomain_iff)

lemma is_under_domain_bare:
  "CHR ''/'' \<notin> set key \<Longrightarrow>
     is_under_domain key d \<longleftrightarrow> key = d \<or> (\<exists>sub. key = sub @ ''.'' @ d)"
  by (simp add: is_under_domain_def rpartition_none is_domain_or_subdomain_iff)

lemma raise_problems_simps [simp]:
  "raise_problems ps = Inr () \<longleftrightarrow> ps = []"
  "raise_problems ps = Inl qs \<longleftrightarrow> ps = qs \<and> ps \<noteq> []"
  by (auto simp: raise_problems_def)

lemma check_label_keys_ok:
  "check_label_keys ks = Inr () \<longleftrightarrow>
     (\<forall>k \<in> set ks. \<not> malformed_key k \<and> \<not> is_reserved_label_key k)"
  by (auto simp: check_label_keys_def Let_def filter_empty_conv)

lemma check_annotation_keys_ok:
  "check_annotation_keys ks = Inr () \<longleftrightarrow>
     (\<forall>k \<in> set ks. \<not> malformed_key k \<and> \<not> is_reserved_label_key k)"
  by (auto simp: check_annotation_keys_def Let_def filter_empty_conv)

lemma check_labels_ok:
  "check_labels labels = Inr () \<longleftrightarrow>
     (\<forall>(k, v) \<in> set labels.
        \<not> malformed_key k \<and> \<not> is_reserved_label_key k \<and> \<not> malformed_value v)"
proof -
  have "check_labels labels = Inr () \<longleftrightarrow>
      check_label_keys (keys labels) = Inr () \<and> (\<forall>(k, v) \<in> set labels. \<not> malformed_value v)"
    by (auto simp: check_labels_def Let_def filter_empty_conv check_label_keys_def split: sum.splits)
  then show ?thesis by (auto simp: check_label_keys_ok keys_def)
qed

end
