(* ===== verification/Errors.thy ===== *)
theory Errors
  imports Py_Text
begin

text \<open>
  \<open>app/core/exceptions.py\<close>: the exception hierarchy, the error codes, the adaptation of a
  deploy-service error body, and the two handlers that turn an exception into a response.

  \<open>exn\<close> is anything a Python call may raise: an application exception, one of the two SDK
  failures the service knows about, or another Python error named by its class. The attributes
  of an application exception (\<open>http_status\<close>, \<open>error_code\<close>, \<open>message\<close>, \<open>detail\<close>) are
  functions of it. \<open>source_function\<close> and \<open>log_level\<close> only feed the log and are left out.
\<close>

section \<open>JSON values\<close>

text \<open>A decoded JSON value, as \<open>json.loads\<close> gives it; \<open>JNull\<close> is Python's \<open>None\<close>.\<close>

datatype json =
    JNull
  | JBool bool
  | JNum int
  | JStr string
  | JList "json list"
  | JObj "(string \<times> json) list"

definition json_opt_str :: "string option \<Rightarrow> json" where
  "json_opt_str x = (case x of None \<Rightarrow> JNull | Some s \<Rightarrow> JStr s)"

definition json_strs :: "string list \<Rightarrow> json" where
  "json_strs xs = JList (map JStr xs)"

section \<open>Error codes\<close>

datatype error_code =
    PIPELINE_NOT_FOUND | PIPELINE_CONFLICT | PIPELINE_TRIGGER_FAILED | PIPELINE_CANCEL_FAILED
  | PIPELINE_RETRY_FAILED | COMMAND_EXECUTION_FAILED | SCRIPT_VERSION_MISMATCH
  | DEPLOY_SERVICE_UNAVAILABLE | DEPLOY_SERVICE_AUTH_ERROR | DEPLOY_SERVICE_FORBIDDEN
  | INVENTORY_NOT_FOUND | UPSTREAM_ERROR | CLUSTER_NOT_FOUND | NODE_NOT_FOUND
  | NODE_OPERATION_FAILED | KUBE_API_ERROR | DRAIN_BLOCKED | NODE_NOT_READY | CONFIGMAP_NOT_FOUND
  | NAMESPACE_NOT_FOUND | NAMESPACE_ALREADY_EXISTS | POLICY_DENIED | USERS_FILE_INVALID

fun code_str :: "error_code \<Rightarrow> string" where
  "code_str PIPELINE_NOT_FOUND = ''PIPELINE_NOT_FOUND''"
| "code_str PIPELINE_CONFLICT = ''PIPELINE_CONFLICT''"
| "code_str PIPELINE_TRIGGER_FAILED = ''PIPELINE_TRIGGER_FAILED''"
| "code_str PIPELINE_CANCEL_FAILED = ''PIPELINE_CANCEL_FAILED''"
| "code_str PIPELINE_RETRY_FAILED = ''PIPELINE_RETRY_FAILED''"
| "code_str COMMAND_EXECUTION_FAILED = ''COMMAND_EXECUTION_FAILED''"
| "code_str SCRIPT_VERSION_MISMATCH = ''SCRIPT_VERSION_MISMATCH''"
| "code_str DEPLOY_SERVICE_UNAVAILABLE = ''DEPLOY_SERVICE_UNAVAILABLE''"
| "code_str DEPLOY_SERVICE_AUTH_ERROR = ''DEPLOY_SERVICE_AUTH_ERROR''"
| "code_str DEPLOY_SERVICE_FORBIDDEN = ''DEPLOY_SERVICE_FORBIDDEN''"
| "code_str INVENTORY_NOT_FOUND = ''INVENTORY_NOT_FOUND''"
| "code_str UPSTREAM_ERROR = ''UPSTREAM_ERROR''"
| "code_str CLUSTER_NOT_FOUND = ''CLUSTER_NOT_FOUND''"
| "code_str NODE_NOT_FOUND = ''NODE_NOT_FOUND''"
| "code_str NODE_OPERATION_FAILED = ''NODE_OPERATION_FAILED''"
| "code_str KUBE_API_ERROR = ''KUBE_API_ERROR''"
| "code_str DRAIN_BLOCKED = ''DRAIN_BLOCKED''"
| "code_str NODE_NOT_READY = ''NODE_NOT_READY''"
| "code_str CONFIGMAP_NOT_FOUND = ''CONFIGMAP_NOT_FOUND''"
| "code_str NAMESPACE_NOT_FOUND = ''NAMESPACE_NOT_FOUND''"
| "code_str NAMESPACE_ALREADY_EXISTS = ''NAMESPACE_ALREADY_EXISTS''"
| "code_str POLICY_DENIED = ''POLICY_DENIED''"
| "code_str USERS_FILE_INVALID = ''USERS_FILE_INVALID''"

section \<open>The exceptions\<close>

record kube_api_error =
  kae_message :: string
  kae_kube_status :: "int option"
  kae_http_status :: int
  kae_cluster_level :: bool

datatype block_reason = Unmanaged | EmptyDir

fun reason_str :: "block_reason \<Rightarrow> string" where
  "reason_str Unmanaged = ''unmanaged''"
| "reason_str EmptyDir = ''emptydir''"

record blocked_pod =
  bp_namespace :: string
  bp_name :: string
  bp_reasons :: "block_reason list"

record deploy_error =
  dse_upstream_status :: int
  dse_error_code :: error_code
  dse_message :: json
  dse_details :: json

datatype app_exception =
    AuthException string json
  | ForbiddenException string json
  | PolicyDeniedException string json
  | UsersFileInvalidException string
  | NotFoundException string
  | InventoryNotFound string
  | ValidationException string
  | ConflictException string
  | ClusterNotFoundException string
  | NodeNotFoundException string
  | ConfigMapNotFoundException string
  | NodeNotReadyException string string
  | NamespaceNotFoundException string
  | NamespaceAlreadyExistsException string json
  | KubeApiException kube_api_error
  | DrainBlockedException string "blocked_pod list"
  | DeployServiceError deploy_error

datatype exn =
    ApiException "int option" "string option"
  | Urllib3HTTPError string
  | App app_exception
  | PyError string

text \<open>\<open>KubeApiException(message, kube_status=\<dots>, cluster_level=\<dots>)\<close>.\<close>

definition kube_api_exception :: "string \<Rightarrow> int option \<Rightarrow> bool \<Rightarrow> app_exception" where
  "kube_api_exception message kube_status cluster_level = KubeApiException
     \<lparr>kae_message = message,
      kae_kube_status = (if kube_status = Some 0 then None else kube_status),
      kae_http_status =
        (case kube_status of Some s \<Rightarrow> (if s \<ge> 400 then s else 502) | None \<Rightarrow> 502),
      kae_cluster_level = cluster_level\<rparr>"

subsection \<open>A blocked drain\<close>

definition UNBLOCKING_OPTION :: "(block_reason, string) dict" where
  "UNBLOCKING_OPTION = [(Unmanaged, ''force''), (EmptyDir, ''delete_emptydir_data'')]"

definition required_options :: "blocked_pod list \<Rightarrow> string list" where
  "required_options blocked =
     (let reasons = set (concat (map bp_reasons blocked))
      in map snd (filter (\<lambda>(reason, option). reason \<in> reasons) UNBLOCKING_OPTION))"

definition drain_blocked_message :: "string \<Rightarrow> blocked_pod list \<Rightarrow> string" where
  "drain_blocked_message node_name blocked =
     ''Drain of node '' @ [CHR 0x27] @ node_name @ [CHR 0x27] @ '' is blocked by ''
     @ str_of_nat (length blocked)
     @ '' pod(s) that the supplied options do not permit removing. No pod was evicted and the ''
     @ ''node is unchanged. Retry with: ''
     @ join '', '' (map (\<lambda>opt. opt @ ''=True'') (required_options blocked)) @ ''.''"

definition blocked_pod_json :: "blocked_pod \<Rightarrow> json" where
  "blocked_pod_json b = JObj
     [(''namespace'', JStr (bp_namespace b)), (''name'', JStr (bp_name b)),
      (''reasons'', json_strs (map reason_str (bp_reasons b)))]"

definition drain_blocked_detail :: "string \<Rightarrow> blocked_pod list \<Rightarrow> json" where
  "drain_blocked_detail node_name blocked = JObj
     [(''node'', JStr node_name),
      (''blocked_pods'', JList (map blocked_pod_json blocked)),
      (''required_options'', JObj (map (\<lambda>opt. (opt, JBool True)) (required_options blocked)))]"

subsection \<open>A node that is not ready\<close>

definition quoted :: "string \<Rightarrow> string" where
  "quoted s = [CHR 0x27] @ s @ [CHR 0x27]"

definition node_not_ready_message :: "string \<Rightarrow> string \<Rightarrow> string" where
  "node_not_ready_message node_name status =
     ''Node '' @ quoted node_name @ '' is '' @ status
     @ '', so it cannot be uncordoned. Uncordoning declares the node fit to receive pods; wait ''
     @ ''for it to report Ready, or investigate why it is not.''"

subsection \<open>A deploy-service error\<close>

definition DEPLOY_CODE_MAP :: "(string, error_code) dict" where
  "DEPLOY_CODE_MAP =
     [(''NOT_FOUND'', PIPELINE_NOT_FOUND), (''CONFLICT'', PIPELINE_CONFLICT),
      (''AUTH_ERROR'', DEPLOY_SERVICE_AUTH_ERROR), (''FORBIDDEN'', DEPLOY_SERVICE_FORBIDDEN),
      (''COMMAND_EXECUTION_ERROR'', COMMAND_EXECUTION_FAILED),
      (''SCRIPT_VERSION_MISMATCH'', SCRIPT_VERSION_MISMATCH)]"

definition DEPLOY_STATUS_MAP :: "(int, error_code) dict" where
  "DEPLOY_STATUS_MAP =
     [(401, DEPLOY_SERVICE_AUTH_ERROR), (403, DEPLOY_SERVICE_FORBIDDEN),
      (404, PIPELINE_NOT_FOUND), (409, PIPELINE_CONFLICT), (412, SCRIPT_VERSION_MISMATCH),
      (503, DEPLOY_SERVICE_UNAVAILABLE)]"

text \<open>\<open>_DEPLOY_CODE_MAP.get(raw_code)\<close>: an unhashable key is a \<open>TypeError\<close>, a key of
  another type is simply absent.\<close>

definition lookup_raw_code :: "json \<Rightarrow> exn + error_code option" where
  "lookup_raw_code raw_code =
     (case raw_code of
        JStr s \<Rightarrow> Inr (dict_get DEPLOY_CODE_MAP s)
      | JList _ \<Rightarrow> Inl (PyError ''TypeError'')
      | JObj _ \<Rightarrow> Inl (PyError ''TypeError'')
      | _ \<Rightarrow> Inr None)"

definition or_code :: "error_code option \<Rightarrow> error_code option \<Rightarrow> error_code option" where
  "or_code x y = (case x of None \<Rightarrow> y | Some c \<Rightarrow> Some c)"

text \<open>\<open>DeployServiceError(http_status, body)\<close>. An \<open>"error"\<close> entry that is not an object has
  no \<open>get\<close>, so building the exception raises \<open>AttributeError\<close>.\<close>

definition deploy_service_error :: "int \<Rightarrow> json \<Rightarrow> exn + app_exception" where
  "deploy_service_error http_status body =
     (let error_block = (case body of
            JObj entries \<Rightarrow> or_else (dict_get entries ''error'') (JObj [])
          | _ \<Rightarrow> JObj [])
      in case error_block of
           JObj block \<Rightarrow>
             (case lookup_raw_code (or_else (dict_get block ''code'') (JStr [])) of
                Inl e \<Rightarrow> Inl e
              | Inr known \<Rightarrow> Inr (DeployServiceError
                  \<lparr>dse_upstream_status = http_status,
                   dse_error_code =
                     or_else (or_code known (dict_get DEPLOY_STATUS_MAP http_status)) UPSTREAM_ERROR,
                   dse_message = or_else (dict_get block ''message'')
                     (JStr (''deploy-service returned HTTP '' @ str_of_int http_status @ ''.'')),
                   dse_details = or_else (dict_get block ''detail'') JNull\<rparr>))
         | _ \<Rightarrow> Inl (PyError ''AttributeError''))"

definition deploy_error_response :: "deploy_error \<Rightarrow> json" where
  "deploy_error_response e = JObj
     ([(''error_code'', JStr (code_str (dse_error_code e))), (''message'', dse_message e),
       (''service'', JStr ''deploy-service'')] @
      (if dse_details e = JNull then [] else [(''details'', dse_details e)]))"

section \<open>Attributes of an exception\<close>

fun http_status_of :: "app_exception \<Rightarrow> int" where
  "http_status_of (AuthException _ _) = 401"
| "http_status_of (ForbiddenException _ _) = 403"
| "http_status_of (PolicyDeniedException _ _) = 403"
| "http_status_of (UsersFileInvalidException _) = 500"
| "http_status_of (NotFoundException _) = 404"
| "http_status_of (InventoryNotFound _) = 404"
| "http_status_of (ValidationException _) = 422"
| "http_status_of (ConflictException _) = 409"
| "http_status_of (ClusterNotFoundException _) = 404"
| "http_status_of (NodeNotFoundException _) = 404"
| "http_status_of (ConfigMapNotFoundException _) = 404"
| "http_status_of (NodeNotReadyException _ _) = 409"
| "http_status_of (NamespaceNotFoundException _) = 404"
| "http_status_of (NamespaceAlreadyExistsException _ _) = 409"
| "http_status_of (KubeApiException e) = kae_http_status e"
| "http_status_of (DrainBlockedException _ _) = 400"
| "http_status_of (DeployServiceError _) = 502"

fun error_code_of :: "app_exception \<Rightarrow> string" where
  "error_code_of (AuthException _ _) = ''AUTH_ERROR''"
| "error_code_of (ForbiddenException _ _) = ''FORBIDDEN''"
| "error_code_of (PolicyDeniedException _ _) = code_str POLICY_DENIED"
| "error_code_of (UsersFileInvalidException _) = code_str USERS_FILE_INVALID"
| "error_code_of (NotFoundException _) = ''NOT_FOUND''"
| "error_code_of (InventoryNotFound _) = code_str INVENTORY_NOT_FOUND"
| "error_code_of (ValidationException _) = ''VALIDATION_ERROR''"
| "error_code_of (ConflictException _) = ''CONFLICT''"
| "error_code_of (ClusterNotFoundException _) = code_str CLUSTER_NOT_FOUND"
| "error_code_of (NodeNotFoundException _) = code_str NODE_NOT_FOUND"
| "error_code_of (ConfigMapNotFoundException _) = code_str CONFIGMAP_NOT_FOUND"
| "error_code_of (NodeNotReadyException _ _) = code_str NODE_NOT_READY"
| "error_code_of (NamespaceNotFoundException _) = code_str NAMESPACE_NOT_FOUND"
| "error_code_of (NamespaceAlreadyExistsException _ _) = code_str NAMESPACE_ALREADY_EXISTS"
| "error_code_of (KubeApiException _) = code_str KUBE_API_ERROR"
| "error_code_of (DrainBlockedException _ _) = code_str DRAIN_BLOCKED"
| "error_code_of (DeployServiceError _) = ''UPSTREAM_ERROR''"

fun message_of :: "app_exception \<Rightarrow> json" where
  "message_of (AuthException m _) = JStr m"
| "message_of (ForbiddenException m _) = JStr m"
| "message_of (PolicyDeniedException m _) = JStr m"
| "message_of (UsersFileInvalidException m) = JStr m"
| "message_of (NotFoundException m) = JStr m"
| "message_of (InventoryNotFound m) = JStr m"
| "message_of (ValidationException m) = JStr m"
| "message_of (ConflictException m) = JStr m"
| "message_of (ClusterNotFoundException m) = JStr m"
| "message_of (NodeNotFoundException m) = JStr m"
| "message_of (ConfigMapNotFoundException m) = JStr m"
| "message_of (NodeNotReadyException n s) = JStr (node_not_ready_message n s)"
| "message_of (NamespaceNotFoundException m) = JStr m"
| "message_of (NamespaceAlreadyExistsException m _) = JStr m"
| "message_of (KubeApiException e) = JStr (kae_message e)"
| "message_of (DrainBlockedException n b) = JStr (drain_blocked_message n b)"
| "message_of (DeployServiceError e) = dse_message e"

fun detail_of :: "app_exception \<Rightarrow> json" where
  "detail_of (AuthException _ d) = d"
| "detail_of (ForbiddenException _ d) = d"
| "detail_of (PolicyDeniedException _ d) = d"
| "detail_of (NodeNotReadyException n s) = JObj [(''node'', JStr n), (''status'', JStr s)]"
| "detail_of (NamespaceAlreadyExistsException _ d) = d"
| "detail_of (DrainBlockedException n b) = drain_blocked_detail n b"
| "detail_of (DeployServiceError e) = deploy_error_response e"
| "detail_of _ = JNull"

section \<open>The handlers\<close>

definition error_body :: "string \<Rightarrow> json \<Rightarrow> string \<Rightarrow> json \<Rightarrow> json" where
  "error_body code message request_id detail = JObj
     [(''error'', JObj ([(''code'', JStr code), (''message'', message)] @
        (if detail = JNull then [] else [(''detail'', detail)]))),
      (''request_id'', JStr request_id)]"

record response =
  rsp_status :: int
  rsp_body :: json

definition app_exception_handler :: "string \<Rightarrow> app_exception \<Rightarrow> response" where
  "app_exception_handler request_id exc =
     \<lparr>rsp_status = http_status_of exc,
      rsp_body = error_body (error_code_of exc) (message_of exc) request_id (detail_of exc)\<rparr>"

definition unhandled_exception_handler :: "string \<Rightarrow> response" where
  "unhandled_exception_handler request_id =
     \<lparr>rsp_status = 500,
      rsp_body = error_body ''INTERNAL_SERVER_ERROR''
        (JStr ''An unexpected error occurred. Please try again later.'') request_id JNull\<rparr>"

definition handle_exception :: "string \<Rightarrow> exn \<Rightarrow> response" where
  "handle_exception request_id e =
     (case e of App exc \<Rightarrow> app_exception_handler request_id exc
      | _ \<Rightarrow> unhandled_exception_handler request_id)"

section \<open>Lemmas\<close>

lemma kube_api_exception_sel [simp]:
  "http_status_of (kube_api_exception m s c) =
     (case s of Some n \<Rightarrow> (if n \<ge> 400 then n else 502) | None \<Rightarrow> 502)"
  "error_code_of (kube_api_exception m s c) = code_str KUBE_API_ERROR"
  "message_of (kube_api_exception m s c) = JStr m"
  by (simp_all add: kube_api_exception_def)

lemma kube_api_exception_eq:
  "kube_api_exception m s c = KubeApiException e \<longleftrightarrow>
     e = \<lparr>kae_message = m, kae_kube_status = (if s = Some 0 then None else s),
          kae_http_status = (case s of Some n \<Rightarrow> (if n \<ge> 400 then n else 502) | None \<Rightarrow> 502),
          kae_cluster_level = c\<rparr>"
  by (auto simp: kube_api_exception_def)

lemma http_status_kube_api_error: "http_status_of (kube_api_exception m s c) \<ge> 400"
  by (simp split: option.split)

text \<open>The options a refusal asks for are those that unlock one of its reasons, in a fixed
  order, each once.\<close>

lemma set_required_options:
  "''force'' \<in> set (required_options bs) \<longleftrightarrow> (\<exists>b \<in> set bs. Unmanaged \<in> set (bp_reasons b))"
  "''delete_emptydir_data'' \<in> set (required_options bs) \<longleftrightarrow>
     (\<exists>b \<in> set bs. EmptyDir \<in> set (bp_reasons b))"
  "set (required_options bs) \<subseteq> {''force'', ''delete_emptydir_data''}"
  by (auto simp: required_options_def UNBLOCKING_OPTION_def Let_def)

lemma distinct_required_options: "distinct (required_options bs)"
  by (simp add: required_options_def UNBLOCKING_OPTION_def Let_def)

text \<open>Which upstream bodies the adapter can read: anything that is no object, an object without an
  error entry, or one whose error entry is an object with no code or a hashable one.\<close>

definition hashable :: "json \<Rightarrow> bool" where
  "hashable v = (case v of JList _ \<Rightarrow> False | JObj _ \<Rightarrow> False | _ \<Rightarrow> True)"

definition readable_error_block :: "json \<Rightarrow> bool" where
  "readable_error_block v =
     (case v of JObj block \<Rightarrow> hashable (or_else (dict_get block ''code'') (JStr [])) | _ \<Rightarrow> False)"

definition readable_error_body :: "json \<Rightarrow> bool" where
  "readable_error_body body =
     (case body of JObj entries \<Rightarrow> readable_error_block (or_else (dict_get entries ''error'') (JObj []))
      | _ \<Rightarrow> True)"

lemma lookup_raw_code_hashable: "(\<exists>c. lookup_raw_code v = Inr c) \<longleftrightarrow> hashable v"
  by (cases v) (auto simp: lookup_raw_code_def hashable_def)

lemma deploy_service_error_total:
  "(\<exists>e. deploy_service_error status body = Inr (DeployServiceError e) \<and>
      dse_upstream_status e = status) \<longleftrightarrow> readable_error_body body"
proof -
  define block where "block = (case body of JObj entries \<Rightarrow> or_else (dict_get entries ''error'') (JObj [])
    | _ \<Rightarrow> JObj [])"
  have readable: "readable_error_body body \<longleftrightarrow> readable_error_block block"
    by (cases body) (auto simp: block_def readable_error_body_def readable_error_block_def hashable_def)
  show ?thesis
  proof (cases block)
    case (JObj b)
    define c where "c = or_else (dict_get b ''code'') (JStr [])"
    have "readable_error_body body \<longleftrightarrow> (\<exists>k. lookup_raw_code c = Inr k)"
      by (simp add: readable JObj readable_error_block_def c_def lookup_raw_code_hashable)
    then show ?thesis
      unfolding deploy_service_error_def block_def [symmetric] Let_def JObj
      by (cases "lookup_raw_code c") (auto simp: c_def)
  qed (simp_all add: readable readable_error_block_def deploy_service_error_def Let_def
        block_def [symmetric])
qed

end
