(* ===== verification/Domain_Models.thy ===== *)
theory Domain_Models
  imports Label_Rules Errors
begin

text \<open>
  \<open>app/domain/models.py\<close>: accounts, callers, token payloads, the success envelope, and the small
  response bodies. \<open>app/core/config.py\<close> appears as the record of the settings the modelled code
  reads.
\<close>

record user_in_db =
  ud_account :: string
  ud_hashed_password :: string
  ud_scopes :: "string list"

record user =
  u_account :: string
  u_scopes :: "string list"

record caller =
  caller_account :: string
  caller_request_id :: string

record 'a api_response =
  ar_data :: 'a
  ar_request_id :: string
  ar_dry_run :: bool

record token_data =
  td_access_token :: string
  td_token_type :: string
  td_expires_in :: int

record verify_data =
  vd_account :: string
  vd_scopes :: "string list"
  vd_valid :: bool

record my_scopes_data =
  msd_account :: string
  msd_scopes :: "string list"

definition HashPasswordRequest_ok :: "string \<Rightarrow> bool" where
  "HashPasswordRequest_ok password = (8 \<le> length password)"

section \<open>Settings\<close>

record settings =
  DRY_RUN_MODE :: bool
  KUBECONFIG_BASE_PATH :: string
  USERS_JSON_PATH :: string
  ACCESS_TOKEN_EXPIRE_MINUTES :: int
  DRAIN_DEFAULT_TIMEOUT_SECONDS :: int
  PROVENANCE_ANNOTATION_PREFIX :: string
  DEPLOY_SERVICE_URL :: string
  DEPLOY_SERVICE_USERNAME :: string
  DEPLOY_SERVICE_PASSWORD :: string
  DEPLOY_SERVICE_TOKEN :: string

text \<open>\<open>_usable_prefix\<close>: the validator of the provenance prefix; \<open>Inl\<close> is its message.\<close>

definition usable_prefix :: "string \<Rightarrow> string + string" where
  "usable_prefix value =
     (if \<not> is_dns_subdomain value
      then Inl (quoted value @ '' is not a DNS subdomain (lowercase, at most 253 characters, no trailing ''
             @ quoted ''/'' @ '')'')
      else if is_reserved_domain value
      then Inl (quoted value @ '' is reserved for Kubernetes (kubernetes.io, k8s.io)'')
      else Inr value)"

definition make_response :: "settings \<Rightarrow> 'a \<Rightarrow> string \<Rightarrow> 'a api_response" where
  "make_response s data request_id =
     \<lparr>ar_data = data, ar_request_id = request_id, ar_dry_run = DRY_RUN_MODE s\<rparr>"

end
