(* ===== verification/Login_Redirect.thy ===== *)
theory Login_Redirect
  imports Errors Label_Rules
begin

text \<open>
  The open-redirect guard of \<open>app/core/dependencies.py\<close> (\<open>safe_next_path\<close>), with the
  percent-decoding of the standard library it applies, and the escaping of the login page.

  \<open>unquote\<close> decodes the percent escapes of each maximal ASCII run to bytes and the bytes to text;
  the last step, UTF-8 with replacement, is the argument \<open>decode\<close> on a list of bytes written as
  characters. What the guard relies on is \<open>ascii_transparent\<close>: an ASCII byte in front decodes to
  itself, which holds of UTF-8 whatever follows.
\<close>

section \<open>Percent-decoding\<close>

definition is_ascii :: "char \<Rightarrow> bool" where
  "is_ascii c = (code_point c < 128)"

definition hex_value :: "char \<Rightarrow> nat option" where
  "hex_value c =
     (let n = code_point c
      in if 48 \<le> n \<and> n \<le> 57 then Some (n - 48)
         else if 65 \<le> n \<and> n \<le> 70 then Some (n - 55)
         else if 97 \<le> n \<and> n \<le> 102 then Some (n - 87) else None)"

text \<open>\<open>unquote_to_bytes\<close>: an escape that is not two hex digits stays as it is.\<close>

fun unquote_to_bytes :: "string \<Rightarrow> string" where
  "unquote_to_bytes [] = []"
| "unquote_to_bytes (c # s) =
     (if c = CHR ''%'' then
        (case s of
           a # b # rest \<Rightarrow>
             (case (hex_value a, hex_value b) of
                (Some x, Some y) \<Rightarrow> char_of (16 * x + y) # unquote_to_bytes rest
              | _ \<Rightarrow> c # unquote_to_bytes s)
         | _ \<Rightarrow> c # unquote_to_bytes s)
      else c # unquote_to_bytes s)"

text \<open>\<open>unquote\<close>: only the ASCII runs are decoded, the rest is kept.\<close>

function unquote :: "(string \<Rightarrow> string) \<Rightarrow> string \<Rightarrow> string" where
  "unquote decode [] = []"
| "unquote decode (c # s) =
     (if is_ascii c
      then decode (unquote_to_bytes (takeWhile is_ascii (c # s))) @ unquote decode (dropWhile is_ascii s)
      else c # unquote decode s)"
  by pat_completeness auto
termination
  by (relation "measure (length \<circ> snd)") (auto simp: le_imp_less_Suc length_dropWhile_le)

definition ascii_transparent :: "(string \<Rightarrow> string) \<Rightarrow> bool" where
  "ascii_transparent decode \<longleftrightarrow>
     decode [] = [] \<and> (\<forall>c s. is_ascii c \<longrightarrow> decode (c # s) = c # decode s)"

section \<open>The guard\<close>

definition guard_refuses :: "string \<Rightarrow> bool" where
  "guard_refuses candidate \<longleftrightarrow>
     \<not> startswith candidate ''/'' \<or>
     (startswith candidate ''//'' \<or> startswith candidate [CHR ''/'', CHR 0x5C])"

definition safe_next_path :: "(string \<Rightarrow> string) \<Rightarrow> string option \<Rightarrow> string \<Rightarrow> string" where
  "safe_next_path decode next_path fallback =
     (case next_path of
        None \<Rightarrow> fallback
      | Some path \<Rightarrow>
          (if path = [] then fallback
           else (let decoded = unquote decode path; double = unquote decode decoded
                 in if list_ex guard_refuses [decoded, double] then fallback else decoded)))"

section \<open>Escaping\<close>

text \<open>\<open>html.escape(s, quote)\<close>: five replacements one after the other, the ampersand first; on one
  character at a time they give this.\<close>

definition escape_char :: "bool \<Rightarrow> char \<Rightarrow> string" where
  "escape_char quote c =
     (if c = CHR ''&'' then ''&amp;''
      else if c = CHR ''<'' then ''&lt;''
      else if c = CHR ''>'' then ''&gt;''
      else if quote \<and> c = CHR 0x22 then ''&quot;''
      else if quote \<and> c = CHR 0x27 then ''&#x27;''
      else [c])"

definition html_escape :: "bool \<Rightarrow> string \<Rightarrow> string" where
  "html_escape quote s = concat (map (escape_char quote) s)"

section \<open>Lemmas\<close>

lemma html_escape_plain:
  "c \<in> set (html_escape quote s) \<Longrightarrow> c \<noteq> CHR ''<'' \<and> c \<noteq> CHR ''>'' \<and>
     (quote \<longrightarrow> c \<noteq> CHR 0x22 \<and> c \<noteq> CHR 0x27)"
  by (auto simp: html_escape_def escape_char_def split: if_splits)

text \<open>A path on this host, as a browser reads a \<open>Location\<close>.\<close>

definition local_path :: "string \<Rightarrow> bool" where
  "local_path p \<longleftrightarrow> (\<exists>rest. p = CHR ''/'' # rest \<and>
     (rest = [] \<or> hd rest \<noteq> CHR ''/'' \<and> hd rest \<noteq> CHR 0x5C))"

lemma guard_refuses_iff: "guard_refuses p \<longleftrightarrow> \<not> local_path p"
proof (cases p)
  case (Cons a q)
  then show ?thesis by (cases q) (auto simp: guard_refuses_def startswith_def local_path_def)
qed (simp add: guard_refuses_def startswith_def local_path_def)

lemma safe_next_path_local:
  assumes "local_path fallback"
  shows "local_path (safe_next_path decode next_path fallback)"
  using assms
  by (auto simp: safe_next_path_def guard_refuses_iff Let_def split: option.split)

text \<open>A path without escapes is kept.\<close>

lemma unquote_to_bytes_plain: "CHR ''%'' \<notin> set s \<Longrightarrow> unquote_to_bytes s = s"
  by (induction s rule: unquote_to_bytes.induct) auto

lemma decode_ascii:
  assumes "ascii_transparent decode" and "\<forall>c \<in> set s. is_ascii c"
  shows "decode s = s"
  using assms(2)
proof (induction s)
  case Nil
  from assms(1) show ?case by (simp add: ascii_transparent_def)
next
  case (Cons c s)
  with assms(1) show ?case by (simp add: ascii_transparent_def)
qed

lemma unquote_plain:
  assumes "ascii_transparent decode" and "CHR ''%'' \<notin> set s"
  shows "unquote decode s = s"
  using assms
proof (induction decode s rule: unquote.induct)
  case (2 decode' c s)
  show ?case
  proof (cases "is_ascii c")
    case True
    let ?run = "takeWhile is_ascii s"
    have "CHR ''%'' \<notin> set (c # ?run)" using "2.prems" by (auto dest: set_takeWhileD)
    then have "unquote_to_bytes (takeWhile is_ascii (c # s)) = c # ?run"
      using True unquote_to_bytes_plain[of "c # ?run"] by simp
    moreover have "decode' (c # ?run) = c # ?run"
      using True by (intro decode_ascii[OF "2.prems"(1)]) (auto dest: set_takeWhileD)
    moreover have "unquote decode' (dropWhile is_ascii s) = dropWhile is_ascii s"
      using "2.IH"(1)[OF True] "2.prems" by (auto dest: set_dropWhileD)
    ultimately show ?thesis using True by simp
  qed (use 2 in auto)
qed simp

lemma char_of_slash: "(char_of (47 :: nat) :: char) = CHR ''/''"
  by (simp add: char_of_def bit_iff_odd)

text \<open>An encoded second slash is refused, in either case of its hex digit.\<close>

lemma encoded_slash_refused:
  assumes "ascii_transparent decode" and "x \<in> set ''fF''"
  shows "safe_next_path decode (Some (''/%2'' @ x # rest)) fallback = fallback"
proof -
  have "\<exists>t. unquote decode (''/%2'' @ x # rest) = ''//'' @ t"
    using assms
    by (auto simp: ascii_transparent_def is_ascii_def code_point_def hex_value_def char_of_slash)
  then obtain t where "unquote decode (''/%2'' @ x # rest) = ''//'' @ t" ..
  then show ?thesis by (simp add: safe_next_path_def Let_def guard_refuses_iff local_path_def)
qed

end
