(* ===== verification/Kube_Model.thy ===== *)
theory Kube_Model
  imports Label_Rules Errors
begin

text \<open>
  The Kubernetes side of the services. The SDK (\<open>kubernetes.client\<close>) is not part of the
  repository: its model classes appear as the records of the attributes the services read, and
  \<open>CoreV1Api\<close> as a record of operations \<open>core_v1_api\<close> over an arbitrary world, an argument
  of every service operation. Also here: \<open>app/services/kube_errors.py\<close>, the one place an SDK
  failure becomes an application exception, and \<open>app/services/kube_patch.py\<close>.

  \<open>observed kube\<close> is \<open>kube\<close> with a record of the calls it received, so that what a
  service asks of Kubernetes can be stated whatever the cluster answers.
\<close>

section \<open>SDK objects\<close>

type_synonym str_map = "(string, string) dict"

text \<open>A \<open>datetime\<close> in UTC, to the second.\<close>

record datetime =
  dt_year :: nat
  dt_month :: nat
  dt_day :: nat
  dt_hour :: nat
  dt_minute :: nat
  dt_second :: nat

record v1_taint =
  taint_key :: string
  taint_value :: "string option"
  taint_effect :: string

record v1_node_condition =
  cond_type :: string
  cond_status :: string

record v1_node =
  node_name :: string
  node_labels :: "str_map option"
  node_annotations :: "str_map option"
  node_unschedulable :: "bool option"
  node_taints :: "v1_taint list option"
  node_conditions :: "v1_node_condition list option"
  node_kubelet_version :: "string option"

record v1_container_status =
  cs_restart_count :: "nat option"
  cs_ready :: bool

record v1_pod_spec =
  ps_node_name :: "string option"
  ps_volumes :: "bool list option"  \<comment> \<open>per volume: whether it is an emptyDir\<close>

record v1_pod =
  pod_name :: string
  pod_namespace :: string
  pod_annotations :: "str_map option"
  pod_owner_kinds :: "string list option"
  pod_spec :: "v1_pod_spec option"
  pod_phase :: "string option"
  pod_container_statuses :: "v1_container_status list option"

record v1_namespace =
  ns_name :: string
  ns_labels :: "str_map option"
  ns_annotations :: "str_map option"
  ns_creation_timestamp :: "datetime option"
  ns_deletion_timestamp :: "datetime option"
  ns_phase :: "string option"  \<comment> \<open>\<open>None\<close> also for a missing status\<close>

record v1_config_map =
  cm_name :: string
  cm_namespace :: string
  cm_labels :: "str_map option"
  cm_annotations :: "str_map option"
  cm_creation_timestamp :: "datetime option"
  cm_data :: "str_map option"
  cm_binary_data :: "str_map option"

text \<open>One page of a listing and its continue token.\<close>

record 'a page =
  page_items :: "'a list"
  page_continue :: "string option"

section \<open>Request bodies\<close>

type_synonym merge_patch = "(string, string option) dict"

record node_patch =
  np_unschedulable :: "bool option"
  np_taints :: "v1_taint list option"
  np_labels :: "merge_patch option"
  np_annotations :: "merge_patch option"

definition empty_node_patch :: node_patch where
  "empty_node_patch = \<lparr>np_unschedulable = None, np_taints = None, np_labels = None,
     np_annotations = None\<rparr>"

record namespace_body =
  nb_name :: string
  nb_labels :: "str_map option"
  nb_annotations :: str_map

record namespace_patch =
  nsp_labels :: "merge_patch option"
  nsp_annotations :: "merge_patch option"

text \<open>\<open>key_merge_patch\<close> (\<open>app/services/kube_patch.py\<close>): what is set, then a null for each
  removed key; a key in both is removed.\<close>

definition key_merge_patch :: "str_map \<Rightarrow> string list \<Rightarrow> merge_patch" where
  "key_merge_patch set_values remove_keys =
     dict_update (dict_update [] (map (\<lambda>(k, v). (k, Some v)) set_values))
       (dict_fromkeys remove_keys None)"

section \<open>CoreV1Api\<close>

type_synonym ('w, 'a) call = "('w, exn, 'a) io"

record 'w core_v1_api =
  list_node :: "('w, v1_node list) call"
  read_node :: "string \<Rightarrow> ('w, v1_node) call"
  patch_node :: "string \<Rightarrow> node_patch \<Rightarrow> ('w, v1_node) call"
  list_pod_for_all_namespaces :: "string option \<Rightarrow> ('w, v1_pod list) call"
  list_namespaced_pod :: "string \<Rightarrow> ('w, v1_pod list) call"
  delete_namespaced_pod :: "string \<Rightarrow> string \<Rightarrow> int option \<Rightarrow> ('w, unit) call"
  create_namespaced_pod_eviction :: "string \<Rightarrow> string \<Rightarrow> int option \<Rightarrow> ('w, unit) call"
  list_namespace :: "string option \<Rightarrow> nat \<Rightarrow> string option \<Rightarrow> ('w, v1_namespace page) call"
  read_namespace :: "string \<Rightarrow> ('w, v1_namespace) call"
  create_namespace :: "namespace_body \<Rightarrow> ('w, v1_namespace) call"
  patch_namespace :: "string \<Rightarrow> namespace_patch \<Rightarrow> ('w, v1_namespace) call"
  list_config_map_for_all_namespaces :: "nat \<Rightarrow> string option \<Rightarrow> ('w, v1_config_map page) call"
  list_namespaced_config_map ::
    "string \<Rightarrow> nat \<Rightarrow> string option \<Rightarrow> ('w, v1_config_map page) call"
  read_namespaced_config_map :: "string \<Rightarrow> string \<Rightarrow> ('w, v1_config_map) call"

text \<open>The monotonic clock and \<open>time.sleep\<close>, in nanoseconds.\<close>

record 'w clock =
  monotonic :: "'w \<Rightarrow> int"
  sleep :: "int \<Rightarrow> 'w \<Rightarrow> 'w"

definition seconds :: "int \<Rightarrow> int" where
  "seconds s = s * 1000000000"

section \<open>Calls that may not return\<close>

text \<open>The drain and the paged listings loop on the answers of the cluster, so they are optional
  results: \<open>None\<close> is a call that does not return. \<open>always m\<close> is a call that does.\<close>

type_synonym ('w, 'a) may_call = "'w \<Rightarrow> ((exn + 'a) \<times> 'w) option"

definition always :: "('w, 'a) call \<Rightarrow> ('w, 'a) may_call" where
  "always m = (\<lambda>w. Some (m w))"

definition bind_may :: "('w, 'a) may_call \<Rightarrow> ('a \<Rightarrow> ('w, 'b) may_call) \<Rightarrow> ('w, 'b) may_call" where
  "bind_may m f = (\<lambda>w. case m w of
      None \<Rightarrow> None
    | Some (Inl e, w') \<Rightarrow> Some (Inl e, w')
    | Some (Inr x, w') \<Rightarrow> f x w')"

definition return_may :: "'a \<Rightarrow> ('w, 'a) may_call" where
  "return_may x = always (return_io x)"

lemma always_apply [simp]: "always m w = Some (m w)"
  by (simp add: always_def)

lemma bind_may_always [simp]: "bind_may (always m) (\<lambda>x. always (f x)) = always (bind_io m f)"
  by (rule ext) (auto simp: bind_may_def bind_io_def split: prod.split sum.split)

lemma bind_may_Some_Inr:
  "bind_may m f w = Some (Inr y, w') \<longleftrightarrow>
     (\<exists>x v. m w = Some (Inr x, v) \<and> f x v = Some (Inr y, w'))"
  by (auto simp: bind_may_def split: option.splits prod.splits sum.splits)

lemma bind_may_first:
  "m w = Some (Inl e, v) \<Longrightarrow> bind_may m f w = Some (Inl e, v)"
  "m w = Some (Inr x, v) \<Longrightarrow> bind_may m f w = f x v"
  by (simp_all add: bind_may_def)

section \<open>Error translation\<close>

definition connection_error :: "string \<Rightarrow> string \<Rightarrow> app_exception" where
  "connection_error cluster exc =
     kube_api_exception (''Cannot reach cluster '' @ quoted cluster @ '': '' @ exc) (Some 503) True"

text \<open>\<open>f"{exc.reason}"\<close>.\<close>

definition reason_text :: "string option \<Rightarrow> string" where
  "reason_text r = or_else r ''None''"

fun translate_exn :: "string \<Rightarrow> string \<Rightarrow> app_exception option \<Rightarrow> exn \<Rightarrow> exn" where
  "translate_exn cluster what not_found (ApiException status reason) =
     (case not_found of
        Some nf \<Rightarrow>
          (if status = Some 404 then App nf
           else App (kube_api_exception
             (''Failed to '' @ what @ '': '' @ reason_text reason) status False))
      | None \<Rightarrow> App (kube_api_exception
             (''Failed to '' @ what @ '': '' @ reason_text reason) status False))"
| "translate_exn cluster what not_found (Urllib3HTTPError exc) = App (connection_error cluster exc)"
| "translate_exn cluster what not_found e = e"

definition translate_kube_errors ::
  "string \<Rightarrow> string \<Rightarrow> app_exception option \<Rightarrow> ('w, 'a) call \<Rightarrow> ('w, 'a) call" where
  "translate_kube_errors cluster what not_found block =
     catch_io block (\<lambda>e. raise_io (translate_exn cluster what not_found e))"

text \<open>An SDK failure: what must never leave the service layer.\<close>

fun is_sdk_failure :: "exn \<Rightarrow> bool" where
  "is_sdk_failure (ApiException _ _) = True"
| "is_sdk_failure (Urllib3HTTPError _) = True"
| "is_sdk_failure _ = False"

section \<open>Calls as they are observed\<close>

datatype kube_call =
    ListNode
  | ReadNode string
  | PatchNode string node_patch
  | ListPodForAllNamespaces "string option"
  | ListNamespacedPod string
  | DeleteNamespacedPod string string
  | CreateEviction string string
  | ListNamespace "string option" "string option"
  | ReadNamespace string
  | CreateNamespace namespace_body
  | PatchNamespace string namespace_patch
  | ListConfigMapForAllNamespaces "string option"
  | ListNamespacedConfigMap string "string option"
  | ReadNamespacedConfigMap string string

definition observe :: "kube_call \<Rightarrow> ('w, 'a) call \<Rightarrow> ('w \<times> kube_call list, 'a) call" where
  "observe c m = (\<lambda>(w, log). case m w of (r, w') \<Rightarrow> (r, (w', log @ [c])))"

definition observed :: "'w core_v1_api \<Rightarrow> ('w \<times> kube_call list) core_v1_api" where
  "observed kube =
     \<lparr>list_node = observe ListNode (list_node kube),
      read_node = (\<lambda>n. observe (ReadNode n) (read_node kube n)),
      patch_node = (\<lambda>n p. observe (PatchNode n p) (patch_node kube n p)),
      list_pod_for_all_namespaces = (\<lambda>sel. observe (ListPodForAllNamespaces sel)
        (list_pod_for_all_namespaces kube sel)),
      list_namespaced_pod = (\<lambda>ns. observe (ListNamespacedPod ns) (list_namespaced_pod kube ns)),
      delete_namespaced_pod = (\<lambda>n ns g. observe (DeleteNamespacedPod n ns)
        (delete_namespaced_pod kube n ns g)),
      create_namespaced_pod_eviction = (\<lambda>n ns g. observe (CreateEviction n ns)
        (create_namespaced_pod_eviction kube n ns g)),
      list_namespace = (\<lambda>sel lim tok. observe (ListNamespace sel tok)
        (list_namespace kube sel lim tok)),
      read_namespace = (\<lambda>n. observe (ReadNamespace n) (read_namespace kube n)),
      create_namespace = (\<lambda>b. observe (CreateNamespace b) (create_namespace kube b)),
      patch_namespace = (\<lambda>n p. observe (PatchNamespace n p) (patch_namespace kube n p)),
      list_config_map_for_all_namespaces = (\<lambda>lim tok. observe (ListConfigMapForAllNamespaces tok)
        (list_config_map_for_all_namespaces kube lim tok)),
      list_namespaced_config_map = (\<lambda>ns lim tok. observe (ListNamespacedConfigMap ns tok)
        (list_namespaced_config_map kube ns lim tok)),
      read_namespaced_config_map = (\<lambda>n ns. observe (ReadNamespacedConfigMap n ns)
        (read_namespaced_config_map kube n ns))\<rparr>"

text \<open>\<open>emits P m\<close>: every call \<open>m\<close> makes satisfies \<open>P\<close>, whatever the answers.\<close>

definition emits :: "(kube_call \<Rightarrow> bool) \<Rightarrow> ('w \<times> kube_call list, 'a) call \<Rightarrow> bool" where
  "emits P m \<longleftrightarrow>
     (\<forall>w log r w' log'. m (w, log) = (r, (w', log')) \<longrightarrow>
        (\<exists>new. log' = log @ new \<and> (\<forall>c \<in> set new. P c)))"

named_theorems emits_intros \<open>how the calls of an operation follow from those of its parts\<close>

lemma emitsI:
  assumes "\<And>w log r w' log'. m (w, log) = (r, (w', log')) \<Longrightarrow>
      \<exists>new. log' = log @ new \<and> (\<forall>c \<in> set new. P c)"
  shows "emits P m"
  using assms unfolding emits_def by blast

lemma emitsD:
  assumes "emits P m" and "m (w, log) = (r, (w', log'))"
  obtains new where "log' = log @ new" and "\<forall>c \<in> set new. P c"
  using assms unfolding emits_def by blast

lemma emits_mono: "emits P m \<Longrightarrow> (\<And>c. P c \<Longrightarrow> Q c) \<Longrightarrow> emits Q m"
  unfolding emits_def by blast

lemma emits_observe [emits_intros]: "P c \<Longrightarrow> emits P (observe c m)"
  by (rule emitsI) (auto simp: observe_def split: prod.splits)

lemma emits_return [emits_intros]: "emits P (return_io x)"
  and emits_raise [emits_intros]: "emits P (raise_io e)"
  and emits_Pair [emits_intros]: "emits P (Pair r)"
  by (auto intro!: emitsI)

lemma emits_bind [emits_intros]:
  assumes "emits P m" and "\<And>x. emits P (f x)"
  shows "emits P (bind_io m f)"
proof (rule emitsI)
  fix w log r w' log'
  assume run: "bind_io m f (w, log) = (r, (w', log'))"
  obtain r1 w1 log1 where m: "m (w, log) = (r1, (w1, log1))" by (metis prod.exhaust)
  from assms(1) m obtain new1 where new1: "log1 = log @ new1" "\<forall>c \<in> set new1. P c"
    by (rule emitsD)
  show "\<exists>new. log' = log @ new \<and> (\<forall>c \<in> set new. P c)"
  proof (cases r1)
    case (Inl e)
    with run m new1 show ?thesis by auto
  next
    case (Inr x)
    with run m have "f x (w1, log1) = (r, (w', log'))" by simp
    with assms(2) obtain new2 where "log' = log1 @ new2" "\<forall>c \<in> set new2. P c"
      by (rule emitsD)
    with new1 show ?thesis by (intro exI[of _ "new1 @ new2"]) auto
  qed
qed

lemma emits_catch [emits_intros]:
  assumes "emits P m" and "\<And>e. emits P (h e)"
  shows "emits P (catch_io m h)"
proof (rule emitsI)
  fix w log r w' log'
  assume run: "catch_io m h (w, log) = (r, (w', log'))"
  obtain r1 w1 log1 where m: "m (w, log) = (r1, (w1, log1))" by (metis prod.exhaust)
  from assms(1) m obtain new1 where new1: "log1 = log @ new1" "\<forall>c \<in> set new1. P c"
    by (rule emitsD)
  show "\<exists>new. log' = log @ new \<and> (\<forall>c \<in> set new. P c)"
  proof (cases r1)
    case (Inr x)
    with run m new1 show ?thesis by auto
  next
    case (Inl e)
    with run m have "h e (w1, log1) = (r, (w', log'))" by simp
    with assms(2) obtain new2 where "log' = log1 @ new2" "\<forall>c \<in> set new2. P c"
      by (rule emitsD)
    with new1 show ?thesis by (intro exI[of _ "new1 @ new2"]) auto
  qed
qed

lemma emits_translate [emits_intros]: "emits P m \<Longrightarrow> emits P (translate_kube_errors c what nf m)"
  unfolding translate_kube_errors_def by (intro emits_intros)

lemma emits_for [emits_intros]: "(\<And>x. x \<in> set xs \<Longrightarrow> emits P (f x)) \<Longrightarrow> emits P (for_io f xs)"
  by (induction xs) (auto intro!: emits_intros)

section \<open>Lemmas on translation\<close>

lemma translate_Inr [simp]:
  "translate_kube_errors c what nf m w = (Inr x, w') \<longleftrightarrow> m w = (Inr x, w')"
  by (auto simp: translate_kube_errors_def catch_io_def split: prod.splits sum.splits)

lemma translate_Inl:
  "translate_kube_errors c what nf m w = (Inl e, w') \<longleftrightarrow>
     (\<exists>e'. m w = (Inl e', w') \<and> e = translate_exn c what nf e')"
  by (auto simp: translate_kube_errors_def catch_io_def split: prod.splits sum.splits)

lemma translate_eval [io_simps]:
  "m w = (Inr x, w') \<Longrightarrow> translate_kube_errors c what nf m w = (Inr x, w')"
  "m w = (Inl e, w') \<Longrightarrow> translate_kube_errors c what nf m w = (Inl (translate_exn c what nf e), w')"
  by (simp_all add: translate_kube_errors_def)

lemma translate_exn_not_sdk [simp]: "\<not> is_sdk_failure (translate_exn c what nf e)"
  by (cases e) (auto split: option.splits)

lemma translate_exn_id: "\<not> is_sdk_failure e \<Longrightarrow> translate_exn c what nf e = e"
  by (cases e) auto

text \<open>An operation that raises no SDK failure.\<close>

definition app_errors_only :: "('w, 'a) call \<Rightarrow> bool" where
  "app_errors_only m \<longleftrightarrow> (\<forall>w e w'. m w = (Inl e, w') \<longrightarrow> \<not> is_sdk_failure e)"

named_theorems app_intros \<open>no SDK failure leaves an operation\<close>

lemma app_errors_onlyD: "app_errors_only m \<Longrightarrow> m w = (Inl e, w') \<Longrightarrow> \<not> is_sdk_failure e"
  by (auto simp: app_errors_only_def)

lemma app_translate [app_intros]: "app_errors_only (translate_kube_errors c what nf m)"
  by (auto simp: app_errors_only_def translate_Inl)

lemma app_return [app_intros]: "app_errors_only (return_io x)"
  and app_raise [app_intros]: "\<not> is_sdk_failure e \<Longrightarrow> app_errors_only (raise_io e)"
  and app_Pair [app_intros]: "app_errors_only (Pair (Inr x))"
  by (auto simp: app_errors_only_def)

lemma app_bind [app_intros]:
  "app_errors_only m \<Longrightarrow> (\<And>x. app_errors_only (f x)) \<Longrightarrow> app_errors_only (bind_io m f)"
  unfolding app_errors_only_def bind_io_Inl_iff by blast

lemma app_for [app_intros]: "(\<And>x. app_errors_only (f x)) \<Longrightarrow> app_errors_only (for_io f xs)"
  by (induction xs) (auto intro!: app_intros)

definition app_errors_only_may :: "('w, 'a) may_call \<Rightarrow> bool" where
  "app_errors_only_may m \<longleftrightarrow> (\<forall>w e w'. m w = Some (Inl e, w') \<longrightarrow> \<not> is_sdk_failure e)"

lemma app_always [simp]: "app_errors_only_may (always m) \<longleftrightarrow> app_errors_only m"
  by (simp add: app_errors_only_may_def app_errors_only_def)

section \<open>Lemmas on merge patches\<close>

lemma dict_get_map_Some:
  "dict_get (map (\<lambda>(k, v). (k, f v)) d) k = map_option f (dict_get d k)"
  by (induction d) auto

lemma key_merge_patch_get:
  assumes "wf_dict set_values"
  shows "dict_get (key_merge_patch set_values remove_keys) k =
     (if k \<in> set remove_keys then Some None else map_option Some (dict_get set_values k))"
proof -
  have "wf_dict (map (\<lambda>(k, v). (k, Some v)) set_values)"
    using assms by (simp add: wf_dict_def case_prod_beta comp_def)
  then show ?thesis
    by (simp add: key_merge_patch_def dict_get_update_gen dict_get_map_Some split: option.split)
qed

lemma key_merge_patch_eq_Nil:
  "key_merge_patch set_values remove_keys = [] \<longleftrightarrow> set_values = [] \<and> remove_keys = []"
proof -
  have start: "dict_update d e = [] \<longleftrightarrow> d = [] \<and> e = []" for d e :: "('a, 'b) dict"
  proof (induction d e rule: dict_update.induct)
    case (2 d k v e)
    have "dict_set k v d \<noteq> []" by (cases d) auto
    with 2 show ?case by simp
  qed simp
  show ?thesis by (auto simp: key_merge_patch_def start)
qed

text \<open>A merge patch applied to a string map: a null deletes, anything else sets.\<close>

definition merge_spec :: "(string \<rightharpoonup> string) \<Rightarrow> merge_patch \<Rightarrow> (string \<rightharpoonup> string)" where
  "merge_spec m p = (\<lambda>k. case dict_get p k of None \<Rightarrow> m k | Some v \<Rightarrow> v)"

lemma merge_spec_key_merge_patch:
  "wf_dict s \<Longrightarrow> merge_spec m (key_merge_patch s r) k =
     (if k \<in> set r then None
      else case dict_get s k of Some v \<Rightarrow> Some v | None \<Rightarrow> m k)"
  by (simp add: merge_spec_def key_merge_patch_get split: option.split)

end
