(* ===== verification/Kubernetes_Models.thy ===== *)
theory Kubernetes_Models
  imports Kube_Model "HOL-Library.Char_ord" "HOL-Library.List_Lexorder"
    "HOL-Library.Product_Lexorder"
begin

text \<open>
  \<open>app/domain/kubernetes_models.py\<close>: the request bodies with their validators and the response
  bodies. A constant response field (\<open>status = "success"\<close>) is kept, as it is on the wire.

  A validator takes the decoded fields and returns the problems pydantic reports, by field; no
  problem means the body is accepted. Field constraints (\<open>max_length\<close>, \<open>pattern\<close>, \<open>ge\<close>,
  unknown fields under \<open>extra="forbid"\<close>) come before the field's own validator, and a
  model-level validator runs only when every field passed, as pydantic documents. Its patterns
  match with \<open>$\<close> at the very end, unlike \<open>re.match\<close>.
\<close>

datatype body_problem =
    ExtraForbidden
  | TooShort
  | TooLong
  | PatternMismatch
  | BelowMinimum
  | ValueError string

type_synonym problems = "(string \<times> body_problem) list"

section \<open>Cluster configuration\<close>

datatype config_source = Yaml | Json | Api

record kube_client_config =
  kcc_cluster_name :: string
  kcc_source :: config_source
  kcc_kubeconfig_path :: "string option"
  kcc_server :: "string option"
  kcc_ca_data :: "string option"
  kcc_token :: "string option"

record cluster_info =
  ci_name :: string
  ci_source :: string

section \<open>Node requests\<close>

record drain_options =
  delete_emptydir_data :: bool
  force :: bool
  disable_eviction :: bool
  grace_period_seconds :: "int option"

definition default_drain_options :: drain_options where
  "default_drain_options = \<lparr>delete_emptydir_data = False, force = False,
     disable_eviction = False, grace_period_seconds = None\<rparr>"

definition drain_options_problems :: "drain_options \<Rightarrow> problems" where
  "drain_options_problems opts =
     (case grace_period_seconds opts of
        Some g \<Rightarrow> (if g < 0 then [(''grace_period_seconds'', BelowMinimum)] else [])
      | None \<Rightarrow> [])"

record drain_request =
  dr_options :: drain_options
  dr_dry_run :: bool
  dr_reason :: "string option"

record node_patch_request =
  npr_set :: str_map
  npr_remove :: "string list"

datatype effect = NoSchedule | PreferNoSchedule | NoExecute

fun effect_str :: "effect \<Rightarrow> string" where
  "effect_str NoSchedule = ''NoSchedule''"
| "effect_str PreferNoSchedule = ''PreferNoSchedule''"
| "effect_str NoExecute = ''NoExecute''"

definition parse_effect :: "string \<Rightarrow> effect option" where
  "parse_effect s = map_of [(''NoSchedule'', NoSchedule), (''PreferNoSchedule'', PreferNoSchedule),
     (''NoExecute'', NoExecute)] s"

record taint_spec =
  ts_key :: string
  ts_value :: "string option"
  ts_effect :: effect

record taint_remove_spec =
  tr_key :: string
  tr_effect :: effect

record node_taint_request =
  ntr_set :: "taint_spec list"
  ntr_remove :: "taint_remove_spec list"

definition strip_node_names :: "string list \<Rightarrow> string list" where
  "strip_node_names names = filter (\<lambda>n. n \<noteq> []) (map strip names)"

definition BatchNodeRequest :: "string list \<Rightarrow> problems + string list" where
  "BatchNodeRequest nodes =
     (if length nodes < 1 then Inl [(''nodes'', TooShort)]
      else if length nodes > 100 then Inl [(''nodes'', TooLong)]
      else Inr (strip_node_names nodes))"

section \<open>Node responses\<close>

record node_action_data =
  na_status :: string
  na_cluster :: string
  na_node :: string
  na_action :: string

record pod_ref =
  pr_name :: string
  pr_namespace :: string

record drain_action_data =
  da_status :: string
  da_cluster :: string
  da_node :: string
  da_action :: string
  da_dry_run :: bool
  drained_pods :: "pod_ref list"
  still_terminating :: "pod_ref list"
  node_emptied :: bool
  forced_deletion :: bool

definition default_drain_action_data :: "string \<Rightarrow> string \<Rightarrow> drain_action_data" where
  "default_drain_action_data cluster node =
     \<lparr>da_status = ''success'', da_cluster = cluster, da_node = node, da_action = ''drain'',
      da_dry_run = False, drained_pods = [], still_terminating = [], node_emptied = True,
      forced_deletion = False\<rparr>"

record node_labels_data =
  nl_status :: string
  nl_cluster :: string
  nl_node :: string
  nl_action :: string
  nl_labels :: str_map

record node_annotations_data =
  nan_status :: string
  nan_cluster :: string
  nan_node :: string
  nan_action :: string
  nan_annotations :: str_map

record node_taint_data =
  nt_status :: string
  nt_cluster :: string
  nt_node :: string
  nt_action :: string
  nt_taints :: "taint_spec list"

record node_info =
  ni_name :: string
  ni_status :: string
  ni_roles :: "string list"
  ni_version :: string
  ni_unschedulable :: bool
  ni_labels :: str_map
  ni_annotations :: str_map

record node_list_data =
  nld_cluster :: string
  nld_nodes :: "node_info list"

record node_detail_data =
  nd_cluster :: string
  nd_name :: string
  nd_status :: string
  nd_roles :: "string list"
  nd_version :: string
  nd_unschedulable :: bool
  nd_labels :: str_map
  nd_annotations :: str_map
  nd_taints :: "taint_spec list"

record pod_info =
  pi_name :: string
  pi_namespace :: string
  pi_phase :: string
  pi_ready :: bool
  pi_owner_kind :: "string option"
  pi_restart_count :: nat
  pi_node_name :: string

record pod_list_data =
  pld_cluster :: string
  pld_namespace :: string
  pld_pods :: "pod_info list"

datatype batch_status = Success | Failed

record batch_node_result =
  br_node :: string
  br_status :: batch_status
  br_error_code :: "string option"
  br_message :: "json option"
  br_kube_status :: "int option"

record batch_summary =
  bs_total :: nat
  bs_succeeded :: nat
  bs_failed :: nat

record batch_node_action_data =
  bd_cluster :: string
  bd_action :: string
  bd_summary :: batch_summary
  bd_results :: "batch_node_result list"

section \<open>ConfigMap responses\<close>

record config_map_summary =
  cms_name :: string
  cms_namespace :: string
  cms_keys :: "string list"
  cms_labels :: str_map
  cms_creation_timestamp :: "datetime option"

record config_map_list_data =
  cml_cluster :: string
  cml_namespace :: string
  cml_configmaps :: "config_map_summary list"

record config_map_detail_data =
  cmd_cluster :: string
  cmd_name :: string
  cmd_namespace :: string
  cmd_labels :: str_map
  cmd_annotations :: str_map
  cmd_creation_timestamp :: "datetime option"
  cmd_data :: str_map
  cmd_binary_data :: str_map

section \<open>Namespaces\<close>

definition NAMESPACE_NAME_PATTERN :: rexp where
  "NAMESPACE_NAME_PATTERN = RName is_lower_alnum is_dns_middle"

definition is_reserved_namespace_name :: "string \<Rightarrow> bool" where
  "is_reserved_namespace_name name = (name = ''default'' \<or> startswith name ''kube-'')"

definition reserved_name_message :: "string \<Rightarrow> string" where
  "reserved_name_message name =
     quoted name @ '' is reserved for Kubernetes ('' @ quoted ''default'' @ '' and ''
     @ quoted ''kube-*'' @ '')''"

definition namespace_name_problems :: "string \<Rightarrow> body_problem list" where
  "namespace_name_problems name =
     (if length name > 63 then [TooLong]
      else if \<not> re_full NAMESPACE_NAME_PATTERN name then [PatternMismatch]
      else [])"

definition value_problems :: "string \<Rightarrow> label_problem list + unit \<Rightarrow> problems" where
  "value_problems field r =
     (case r of Inl ps \<Rightarrow> [(field, ValueError (problems_text ps))] | Inr _ \<Rightarrow> [])"

definition extra_problems :: "string list \<Rightarrow> problems" where
  "extra_problems extra = map (\<lambda>f. (f, ExtraForbidden)) extra"

record namespace_create_request =
  ncr_name :: string
  ncr_labels :: str_map
  ncr_annotations :: str_map

text \<open>\<open>extra\<close> is the list of body fields the model does not declare.\<close>

definition NamespaceCreateRequest ::
  "string list \<Rightarrow> namespace_create_request \<Rightarrow> problems" where
  "NamespaceCreateRequest extra b =
     (case namespace_name_problems (ncr_name b) of
        [] \<Rightarrow> (if is_reserved_namespace_name (ncr_name b)
               then [(''name'', ValueError (reserved_name_message (ncr_name b)))] else [])
      | ps \<Rightarrow> map (\<lambda>p. (''name'', p)) ps)
     @ value_problems ''labels'' (check_labels (ncr_labels b))
     @ value_problems ''annotations'' (check_annotation_keys (keys (ncr_annotations b)))
     @ extra_problems extra"

record metadata_patch_request =
  mpr_set :: str_map
  mpr_remove :: "string list"

definition in_both :: "metadata_patch_request \<Rightarrow> string list" where
  "in_both b = sorted_list_of_set (set (keys (mpr_set b)) \<inter> set (mpr_remove b))"

text \<open>\<open>_a_change_and_no_contradiction\<close>; \<open>what\<close> is \<open>label\<close> or \<open>annotation\<close>.\<close>

definition change_problems :: "string \<Rightarrow> metadata_patch_request \<Rightarrow> problems" where
  "change_problems what b =
     (if mpr_set b = [] \<and> mpr_remove b = []
      then [([], ValueError ''nothing to change: give `set`, `remove`, or both'')]
      else if in_both b \<noteq> []
      then [([], ValueError
              (what @ '' keys '' @ repr_list (in_both b) @ '' are in both `set` and `remove`''))]
      else [])"

definition NamespaceLabelsPatchRequest ::
  "string list \<Rightarrow> metadata_patch_request \<Rightarrow> problems" where
  "NamespaceLabelsPatchRequest extra b =
     (let field_problems =
        value_problems ''set'' (check_labels (mpr_set b))
        @ value_problems ''remove'' (check_label_keys (mpr_remove b)) @ extra_problems extra
      in if field_problems \<noteq> [] then field_problems else change_problems ''label'' b)"

definition NamespaceAnnotationsPatchRequest ::
  "string list \<Rightarrow> metadata_patch_request \<Rightarrow> problems" where
  "NamespaceAnnotationsPatchRequest extra b =
     (let field_problems =
        value_problems ''set'' (check_annotation_keys (keys (mpr_set b)))
        @ value_problems ''remove'' (check_annotation_keys (mpr_remove b)) @ extra_problems extra
      in if field_problems \<noteq> [] then field_problems else change_problems ''annotation'' b)"

record namespace_annotations_data =
  nsa_cluster :: string
  nsa_name :: string
  nsa_annotations :: str_map

record namespace_labels_data =
  nsl_cluster :: string
  nsl_name :: string
  nsl_labels :: str_map

record namespace_summary =
  nss_name :: string
  nss_status :: string
  nss_labels :: str_map
  nss_creation_timestamp :: "datetime option"

record namespace_list_data =
  nsld_cluster :: string
  nsld_namespaces :: "namespace_summary list"

record namespace_detail_data =
  nsd_cluster :: string
  nsd_name :: string
  nsd_status :: string
  nsd_labels :: str_map
  nsd_annotations :: str_map
  nsd_creation_timestamp :: "datetime option"
  nsd_deletion_timestamp :: "datetime option"

section \<open>Lemmas\<close>

lemma parse_effect_str [simp]: "parse_effect (effect_str e) = Some e"
  by (cases e) (simp_all add: parse_effect_def)

lemma effect_str_parse: "parse_effect s = Some e \<Longrightarrow> effect_str e = s"
  by (auto simp: parse_effect_def split: if_splits)

lemma effect_str_inject [simp]: "effect_str a = effect_str b \<longleftrightarrow> a = b"
  by (cases a; cases b) simp_all

lemma strip_node_names_clean:
  "n \<in> set (strip_node_names names) \<Longrightarrow>
     n \<noteq> [] \<and> strip n = n \<and> (\<exists>m \<in> set names. n = strip m)"
  by (auto simp: strip_node_names_def)

lemma BatchNodeRequest_ok:
  "BatchNodeRequest nodes = Inr names \<Longrightarrow>
     length names \<le> 100 \<and> (\<forall>n \<in> set names. n \<noteq> [] \<and> strip n = n)"
  by (auto simp: BatchNodeRequest_def strip_node_names_def split: if_splits
      intro: order_trans [OF length_filter_le])

lemma value_problems_eq_Nil [simp]: "value_problems f r = [] \<longleftrightarrow> r = Inr ()"
  by (cases r) (auto simp: value_problems_def)

lemma extra_problems_eq_Nil [simp]: "extra_problems e = [] \<longleftrightarrow> e = []"
  by (simp add: extra_problems_def)

lemma in_both_eq_Nil: "in_both b = [] \<longleftrightarrow> set (keys (mpr_set b)) \<inter> set (mpr_remove b) = {}"
  by (simp add: in_both_def)

lemma namespace_name_problems_eq_Nil:
  "namespace_name_problems name = [] \<longleftrightarrow> length name \<le> 63 \<and> dns_label name"
  by (simp add: namespace_name_problems_def NAMESPACE_NAME_PATTERN_def dns_label_def re_full_RName)

lemma NamespaceCreateRequest_ok:
  "NamespaceCreateRequest extra b = [] \<longleftrightarrow>
     extra = [] \<and> length (ncr_name b) \<le> 63 \<and> dns_label (ncr_name b) \<and>
     \<not> is_reserved_namespace_name (ncr_name b) \<and>
     check_labels (ncr_labels b) = Inr () \<and>
     check_annotation_keys (keys (ncr_annotations b)) = Inr ()"
  unfolding NamespaceCreateRequest_def namespace_name_problems_eq_Nil[symmetric] conj_assoc[symmetric]
  by (auto split: list.split)

lemma change_problems_eq_Nil:
  "change_problems what b = [] \<longleftrightarrow>
     (mpr_set b \<noteq> [] \<or> mpr_remove b \<noteq> []) \<and> set (keys (mpr_set b)) \<inter> set (mpr_remove b) = {}"
  by (auto simp: change_problems_def in_both_eq_Nil)

lemma NamespaceLabelsPatchRequest_ok:
  "NamespaceLabelsPatchRequest extra b = [] \<longleftrightarrow>
     extra = [] \<and> check_labels (mpr_set b) = Inr () \<and> check_label_keys (mpr_remove b) = Inr () \<and>
     (mpr_set b \<noteq> [] \<or> mpr_remove b \<noteq> []) \<and> set (keys (mpr_set b)) \<inter> set (mpr_remove b) = {}"
  by (auto simp: NamespaceLabelsPatchRequest_def Let_def change_problems_eq_Nil)

lemma NamespaceAnnotationsPatchRequest_ok:
  "NamespaceAnnotationsPatchRequest extra b = [] \<longleftrightarrow>
     extra = [] \<and> check_annotation_keys (keys (mpr_set b)) = Inr () \<and>
     check_annotation_keys (mpr_remove b) = Inr () \<and>
     (mpr_set b \<noteq> [] \<or> mpr_remove b \<noteq> []) \<and> set (keys (mpr_set b)) \<inter> set (mpr_remove b) = {}"
  by (auto simp: NamespaceAnnotationsPatchRequest_def Let_def change_problems_eq_Nil)

end
