(* ===== verification/Access_Policy.thy ===== *)
theory Access_Policy
  imports Kubernetes_Models
begin

text \<open>
  \<open>app/domain/access_policy.py\<close>: the access policy of the write actions.

  A rule as written in the users file is a \<open>rule_source\<close>; \<open>resolve\<close> is the model validator
  \<open>PolicyRule._resolve\<close>, and its result the \<open>policy_rule\<close> that requests are judged by. The
  regular-expression language of the match values is Python's own, so \<open>re.compile\<close> with
  \<open>fullmatch\<close> is an argument \<open>compile\<close>: it answers the error text of a pattern that does not
  compile, or the set of strings the pattern matches in full. Globs on action names are modelled
  (\<open>fnmatchcase\<close>).
\<close>

section \<open>Globs\<close>

text \<open>A set in brackets: single characters and ranges; a dash that cannot be a range is itself.\<close>

datatype class_item = One char | Range char char

fun class_items :: "string \<Rightarrow> class_item list" where
  "class_items (a # d # b # rest) =
     (if d = CHR ''-'' then Range a b # class_items rest else One a # class_items (d # b # rest))"
| "class_items (a # rest) = One a # class_items rest"
| "class_items [] = []"

fun in_item :: "char \<Rightarrow> class_item \<Rightarrow> bool" where
  "in_item c (One a) = (c = a)"
| "in_item c (Range a b) = (code_point a \<le> code_point c \<and> code_point c \<le> code_point b)"

text \<open>After an opening bracket: negation, the contents, and what follows the closing bracket. A
  bracket right after the opening is a member; with no closing bracket there is no set.\<close>

definition split_class :: "string \<Rightarrow> (bool \<times> string \<times> string) option" where
  "split_class s =
     (let negated = startswith s ''!'';
          s1 = removeprefix s ''!'';
          first = (if startswith s1 '']'' then '']'' else []);
          s2 = removeprefix s1 '']''
      in if CHR '']'' \<in> set s2
         then Some (negated, first @ takeWhile (\<lambda>c. c \<noteq> CHR '']'') s2,
                tl (dropWhile (\<lambda>c. c \<noteq> CHR '']'') s2))
         else None)"

lemma length_removeprefix: "length (removeprefix s p) \<le> length s"
  by (simp add: removeprefix_def)

lemma split_class_shorter: "split_class s = Some (n, cs, rest) \<Longrightarrow> length rest < Suc (length s)"
proof -
  assume "split_class s = Some (n, cs, rest)"
  then have "rest = tl (dropWhile (\<lambda>c. c \<noteq> CHR '']'') (removeprefix (removeprefix s ''!'') '']''))"
    by (auto simp: split_class_def Let_def split: if_splits)
  then have "length rest \<le> length (removeprefix (removeprefix s ''!'') '']'')"
    using length_dropWhile_le[of "\<lambda>c. c \<noteq> CHR '']''" "removeprefix (removeprefix s ''!'') '']''"] by simp
  also have "\<dots> \<le> length s"
    using length_removeprefix[of "removeprefix s ''!''" "'']''"] length_removeprefix[of s "''!''"] by simp
  finally show ?thesis by simp
qed

function glob_rexp :: "string \<Rightarrow> rexp" where
  "glob_rexp [] = REmpty"
| "glob_rexp (c # s) =
     (if c = CHR ''*'' then RSeq (RStar (RSet (\<lambda>_. True))) (glob_rexp s)
      else if c = CHR ''?'' then RSeq (RSet (\<lambda>_. True)) (glob_rexp s)
      else if c = CHR ''['' then
        (case split_class s of
           None \<Rightarrow> RSeq (RChr c) (glob_rexp s)
         | Some (negated, contents, rest) \<Rightarrow>
             RSeq (RSet (\<lambda>x. list_ex (in_item x) (class_items contents) \<noteq> negated)) (glob_rexp rest))
      else RSeq (RChr c) (glob_rexp s))"
  by pat_completeness auto
termination
  by (relation "measure length") (auto dest!: split_class_shorter)

definition fnmatchcase :: "string \<Rightarrow> string \<Rightarrow> bool" where
  "fnmatchcase name pattern = re_full (glob_rexp pattern) name"

section \<open>Actions and parameters\<close>

datatype policy_action =
    NODE_CORDON | NODE_UNCORDON | NODE_DRAIN | NODE_LABEL | NODE_ANNOTATE | NODE_TAINT
  | NAMESPACE_CREATE | NAMESPACE_LABEL | NAMESPACE_ANNOTATE

definition POLICY_ACTIONS_ALL :: "policy_action list" where
  "POLICY_ACTIONS_ALL = [NODE_CORDON, NODE_UNCORDON, NODE_DRAIN, NODE_LABEL, NODE_ANNOTATE,
     NODE_TAINT, NAMESPACE_CREATE, NAMESPACE_LABEL, NAMESPACE_ANNOTATE]"

fun action_str :: "policy_action \<Rightarrow> string" where
  "action_str NODE_CORDON = ''node.cordon''"
| "action_str NODE_UNCORDON = ''node.uncordon''"
| "action_str NODE_DRAIN = ''node.drain''"
| "action_str NODE_LABEL = ''node.label''"
| "action_str NODE_ANNOTATE = ''node.annotate''"
| "action_str NODE_TAINT = ''node.taint''"
| "action_str NAMESPACE_CREATE = ''namespace.create''"
| "action_str NAMESPACE_LABEL = ''namespace.label''"
| "action_str NAMESPACE_ANNOTATE = ''namespace.annotate''"

text \<open>\<open>PolicyAction(s)\<close>: \<open>None\<close> is the \<open>ValueError\<close>.\<close>

definition parse_action :: "string \<Rightarrow> policy_action option" where
  "parse_action s = find (\<lambda>a. action_str a = s) POLICY_ACTIONS_ALL"

datatype policy_param = CLUSTER | NODE | NAMESPACE

fun param_str :: "policy_param \<Rightarrow> string" where
  "param_str CLUSTER = ''cluster''"
| "param_str NODE = ''node''"
| "param_str NAMESPACE = ''namespace''"

definition parse_param :: "string \<Rightarrow> policy_param option" where
  "parse_param s = find (\<lambda>p. param_str p = s) [CLUSTER, NODE, NAMESPACE]"

definition POLICY_ACTIONS :: "policy_action \<Rightarrow> policy_param set" where
  "POLICY_ACTIONS a =
     (if a \<in> {NAMESPACE_CREATE, NAMESPACE_LABEL, NAMESPACE_ANNOTATE} then {CLUSTER, NAMESPACE}
      else {CLUSTER, NODE})"

type_synonym policy_params = "(policy_param, string option) dict"

text \<open>\<open>_names\<close>: sorted plain strings of a set of actions or parameters.\<close>

definition action_names :: "policy_action set \<Rightarrow> string list" where
  "action_names as = sorted_list_of_set (action_str ` as)"

definition param_names :: "policy_param set \<Rightarrow> string list" where
  "param_names ps = sorted_list_of_set (param_str ` ps)"

section \<open>Rules\<close>

datatype rule_effect = Allow | Deny

record rule_source =
  rs_id :: string
  rs_description :: "string option"
  rs_actions :: "string list"
  rs_effect :: rule_effect
  rs_match :: "(string, string) dict"

record policy_rule =
  rule_id :: string
  rule_description :: "string option"
  effect_of :: rule_effect
  targets_of :: "policy_action set"
  patterns_of :: "(policy_param, string \<Rightarrow> bool) dict"

type_synonym regex_engine = "string \<Rightarrow> string + (string \<Rightarrow> bool)"

definition rule_prefix :: "rule_source \<Rightarrow> string" where
  "rule_prefix r = ''rule '' @ quoted (rs_id r) @ '': ''"

definition hits :: "string \<Rightarrow> policy_action set" where
  "hits pattern = set (filter (\<lambda>a. fnmatchcase (action_str a) pattern) POLICY_ACTIONS_ALL)"

fun resolve_targets :: "rule_source \<Rightarrow> string list \<Rightarrow> string + policy_action set" where
  "resolve_targets r [] = Inr {}"
| "resolve_targets r (pattern # ps) =
     (if hits pattern = {}
      then Inl (rule_prefix r @ ''action '' @ quoted pattern @ '' matches no policed action (known: ''
             @ repr_list (action_names (set POLICY_ACTIONS_ALL)) @ '')'')
      else (case resolve_targets r ps of Inl e \<Rightarrow> Inl e | Inr ts \<Rightarrow> Inr (hits pattern \<union> ts)))"

definition carried :: "policy_action set \<Rightarrow> policy_param set" where
  "carried targets = \<Union> (POLICY_ACTIONS ` targets)"

fun check_match_keys :: "rule_source \<Rightarrow> policy_action set \<Rightarrow> string list \<Rightarrow> string + unit" where
  "check_match_keys r targets [] = Inr ()"
| "check_match_keys r targets (key # ks) =
     (if key \<notin> param_str ` carried targets
      then Inl (rule_prefix r @ ''match key '' @ quoted key @ '' is not a parameter of ''
             @ repr_list (action_names targets) @ '' (known: ''
             @ repr_list (param_names (carried targets)) @ '')'')
      else check_match_keys r targets ks)"

fun compile_patterns ::
  "regex_engine \<Rightarrow> rule_source \<Rightarrow> (string, string) dict \<Rightarrow>
   string + (policy_param, string \<Rightarrow> bool) dict" where
  "compile_patterns compile r [] = Inr []"
| "compile_patterns compile r ((key, regex) # m) =
     (case compile regex of
        Inl exc \<Rightarrow> Inl (rule_prefix r @ ''invalid regex for '' @ quoted key @ '': '' @ repr_str regex
                       @ '' ('' @ exc @ '')'')
      | Inr pattern \<Rightarrow>
          (case compile_patterns compile r m of
             Inl e \<Rightarrow> Inl e
           | Inr ps \<Rightarrow>
               (case parse_param key of
                  None \<Rightarrow> Inl (quoted key @ '' is not a valid PolicyParam'')
                | Some p \<Rightarrow> Inr ((p, pattern) # ps))))"

definition resolve :: "regex_engine \<Rightarrow> rule_source \<Rightarrow> string + policy_rule" where
  "resolve compile r =
     (case resolve_targets r (rs_actions r) of
        Inl e \<Rightarrow> Inl e
      | Inr targets \<Rightarrow>
          (case check_match_keys r targets (keys (rs_match r)) of
             Inl e \<Rightarrow> Inl e
           | Inr _ \<Rightarrow>
               (case compile_patterns compile r (rs_match r) of
                  Inl e \<Rightarrow> Inl e
                | Inr patterns \<Rightarrow> Inr
                    \<lparr>rule_id = rs_id r, rule_description = rs_description r,
                     effect_of = rs_effect r, targets_of = targets, patterns_of = patterns\<rparr>)))"

definition applies_to :: "policy_rule \<Rightarrow> policy_action \<Rightarrow> bool" where
  "applies_to rule action = (action \<in> targets_of rule)"

definition param_value :: "policy_params \<Rightarrow> policy_param \<Rightarrow> string option" where
  "param_value params key = (case dict_get params key of None \<Rightarrow> None | Some v \<Rightarrow> v)"

definition rule_matches :: "policy_rule \<Rightarrow> policy_params \<Rightarrow> bool" where
  "rule_matches rule params =
     list_all (\<lambda>(key, pattern).
       (case param_value params key of None \<Rightarrow> False | Some value \<Rightarrow> pattern value))
       (patterns_of rule)"

section \<open>Decisions\<close>

record access_policies =
  ap_account :: string
  global_rules :: "policy_rule list"
  user_rules :: "policy_rule list"

datatype layer = Global | UserLayer

record policy_decision =
  pd_allowed :: bool
  pd_reason :: string
  pd_layer :: "layer option"
  pd_rule_id :: "string option"

definition ALLOWED :: policy_decision where
  "ALLOWED = \<lparr>pd_allowed = True, pd_reason = [], pd_layer = None, pd_rule_id = None\<rparr>"

definition describe :: "policy_params \<Rightarrow> string" where
  "describe params = join '', '' (concat (map (\<lambda>(k, v).
     (case v of None \<Rightarrow> [] | Some x \<Rightarrow> [param_str k @ ''='' @ quoted x])) params))"

definition where_text :: "layer \<Rightarrow> string \<Rightarrow> string" where
  "where_text l account =
     (case l of Global \<Rightarrow> ''global policy'' | UserLayer \<Rightarrow> ''policy of user '' @ quoted account)"

definition deny_reason :: "layer \<Rightarrow> string \<Rightarrow> policy_action \<Rightarrow> policy_params \<Rightarrow> policy_rule \<Rightarrow> string"
where
  "deny_reason l account action params rule =
     action_str action @ '' denied by '' @ where_text l account @ '' rule '' @ quoted (rule_id rule)
     @ '' ('' @ describe params @ '')''
     @ (case rule_description rule of None \<Rightarrow> [] | Some d \<Rightarrow> (if d = [] then [] else '': '' @ d))"

definition miss_reason ::
  "layer \<Rightarrow> string \<Rightarrow> policy_action \<Rightarrow> policy_params \<Rightarrow> policy_rule list \<Rightarrow> string" where
  "miss_reason l account action params allows =
     action_str action @ '' denied: no allow rule in '' @ where_text l account @ '' permits ''
     @ describe params @ '' (allowed by: '' @ repr_list (map rule_id allows) @ '')''"

definition evaluate_layer ::
  "policy_rule list \<Rightarrow> layer \<Rightarrow> string \<Rightarrow> policy_action \<Rightarrow> policy_params \<Rightarrow> policy_decision" where
  "evaluate_layer rules l account action params =
     (let applicable = filter (\<lambda>r. applies_to r action) rules
      in case find (\<lambda>r. effect_of r = Deny \<and> rule_matches r params) applicable of
           Some rule \<Rightarrow>
             \<lparr>pd_allowed = False, pd_reason = deny_reason l account action params rule, pd_layer = Some l,
              pd_rule_id = Some (rule_id rule)\<rparr>
         | None \<Rightarrow>
             (let allows = filter (\<lambda>r. effect_of r = Allow) applicable
              in if allows \<noteq> [] \<and> \<not> list_ex (\<lambda>r. rule_matches r params) allows
                 then \<lparr>pd_allowed = False, pd_reason = miss_reason l account action params allows,
                       pd_layer = Some l, pd_rule_id = None\<rparr>
                 else ALLOWED))"

text \<open>\<open>evaluate\<close> converts its action; a string that names none is the \<open>ValueError\<close>.\<close>

definition evaluate ::
  "access_policies \<Rightarrow> string \<Rightarrow> policy_params \<Rightarrow> exn + policy_decision" where
  "evaluate policies action_value params =
     (case parse_action action_value of
        None \<Rightarrow> Inl (PyError ''ValueError'')
      | Some action \<Rightarrow>
          (let d1 = evaluate_layer (global_rules policies) Global (ap_account policies) action params
           in if \<not> pd_allowed d1 then Inr d1
              else (let d2 = evaluate_layer (user_rules policies) UserLayer (ap_account policies)
                          action params
                    in if \<not> pd_allowed d2 then Inr d2 else Inr ALLOWED)))"

section \<open>Lemmas\<close>

lemma parse_action_str [simp]: "parse_action (action_str a) = Some a"
  by (cases a) (simp_all add: parse_action_def POLICY_ACTIONS_ALL_def)

lemma parse_action_Some: "parse_action s = Some a \<longleftrightarrow> s = action_str a"
proof
  assume "parse_action s = Some a"
  then show "s = action_str a" by (auto simp: parse_action_def find_Some_iff)
qed simp

lemma parse_param_str [simp]: "parse_param (param_str p) = Some p"
  by (cases p) (simp_all add: parse_param_def)

lemma all_actions [simp]: "a \<in> set POLICY_ACTIONS_ALL"
  by (cases a) (simp_all add: POLICY_ACTIONS_ALL_def)

text \<open>One layer, as the file header describes it.\<close>

definition permits :: "policy_rule list \<Rightarrow> policy_action \<Rightarrow> policy_params \<Rightarrow> bool" where
  "permits rules action params \<longleftrightarrow>
     \<not> (\<exists>r \<in> set rules. action \<in> targets_of r \<and> effect_of r = Deny \<and> rule_matches r params) \<and>
     ((\<exists>r \<in> set rules. action \<in> targets_of r \<and> effect_of r = Allow) \<longrightarrow>
      (\<exists>r \<in> set rules. action \<in> targets_of r \<and> effect_of r = Allow \<and> rule_matches r params))"

lemma evaluate_layer_allowed:
  "pd_allowed (evaluate_layer rules l account action params) \<longleftrightarrow> permits rules action params"
proof (cases "find (\<lambda>r. effect_of r = Deny \<and> rule_matches r params)
    (filter (\<lambda>r. applies_to r action) rules)")
  case None
  then have no_deny: "\<not> (\<exists>r \<in> set rules. action \<in> targets_of r \<and> effect_of r = Deny \<and>
      rule_matches r params)"
    by (auto simp: find_None_iff applies_to_def)
  with None show ?thesis
    by (auto simp: evaluate_layer_def permits_def Let_def applies_to_def list_ex_iff
        filter_empty_conv ALLOWED_def)
next
  case (Some rule)
  then have "rule \<in> set rules \<and> action \<in> targets_of rule \<and> effect_of rule = Deny \<and>
      rule_matches rule params"
    by (auto simp: applies_to_def dest!: find_SomeD)
  with Some show ?thesis by (auto simp: evaluate_layer_def permits_def Let_def)
qed

lemma evaluate_layer_ALLOWED:
  "pd_allowed (evaluate_layer rules l account action params) \<Longrightarrow>
     evaluate_layer rules l account action params = ALLOWED"
  by (auto simp: evaluate_layer_def Let_def split: option.splits if_splits)

lemma permits_Nil [simp]: "permits [] action params"
  by (simp add: permits_def)

lemma evaluate_eq:
  "evaluate policies (action_str action) params =
     Inr (if \<not> permits (global_rules policies) action params
          then evaluate_layer (global_rules policies) Global (ap_account policies) action params
          else if \<not> permits (user_rules policies) action params
          then evaluate_layer (user_rules policies) UserLayer (ap_account policies) action params
          else ALLOWED)"
  by (simp add: evaluate_def evaluate_layer_allowed Let_def)

text \<open>A denial names the layer it comes from, and a deny rule that fires is one of that layer.\<close>

lemma evaluate_layer_denied:
  assumes "\<not> pd_allowed (evaluate_layer rules l account action params)"
  shows "pd_layer (evaluate_layer rules l account action params) = Some l"
    and "pd_rule_id (evaluate_layer rules l account action params) = Some i \<Longrightarrow>
      \<exists>r \<in> set rules. rule_id r = i \<and> effect_of r = Deny \<and> action \<in> targets_of r \<and>
        rule_matches r params"
  using assms
  by (auto simp: evaluate_layer_def Let_def applies_to_def ALLOWED_def
      split: option.splits if_splits dest!: find_SomeD)

text \<open>What resolution guarantees of a rule.\<close>

lemma resolve_targets_Inr:
  "resolve_targets r ps = Inr ts \<Longrightarrow> (\<forall>p \<in> set ps. hits p \<noteq> {}) \<and> ts = (\<Union>p \<in> set ps. hits p)"
  by (induction r ps arbitrary: ts rule: resolve_targets.induct) (auto split: if_splits sum.splits)

lemma check_match_keys_Inr:
  "check_match_keys r targets ks = Inr () \<longleftrightarrow> set ks \<subseteq> param_str ` carried targets"
  by (induction r targets ks rule: check_match_keys.induct) auto

lemma compile_patterns_Inr:
  "compile_patterns compile r m = Inr ps \<Longrightarrow>
     map (\<lambda>(p, f). (param_str p, f)) ps = map (\<lambda>(k, x). (k, projr (compile x))) m \<and>
     (\<forall>(k, x) \<in> set m. isl (compile x) = False)"
proof (induction compile r m arbitrary: ps rule: compile_patterns.induct)
  case (2 compile r key regex m)
  then show ?case
    by (auto simp: parse_param_def split: sum.splits option.splits if_splits)
qed simp

lemma resolve_Inr:
  assumes "resolve compile r = Inr rule"
  shows "rs_actions r \<noteq> [] \<Longrightarrow> targets_of rule \<noteq> {}"
    and "targets_of rule = (\<Union>p \<in> set (rs_actions r). hits p)"
    and "\<forall>p \<in> set (rs_actions r). hits p \<noteq> {}"
    and "set (map fst (patterns_of rule)) \<subseteq> carried (targets_of rule)"
    and "map (\<lambda>(p, f). (param_str p, f)) (patterns_of rule) =
      map (\<lambda>(k, x). (k, projr (compile x))) (rs_match r)"
proof -
  obtain ts where ts: "resolve_targets r (rs_actions r) = Inr ts"
    using assms by (auto simp: resolve_def split: sum.splits)
  then have keys_ok: "set (keys (rs_match r)) \<subseteq> param_str ` carried ts"
    using assms by (auto simp: resolve_def check_match_keys_Inr split: sum.splits)
  obtain ps where ps: "compile_patterns compile r (rs_match r) = Inr ps"
    using assms ts by (auto simp: resolve_def split: sum.splits)
  then have rule: "targets_of rule = ts" "patterns_of rule = ps"
    using assms ts by (auto simp: resolve_def split: sum.splits)
  note ts' = resolve_targets_Inr[OF ts] and ps' = compile_patterns_Inr[OF ps]
  show "targets_of rule = (\<Union>p \<in> set (rs_actions r). hits p)"
    and "\<forall>p \<in> set (rs_actions r). hits p \<noteq> {}"
    using ts' rule by auto
  show "targets_of rule \<noteq> {}" if "rs_actions r \<noteq> []"
    using ts' rule that by (cases "rs_actions r") auto
  show "map (\<lambda>(p, f). (param_str p, f)) (patterns_of rule) =
      map (\<lambda>(k, x). (k, projr (compile x))) (rs_match r)"
    using ps' rule by simp
  then have "map fst (map (\<lambda>(p, f). (param_str p, f)) ps) =
      map fst (map (\<lambda>(k, x). (k, projr (compile x))) (rs_match r))"
    using rule by simp
  then have "map param_str (map fst ps) = keys (rs_match r)"
    by (simp add: keys_def comp_def case_prod_beta)
  with keys_ok have "param_str ` set (map fst ps) \<subseteq> param_str ` carried ts"
    by (metis list.set_map)
  moreover have "inj param_str" by (rule injI) (metis option.inject parse_param_str)
  ultimately show "set (map fst (patterns_of rule)) \<subseteq> carried (targets_of rule)"
    using rule by (simp add: inj_image_subset_iff)
qed

end
