(* ===== verification/Users_Document.thy ===== *)
theory Users_Document
  imports Access_Policy Domain_Models
begin

text \<open>
  \<open>app/domain/users_document.py\<close>: the schema of the users file, accounts and access policy, checked
  in one pass that reports every problem.

  The three models of the file are validators from a decoded JSON value to the model or to the list
  of its problems, each a location and a message. They follow pydantic, which checks the declared
  fields in order, collects every error, refuses unknown keys last, and runs a model's own validator
  only when nothing else failed; a list or mapping reports the errors of all its items. The message
  texts are pydantic's. The regular expressions of the rules are compiled by the argument
  \<open>compile\<close> of \<open>Access_Policy.resolve\<close>.
\<close>

section \<open>Validation that collects problems\<close>

type_synonym problem = "string list \<times> string"
type_synonym 'a checked = "problem list + 'a"

definition fault :: "string \<Rightarrow> 'a checked" where
  "fault message = Inl [([], message)]"

definition at_loc :: "string \<Rightarrow> 'a checked \<Rightarrow> 'a checked" where
  "at_loc part r = (case r of Inl ps \<Rightarrow> Inl (map (\<lambda>(loc, m). (part # loc, m)) ps) | Inr x \<Rightarrow> Inr x)"

definition both_checked :: "'a checked \<Rightarrow> 'b checked \<Rightarrow> ('a \<times> 'b) checked" where
  "both_checked r q =
     (case (r, q) of
        (Inr x, Inr y) \<Rightarrow> Inr (x, y)
      | (Inl ps, Inr _) \<Rightarrow> Inl ps
      | (Inr _, Inl qs) \<Rightarrow> Inl qs
      | (Inl ps, Inl qs) \<Rightarrow> Inl (ps @ qs))"

definition map_checked :: "('a \<Rightarrow> 'b) \<Rightarrow> 'a checked \<Rightarrow> 'b checked" where
  "map_checked f r = (case r of Inl ps \<Rightarrow> Inl ps | Inr x \<Rightarrow> Inr (f x))"

fun items_checked :: "('a \<Rightarrow> string \<times> 'b checked) \<Rightarrow> 'a list \<Rightarrow> 'b list checked" where
  "items_checked f [] = Inr []"
| "items_checked f (x # xs) =
     map_checked (\<lambda>(y, ys). y # ys)
       (both_checked (case f x of (part, r) \<Rightarrow> at_loc part r) (items_checked f xs))"

definition str_field :: "json \<Rightarrow> string checked" where
  "str_field v =
     (case v of JStr s \<Rightarrow> Inr s | _ \<Rightarrow> fault ''Input should be a valid string'')"

definition nonempty_str :: "json \<Rightarrow> string checked" where
  "nonempty_str v =
     (case str_field v of
        Inl ps \<Rightarrow> Inl ps
      | Inr s \<Rightarrow> (if s = [] then fault ''String should have at least 1 character'' else Inr s))"

definition opt_str_field :: "json \<Rightarrow> string option checked" where
  "opt_str_field v = (if v = JNull then Inr None else map_checked Some (str_field v))"

definition list_field :: "(json \<Rightarrow> 'a checked) \<Rightarrow> json \<Rightarrow> 'a list checked" where
  "list_field f v =
     (case v of
        JList xs \<Rightarrow> items_checked (\<lambda>(i, x). (str_of_nat i, f x)) (enumerate 0 xs)
      | _ \<Rightarrow> fault ''Input should be a valid list'')"

definition nonempty_list :: "(json \<Rightarrow> 'a checked) \<Rightarrow> json \<Rightarrow> 'a list checked" where
  "nonempty_list f v =
     (case list_field f v of
        Inl ps \<Rightarrow> Inl ps
      | Inr xs \<Rightarrow> (if xs = []
                  then fault ''List should have at least 1 item after validation, not 0'' else Inr xs))"

definition nonempty_str_dict :: "json \<Rightarrow> (string, string) dict checked" where
  "nonempty_str_dict v =
     (case v of
        JObj entries \<Rightarrow>
          (case items_checked (\<lambda>(k, x). (k, map_checked (Pair k) (str_field x))) entries of
             Inl ps \<Rightarrow> Inl ps
           | Inr d \<Rightarrow> (if d = []
               then fault ''Dictionary should have at least 1 item after validation, not 0''
               else Inr d))
      | _ \<Rightarrow> fault ''Input should be a valid dictionary'')"

definition required :: "(string, json) dict \<Rightarrow> string \<Rightarrow> (json \<Rightarrow> 'a checked) \<Rightarrow> 'a checked" where
  "required obj key f =
     at_loc key (case dict_get obj key of None \<Rightarrow> fault ''Field required'' | Some v \<Rightarrow> f v)"

definition defaulted ::
  "(string, json) dict \<Rightarrow> string \<Rightarrow> 'a \<Rightarrow> (json \<Rightarrow> 'a checked) \<Rightarrow> 'a checked" where
  "defaulted obj key d f = (case dict_get obj key of None \<Rightarrow> Inr d | Some v \<Rightarrow> at_loc key (f v))"

text \<open>The free-text comment is read under its alias, or else under its own name.\<close>

definition comment_key :: "(string, json) dict \<Rightarrow> string" where
  "comment_key obj = (if dict_get obj ''$comment'' \<noteq> None then ''$comment'' else ''comment'')"

definition refuse_extra :: "(string, json) dict \<Rightarrow> string list \<Rightarrow> 'a checked \<Rightarrow> 'a checked" where
  "refuse_extra obj known r =
     (let extra = filter (\<lambda>k. k \<notin> set known) (keys obj)
      in if extra = [] then r
         else (let ps = map (\<lambda>k. ([k], ''Extra inputs are not permitted'')) extra
               in case r of Inl qs \<Rightarrow> Inl (qs @ ps) | Inr _ \<Rightarrow> Inl ps))"

definition object_of :: "string \<Rightarrow> ((string, json) dict \<Rightarrow> 'a checked) \<Rightarrow> json \<Rightarrow> 'a checked" where
  "object_of model f v =
     (case v of
        JObj obj \<Rightarrow> f obj
      | _ \<Rightarrow> fault (''Input should be a valid dictionary or instance of '' @ model))"

section \<open>The models\<close>

definition effect_field :: "json \<Rightarrow> rule_effect checked" where
  "effect_field v =
     (if v = JStr ''allow'' then Inr Allow else if v = JStr ''deny'' then Inr Deny
      else fault (''Input should be '' @ quoted ''allow'' @ '' or '' @ quoted ''deny''))"

definition rule_fields :: "(string, json) dict \<Rightarrow> rule_source checked" where
  "rule_fields obj =
     refuse_extra obj [comment_key obj, ''id'', ''description'', ''actions'', ''effect'', ''match'']
       (map_checked
          (\<lambda>(comment, i, description, actions, eff, match).
             \<lparr>rs_id = i, rs_description = description, rs_actions = actions, rs_effect = eff,
              rs_match = match\<rparr>)
          (both_checked (defaulted obj (comment_key obj) None opt_str_field)
          (both_checked (required obj ''id'' nonempty_str)
          (both_checked (defaulted obj ''description'' None opt_str_field)
          (both_checked (required obj ''actions'' (nonempty_list str_field))
          (both_checked (required obj ''effect'' effect_field)
             (required obj ''match'' nonempty_str_dict)))))))"

definition rule_entry :: "regex_engine \<Rightarrow> json \<Rightarrow> policy_rule checked" where
  "rule_entry compile =
     object_of ''PolicyRule'' (\<lambda>obj.
       (case rule_fields obj of
          Inl ps \<Rightarrow> Inl ps
        | Inr r \<Rightarrow> (case resolve compile r of
                     Inl m \<Rightarrow> fault (''Value error, '' @ m) | Inr rule \<Rightarrow> Inr rule)))"

text \<open>\<open>_BCRYPT_PATTERN\<close>.\<close>

definition is_digit :: "char \<Rightarrow> bool" where
  "is_digit c = (48 \<le> code_point c \<and> code_point c \<le> 57)"

definition BCRYPT_PATTERN :: rexp where
  "BCRYPT_PATTERN =
     (let digit = RSet is_digit; dollar = RChr CHR ''$'';
          tail = RSet (\<lambda>c. is_alnum c \<or> c = CHR ''.'' \<or> c = CHR ''/'')
      in RSeq dollar (RSeq (RChr CHR ''2'')
           (RSeq (RSet (\<lambda>c. c = CHR ''a'' \<or> c = CHR ''b'' \<or> c = CHR ''y''))
              (RSeq dollar (RSeq digit (RSeq digit (RSeq dollar
                 (foldr RSeq (replicate 53 tail) REmpty))))))))"

definition is_bcrypt :: "string \<Rightarrow> bool" where
  "is_bcrypt value = re_full BCRYPT_PATTERN value"

definition hash_field :: "json \<Rightarrow> string checked" where
  "hash_field v =
     (case str_field v of
        Inl ps \<Rightarrow> Inl ps
      | Inr s \<Rightarrow> (if is_bcrypt s then Inr s
          else fault (''Value error, is not a bcrypt hash - generate one with ''
                      @ ''`make hash p=<password>`'')))"

record user_entry =
  ue_account :: string
  ue_hashed_password :: string
  ue_scopes :: "string list"
  ue_policies :: "policy_rule list"

definition user_entry_of :: "regex_engine \<Rightarrow> json \<Rightarrow> user_entry checked" where
  "user_entry_of compile =
     object_of ''UserEntry'' (\<lambda>obj.
       refuse_extra obj
         [''account'', ''hashed_password'', ''scopes'', comment_key obj, ''policies'']
         (map_checked
            (\<lambda>(account, hash, scopes, comment, policies).
               \<lparr>ue_account = account, ue_hashed_password = hash, ue_scopes = scopes,
                ue_policies = policies\<rparr>)
            (both_checked (required obj ''account'' nonempty_str)
            (both_checked (required obj ''hashed_password'' hash_field)
            (both_checked (defaulted obj ''scopes'' [] (list_field str_field))
            (both_checked (defaulted obj (comment_key obj) None opt_str_field)
               (defaulted obj ''policies'' [] (list_field (rule_entry compile)))))))))"

record users_document =
  doc_policies :: "policy_rule list"
  doc_users :: "user_entry list"

definition users_document_of :: "regex_engine \<Rightarrow> (string, json) dict \<Rightarrow> users_document checked" where
  "users_document_of compile obj =
     refuse_extra obj [comment_key obj, ''policies'', ''users'']
       (map_checked (\<lambda>(comment, policies, users). \<lparr>doc_policies = policies, doc_users = users\<rparr>)
          (both_checked (defaulted obj (comment_key obj) None opt_str_field)
          (both_checked (defaulted obj ''policies'' [] (list_field (rule_entry compile)))
             (defaulted obj ''users'' [] (list_field (user_entry_of compile))))))"

section \<open>The checks across entries\<close>

definition entries :: "json option \<Rightarrow> (string, json) dict list" where
  "entries value =
     (case value of
        Some (JList xs) \<Rightarrow> concat (map (\<lambda>e. case e of JObj obj \<Rightarrow> [obj] | _ \<Rightarrow> []) xs)
      | _ \<Rightarrow> [])"

definition dupes :: "json option list \<Rightarrow> string list" where
  "dupes values =
     (let named = concat (map (\<lambda>v. case v of Some (JStr s) \<Rightarrow> [s] | _ \<Rightarrow> []) values)
      in sorted_list_of_set (set (filter (\<lambda>v. 1 < count_list named v) named)))"

definition duplicates :: "(string, json) dict \<Rightarrow> string list" where
  "duplicates raw =
     (let users = entries (dict_get raw ''users'');
          accounts = dupes (map (\<lambda>u. dict_get u ''account'') users);
          rules = entries (dict_get raw ''policies'')
            @ concat (map (\<lambda>u. entries (dict_get u ''policies'')) users);
          ids = dupes (map (\<lambda>r. dict_get r ''id'') rules)
      in (if accounts \<noteq> [] then [''users: duplicate account(s): '' @ repr_list accounts] else []) @
         (if ids \<noteq> [] then [''policies: duplicate policy rule id(s): '' @ repr_list ids] else []))"

definition describe_problem :: "problem \<Rightarrow> string" where
  "describe_problem p =
     (case p of (loc, message) \<Rightarrow>
        (let joined = join ''.'' loc in if joined = [] then ''<file>'' else joined)
        @ '': '' @ removeprefix message ''Value error, '')"

text \<open>\<open>parse_users_document\<close>: the problems, or the document.\<close>

definition parse_users_document :: "regex_engine \<Rightarrow> json \<Rightarrow> string list + users_document" where
  "parse_users_document compile raw =
     (case (case raw of JList us \<Rightarrow> JObj [(''users'', JList us)] | _ \<Rightarrow> raw) of
        JObj obj \<Rightarrow>
          (case users_document_of compile obj of
             Inl ps \<Rightarrow> Inl (map describe_problem ps @ duplicates obj)
           | Inr doc \<Rightarrow> (if duplicates obj \<noteq> [] then Inl (duplicates obj) else Inr doc))
      | _ \<Rightarrow> Inl [''<file>: must be a list of users or an object with '' @ quoted ''users''])"

section \<open>What a successful validation gives\<close>

lemma map_checked_Inr [simp]: "map_checked f r = Inr y \<longleftrightarrow> (\<exists>x. r = Inr x \<and> y = f x)"
  by (auto simp: map_checked_def split: sum.splits)

lemma both_checked_Inr [simp]: "both_checked r q = Inr z \<longleftrightarrow> r = Inr (fst z) \<and> q = Inr (snd z)"
  by (cases z) (auto simp: both_checked_def split: sum.splits)

lemma at_loc_Inr [simp]: "at_loc part r = Inr x \<longleftrightarrow> r = Inr x"
  by (auto simp: at_loc_def split: sum.splits)

lemma fault_Inr [simp]: "fault m \<noteq> Inr x"
  by (simp add: fault_def)

lemma refuse_extra_Inr [simp]:
  "refuse_extra obj known r = Inr x \<longleftrightarrow> r = Inr x \<and> set (keys obj) \<subseteq> set known"
  by (auto simp: refuse_extra_def Let_def filter_empty_conv split: sum.splits)

lemma required_Inr [simp]:
  "required obj key f = Inr x \<longleftrightarrow> (\<exists>v. dict_get obj key = Some v \<and> f v = Inr x)"
  by (auto simp: required_def split: option.splits)

lemma defaulted_Inr [simp]:
  "defaulted obj key d f = Inr x \<longleftrightarrow>
     (case dict_get obj key of None \<Rightarrow> x = d | Some v \<Rightarrow> f v = Inr x)"
  by (auto simp: defaulted_def split: option.splits)

lemma object_of_Inr [simp]:
  "object_of model f v = Inr x \<longleftrightarrow> (\<exists>obj. v = JObj obj \<and> f obj = Inr x)"
  by (auto simp: object_of_def split: json.splits)

lemma str_field_Inr [simp]: "str_field v = Inr s \<longleftrightarrow> v = JStr s"
  by (auto simp: str_field_def split: json.splits)

lemma nonempty_str_Inr [simp]: "nonempty_str v = Inr s \<longleftrightarrow> v = JStr s \<and> s \<noteq> []"
  by (auto simp: nonempty_str_def str_field_def fault_def split: json.splits)

lemma hash_field_Inr [simp]: "hash_field v = Inr s \<longleftrightarrow> v = JStr s \<and> is_bcrypt s"
  by (auto simp: hash_field_def str_field_def fault_def split: json.splits)

lemma items_checked_Inr:
  "items_checked f xs = Inr ys \<longleftrightarrow> list_all2 (\<lambda>x y. snd (f x) = Inr y) xs ys"
proof (induction xs arbitrary: ys)
  case (Cons x xs)
  then show ?case by (cases ys) (auto split: prod.splits)
qed auto

lemma list_field_Inr [simp]:
  "list_field f v = Inr ys \<longleftrightarrow> (\<exists>xs. v = JList xs \<and> list_all2 (\<lambda>x y. f x = Inr y) xs ys)"
proof -
  have "list_all2 (\<lambda>x y. snd (case x of (i, x) \<Rightarrow> (str_of_nat i, f x)) = Inr y) (enumerate n xs) ys \<longleftrightarrow>
      list_all2 (\<lambda>x y. f x = Inr y) xs ys" for n xs
    by (induction xs arbitrary: n ys) (auto simp: list_all2_Cons1)
  then show ?thesis by (auto simp: list_field_def items_checked_Inr split: json.splits)
qed

lemma nonempty_list_Inr [simp]:
  "nonempty_list f v = Inr ys \<longleftrightarrow> list_field f v = Inr ys \<and> ys \<noteq> []"
  by (cases "list_field f v") (auto simp: nonempty_list_def simp del: list_field_Inr)

lemma nonempty_str_dict_ne: "nonempty_str_dict v = Inr d \<Longrightarrow> d \<noteq> []"
  by (auto simp: nonempty_str_dict_def split: json.splits sum.splits if_splits)

text \<open>A rule of an accepted document is the resolution of a rule with an id, actions and a match.\<close>

definition sound_rule :: "regex_engine \<Rightarrow> policy_rule \<Rightarrow> bool" where
  "sound_rule compile p \<longleftrightarrow>
     rule_id p \<noteq> [] \<and> (\<exists>r. resolve compile r = Inr p \<and> rs_actions r \<noteq> [] \<and> rs_match r \<noteq> [])"

lemma resolve_id: "resolve compile r = Inr p \<Longrightarrow> rule_id p = rs_id r"
  by (auto simp: resolve_def split: sum.splits)

lemma rule_entry_Inr:
  assumes "rule_entry compile v = Inr p"
  shows "\<exists>obj. v = JObj obj \<and> dict_get obj ''id'' = Some (JStr (rule_id p)) \<and> sound_rule compile p"
proof -
  obtain obj where v: "v = JObj obj" and rule: "(case rule_fields obj of Inl ps \<Rightarrow> Inl ps
      | Inr r \<Rightarrow> (case resolve compile r of
          Inl m \<Rightarrow> fault (''Value error, '' @ m) | Inr rule \<Rightarrow> Inr rule)) = Inr p"
    using assms by (auto simp: rule_entry_def)
  then obtain r where r: "rule_fields obj = Inr r" and p: "resolve compile r = Inr p"
    by (cases "rule_fields obj"; cases "resolve compile (projr (rule_fields obj))") auto
  then have "dict_get obj ''id'' = Some (JStr (rs_id r))" "rs_id r \<noteq> []" "rs_actions r \<noteq> []"
    "rs_match r \<noteq> []"
    by (auto simp: rule_fields_def dest: nonempty_str_dict_ne)
  with v p resolve_id[OF p] show ?thesis by (auto simp: sound_rule_def)
qed

lemma policies_of_field:
  assumes "defaulted obj ''policies'' [] (list_field (rule_entry compile)) = Inr ps"
  shows "map (\<lambda>r. dict_get r ''id'') (entries (dict_get obj ''policies'')) = map (Some \<circ> JStr \<circ> rule_id) ps"
    and "\<forall>p \<in> set ps. sound_rule compile p"
proof -
  have rules: "map (\<lambda>r. dict_get r ''id'') (entries (Some (JList xs))) = map (Some \<circ> JStr \<circ> rule_id) ps \<and>
      (\<forall>p \<in> set ps. sound_rule compile p)"
    if "list_all2 (\<lambda>x y. rule_entry compile x = Inr y) xs ps" for xs
    using that
  proof (induction rule: list_all2_induct)
    case Nil
    then show ?case by (simp add: entries_def)
  next
    case (Cons x xs p ps)
    from rule_entry_Inr[OF Cons(1)] Cons(3) show ?case by (auto simp: entries_def)
  qed
  show "map (\<lambda>r. dict_get r ''id'') (entries (dict_get obj ''policies'')) = map (Some \<circ> JStr \<circ> rule_id) ps"
    and "\<forall>p \<in> set ps. sound_rule compile p"
    using assms rules by (auto simp: entries_def split: option.splits)
qed

definition sound_user :: "regex_engine \<Rightarrow> user_entry \<Rightarrow> bool" where
  "sound_user compile u \<longleftrightarrow> ue_account u \<noteq> [] \<and> is_bcrypt (ue_hashed_password u) \<and>
     (\<forall>p \<in> set (ue_policies u). sound_rule compile p)"

lemma user_entry_Inr:
  assumes "user_entry_of compile v = Inr u"
  shows "\<exists>obj. v = JObj obj \<and> dict_get obj ''account'' = Some (JStr (ue_account u)) \<and>
    map (\<lambda>r. dict_get r ''id'') (entries (dict_get obj ''policies'')) =
      map (Some \<circ> JStr \<circ> rule_id) (ue_policies u) \<and> sound_user compile u"
proof -
  obtain obj where v: "v = JObj obj" and account: "dict_get obj ''account'' = Some (JStr (ue_account u))"
    and ok: "ue_account u \<noteq> []" "is_bcrypt (ue_hashed_password u)"
    and ps: "defaulted obj ''policies'' [] (list_field (rule_entry compile)) = Inr (ue_policies u)"
    using assms by (force simp: user_entry_of_def simp del: defaulted_Inr)
  from policies_of_field[OF ps] v account ok show ?thesis by (auto simp: sound_user_def)
qed

lemma users_of_field:
  assumes "defaulted obj ''users'' [] (list_field (user_entry_of compile)) = Inr us"
  shows "map (\<lambda>u. dict_get u ''account'') (entries (dict_get obj ''users'')) = map (Some \<circ> JStr \<circ> ue_account) us"
    and "concat (map (\<lambda>u. map (\<lambda>r. dict_get r ''id'') (entries (dict_get u ''policies'')))
        (entries (dict_get obj ''users''))) = map (Some \<circ> JStr \<circ> rule_id) (concat (map ue_policies us))"
    and "\<forall>u \<in> set us. sound_user compile u"
proof -
  have users: "map (\<lambda>u. dict_get u ''account'') (entries (Some (JList xs))) = map (Some \<circ> JStr \<circ> ue_account) us \<and>
      concat (map (\<lambda>u. map (\<lambda>r. dict_get r ''id'') (entries (dict_get u ''policies'')))
        (entries (Some (JList xs)))) = map (Some \<circ> JStr \<circ> rule_id) (concat (map ue_policies us)) \<and>
      (\<forall>u \<in> set us. sound_user compile u)"
    if "list_all2 (\<lambda>x y. user_entry_of compile x = Inr y) xs us" for xs
    using that
  proof (induction rule: list_all2_induct)
    case Nil
    then show ?case by (simp add: entries_def)
  next
    case (Cons x xs u us)
    from user_entry_Inr[OF Cons(1)] Cons(3) show ?case by (auto simp: entries_def)
  qed
  show "map (\<lambda>u. dict_get u ''account'') (entries (dict_get obj ''users'')) = map (Some \<circ> JStr \<circ> ue_account) us"
    and "concat (map (\<lambda>u. map (\<lambda>r. dict_get r ''id'') (entries (dict_get u ''policies'')))
        (entries (dict_get obj ''users''))) = map (Some \<circ> JStr \<circ> rule_id) (concat (map ue_policies us))"
    and "\<forall>u \<in> set us. sound_user compile u"
    using assms users by (auto simp: entries_def split: option.splits)
qed

lemma count_list_distinct: "(\<forall>v \<in> set xs. \<not> 1 < count_list xs v) \<longleftrightarrow> distinct xs"
proof (induction xs)
  case (Cons x xs)
  have "count_list xs v = 0 \<longleftrightarrow> v \<notin> set xs" for v by (rule count_list_0_iff)
  with Cons show ?case by (auto split: if_splits)
qed simp

lemma dupes_Nil: "dupes (map (Some \<circ> JStr \<circ> f) xs) = [] \<longleftrightarrow> distinct (map f xs)"
proof -
  have "concat (map (\<lambda>v. case v of Some (JStr s) \<Rightarrow> [s] | _ \<Rightarrow> []) (map (Some \<circ> JStr \<circ> f) xs)) = map f xs"
    by (induction xs) auto
  then show ?thesis
    by (auto simp: dupes_def Let_def filter_empty_conv simp flip: count_list_distinct)
qed

lemma parse_Inr:
  assumes "parse_users_document compile raw = Inr doc"
  shows "distinct (map ue_account (doc_users doc))"
    and "distinct (map rule_id (doc_policies doc @ concat (map ue_policies (doc_users doc))))"
    and "\<forall>u \<in> set (doc_users doc). sound_user compile u"
    and "\<forall>p \<in> set (doc_policies doc). sound_rule compile p"
proof -
  obtain obj where doc: "users_document_of compile obj = Inr doc" and dup: "duplicates obj = []"
    using assms by (auto simp: parse_users_document_def split: json.splits sum.splits if_splits)
  have ps: "defaulted obj ''policies'' [] (list_field (rule_entry compile)) = Inr (doc_policies doc)"
    and us: "defaulted obj ''users'' [] (list_field (user_entry_of compile)) = Inr (doc_users doc)"
    using doc by (auto simp: users_document_of_def simp del: defaulted_Inr)
  note users = users_of_field[OF us] and rules = policies_of_field[OF ps]
  have "map (\<lambda>r. dict_get r ''id'') (entries (dict_get obj ''policies'')
      @ concat (map (\<lambda>u. entries (dict_get u ''policies'')) (entries (dict_get obj ''users'')))) =
      map (Some \<circ> JStr \<circ> rule_id) (doc_policies doc @ concat (map ue_policies (doc_users doc)))"
    using users(2) rules(1) by (simp add: map_concat comp_def)
  with dup users(1) show "distinct (map ue_account (doc_users doc))"
    and "distinct (map rule_id (doc_policies doc @ concat (map ue_policies (doc_users doc))))"
    using dupes_Nil[of ue_account "doc_users doc"]
      dupes_Nil[of rule_id "doc_policies doc @ concat (map ue_policies (doc_users doc))"]
    by (simp_all add: duplicates_def Let_def split: if_splits)
  show "\<forall>u \<in> set (doc_users doc). sound_user compile u" "\<forall>p \<in> set (doc_policies doc). sound_rule compile p"
    using users(3) rules(2) .
qed

end
