(* ===== verification/Policy_Service.thy ===== *)
theory Policy_Service
  imports Access_Policy Domain_Models
begin

text \<open>
  \<open>app/services/policy_service.py\<close>: the policy is loaded once per request and judges the one
  resource of a single write, or every node of a batch. The policy store is an argument; its
  file-backed implementation is in \<open>Users_File\<close>.
\<close>

type_synonym 'w policy_repository = "string \<Rightarrow> ('w, access_policies) call"

definition layer_json :: "layer option \<Rightarrow> json" where
  "layer_json l = (case l of None \<Rightarrow> JNull | Some Global \<Rightarrow> JStr ''global'' | Some UserLayer \<Rightarrow> JStr ''user'')"

definition plain_params :: "policy_params \<Rightarrow> json" where
  "plain_params params = JObj (map (\<lambda>(k, v). (param_str k, json_opt_str v)) params)"

definition denial :: "string \<Rightarrow> policy_params \<Rightarrow> policy_decision \<Rightarrow> app_exception" where
  "denial action params decision = PolicyDeniedException (pd_reason decision)
     (JObj [(''action'', JStr action), (''layer'', layer_json (pd_layer decision)),
            (''rule_id'', json_opt_str (pd_rule_id decision)), (''params'', plain_params params)])"

definition evaluate_call :: "access_policies \<Rightarrow> string \<Rightarrow> policy_params \<Rightarrow> ('w, policy_decision) call"
where
  "evaluate_call policies action params = (\<lambda>w. (evaluate policies action params, w))"

definition enforce ::
  "'w policy_repository \<Rightarrow> user \<Rightarrow> string \<Rightarrow> policy_params \<Rightarrow> ('w, unit) call" where
  "enforce get_policies user action params =
     bind_io (get_policies (u_account user)) (\<lambda>policies.
     bind_io (evaluate_call policies action params) (\<lambda>decision.
       if \<not> pd_allowed decision then raise_io (App (denial action params decision))
       else return_io ()))"

definition node_params :: "string \<Rightarrow> string \<Rightarrow> policy_params" where
  "node_params cluster node = [(CLUSTER, Some cluster), (NODE, Some node)]"

definition namespace_params :: "string \<Rightarrow> string \<Rightarrow> policy_params" where
  "namespace_params cluster name = [(CLUSTER, Some cluster), (NAMESPACE, Some name)]"

fun denied_loop ::
  "access_policies \<Rightarrow> string \<Rightarrow> string \<Rightarrow> string list \<Rightarrow> (string, string) dict \<Rightarrow>
   ('w, (string, string) dict) call" where
  "denied_loop policies action cluster [] denied = return_io denied"
| "denied_loop policies action cluster (node # nodes) denied =
     bind_io (evaluate_call policies action (node_params cluster node)) (\<lambda>decision.
       denied_loop policies action cluster nodes
         (if \<not> pd_allowed decision then dict_set node (pd_reason decision) denied else denied))"

definition denied_nodes ::
  "'w policy_repository \<Rightarrow> user \<Rightarrow> string \<Rightarrow> string \<Rightarrow> string list \<Rightarrow>
   ('w, (string, string) dict) call" where
  "denied_nodes get_policies user action cluster nodes =
     bind_io (get_policies (u_account user))
       (\<lambda>policies. denied_loop policies action cluster nodes [])"

section \<open>Lemmas\<close>

text \<open>Both layers, as one judgement.\<close>

definition policy_permits :: "access_policies \<Rightarrow> policy_action \<Rightarrow> policy_params \<Rightarrow> bool" where
  "policy_permits policies action params \<longleftrightarrow>
     permits (global_rules policies) action params \<and> permits (user_rules policies) action params"

lemma evaluate_action:
  "\<exists>d. evaluate policies (action_str action) params = Inr d \<and>
     pd_allowed d = policy_permits policies action params"
  by (auto simp: evaluate_eq policy_permits_def evaluate_layer_allowed ALLOWED_def)

lemma enforce_eq:
  assumes "get_policies (u_account user) w = (Inr policies, w')"
  obtains d where "evaluate policies (action_str action) params = Inr d"
    and "enforce get_policies user (action_str action) params w =
      (if policy_permits policies action params then Inr ()
       else Inl (App (denial (action_str action) params d)), w')"
proof -
  obtain d where "evaluate policies (action_str action) params = Inr d"
    and "pd_allowed d = policy_permits policies action params"
    using evaluate_action by blast
  with assms show ?thesis
    by (intro that[of d]) (simp_all add: enforce_def evaluate_call_def bind_io_def)
qed

lemma denied_loop_get:
  "\<exists>denied'. denied_loop policies (action_str action) cluster nodes denied w = (Inr denied', w) \<and>
     (\<forall>n. dict_get denied' n \<noteq> None \<longleftrightarrow> dict_get denied n \<noteq> None \<or>
        n \<in> set nodes \<and> \<not> policy_permits policies action (node_params cluster n))"
proof (induction nodes arbitrary: denied)
  case (Cons node nodes)
  obtain d where d: "evaluate policies (action_str action) (node_params cluster node) = Inr d"
      "pd_allowed d = policy_permits policies action (node_params cluster node)"
    using evaluate_action by blast
  let ?next = "if \<not> pd_allowed d then dict_set node (pd_reason d) denied else denied"
  obtain denied' where "denied_loop policies (action_str action) cluster nodes ?next w = (Inr denied', w)"
    and "\<forall>n. dict_get denied' n \<noteq> None \<longleftrightarrow> dict_get ?next n \<noteq> None \<or>
        n \<in> set nodes \<and> \<not> policy_permits policies action (node_params cluster n)"
    using Cons.IH[of ?next] by blast
  with d show ?case
    by (intro exI[of _ denied']) (auto simp: evaluate_call_def bind_io_def)
qed simp

lemma denied_nodes_get:
  assumes "get_policies (u_account user) w = (Inr policies, w')"
  obtains denied where
    "denied_nodes get_policies user (action_str action) cluster nodes w = (Inr denied, w')"
    and "\<And>n. dict_get denied n \<noteq> None \<longleftrightarrow>
      n \<in> set nodes \<and> \<not> policy_permits policies action (node_params cluster n)"
proof -
  obtain denied where "denied_loop policies (action_str action) cluster nodes [] w' = (Inr denied, w')"
    and "\<And>n. dict_get denied n \<noteq> None \<longleftrightarrow> dict_get ([] :: (string, string) dict) n \<noteq> None \<or>
        n \<in> set nodes \<and> \<not> policy_permits policies action (node_params cluster n)"
    using denied_loop_get by meson
  with assms show ?thesis by (intro that[of denied]) (auto simp: denied_nodes_def bind_io_def)
qed

end
