(* ===== verification/Users_File.thy ===== *)
theory Users_File
  imports Users_Document Policy_Service
begin

text \<open>
  \<open>app/repositories/json_users_file.py\<close>: loading the users file behind a cache that is kept by the
  file's identity and change stamps, and the two repositories on top of it,
  \<open>json_user_repository.py\<close> and \<open>json_policy_repository.py\<close>; the contract they share is the
  locale \<open>users_store\<close>. Also the check of a users file by \<open>app/check_users.py\<close>.

  A \<open>users_path\<close> is what the file system answers for the path. Decoding JSON is the argument
  \<open>loads\<close>, compiling the rules' regular expressions the argument \<open>compile\<close>; together they are
  the \<open>engines\<close>.
\<close>

section \<open>Reading the file\<close>

text \<open>\<open>_Stamp\<close>: the file's identity and change stamps.\<close>

record stamp =
  st_ino :: nat
  st_mtime_ns :: nat
  st_ctime_ns :: nat
  st_size :: nat

datatype contents =
    Text string
  | ReadError string  \<comment> \<open>\<open>OSError\<close>, with its \<open>strerror\<close>\<close>
  | NotUtf8           \<comment> \<open>\<open>UnicodeDecodeError\<close>\<close>

datatype users_path =
    NoFile string     \<comment> \<open>\<open>stat\<close> fails, with its \<open>strerror\<close>\<close>
  | File stamp contents

record engines =
  loads :: "string \<Rightarrow> string + json"
  compile_regex :: regex_engine

text \<open>\<open>read_users_document\<close> raises a \<open>UsersDocumentError\<close>, or lets another exception through.\<close>

datatype read_error = UsersDocumentError "string list" | OtherError exn

definition read_text :: "users_path \<Rightarrow> contents" where
  "read_text f = (case f of NoFile strerror \<Rightarrow> ReadError strerror | File _ c \<Rightarrow> c)"

definition read_users_document :: "engines \<Rightarrow> users_path \<Rightarrow> read_error + users_document" where
  "read_users_document eng f =
     (case read_text f of
        ReadError strerror \<Rightarrow>
          Inl (UsersDocumentError [''<file>: cannot read users file: '' @ strerror])
      | NotUtf8 \<Rightarrow> Inl (OtherError (PyError ''UnicodeDecodeError''))
      | Text text \<Rightarrow>
          (case loads eng text of
             Inl exc \<Rightarrow> Inl (UsersDocumentError [''<file>: not valid JSON: '' @ exc])
           | Inr raw \<Rightarrow>
               (case parse_users_document (compile_regex eng) raw of
                  Inl problems \<Rightarrow> Inl (UsersDocumentError problems)
                | Inr doc \<Rightarrow> Inr doc)))"

definition users_file_invalid :: "string \<Rightarrow> exn" where
  "users_file_invalid reason = App (UsersFileInvalidException
     (''Users file is invalid; login and policed writes are refused until it is fixed: '' @ reason))"

definition parse_file :: "engines \<Rightarrow> users_path \<Rightarrow> exn + users_document" where
  "parse_file eng f =
     (case read_users_document eng f of
        Inl (UsersDocumentError problems) \<Rightarrow> Inl (users_file_invalid (join ''; '' problems))
      | Inl (OtherError e) \<Rightarrow> Inl e
      | Inr doc \<Rightarrow> Inr doc)"

section \<open>The cache\<close>

record users_cache =
  cached_stamp :: "stamp option"
  cached_doc :: "users_document option"

definition empty_cache :: users_cache where
  "empty_cache = \<lparr>cached_stamp = None, cached_doc = None\<rparr>"

text \<open>The two halves of \<open>load\<close>: the \<open>stat\<close> before the lock, and what runs under it, which reads
  the file as it is by then.\<close>

definition stat_users_file :: "users_path \<Rightarrow> exn + stamp" where
  "stat_users_file f =
     (case f of
        NoFile strerror \<Rightarrow> Inl (users_file_invalid (''cannot read users file: '' @ strerror))
      | File s _ \<Rightarrow> Inr s)"

definition load_locked ::
  "engines \<Rightarrow> stamp \<Rightarrow> users_path \<Rightarrow> users_cache \<Rightarrow> (exn + users_document) \<times> users_cache" where
  "load_locked eng s f cache =
     (case cached_doc cache of
        Some doc \<Rightarrow>
          (if Some s \<noteq> cached_stamp cache
           then (case parse_file eng f of
                   Inl e \<Rightarrow> (Inl e, cache)
                 | Inr doc \<Rightarrow> (Inr doc, \<lparr>cached_stamp = Some s, cached_doc = Some doc\<rparr>))
           else (Inr doc, cache))
      | None \<Rightarrow>
          (case parse_file eng f of
             Inl e \<Rightarrow> (Inl e, cache)
           | Inr doc \<Rightarrow> (Inr doc, \<lparr>cached_stamp = Some s, cached_doc = Some doc\<rparr>)))"

definition load :: "engines \<Rightarrow> users_path \<Rightarrow> users_cache \<Rightarrow> (exn + users_document) \<times> users_cache" where
  "load eng f cache =
     (case stat_users_file f of Inl e \<Rightarrow> (Inl e, cache) | Inr s \<Rightarrow> load_locked eng s f cache)"

section \<open>The repositories\<close>

text \<open>A process that holds one users file: the path as the file system has it, and the cache.\<close>

record users_world =
  uw_path :: users_path
  uw_cache :: users_cache

definition load_call :: "engines \<Rightarrow> (users_world, users_document) call" where
  "load_call eng w =
     (case load eng (uw_path w) (uw_cache w) of (r, c) \<Rightarrow> (r, w\<lparr>uw_cache := c\<rparr>))"

definition entry_of :: "users_document \<Rightarrow> string \<Rightarrow> user_entry option" where
  "entry_of doc account = find (\<lambda>u. ue_account u = account) (doc_users doc)"

definition json_get_by_account :: "engines \<Rightarrow> string \<Rightarrow> (users_world, user_in_db option) call" where
  "json_get_by_account eng account =
     bind_io (load_call eng) (\<lambda>doc. return_io
       (map_option
          (\<lambda>u. \<lparr>ud_account = ue_account u, ud_hashed_password = ue_hashed_password u,
                ud_scopes = ue_scopes u\<rparr>)
          (entry_of doc account)))"

definition json_list_accounts :: "engines \<Rightarrow> (users_world, string list) call" where
  "json_list_accounts eng =
     bind_io (load_call eng) (\<lambda>doc. return_io (map ue_account (doc_users doc)))"

definition policies_of :: "users_document \<Rightarrow> string \<Rightarrow> access_policies" where
  "policies_of doc account =
     \<lparr>ap_account = account, global_rules = doc_policies doc,
      user_rules = (case entry_of doc account of None \<Rightarrow> [] | Some u \<Rightarrow> ue_policies u)\<rparr>"

definition json_get_policies :: "engines \<Rightarrow> users_world policy_repository" where
  "json_get_policies eng account =
     bind_io (load_call eng) (\<lambda>doc. return_io (policies_of doc account))"

section \<open>Checking a file before it is deployed\<close>

definition check_users_lines :: "engines \<Rightarrow> string \<Rightarrow> users_path \<Rightarrow> exn + int \<times> string list" where
  "check_users_lines eng path f =
     (case read_users_document eng f of
        Inl (UsersDocumentError problems) \<Rightarrow>
          Inr (1, (''INVALID '' @ path) # map (\<lambda>p. ''  '' @ p) problems)
      | Inl (OtherError e) \<Rightarrow> Inl e
      | Inr doc \<Rightarrow> Inr (0,
          [''OK '' @ path @ '': '' @ str_of_nat (length (doc_users doc)) @ '' user(s), ''
           @ str_of_nat (length (doc_policies doc)) @ '' global rule(s), ''
           @ str_of_nat (sum_list (map (\<lambda>u. length (ue_policies u)) (doc_users doc)))
           @ '' user rule(s)'']))"

section \<open>The contract of a users store\<close>

text \<open>Both repositories answer from one document, or fail with its error; reading changes neither.\<close>

locale policy_store =
  fixes policies :: "'w policy_repository"
    and document :: "'w \<Rightarrow> exn + users_document"
    and inv :: "'w \<Rightarrow> bool"
  assumes policies_law: "inv w \<Longrightarrow> policies a w = (rp, w') \<Longrightarrow> inv w' \<and> document w' = document w \<and>
      rp = (case document w of Inl e \<Rightarrow> Inl e | Inr doc \<Rightarrow> Inr (policies_of doc a))"
begin

lemma policies_answer:
  assumes "inv w"
  obtains w' where "inv w'" and "document w' = document w"
    and "policies a w = (case document w of Inl e \<Rightarrow> Inl e | Inr doc \<Rightarrow> Inr (policies_of doc a), w')"
proof -
  obtain r w' where "policies a w = (r, w')" by (metis prod.exhaust)
  with policies_law[OF assms this] show ?thesis by (auto intro: that)
qed

text \<open>A write is enforced by the rules of the document, and refused when there is none.\<close>

lemma enforced:
  assumes "inv w"
  shows "\<exists>w'. inv w' \<and> document w' = document w \<and>
    (case document w of
       Inl e \<Rightarrow> enforce policies u (action_str act) params w = (Inl e, w')
     | Inr doc \<Rightarrow>
         (if policy_permits (policies_of doc (u_account u)) act params
          then enforce policies u (action_str act) params w = (Inr (), w')
          else \<exists>e. enforce policies u (action_str act) params w = (Inl (App e), w') \<and>
                 http_status_of e = 403))"
proof -
  obtain w' where w': "inv w'" "document w' = document w" "policies (u_account u) w =
      (case document w of Inl e \<Rightarrow> Inl e | Inr doc \<Rightarrow> Inr (policies_of doc (u_account u)), w')"
    using policies_answer[OF assms] by metis
  show ?thesis
  proof (cases "document w")
    case (Inl e)
    with w' show ?thesis by (intro exI[of _ w']) (simp add: enforce_def)
  next
    case (Inr doc)
    with w' have load: "policies (u_account u) w = (Inr (policies_of doc (u_account u)), w')" by simp
    obtain d where "enforce policies u (action_str act) params w =
      (if policy_permits (policies_of doc (u_account u)) act params then Inr ()
       else Inl (App (denial (action_str act) params d)), w')"
      using enforce_eq[where get_policies = policies, OF load] by metis
    with w' Inr show ?thesis by (intro exI[of _ w']) (auto simp: denial_def)
  qed
qed

end

locale users_store = policy_store +
  fixes by_account :: "string \<Rightarrow> ('a, user_in_db option) call"
  assumes by_account_law: "inv w \<Longrightarrow> by_account a w = (ru, w') \<Longrightarrow> inv w' \<and> document w' = document w \<and>
      ru = (case document w of
              Inl e \<Rightarrow> Inl e
            | Inr doc \<Rightarrow> Inr (map_option
                (\<lambda>u. \<lparr>ud_account = ue_account u, ud_hashed_password = ue_hashed_password u,
                      ud_scopes = ue_scopes u\<rparr>) (entry_of doc a)))"

section \<open>The cache never lies about an unchanged file\<close>

text \<open>What the cache holds under the stamp of the current file is what that file parses to.\<close>

definition cache_inv :: "engines \<Rightarrow> users_path \<Rightarrow> users_cache \<Rightarrow> bool" where
  "cache_inv eng f c \<longleftrightarrow>
     (\<forall>doc s. cached_doc c = Some doc \<longrightarrow> cached_stamp c = Some s \<longrightarrow> stat_users_file f = Inr s \<longrightarrow>
        parse_file eng f = Inr doc)"

definition answer :: "engines \<Rightarrow> users_path \<Rightarrow> exn + users_document" where
  "answer eng f = (case stat_users_file f of Inl e \<Rightarrow> Inl e | Inr _ \<Rightarrow> parse_file eng f)"

lemma load_current:
  assumes "cache_inv eng f c"
  shows "fst (load eng f c) = answer eng f" and "cache_inv eng f (snd (load eng f c))"
proof -
  have "fst (load eng f c) = answer eng f \<and> cache_inv eng f (snd (load eng f c))"
  proof (cases "stat_users_file f")
    case (Inl e)
    then show ?thesis by (simp add: load_def answer_def cache_inv_def)
  next
    case (Inr s)
    show ?thesis
    proof (cases "cached_doc c \<noteq> None \<and> cached_stamp c = Some s")
      case True
      then obtain doc where doc: "cached_doc c = Some doc" by auto
      with True Inr assms have "parse_file eng f = Inr doc" unfolding cache_inv_def by blast
      moreover have "load eng f c = (Inr doc, c)"
        using True Inr doc by (simp add: load_def load_locked_def)
      ultimately show ?thesis using Inr assms by (simp only: answer_def fst_conv snd_conv sum.case simp_thms)
    next
      case False
      with Inr assms show ?thesis
        by (auto simp: load_def load_locked_def answer_def cache_inv_def
            split: option.split sum.split)
    qed
  qed
  then show "fst (load eng f c) = answer eng f" "cache_inv eng f (snd (load eng f c))" by simp_all
qed

lemma load_call_eq:
  assumes "cache_inv eng (uw_path w) (uw_cache w)"
  obtains w' where "load_call eng w = (answer eng (uw_path w), w')"
    and "uw_path w' = uw_path w" and "cache_inv eng (uw_path w') (uw_cache w')"
proof (rule that)
  let ?w' = "w\<lparr>uw_cache := snd (load eng (uw_path w) (uw_cache w))\<rparr>"
  show "load_call eng w = (answer eng (uw_path w), ?w')"
    using load_current(1)[OF assms] by (simp add: load_call_def case_prod_beta)
  show "uw_path ?w' = uw_path w" "cache_inv eng (uw_path ?w') (uw_cache ?w')"
    using load_current(2)[OF assms] by simp_all
qed

interpretation json_store: users_store "json_get_policies eng" "\<lambda>w. answer eng (uw_path w)"
  "\<lambda>w. cache_inv eng (uw_path w) (uw_cache w)" "json_get_by_account eng" for eng
proof (unfold_locales, goal_cases)
  case (1 w a rp w')
  obtain v where v: "load_call eng w = (answer eng (uw_path w), v)" "uw_path v = uw_path w"
    "cache_inv eng (uw_path v) (uw_cache v)"
    using load_call_eq[OF 1(1)] .
  then have "json_get_policies eng a w =
      (case answer eng (uw_path w) of Inl e \<Rightarrow> Inl e | Inr doc \<Rightarrow> Inr (policies_of doc a), v)"
    by (simp add: json_get_policies_def bind_io_def split: sum.split)
  with 1(2) v show ?case by simp
next
  case (2 w a ru w')
  obtain v where v: "load_call eng w = (answer eng (uw_path w), v)" "uw_path v = uw_path w"
    "cache_inv eng (uw_path v) (uw_cache v)"
    using load_call_eq[OF 2(1)] .
  then have "json_get_by_account eng a w =
      (case answer eng (uw_path w) of Inl e \<Rightarrow> Inl e
       | Inr doc \<Rightarrow> Inr (map_option
           (\<lambda>u. \<lparr>ud_account = ue_account u, ud_hashed_password = ue_hashed_password u,
                 ud_scopes = ue_scopes u\<rparr>) (entry_of doc a)), v)"
    by (simp add: json_get_by_account_def bind_io_def split: sum.split)
  with 2(2) v show ?case by simp
qed

end
