(* ===== verification/Auth.thy ===== *)
theory Auth
  imports Login_Redirect Users_File
begin

text \<open>
  Authentication: \<open>app/core/security.py\<close>, \<open>app/services/auth_service.py\<close>, the token
  dependencies of \<open>app/core/dependencies.py\<close>, \<open>app/api/v1/auth.py\<close>, and the token and login
  endpoints of \<open>app/main.py\<close>.

  bcrypt and the JWT library are the record \<open>crypto\<close>: checking and making a hash (both may
  raise), signing a payload and reading a token at a time. The secret and the algorithm of the
  settings are inside it. Times are seconds; a payload is a JSON object, \<open>exp\<close> the number of seconds
  the library writes for the \<open>datetime\<close>.
\<close>

type_synonym payload = "(string, json) dict"

record crypto =
  checkpw :: "string \<Rightarrow> string \<Rightarrow> exn + bool"   \<comment> \<open>plain, hash\<close>
  hashpw :: "string \<Rightarrow> string \<Rightarrow> exn + string" \<comment> \<open>plain, salt\<close>
  jwt_encode :: "payload \<Rightarrow> string"
  jwt_decode :: "int \<Rightarrow> string \<Rightarrow> string + payload" \<comment> \<open>\<open>Inl\<close>: the text of a \<open>JWTError\<close>\<close>

section \<open>Tokens\<close>

definition create_access_token :: "crypto \<Rightarrow> settings \<Rightarrow> int \<Rightarrow> payload \<Rightarrow> int option \<Rightarrow> string" where
  "create_access_token cr st now data expires_delta =
     jwt_encode cr (dict_set ''exp''
       (JNum (now + or_else expires_delta (ACCESS_TOKEN_EXPIRE_MINUTES st * 60))) data)"

definition decode_access_token :: "crypto \<Rightarrow> int \<Rightarrow> string \<Rightarrow> exn + payload" where
  "decode_access_token cr now token =
     (case jwt_decode cr now token of
        Inl exc \<Rightarrow> Inl (App (AuthException ''Invalid or expired token.'' (JStr exc)))
      | Inr payload \<Rightarrow> Inr payload)"

section \<open>The service\<close>

type_synonym 'w user_repository = "string \<Rightarrow> ('w, user_in_db option) call"

definition invalid_credentials :: exn where
  "invalid_credentials = App (AuthException ''Invalid account or password.'' JNull)"

definition authenticate ::
  "crypto \<Rightarrow> 'w user_repository \<Rightarrow> string \<Rightarrow> string \<Rightarrow> ('w, user) call" where
  "authenticate cr get_by_account account password =
     bind_io (get_by_account account) (\<lambda>found.
       case found of
         None \<Rightarrow> raise_io invalid_credentials
       | Some u \<Rightarrow>
           (case checkpw cr password (ud_hashed_password u) of
              Inl e \<Rightarrow> raise_io e
            | Inr ok \<Rightarrow>
                (if \<not> ok then raise_io invalid_credentials
                 else return_io \<lparr>u_account = ud_account u, u_scopes = ud_scopes u\<rparr>)))"

definition generate_token :: "crypto \<Rightarrow> settings \<Rightarrow> int \<Rightarrow> user \<Rightarrow> token_data" where
  "generate_token cr st now u =
     \<lparr>td_access_token = create_access_token cr st now
        [(''sub'', JStr (u_account u)), (''scopes'', json_strs (u_scopes u))]
        (Some (ACCESS_TOKEN_EXPIRE_MINUTES st * 60)),
      td_token_type = ''bearer'',
      td_expires_in = ACCESS_TOKEN_EXPIRE_MINUTES st * 60\<rparr>"

definition get_my_scopes :: "user \<Rightarrow> my_scopes_data" where
  "get_my_scopes u = \<lparr>msd_account = u_account u, msd_scopes = u_scopes u\<rparr>"

definition verify_user :: "user \<Rightarrow> verify_data" where
  "verify_user u = \<lparr>vd_account = u_account u, vd_scopes = u_scopes u, vd_valid = True\<rparr>"

definition hash_plain_password :: "crypto \<Rightarrow> string \<Rightarrow> string \<Rightarrow> exn + string" where
  "hash_plain_password cr salt plain = hashpw cr plain salt"

section \<open>Who a token says the caller is\<close>

text \<open>Truth of a JSON value, and \<open>s in v\<close>: membership in a list, a key of a mapping, a substring of
  a string; anything else has no \<open>in\<close>.\<close>

definition truthy :: "json \<Rightarrow> bool" where
  "truthy v = (case v of JNull \<Rightarrow> False | JBool b \<Rightarrow> b | JNum n \<Rightarrow> n \<noteq> 0 | JStr s \<Rightarrow> s \<noteq> []
    | JList xs \<Rightarrow> xs \<noteq> [] | JObj d \<Rightarrow> d \<noteq> [])"

definition py_in :: "string \<Rightarrow> json \<Rightarrow> exn + bool" where
  "py_in s v = (case v of
     JList xs \<Rightarrow> Inr (JStr s \<in> set xs)
   | JObj d \<Rightarrow> Inr (s \<in> set (keys d))
   | JStr t \<Rightarrow> Inr (sublist s t)
   | _ \<Rightarrow> Inl (PyError ''TypeError''))"

fun missing_scopes :: "json \<Rightarrow> string list \<Rightarrow> exn + string list" where
  "missing_scopes scopes [] = Inr []"
| "missing_scopes scopes (s # needed) =
     (case py_in s scopes of
        Inl e \<Rightarrow> Inl e
      | Inr present \<Rightarrow>
          (case missing_scopes scopes needed of
             Inl e \<Rightarrow> Inl e
           | Inr missing \<Rightarrow> Inr (if present then missing else s # missing)))"

text \<open>\<open>User(account=\<dots>, scopes=\<dots>)\<close>: pydantic wants a string and a list of strings.\<close>

fun strings_of :: "json list \<Rightarrow> string list option" where
  "strings_of [] = Some []"
| "strings_of (JStr s # xs) = map_option ((#) s) (strings_of xs)"
| "strings_of (_ # xs) = None"

definition user_of :: "json \<Rightarrow> json \<Rightarrow> exn + user" where
  "user_of account scopes =
     (case (account, scopes) of
        (JStr a, JList xs) \<Rightarrow>
          (case strings_of xs of
             Some ss \<Rightarrow> Inr \<lparr>u_account = a, u_scopes = ss\<rparr>
           | None \<Rightarrow> Inl (PyError ''ValidationError''))
      | _ \<Rightarrow> Inl (PyError ''ValidationError''))"

definition forbidden :: "string list \<Rightarrow> string list \<Rightarrow> exn" where
  "forbidden needed missing = App (ForbiddenException
     (''Token is missing required scopes: '' @ repr_list missing)
     (JObj [(''required'', json_strs needed), (''missing'', json_strs missing)]))"

definition user_of_payload :: "string list \<Rightarrow> payload \<Rightarrow> exn + user" where
  "user_of_payload needed payload =
     (let account = or_else (dict_get payload ''sub'') JNull;
          scopes = or_else (dict_get payload ''scopes'') (JList [])
      in if \<not> truthy account
         then Inl (App (AuthException ''Token is missing subject claim.'' JNull))
         else (case missing_scopes scopes needed of
                 Inl e \<Rightarrow> Inl e
               | Inr missing \<Rightarrow>
                   (if missing \<noteq> [] then Inl (forbidden needed missing)
                    else user_of account scopes)))"

definition get_current_user :: "crypto \<Rightarrow> int \<Rightarrow> string list \<Rightarrow> string \<Rightarrow> exn + user" where
  "get_current_user cr now needed token =
     (case decode_access_token cr now token of
        Inl e \<Rightarrow> Inl e
      | Inr payload \<Rightarrow> user_of_payload needed payload)"

text \<open>\<open>header_token or cookie\<close>: an empty header counts as none.\<close>

definition get_current_user_cookie_or_header ::
  "crypto \<Rightarrow> int \<Rightarrow> string list \<Rightarrow> string option \<Rightarrow> string option \<Rightarrow> exn + user" where
  "get_current_user_cookie_or_header cr now needed header_token cookie =
     (let token = (case header_token of Some t \<Rightarrow> (if t \<noteq> [] then Some t else cookie) | None \<Rightarrow> cookie)
      in case token of
           None \<Rightarrow> Inl (App (AuthException ''Not authenticated.'' JNull))
         | Some t \<Rightarrow>
             (if t = [] then Inl (App (AuthException ''Not authenticated.'' JNull))
              else (case decode_access_token cr now t of
                      Inl e \<Rightarrow> Inl e
                    | Inr payload \<Rightarrow> user_of_payload needed payload)))"

section \<open>The endpoints\<close>

record cookie =
  ck_key :: string
  ck_value :: string
  ck_max_age :: int
  ck_httponly :: bool
  ck_samesite :: string
  ck_secure :: bool

definition access_cookie :: "string \<Rightarrow> int \<Rightarrow> cookie" where
  "access_cookie token max_age =
     \<lparr>ck_key = ''access_token'', ck_value = token, ck_max_age = max_age, ck_httponly = True,
      ck_samesite = ''lax'', ck_secure = False\<rparr>"

definition token_endpoint ::
  "crypto \<Rightarrow> settings \<Rightarrow> 'w user_repository \<Rightarrow> int \<Rightarrow> string \<Rightarrow> string \<Rightarrow>
   ('w, token_data \<times> cookie) call" where
  "token_endpoint cr st repo now username password =
     bind_io (authenticate cr repo username password) (\<lambda>user.
       (let data = generate_token cr st now user
        in return_io (data, access_cookie (td_access_token data) (td_expires_in data))))"

text \<open>What a login answers: the page, with what goes into its \<open>next\<close> field and its error block, or
  a redirect with the cookie.\<close>

datatype login_answer = LoginPage string string | SeeOther string cookie

definition error_div :: "string \<Rightarrow> string" where
  "error_div text = ''<div class='' @ [CHR 0x22] @ ''error'' @ [CHR 0x22] @ ''>'' @ text @ ''</div>''"

definition login_page :: "(string \<Rightarrow> string) \<Rightarrow> string \<Rightarrow> string \<Rightarrow> login_answer" where
  "login_page decode next_path error =
     LoginPage (html_escape True (safe_next_path decode (Some next_path) ''/docs''))
       (if error \<noteq> [] then error_div (html_escape True error) else [])"

definition login_submit ::
  "(string \<Rightarrow> string) \<Rightarrow> crypto \<Rightarrow> settings \<Rightarrow> 'w user_repository \<Rightarrow> int \<Rightarrow> string \<Rightarrow> string \<Rightarrow> string \<Rightarrow>
   ('w, login_answer) call" where
  "login_submit decode cr st repo now username password next_path =
     (let target = safe_next_path decode (Some next_path) ''/docs''
      in (\<lambda>w. case authenticate cr repo username password w of
            (Inl (App (AuthException _ _)), w') \<Rightarrow>
              (Inr (LoginPage (html_escape True target) (error_div ''Invalid username or password.'')), w')
          | (Inl e, w') \<Rightarrow> (Inl e, w')
          | (Inr user, w') \<Rightarrow>
              (let data = generate_token cr st now user
               in (Inr (SeeOther target (access_cookie (td_access_token data) (td_expires_in data))), w'))))"

definition verify_route :: "crypto \<Rightarrow> settings \<Rightarrow> int \<Rightarrow> string \<Rightarrow> string \<Rightarrow> exn + verify_data api_response" where
  "verify_route cr st now request_id token =
     (case get_current_user cr now [] token of
        Inl e \<Rightarrow> Inl e
      | Inr u \<Rightarrow> Inr (make_response st (verify_user u) request_id))"

definition my_scopes_route ::
  "crypto \<Rightarrow> settings \<Rightarrow> int \<Rightarrow> string \<Rightarrow> string \<Rightarrow> exn + my_scopes_data api_response" where
  "my_scopes_route cr st now request_id token =
     (case get_current_user cr now [] token of
        Inl e \<Rightarrow> Inl e
      | Inr u \<Rightarrow> Inr (make_response st (get_my_scopes u) request_id))"

text \<open>A password shorter than the model allows is refused by the framework before the handler.\<close>

definition hash_password_route ::
  "crypto \<Rightarrow> settings \<Rightarrow> string \<Rightarrow> string \<Rightarrow> string \<Rightarrow> exn + string api_response" where
  "hash_password_route cr st salt request_id password =
     (if \<not> HashPasswordRequest_ok password then Inl (PyError ''RequestValidationError'')
      else (case hash_plain_password cr salt password of
              Inl e \<Rightarrow> Inl e
            | Inr h \<Rightarrow> Inr (make_response st h request_id)))"

end
