(* ===== verification/Upstream.thy ===== *)
theory Upstream
  imports Domain_Models Auth
begin

text \<open>
  The service's own token at deploy-service, \<open>app/core/token_manager.py\<close>, and the requests it sends
  there, \<open>_request_with_retry\<close> of \<open>app/clients/deploy_service_client.py\<close> and of
  \<open>app/clients/command_service_client.py\<close>, which are the same code, with every operation of the
  two clients.

  The HTTP library and the clock are the record \<open>upstream\<close> over a world of its own: a call may raise,
  or answers a status and a body, \<open>None\<close> when the body is no JSON. Times are whole seconds. A token
  is kept as the JSON value it came as. The lock of \<open>get_token\<close> makes it one step;
  requests that run side by side are \<open>Token_Machine\<close>. The constructors of the models are arguments of the
  clients, given by \<open>Upstream_Models\<close> in \<open>Live_Proxy\<close>.
\<close>

record http_response =
  hr_status :: int
  hr_json :: "json option"

record request =
  rq_method :: string
  rq_path :: string
  rq_params :: "(string, json) dict"
  rq_body :: "json option"
  rq_bearer :: json

record 'x upstream =
  up_now :: "'x \<Rightarrow> int"
  up_login :: "string \<Rightarrow> string \<Rightarrow> string \<Rightarrow> ('x, http_response) call" \<comment> \<open>URL, username, password\<close>
  up_send :: "string \<Rightarrow> request \<Rightarrow> ('x, http_response) call"          \<comment> \<open>base URL\<close>

section \<open>The token manager\<close>

record manager =
  mg_base_url :: string
  mg_username :: string
  mg_password :: string

record 'x client_world =
  cw_token :: json
  cw_expire_at :: int
  cw_rest :: 'x

definition rstrip_slash :: "string \<Rightarrow> string" where
  "rstrip_slash s = rev (dropWhile (\<lambda>c. c = CHR ''/'') (rev s))"

definition deploy_token_manager :: "settings \<Rightarrow> manager" where
  "deploy_token_manager st =
     \<lparr>mg_base_url = rstrip_slash (DEPLOY_SERVICE_URL st), mg_username = DEPLOY_SERVICE_USERNAME st,
      mg_password = DEPLOY_SERVICE_PASSWORD st\<rparr>"

definition initial_world :: "settings \<Rightarrow> 'x \<Rightarrow> 'x client_world" where
  "initial_world st x = \<lparr>cw_token = JStr (DEPLOY_SERVICE_TOKEN st), cw_expire_at = 0, cw_rest = x\<rparr>"

definition outside :: "('x, 'a) call \<Rightarrow> ('x client_world, 'a) call" where
  "outside m w = (case m (cw_rest w) of (r, x) \<Rightarrow> (r, w\<lparr>cw_rest := x\<rparr>))"

text \<open>\<open>response.json()\<close>, and \<open>v[key]\<close> on what it gives.\<close>

definition body_json :: "http_response \<Rightarrow> exn + json" where
  "body_json r = (case hr_json r of None \<Rightarrow> Inl (PyError ''JSONDecodeError'') | Some v \<Rightarrow> Inr v)"

definition subscript :: "json \<Rightarrow> string \<Rightarrow> exn + json" where
  "subscript v key =
     (case v of
        JObj d \<Rightarrow> (case dict_get d key of None \<Rightarrow> Inl (PyError ''KeyError'') | Some x \<Rightarrow> Inr x)
      | _ \<Rightarrow> Inl (PyError ''TypeError''))"

definition json_get :: "json \<Rightarrow> string \<Rightarrow> json \<Rightarrow> exn + json" where
  "json_get v key d =
     (case v of JObj obj \<Rightarrow> Inr (or_else (dict_get obj key) d) | _ \<Rightarrow> Inl (PyError ''AttributeError''))"

definition lift_io :: "exn + 'a \<Rightarrow> ('w, 'a) call" where
  "lift_io r = (case r of Inl e \<Rightarrow> raise_io e | Inr x \<Rightarrow> return_io x)"

definition fetch_new_token :: "'x upstream \<Rightarrow> manager \<Rightarrow> ('x client_world, json \<times> json) call" where
  "fetch_new_token up mg =
     bind_io (outside (up_login up (mg_base_url mg @ ''/token'') (mg_username mg) (mg_password mg)))
       (\<lambda>response.
          if hr_status response \<noteq> 200
          then raise_io (App (AuthException ''Failed to authenticate with deploy-service.'' JNull))
          else bind_io (lift_io (body_json response)) (\<lambda>data.
               bind_io (lift_io (subscript data ''access_token'')) (\<lambda>token.
               bind_io (lift_io (json_get data ''expires_in'' (JNum 3600))) (\<lambda>expires_in.
                 return_io (token, expires_in)))))"

text \<open>Adding a JSON value to a number.\<close>

definition as_number :: "json \<Rightarrow> exn + int" where
  "as_number v = (case v of JNum n \<Rightarrow> Inr n | JBool b \<Rightarrow> Inr (if b then 1 else 0)
     | _ \<Rightarrow> Inl (PyError ''TypeError''))"

text \<open>The token is stored before its expiry is computed.\<close>

definition refresh :: "'x upstream \<Rightarrow> manager \<Rightarrow> ('x client_world, unit) call" where
  "refresh up mg =
     bind_io (fetch_new_token up mg) (\<lambda>(token, expires_in). \<lambda>w.
       (let w' = w\<lparr>cw_token := token\<rparr>
        in case as_number expires_in of
             Inl e \<Rightarrow> (Inl e, w')
           | Inr n \<Rightarrow> (Inr (), w'\<lparr>cw_expire_at := up_now up (cw_rest w) + n - 30\<rparr>)))"

definition is_expired :: "'x upstream \<Rightarrow> 'x client_world \<Rightarrow> bool" where
  "is_expired up w = (up_now up (cw_rest w) \<ge> cw_expire_at w)"

definition get_token :: "'x upstream \<Rightarrow> manager \<Rightarrow> ('x client_world, json) call" where
  "get_token up mg w =
     (if \<not> truthy (cw_token w) \<or> is_expired up w
      then bind_io (refresh up mg) (\<lambda>_ w'. (Inr (cw_token w'), w')) w
      else (Inr (cw_token w), w))"

section \<open>A request with one retry\<close>

definition is_error :: "http_response \<Rightarrow> bool" where
  "is_error r = (400 \<le> hr_status r \<and> hr_status r \<le> 599)"

definition raise_for_error :: "http_response \<Rightarrow> exn" where
  "raise_for_error r =
     (case deploy_service_error (hr_status r) (or_else (hr_json r) (JObj [])) of
        Inl e \<Rightarrow> e | Inr exc \<Rightarrow> App exc)"

definition request_with_retry ::
  "'x upstream \<Rightarrow> manager \<Rightarrow> string \<Rightarrow> (json \<Rightarrow> request) \<Rightarrow> ('x client_world, json) call" where
  "request_with_retry up mg base_url req =
     bind_io (get_token up mg) (\<lambda>token.
     bind_io (outside (up_send up base_url (req token))) (\<lambda>response.
     bind_io
       (if hr_status response = 401
        then bind_io (refresh up mg) (\<lambda>_.
             bind_io (get_token up mg) (\<lambda>token'.
               outside (up_send up base_url (req token'))))
        else return_io response) (\<lambda>response.
       if is_error response then raise_io (raise_for_error response)
       else lift_io (body_json response))))"

section \<open>The operations of the two clients\<close>

text \<open>A client is its upstream, its token manager and its base URL. The models of the answers are
  built by pydantic from \<open>raw["data"]\<close>; each operation takes that constructor as \<open>model\<close>, which may
  raise.\<close>

record 'x client =
  cl_up :: "'x upstream"
  cl_manager :: manager
  cl_base_url :: string

definition make_client :: "'x upstream \<Rightarrow> settings \<Rightarrow> 'x client" where
  "make_client up st =
     \<lparr>cl_up = up, cl_manager = deploy_token_manager st, cl_base_url = rstrip_slash (DEPLOY_SERVICE_URL st)\<rparr>"

definition call_upstream ::
  "'x client \<Rightarrow> string \<Rightarrow> string \<Rightarrow> (string, json) dict \<Rightarrow> json option \<Rightarrow> (json \<Rightarrow> exn + 'a) \<Rightarrow>
   ('x client_world, 'a) call" where
  "call_upstream c http_method path params body model =
     bind_io (request_with_retry (cl_up c) (cl_manager c) (cl_base_url c)
        (\<lambda>token. \<lparr>rq_method = http_method, rq_path = path, rq_params = params, rq_body = body,
                  rq_bearer = token\<rparr>)) (\<lambda>raw.
     bind_io (lift_io (subscript raw ''data'')) (\<lambda>data. lift_io (model data)))"

record pipeline_variable =
  pv_key :: string
  pv_value :: string

definition variables_body :: "pipeline_variable list \<Rightarrow> json" where
  "variables_body vs = JObj [(''variables'', JList (map (\<lambda>v.
     JObj [(''key'', JStr (pv_key v)), (''value'', JStr (pv_value v))]) vs))]"

definition stage_params :: "string \<Rightarrow> string \<Rightarrow> (string, json) dict" where
  "stage_params action ref_name = [(''action'', JStr action), (''ref_name'', JStr ref_name)]"

definition stage_path :: "int \<Rightarrow> string \<Rightarrow> string" where
  "stage_path pipeline_id rest = ''/api/v1/deploy/stage/'' @ str_of_int pipeline_id @ rest"

definition client_trigger_pipeline where
  "client_trigger_pipeline c model action ref_name variables =
     call_upstream c ''POST'' ''/api/v1/deploy/stage'' (stage_params action ref_name)
       (Some (variables_body variables)) model"

definition client_check_running where
  "client_check_running c model action ref_name variables =
     call_upstream c ''POST'' ''/api/v1/deploy/stage/check-running'' (stage_params action ref_name)
       (Some (variables_body variables)) model"

definition client_get_pipeline where
  "client_get_pipeline c model pipeline_id = call_upstream c ''GET'' (stage_path pipeline_id []) [] None model"

definition client_cancel_pipeline where
  "client_cancel_pipeline c model pipeline_id =
     call_upstream c ''POST'' (stage_path pipeline_id ''/cancel'') [] None model"

definition client_retry_pipeline where
  "client_retry_pipeline c model pipeline_id =
     call_upstream c ''POST'' (stage_path pipeline_id ''/retry'') [] None model"

definition client_get_node where
  "client_get_node c model node =
     call_upstream c ''GET'' (''/api/v1/inventory/nodes/'' @ node) [] None model"

fun items_of :: "(json \<Rightarrow> exn + 'a) \<Rightarrow> json list \<Rightarrow> exn + 'a list" where
  "items_of model [] = Inr []"
| "items_of model (v # vs) =
     (case model v of
        Inl e \<Rightarrow> Inl e
      | Inr x \<Rightarrow> (case items_of model vs of Inl e \<Rightarrow> Inl e | Inr xs \<Rightarrow> Inr (x # xs)))"

text \<open>\<open>[BastionMapping(**item) for item in data]\<close>; only a list of objects, or an empty string or
  object, goes through: the items of the others are strings.\<close>

definition list_of :: "(json \<Rightarrow> exn + 'a) \<Rightarrow> json \<Rightarrow> exn + 'a list" where
  "list_of model v =
     (case v of
        JList vs \<Rightarrow> items_of model vs
      | JStr s \<Rightarrow> (if s = [] then Inr [] else Inl (PyError ''TypeError''))
      | JObj d \<Rightarrow> (if d = [] then Inr [] else Inl (PyError ''TypeError''))
      | _ \<Rightarrow> Inl (PyError ''TypeError''))"

definition client_list_mappings where
  "client_list_mappings c model type_name =
     call_upstream c ''GET'' ''/api/v1/inventory/mappings'' [(''type'', JStr type_name)] None (list_of model)"

definition client_resolve_node_bastion where
  "client_resolve_node_bastion c model node bastion_type =
     call_upstream c ''GET'' (''/api/v1/inventory/nodes/'' @ node @ ''/bastion-resolution'')
       (case bastion_type of None \<Rightarrow> [] | Some t \<Rightarrow> [(''bastion_type'', JStr t)]) None model"

definition client_resolve_cluster_bastion where
  "client_resolve_cluster_bastion c model cluster_name =
     call_upstream c ''GET'' ''/api/v1/inventory/cluster/bastion-resolution''
       [(''cluster_name'', JStr cluster_name)] None model"

definition client_get_all_commands_info where
  "client_get_all_commands_info c model = call_upstream c ''GET'' ''/api/v1/command/info'' [] None model"

definition client_get_command_info where
  "client_get_command_info c model command_name =
     call_upstream c ''GET'' (''/api/v1/command/'' @ command_name @ ''/info'') [] None model"

text \<open>The body is the request model dumped to JSON, here its argument.\<close>

definition client_execute_command where
  "client_execute_command c model body =
     call_upstream c ''POST'' ''/api/v1/command/execution'' [] (Some body) model"

definition execution_path :: "string \<Rightarrow> string \<Rightarrow> string" where
  "execution_path command_id rest = ''/api/v1/command/execution/'' @ command_id @ rest"

definition client_get_command_result where
  "client_get_command_result c model command_id output_format =
     call_upstream c ''GET'' (execution_path command_id []) [(''format'', JStr output_format)] None model"

definition client_kill_command where
  "client_kill_command c model command_id forced =
     call_upstream c ''POST'' (execution_path command_id ''/kill'') [(''force'', JBool forced)] None model"

definition client_get_command_trace where
  "client_get_command_trace c model command_id byte_offset line_num =
     call_upstream c ''GET'' (execution_path command_id ''/trace/ui'')
       [(''byte_offset'', JNum byte_offset), (''line_num'', JNum line_num)] None model"

end
