(* ===== verification/Node_Service.thy ===== *)
theory Node_Service
  imports Kubernetes_Models
begin

text \<open>
  \<open>app/services/node_service.py\<close>: listing, cordon and uncordon (single and batch), drain, label,
  annotation and taint edits, every operation a function of the \<open>core_v1_api\<close> it is given.

  An operation is an \<open>io\<close> over the world of that API. The drain is an \<open>option\<close> of such a
  result, because its wait loop polls until a deadline: \<open>None\<close> is a drain that never returns.
\<close>

section \<open>Helpers of the module\<close>

definition node_not_found :: "string \<Rightarrow> string \<Rightarrow> app_exception" where
  "node_not_found cluster node = NodeNotFoundException
     (''Node '' @ quoted node @ '' not found in cluster '' @ quoted cluster @ ''.'')"

definition unique_node_names :: "string list \<Rightarrow> string list" where
  "unique_node_names names = keys (dict_fromkeys names ())"

definition denied_result :: "string \<Rightarrow> string \<Rightarrow> batch_node_result" where
  "denied_result node reason =
     \<lparr>br_node = node, br_status = Failed, br_error_code = Some (code_str POLICY_DENIED),
      br_message = Some (JStr reason), br_kube_status = None\<rparr>"

definition batch_data ::
  "string \<Rightarrow> string \<Rightarrow> batch_node_result list \<Rightarrow> batch_node_action_data" where
  "batch_data cluster action results =
     (let succeeded = length (filter (\<lambda>r. br_status r = Success) results)
      in \<lparr>bd_cluster = cluster, bd_action = action,
          bd_summary = \<lparr>bs_total = length results, bs_succeeded = succeeded,
                        bs_failed = length results - succeeded\<rparr>,
          bd_results = results\<rparr>)"

section \<open>Reading nodes and pods\<close>

fun ready_condition :: "v1_node_condition list \<Rightarrow> string" where
  "ready_condition [] = ''Unknown''"
| "ready_condition (c # cs) =
     (if cond_type c = ''Ready''
      then (if cond_status c = ''True'' then ''Ready''
            else if cond_status c = ''Unknown'' then ''Unknown'' else ''NotReady'')
      else ready_condition cs)"

definition node_status :: "v1_node \<Rightarrow> string" where
  "node_status node = ready_condition (or_else (node_conditions node) [])"

definition ROLE_PREFIX :: string where
  "ROLE_PREFIX = ''node-role.kubernetes.io/''"

definition node_roles :: "str_map \<Rightarrow> string list" where
  "node_roles labels =
     (let roles = map (\<lambda>key. last (split_on CHR ''/'' key))
            (filter (\<lambda>key. startswith key ROLE_PREFIX) (keys labels))
      in if roles = [] then [''<none>''] else roles)"

definition node_to_info :: "v1_node \<Rightarrow> node_info" where
  "node_to_info node =
     (let labels = or_else (node_labels node) []
      in \<lparr>ni_name = node_name node, ni_status = node_status node, ni_roles = node_roles labels,
          ni_version = or_else (node_kubelet_version node) [],
          ni_unschedulable = or_else (node_unschedulable node) False,
          ni_labels = labels, ni_annotations = or_else (node_annotations node) []\<rparr>)"

definition pod_to_info :: "v1_pod \<Rightarrow> pod_info" where
  "pod_to_info pod =
     (let statuses = or_else (pod_container_statuses pod) []
      in \<lparr>pi_name = pod_name pod, pi_namespace = pod_namespace pod,
          pi_phase = str_or (pod_phase pod) ''Unknown'',
          pi_ready = (statuses \<noteq> [] \<and> list_all cs_ready statuses),
          pi_owner_kind = (case or_else (pod_owner_kinds pod) [] of [] \<Rightarrow> None | k # _ \<Rightarrow> Some k),
          pi_restart_count = sum_list (map (\<lambda>cs. or_else (cs_restart_count cs) 0) statuses),
          pi_node_name =
            (case pod_spec pod of None \<Rightarrow> [] | Some spec \<Rightarrow> str_or (ps_node_name spec) [])\<rparr>)"

text \<open>A taint whose effect is none of the three fails the \<open>TaintSpec\<close> model.\<close>

definition to_taint_spec :: "v1_taint \<Rightarrow> ('w, taint_spec) call" where
  "to_taint_spec t =
     (case parse_effect (taint_effect t) of
        None \<Rightarrow> raise_io (PyError ''ValidationError'')
      | Some e \<Rightarrow> return_io \<lparr>ts_key = taint_key t, ts_value = taint_value t, ts_effect = e\<rparr>)"

fun to_taint_specs :: "v1_taint list \<Rightarrow> ('w, taint_spec list) call" where
  "to_taint_specs [] = return_io []"
| "to_taint_specs (t # ts) =
     bind_io (to_taint_spec t) (\<lambda>s. bind_io (to_taint_specs ts) (\<lambda>ss. return_io (s # ss)))"

definition read_node_checked :: "string \<Rightarrow> string \<Rightarrow> 'w core_v1_api \<Rightarrow> ('w, v1_node) call" where
  "read_node_checked cluster node kube =
     translate_kube_errors cluster (''read node '' @ quoted node)
       (Some (node_not_found cluster node)) (read_node kube node)"

definition list_nodes_what :: "string \<Rightarrow> string" where
  "list_nodes_what cluster = ''list nodes in cluster '' @ quoted cluster"

definition list_nodes :: "string \<Rightarrow> 'w core_v1_api \<Rightarrow> ('w, node_list_data) call" where
  "list_nodes cluster kube =
     bind_io (translate_kube_errors cluster (list_nodes_what cluster) None (list_node kube))
       (\<lambda>items. return_io \<lparr>nld_cluster = cluster, nld_nodes = map node_to_info items\<rparr>)"

text \<open>The filter of \<open>list_pods\<close>; a missing or empty parameter does not filter.\<close>

definition pod_selected ::
  "string list option \<Rightarrow> string list option \<Rightarrow> string list option \<Rightarrow> pod_info \<Rightarrow> bool" where
  "pod_selected nodes statuses name_prefixes info =
     ((or_else nodes [] = [] \<or> pi_node_name info \<in> set (or_else nodes [])) \<and>
      (or_else statuses [] = [] \<or> lower (pi_phase info) \<in> set (map lower (or_else statuses []))) \<and>
      (or_else name_prefixes [] = [] \<or>
       list_ex (startswith (pi_name info)) (or_else name_prefixes [])))"

definition list_pods ::
  "string \<Rightarrow> string \<Rightarrow> 'w core_v1_api \<Rightarrow> string list option \<Rightarrow> string list option \<Rightarrow>
   string list option \<Rightarrow> ('w, pod_list_data) call" where
  "list_pods cluster ns kube nodes statuses name_prefixes =
     bind_io
       (translate_kube_errors cluster
          (''list pods in namespace '' @ quoted ns @ '' of cluster '' @ quoted cluster) None
          (if ns = ''*'' then list_pod_for_all_namespaces kube None
           else list_namespaced_pod kube ns))
       (\<lambda>items. return_io
          \<lparr>pld_cluster = cluster, pld_namespace = ns,
           pld_pods = filter (pod_selected nodes statuses name_prefixes) (map pod_to_info items)\<rparr>)"

definition get_node :: "string \<Rightarrow> string \<Rightarrow> 'w core_v1_api \<Rightarrow> ('w, node_detail_data) call" where
  "get_node cluster node kube =
     bind_io (read_node_checked cluster node kube) (\<lambda>n.
       let info = node_to_info n
       in bind_io (to_taint_specs (or_else (node_taints n) [])) (\<lambda>taints. return_io
            \<lparr>nd_cluster = cluster, nd_name = ni_name info, nd_status = ni_status info,
             nd_roles = ni_roles info, nd_version = ni_version info,
             nd_unschedulable = ni_unschedulable info, nd_labels = ni_labels info,
             nd_annotations = ni_annotations info, nd_taints = taints\<rparr>))"

section \<open>Cordon and uncordon\<close>

definition patch_unschedulable ::
  "string \<Rightarrow> string \<Rightarrow> 'w core_v1_api \<Rightarrow> bool \<Rightarrow> ('w, unit) call" where
  "patch_unschedulable cluster node kube unschedulable =
     bind_io
       (translate_kube_errors cluster (''patch node '' @ quoted node)
          (Some (node_not_found cluster node))
          (patch_node kube node (empty_node_patch\<lparr>np_unschedulable := Some unschedulable\<rparr>)))
       (\<lambda>_. return_io ())"

definition action_data :: "string \<Rightarrow> string \<Rightarrow> string \<Rightarrow> node_action_data" where
  "action_data cluster node action =
     \<lparr>na_status = ''success'', na_cluster = cluster, na_node = node, na_action = action\<rparr>"

definition cordon :: "string \<Rightarrow> string \<Rightarrow> 'w core_v1_api \<Rightarrow> ('w, node_action_data) call" where
  "cordon cluster node kube =
     bind_io (patch_unschedulable cluster node kube True)
       (\<lambda>_. return_io (action_data cluster node ''cordon''))"

definition uncordon :: "string \<Rightarrow> string \<Rightarrow> 'w core_v1_api \<Rightarrow> ('w, node_action_data) call" where
  "uncordon cluster node kube =
     bind_io (read_node_checked cluster node kube) (\<lambda>n.
       let status = node_status n
       in if status \<noteq> ''Ready'' then raise_io (App (NodeNotReadyException node status))
          else bind_io (patch_unschedulable cluster node kube False)
            (\<lambda>_. return_io (action_data cluster node ''uncordon'')))"

subsection \<open>Batches\<close>

fun is_cluster_level :: "exn \<Rightarrow> bool" where
  "is_cluster_level (App (KubeApiException e)) =
     (kae_cluster_level e \<or> kae_kube_status e \<in> {Some 401, Some 403} \<or> kae_kube_status e = None)"
| "is_cluster_level e = False"

text \<open>The exceptions the batch loop catches.\<close>

fun is_node_failure :: "exn \<Rightarrow> bool" where
  "is_node_failure (App (NodeNotFoundException _)) = True"
| "is_node_failure (App (NodeNotReadyException _ _)) = True"
| "is_node_failure (App (KubeApiException _)) = True"
| "is_node_failure _ = False"

fun failed_result :: "string \<Rightarrow> app_exception \<Rightarrow> batch_node_result" where
  "failed_result node exc =
     \<lparr>br_node = node, br_status = Failed, br_error_code = Some (error_code_of exc),
      br_message = Some (message_of exc),
      br_kube_status =
        (case exc of KubeApiException e \<Rightarrow> kae_kube_status e | _ \<Rightarrow> Some (http_status_of exc))\<rparr>"

definition node_statuses :: "string \<Rightarrow> 'w core_v1_api \<Rightarrow> ('w, (string, string) dict) call" where
  "node_statuses cluster kube =
     bind_io (translate_kube_errors cluster (list_nodes_what cluster) None (list_node kube))
       (\<lambda>items. return_io (dict_update [] (map (\<lambda>n. (node_name n, node_status n)) items)))"

text \<open>The body of the loop for a node the policy allows: the \<open>try\<close> and its handler.\<close>

definition set_one ::
  "string \<Rightarrow> 'w core_v1_api \<Rightarrow> bool \<Rightarrow> (string, string) dict \<Rightarrow> string \<Rightarrow>
   ('w, batch_node_result) call" where
  "set_one cluster kube unschedulable statuses node =
     catch_io
       (bind_io
          (case dict_get statuses node of
             Some status \<Rightarrow>
               (if \<not> unschedulable \<and> status \<noteq> ''Ready''
                then raise_io (App (NodeNotReadyException node status)) else return_io ())
           | None \<Rightarrow> return_io ())
          (\<lambda>_. bind_io (patch_unschedulable cluster node kube unschedulable)
             (\<lambda>_. return_io
                \<lparr>br_node = node, br_status = Success, br_error_code = None, br_message = None,
                 br_kube_status = None\<rparr>)))
       (\<lambda>e. case e of
              App exc \<Rightarrow> (if is_node_failure e \<and> \<not> is_cluster_level e
                          then return_io (failed_result node exc) else raise_io e)
            | _ \<Rightarrow> raise_io e)"

fun batch_loop ::
  "string \<Rightarrow> 'w core_v1_api \<Rightarrow> bool \<Rightarrow> (string, string) dict \<Rightarrow> (string, string) dict \<Rightarrow>
   string list \<Rightarrow> ('w, batch_node_result list) call" where
  "batch_loop cluster kube unschedulable statuses denied [] = return_io []"
| "batch_loop cluster kube unschedulable statuses denied (node # nodes) =
     bind_io
       (case dict_get denied node of
          Some reason \<Rightarrow> return_io (denied_result node reason)
        | None \<Rightarrow> set_one cluster kube unschedulable statuses node)
       (\<lambda>r. bind_io (batch_loop cluster kube unschedulable statuses denied nodes)
          (\<lambda>rs. return_io (r # rs)))"

definition batch_set_unschedulable ::
  "string \<Rightarrow> string list \<Rightarrow> 'w core_v1_api \<Rightarrow> bool \<Rightarrow> string \<Rightarrow> (string, string) dict \<Rightarrow>
   ('w, batch_node_action_data) call" where
  "batch_set_unschedulable cluster node_names kube unschedulable action denied =
     (let names = unique_node_names node_names
      in bind_io
           (if \<not> unschedulable \<and> list_ex (\<lambda>n. dict_get denied n = None) names
            then node_statuses cluster kube else return_io [])
           (\<lambda>statuses. bind_io (batch_loop cluster kube unschedulable statuses denied names)
              (\<lambda>results. return_io (batch_data cluster action results))))"

definition cordon_many ::
  "string \<Rightarrow> string list \<Rightarrow> 'w core_v1_api \<Rightarrow> (string, string) dict option \<Rightarrow>
   ('w, batch_node_action_data) call" where
  "cordon_many cluster node_names kube denied =
     batch_set_unschedulable cluster node_names kube True ''cordon'' (or_else denied [])"

definition uncordon_many ::
  "string \<Rightarrow> string list \<Rightarrow> 'w core_v1_api \<Rightarrow> (string, string) dict option \<Rightarrow>
   ('w, batch_node_action_data) call" where
  "uncordon_many cluster node_names kube denied =
     batch_set_unschedulable cluster node_names kube False ''uncordon'' (or_else denied [])"

section \<open>Labels, annotations and taints\<close>

definition patch_labels ::
  "string \<Rightarrow> string \<Rightarrow> 'w core_v1_api \<Rightarrow> str_map option \<Rightarrow> string list option \<Rightarrow>
   ('w, bool) call" where
  "patch_labels cluster node kube set_labels remove_labels =
     (let labels = key_merge_patch (or_else set_labels []) (or_else remove_labels [])
      in if labels = [] then return_io False
         else bind_io
           (translate_kube_errors cluster (''patch labels on node '' @ quoted node)
              (Some (node_not_found cluster node))
              (patch_node kube node (empty_node_patch\<lparr>np_labels := Some labels\<rparr>)))
           (\<lambda>_. return_io True))"

definition patch_annotations ::
  "string \<Rightarrow> string \<Rightarrow> 'w core_v1_api \<Rightarrow> str_map option \<Rightarrow> string list option \<Rightarrow>
   ('w, bool) call" where
  "patch_annotations cluster node kube set_annotations remove_annotations =
     (let annotations =
            key_merge_patch (or_else set_annotations []) (or_else remove_annotations [])
      in if annotations = [] then return_io False
         else bind_io
           (translate_kube_errors cluster (''patch annotations on node '' @ quoted node)
              (Some (node_not_found cluster node))
              (patch_node kube node (empty_node_patch\<lparr>np_annotations := Some annotations\<rparr>)))
           (\<lambda>_. return_io True))"

definition fetch_node_labels ::
  "string \<Rightarrow> string \<Rightarrow> 'w core_v1_api \<Rightarrow> ('w, str_map) call" where
  "fetch_node_labels cluster node kube =
     bind_io (read_node_checked cluster node kube) (\<lambda>n. return_io (or_else (node_labels n) []))"

definition fetch_node_annotations ::
  "string \<Rightarrow> string \<Rightarrow> 'w core_v1_api \<Rightarrow> ('w, str_map) call" where
  "fetch_node_annotations cluster node kube =
     bind_io (read_node_checked cluster node kube) (\<lambda>n. return_io (or_else (node_annotations n) []))"

definition label_node ::
  "string \<Rightarrow> string \<Rightarrow> 'w core_v1_api \<Rightarrow> str_map option \<Rightarrow> string list option \<Rightarrow>
   ('w, node_labels_data) call" where
  "label_node cluster node kube set_labels remove_labels =
     bind_io (patch_labels cluster node kube set_labels remove_labels) (\<lambda>patched.
       bind_io (if patched then fetch_node_labels cluster node kube else return_io [])
         (\<lambda>current_labels. return_io
            \<lparr>nl_status = ''success'', nl_cluster = cluster, nl_node = node, nl_action = ''label'',
             nl_labels = current_labels\<rparr>))"

definition annotate_node ::
  "string \<Rightarrow> string \<Rightarrow> 'w core_v1_api \<Rightarrow> str_map option \<Rightarrow> string list option \<Rightarrow>
   ('w, node_annotations_data) call" where
  "annotate_node cluster node kube set_annotations remove_annotations =
     bind_io (patch_annotations cluster node kube set_annotations remove_annotations) (\<lambda>patched.
       bind_io (if patched then fetch_node_annotations cluster node kube else return_io [])
         (\<lambda>current_annotations. return_io
            \<lparr>nan_status = ''success'', nan_cluster = cluster, nan_node = node,
             nan_action = ''annotate'', nan_annotations = current_annotations\<rparr>))"

text \<open>\<open>by_id\<close>: the taints keyed by key and effect, after removals and then settings.\<close>

definition taint_id :: "v1_taint \<Rightarrow> string \<times> string" where
  "taint_id t = (taint_key t, taint_effect t)"

definition spec_taint :: "taint_spec \<Rightarrow> v1_taint" where
  "spec_taint s =
     \<lparr>taint_key = ts_key s, taint_value = ts_value s, taint_effect = effect_str (ts_effect s)\<rparr>"

definition taints_by_id ::
  "v1_taint list \<Rightarrow> taint_remove_spec list \<Rightarrow> taint_spec list \<Rightarrow> (string \<times> string, v1_taint) dict"
where
  "taints_by_id existing remove_taints set_taints =
     (let current = dict_update [] (map (\<lambda>t. (taint_id t, t)) existing);
          kept = foldl (\<lambda>d r. dict_pop (tr_key r, effect_str (tr_effect r)) d) current remove_taints
      in dict_update kept (map (\<lambda>s. (taint_id (spec_taint s), spec_taint s)) set_taints))"

definition taint_node ::
  "string \<Rightarrow> string \<Rightarrow> 'w core_v1_api \<Rightarrow> taint_spec list option \<Rightarrow>
   taint_remove_spec list option \<Rightarrow> ('w, node_taint_data) call" where
  "taint_node cluster node kube set_opt remove_opt =
     (let set_taints = or_else set_opt []; remove_taints = or_else remove_opt []
      in bind_io (read_node_checked cluster node kube) (\<lambda>current.
           bind_io
             (if set_taints \<noteq> [] \<or> remove_taints \<noteq> []
              then bind_io
                (translate_kube_errors cluster (''patch taints on node '' @ quoted node)
                   (Some (node_not_found cluster node))
                   (patch_node kube node (empty_node_patch\<lparr>np_taints :=
                      Some (map snd
                        (taints_by_id (or_else (node_taints current) []) remove_taints set_taints))\<rparr>)))
                (\<lambda>_. read_node_checked cluster node kube)
              else return_io current)
             (\<lambda>n. bind_io (to_taint_specs (or_else (node_taints n) [])) (\<lambda>taints. return_io
                \<lparr>nt_status = ''success'', nt_cluster = cluster, nt_node = node,
                 nt_action = ''taint'', nt_taints = taints\<rparr>))))"

section \<open>Drain\<close>

definition MIRROR_POD_ANNOTATION :: string where
  "MIRROR_POD_ANNOTATION = ''kubernetes.io/config.mirror''"

definition uses_emptydir :: "v1_pod \<Rightarrow> bool" where
  "uses_emptydir pod =
     (case pod_spec pod of None \<Rightarrow> False
      | Some spec \<Rightarrow> list_ex (\<lambda>is_empty_dir. is_empty_dir) (or_else (ps_volumes spec) []))"

definition is_skipped :: "v1_pod \<Rightarrow> bool" where
  "is_skipped pod =
     (if MIRROR_POD_ANNOTATION \<in> set (keys (or_else (pod_annotations pod) [])) then True
      else if lower (str_or (pod_phase pod) []) \<in> {''succeeded'', ''failed''} then True
      else ''DaemonSet'' \<in> set (or_else (pod_owner_kinds pod) []))"

definition block_reasons :: "drain_options \<Rightarrow> v1_pod \<Rightarrow> block_reason list" where
  "block_reasons options pod =
     (if or_else (pod_owner_kinds pod) [] = [] \<and> \<not> force options then [Unmanaged] else []) @
     (if uses_emptydir pod \<and> \<not> delete_emptydir_data options then [EmptyDir] else [])"

definition blocked_entry :: "drain_options \<Rightarrow> v1_pod \<Rightarrow> blocked_pod" where
  "blocked_entry options pod =
     \<lparr>bp_namespace = pod_namespace pod, bp_name = pod_name pod,
      bp_reasons = block_reasons options pod\<rparr>"

text \<open>Step 3, the classification loop: the pods to evict and the blocked ones.\<close>

fun classify_pods :: "drain_options \<Rightarrow> v1_pod list \<Rightarrow> v1_pod list \<times> blocked_pod list" where
  "classify_pods options [] = ([], [])"
| "classify_pods options (pod # pods) =
     (case classify_pods options pods of (evict, blocked) \<Rightarrow>
        if is_skipped pod then (evict, blocked)
        else if block_reasons options pod \<noteq> [] then (evict, blocked_entry options pod # blocked)
        else (pod # evict, blocked))"

definition pod_path :: "string \<Rightarrow> string \<Rightarrow> string" where
  "pod_path ns name = quoted (ns @ ''/'' @ name)"

definition pdb_message :: "string \<Rightarrow> string \<Rightarrow> string" where
  "pdb_message ns name =
     ''Pod '' @ pod_path ns name
     @ '' cannot be evicted due to a PodDisruptionBudget. Use disable_eviction=true to bypass.''"

definition evict_or_delete ::
  "string \<Rightarrow> 'w core_v1_api \<Rightarrow> string \<Rightarrow> string \<Rightarrow> drain_options \<Rightarrow> ('w, unit) call" where
  "evict_or_delete cluster kube name ns options =
     (if disable_eviction options
      then translate_kube_errors cluster (''delete pod '' @ pod_path ns name) None
        (catch_io (delete_namespaced_pod kube name ns (grace_period_seconds options))
           (\<lambda>e. case e of
                  ApiException status _ \<Rightarrow>
                    (if status = Some 404 then return_io () else raise_io e)
                | _ \<Rightarrow> raise_io e))
      else translate_kube_errors cluster (''evict pod '' @ pod_path ns name) None
        (catch_io (create_namespaced_pod_eviction kube name ns (grace_period_seconds options))
           (\<lambda>e. case e of
                  ApiException status _ \<Rightarrow>
                    (if status = Some 404 then return_io ()
                     else if status = Some 429
                     then raise_io (App (kube_api_exception (pdb_message ns name) (Some 409) False))
                     else raise_io e)
                | _ \<Rightarrow> raise_io e)))"

definition node_selector :: "string \<Rightarrow> string" where
  "node_selector node = ''spec.nodeName='' @ node"

text \<open>A pod as the wait loop tracks it: namespace, then name.\<close>

definition pod_id :: "v1_pod \<Rightarrow> string \<times> string" where
  "pod_id pod = (pod_namespace pod, pod_name pod)"

text \<open>Steps 1 to 4: cordon, list, classify, refuse or request every eviction.\<close>

definition request_evictions ::
  "string \<Rightarrow> string \<Rightarrow> 'w core_v1_api \<Rightarrow> drain_options \<Rightarrow> ('w, v1_pod list) call" where
  "request_evictions cluster node kube options =
     bind_io (cordon cluster node kube) (\<lambda>_.
     bind_io
       (translate_kube_errors cluster (''list pods on node '' @ quoted node) None
          (list_pod_for_all_namespaces kube (Some (node_selector node))))
       (\<lambda>items. case classify_pods options items of (evict, blocked) \<Rightarrow>
          if blocked \<noteq> [] then raise_io (App (DrainBlockedException node blocked))
          else bind_io
            (for_io (\<lambda>pod. evict_or_delete cluster kube (pod_name pod) (pod_namespace pod) options)
               evict)
            (\<lambda>_. return_io evict)))"

definition poll_pods :: "string \<Rightarrow> 'w core_v1_api \<Rightarrow> string \<Rightarrow> ('w, v1_pod list) call" where
  "poll_pods cluster kube node =
     translate_kube_errors cluster
       (''list pods on node '' @ quoted node @ '' while waiting for them to drain'') None
       (list_pod_for_all_namespaces kube (Some (node_selector node)))"

partial_function (option) wait_loop ::
  "'w clock \<Rightarrow> ('w, v1_pod list) call \<Rightarrow> (string \<times> string) set \<Rightarrow> int \<Rightarrow> 'w \<Rightarrow>
   ((exn + (string \<times> string) set) \<times> 'w) option" where
  "wait_loop clk poll pod_names deadline w =
     (case poll w of
        (Inl e, w1) \<Rightarrow> Some (Inl e, w1)
      | (Inr remaining, w1) \<Rightarrow>
          (let still_present = {i \<in> set (map pod_id remaining). i \<in> pod_names}
           in if still_present = {} then Some (Inr {}, w1)
              else if monotonic clk w1 \<ge> deadline then Some (Inr still_present, w1)
              else wait_loop clk poll pod_names deadline (sleep clk (seconds 2) w1)))"

definition wait_for_pods_gone ::
  "'w clock \<Rightarrow> string \<Rightarrow> 'w core_v1_api \<Rightarrow> string \<Rightarrow> (string \<times> string) set \<Rightarrow> int \<Rightarrow> 'w \<Rightarrow>
   ((exn + (string \<times> string) set) \<times> 'w) option" where
  "wait_for_pods_gone clk cluster kube node pod_names timeout_seconds w =
     (if pod_names = {} then Some (Inr {}, w)
      else wait_loop clk (poll_pods cluster kube node) pod_names
             (monotonic clk w + seconds timeout_seconds) w)"

definition drain_result ::
  "string \<Rightarrow> string \<Rightarrow> drain_options \<Rightarrow> v1_pod list \<Rightarrow> (string \<times> string) set \<Rightarrow> drain_action_data"
where
  "drain_result cluster node options evicted still_present =
     (default_drain_action_data cluster node)\<lparr>
        drained_pods := map (\<lambda>p. \<lparr>pr_name = pod_name p, pr_namespace = pod_namespace p\<rparr>) evicted,
        still_terminating :=
          map (\<lambda>(ns, name). \<lparr>pr_name = name, pr_namespace = ns\<rparr>) (sorted_list_of_set still_present),
        node_emptied := (sorted_list_of_set still_present = []),
        forced_deletion := (grace_period_seconds options = Some 0)\<rparr>"

definition drain ::
  "'w clock \<Rightarrow> int \<Rightarrow> string \<Rightarrow> string \<Rightarrow> 'w core_v1_api \<Rightarrow> drain_options \<Rightarrow> 'w \<Rightarrow>
   ((exn + drain_action_data) \<times> 'w) option" where
  "drain clk timeout_seconds cluster node kube options w =
     (case request_evictions cluster node kube options w of
        (Inl e, w1) \<Rightarrow> Some (Inl e, w1)
      | (Inr evicted, w1) \<Rightarrow>
          (case wait_for_pods_gone clk cluster kube node (set (map pod_id evicted))
                  timeout_seconds w1 of
             None \<Rightarrow> None
           | Some (Inl e, w2) \<Rightarrow> Some (Inl e, w2)
           | Some (Inr still, w2) \<Rightarrow> Some (Inr (drain_result cluster node options evicted still), w2)))"

end
