(* ===== verification/Node_Facts.thy ===== *)
theory Node_Facts
  imports Node_Service
begin

text \<open>
  What the node operations promise, whatever cluster they run against: which exceptions leave
  them, the readiness gate of uncordon, the shape and order of a batch answer and what a batch
  may patch, the refusal and the targets of a drain, and the semantics of a taint edit.
\<close>

section \<open>Only application exceptions leave the service\<close>

lemma app_read_node_checked [app_intros]: "app_errors_only (read_node_checked cluster node kube)"
  unfolding read_node_checked_def by (intro app_intros)

lemma app_to_taint_specs [app_intros]: "app_errors_only (to_taint_specs ts)"
proof (induction ts)
  case (Cons t ts)
  have "app_errors_only (to_taint_spec t)"
    unfolding to_taint_spec_def by (auto split: option.split intro!: app_intros)
  with Cons show ?case by (auto intro!: app_intros)
qed (auto intro!: app_intros)

lemma app_patch_unschedulable [app_intros]:
  "app_errors_only (patch_unschedulable cluster node kube u)"
  unfolding patch_unschedulable_def by (intro app_intros)

lemma app_catch_handler:
  "(\<And>e. \<not> is_sdk_failure e \<Longrightarrow> app_errors_only (h e)) \<Longrightarrow> app_errors_only m \<Longrightarrow>
    app_errors_only (catch_io m h)"
  unfolding app_errors_only_def catch_io_def
  by (auto split: prod.splits sum.splits)

lemma app_list_nodes: "app_errors_only (list_nodes cluster kube)"
  unfolding list_nodes_def by (intro app_intros)

lemma app_list_pods: "app_errors_only (list_pods cluster ns kube nodes statuses pres)"
  unfolding list_pods_def by (intro app_intros)

lemma app_get_node: "app_errors_only (get_node cluster node kube)"
  unfolding get_node_def Let_def by (intro app_intros)

lemma app_cordon [app_intros]: "app_errors_only (cordon cluster node kube)"
  unfolding cordon_def by (intro app_intros)

lemma app_uncordon: "app_errors_only (uncordon cluster node kube)"
proof -
  have "app_errors_only (let status = node_status n in
      if status \<noteq> ''Ready'' then raise_io (App (NodeNotReadyException node status))
      else bind_io (patch_unschedulable cluster node kube False)
        (\<lambda>_. return_io (action_data cluster node ''uncordon'')))" for n
    by (auto simp: Let_def intro!: app_intros)
  then show ?thesis unfolding uncordon_def by (intro app_intros)
qed

lemma app_set_one [app_intros]: "app_errors_only (set_one cluster kube u statuses node)"
  unfolding set_one_def
  by (intro app_catch_handler app_intros; auto split: exn.split option.split intro!: app_intros)

lemma app_batch_loop [app_intros]:
  "app_errors_only (batch_loop cluster kube u statuses denied names)"
  by (induction names) (auto split: option.split intro!: app_intros)

lemma app_batch: "app_errors_only (batch_set_unschedulable cluster names kube u action denied)"
  unfolding batch_set_unschedulable_def node_statuses_def Let_def
  by (auto intro!: app_intros)

lemma app_label_node: "app_errors_only (label_node cluster node kube s r)"
  unfolding label_node_def patch_labels_def fetch_node_labels_def Let_def
  by (auto intro!: app_intros)

lemma app_annotate_node: "app_errors_only (annotate_node cluster node kube s r)"
  unfolding annotate_node_def patch_annotations_def fetch_node_annotations_def Let_def
  by (auto intro!: app_intros)

lemma app_taint_node: "app_errors_only (taint_node cluster node kube s r)"
  unfolding taint_node_def Let_def by (auto intro!: app_intros)

lemma app_evict_or_delete [app_intros]:
  "app_errors_only (evict_or_delete cluster kube name ns options)"
  unfolding evict_or_delete_def by (auto intro!: app_intros)

lemma app_request_evictions: "app_errors_only (request_evictions cluster node kube options)"
  unfolding request_evictions_def
  by (auto split: prod.split intro!: app_intros)

section \<open>The readiness gate of uncordon\<close>

lemma uncordon_refused:
  assumes "read_node kube node w = (Inr n, w1)" and "node_status n \<noteq> ''Ready''"
  shows "uncordon cluster node kube w = (Inl (App (NodeNotReadyException node (node_status n))), w1)"
  using assms by (simp add: uncordon_def read_node_checked_def Let_def)

lemma uncordon_patches:
  assumes "uncordon cluster node kube w = (Inr r, w')"
  obtains n w1 n' where "read_node kube node w = (Inr n, w1)" and "node_status n = ''Ready''"
    and "patch_node kube node (empty_node_patch\<lparr>np_unschedulable := Some False\<rparr>) w1 = (Inr n', w')"
    and "r = action_data cluster node ''uncordon''"
  using assms
  by (auto simp: uncordon_def read_node_checked_def patch_unschedulable_def Let_def
      bind_io_Inr_iff split: if_splits)

text \<open>Readiness is the first condition of type Ready, and only its literal status True passes.\<close>

lemma ready_condition_Ready_iff:
  "ready_condition cs = ''Ready'' \<longleftrightarrow>
     (\<exists>c. find (\<lambda>c. cond_type c = ''Ready'') cs = Some c \<and> cond_status c = ''True'')"
  by (induction cs) auto

lemma node_status_Ready_iff:
  "node_status n = ''Ready'' \<longleftrightarrow>
     (\<exists>c. find (\<lambda>c. cond_type c = ''Ready'') (or_else (node_conditions n) []) = Some c \<and>
        cond_status c = ''True'')"
  by (simp add: node_status_def ready_condition_Ready_iff)

lemma node_status_cases: "node_status n \<in> {''Ready'', ''NotReady'', ''Unknown''}"
proof -
  have "ready_condition cs \<in> {''Ready'', ''NotReady'', ''Unknown''}" for cs
    by (induction cs) auto
  then show ?thesis by (simp add: node_status_def)
qed

section \<open>Batches\<close>

lemma unique_node_names_eq: "unique_node_names names = unique names"
  by (simp add: unique_node_names_def keys_dict_fromkeys)

lemma set_one_node:
  assumes "set_one cluster kube u statuses node w = (Inr r, w')"
  shows "br_node r = node"
proof (cases "bind_io (case dict_get statuses node of
          Some status \<Rightarrow>
            (if \<not> u \<and> status \<noteq> ''Ready''
             then raise_io (App (NodeNotReadyException node status)) else return_io ())
        | None \<Rightarrow> return_io ())
      (\<lambda>_. bind_io (patch_unschedulable cluster node kube u)
         (\<lambda>_. return_io \<lparr>br_node = node, br_status = Success, br_error_code = None,
            br_message = None, br_kube_status = None\<rparr>)) w" rule: prod.exhaust)
  case (Pair res w1)
  with assms show ?thesis
    by (cases res)
      (auto simp: set_one_def catch_io_def bind_io_Inr_iff
        split: exn.splits if_splits option.splits)
qed

text \<open>One node of the batch, as the code treats it: refused by policy, or attempted.\<close>

definition batch_item ::
  "string \<Rightarrow> 'w core_v1_api \<Rightarrow> bool \<Rightarrow> (string, string) dict \<Rightarrow> (string, string) dict \<Rightarrow> string \<Rightarrow>
   ('w, batch_node_result) call" where
  "batch_item cluster kube u statuses denied node =
     (case dict_get denied node of
        Some reason \<Rightarrow> return_io (denied_result node reason)
      | None \<Rightarrow> set_one cluster kube u statuses node)"

lemma batch_item_node: "batch_item cluster kube u statuses denied node w = (Inr r, w') \<Longrightarrow> br_node r = node"
  by (auto simp: batch_item_def denied_result_def dest: set_one_node split: option.splits)

lemma batch_loop_Cons:
  "batch_loop cluster kube u statuses denied (node # nodes) =
     bind_io (batch_item cluster kube u statuses denied node)
       (\<lambda>r. bind_io (batch_loop cluster kube u statuses denied nodes) (\<lambda>rs. return_io (r # rs)))"
  by (simp add: batch_item_def)

lemmas batch_loop_simps = batch_loop.simps(1) batch_loop_Cons

lemma batch_loop_nodes:
  "batch_loop cluster kube u statuses denied names w = (Inr rs, w') \<Longrightarrow> map br_node rs = names"
proof (induction names arbitrary: w rs)
  case (Cons node nodes)
  from Cons.prems obtain r w1 rs' where "batch_item cluster kube u statuses denied node w = (Inr r, w1)"
    and "batch_loop cluster kube u statuses denied nodes w1 = (Inr rs', w')" and "rs = r # rs'"
    unfolding batch_loop_Cons by (auto simp: bind_io_Inr_iff)
  with Cons.IH show ?case by (auto dest: batch_item_node)
qed simp

lemma batch_loop_denied:
  "batch_loop cluster kube u statuses denied names w = (Inr rs, w') \<Longrightarrow> r \<in> set rs \<Longrightarrow>
     dict_get denied (br_node r) = Some reason \<Longrightarrow> r = denied_result (br_node r) reason"
proof (induction names arbitrary: w rs)
  case (Cons node nodes)
  from Cons.prems(1) obtain r1 w1 rs' where
    first: "batch_item cluster kube u statuses denied node w = (Inr r1, w1)"
    and rest: "batch_loop cluster kube u statuses denied nodes w1 = (Inr rs', w')" and "rs = r1 # rs'"
    unfolding batch_loop_Cons by (auto simp: bind_io_Inr_iff)
  with Cons.prems(2) consider "r = r1" | "r \<in> set rs'" by auto
  then show ?case
  proof cases
    case 1
    from first have "br_node r1 = node" by (rule batch_item_node)
    with 1 first Cons.prems(3) show ?thesis by (auto simp: batch_item_def)
  qed (use Cons.IH rest Cons.prems(3) in blast)
qed simp

lemma filter_status_partition:
  "length (filter (\<lambda>r. br_status r = Success) rs) + length (filter (\<lambda>r. br_status r = Failed) rs)
     = length rs"
proof (induction rs)
  case (Cons r rs)
  then show ?case by (cases "br_status r") auto
qed simp

lemma batch_data_summary:
  "bs_total (bd_summary (batch_data cluster action rs)) = length rs"
  "bs_succeeded (bd_summary (batch_data cluster action rs)) =
     length (filter (\<lambda>r. br_status r = Success) rs)"
  "bs_failed (bd_summary (batch_data cluster action rs)) =
     length (filter (\<lambda>r. br_status r = Failed) rs)"
  "bd_results (batch_data cluster action rs) = rs"
  using filter_status_partition[of rs] by (auto simp: batch_data_def Let_def)

lemma batch_returns:
  assumes "batch_set_unschedulable cluster names kube u action denied w = (Inr d, w')"
  obtains statuses w1 rs where
    "batch_loop cluster kube u statuses denied (unique names) w1 = (Inr rs, w')"
    and "d = batch_data cluster action rs"
    and "(if \<not> u \<and> list_ex (\<lambda>n. dict_get denied n = None) (unique names)
          then node_statuses cluster kube else return_io []) w = (Inr statuses, w1)"
  using assms unfolding batch_set_unschedulable_def Let_def
  by (auto simp: bind_io_Inr_iff unique_node_names_eq)

text \<open>What a batch may ask of Kubernetes.\<close>

fun batch_call :: "string set \<Rightarrow> kube_call \<Rightarrow> bool" where
  "batch_call allowed ListNode = True"
| "batch_call allowed (PatchNode n p) = (n \<in> allowed)"
| "batch_call allowed c = False"

lemma emits_patch_unschedulable [emits_intros]:
  "P (PatchNode node (empty_node_patch\<lparr>np_unschedulable := Some u\<rparr>)) \<Longrightarrow>
     emits P (patch_unschedulable cluster node (observed kube) u)"
  unfolding patch_unschedulable_def by (auto simp: observed_def intro!: emits_intros)

lemma emits_set_one [emits_intros]:
  assumes "P (PatchNode node (empty_node_patch\<lparr>np_unschedulable := Some u\<rparr>))"
  shows "emits P (set_one cluster (observed kube) u statuses node)"
proof -
  have patch: "emits P (patch_unschedulable cluster node (observed kube) u)"
    using assms by (rule emits_patch_unschedulable)
  show ?thesis
    unfolding set_one_def
    by (intro emits_intros patch; auto intro!: emits_intros split: option.split exn.split)
qed

lemma emits_batch_item:
  assumes "node \<in> allowed \<or> dict_get denied node \<noteq> None"
  shows "emits (batch_call allowed) (batch_item cluster (observed kube) u statuses denied node)"
  using assms by (auto simp: batch_item_def intro!: emits_intros split: option.split)

lemma emits_batch_loop:
  assumes "\<And>n. n \<in> set names \<Longrightarrow> n \<in> allowed \<or> dict_get denied n \<noteq> None"
  shows "emits (batch_call allowed) (batch_loop cluster (observed kube) u statuses denied names)"
  using assms
proof (induction names)
  case (Cons node nodes)
  then show ?case
    unfolding batch_loop_Cons by (auto intro!: emits_intros emits_batch_item)
qed (auto intro!: emits_intros)

lemma emits_node_statuses:
  "emits (batch_call allowed) (node_statuses cluster (observed kube))"
  unfolding node_statuses_def by (auto simp: observed_def intro!: emits_intros)

lemma emits_batch:
  assumes "\<And>n. n \<in> set names \<Longrightarrow> n \<in> allowed \<or> dict_get denied n \<noteq> None"
  shows "emits (batch_call allowed)
    (batch_set_unschedulable cluster names (observed kube) u action denied)"
proof -
  have "emits (batch_call allowed)
      (batch_loop cluster (observed kube) u statuses denied (unique names))" for statuses
    by (rule emits_batch_loop) (use assms in auto)
  then show ?thesis
    unfolding batch_set_unschedulable_def Let_def unique_node_names_eq
    by (auto intro!: emits_intros emits_node_statuses)
qed

text \<open>Which failures end a batch.\<close>

lemma set_one_raises:
  assumes "set_one cluster kube u statuses node w = (Inl e, w')"
  shows "is_cluster_level e \<or> \<not> is_node_failure e"
  using assms unfolding set_one_def catch_io_def
  by (auto split: prod.splits sum.splits exn.splits if_splits)

lemma batch_item_raises:
  "batch_item cluster kube u statuses denied node w = (Inl e, w') \<Longrightarrow>
     is_cluster_level e \<or> \<not> is_node_failure e"
  by (auto simp: batch_item_def dest: set_one_raises split: option.splits)

lemma batch_loop_raises:
  "batch_loop cluster kube u statuses denied names w = (Inl e, w') \<Longrightarrow>
     is_cluster_level e \<or> \<not> is_node_failure e"
proof (induction names arbitrary: w)
  case (Cons node nodes)
  then show ?case
    unfolding batch_loop_Cons by (auto simp: bind_io_Inl_iff dest: batch_item_raises)
qed simp

text \<open>A node whose patch fails for the cluster as a whole ends the batch there.\<close>

lemma set_one_cluster_level:
  assumes "dict_get statuses node = None \<or> u"
    and "patch_unschedulable cluster node kube u w = (Inl e, w')" and "is_cluster_level e"
  shows "set_one cluster kube u statuses node w = (Inl e, w')"
  using assms by (cases e) (auto simp: set_one_def catch_io_def bind_io_def split: option.splits)

lemma set_one_success:
  assumes "set_one cluster kube u statuses node w = (Inr r, w')" and "br_status r = Success"
  shows "u \<or> dict_get statuses node \<in> {None, Some ''Ready''}"
proof (rule ccontr)
  assume "\<not> ?thesis"
  then obtain status where "\<not> u" "dict_get statuses node = Some status" "status \<noteq> ''Ready''"
    by auto
  with assms show False by (auto simp: set_one_def catch_io_def)
qed

lemma denied_result_status [simp]: "br_status (denied_result node reason) = Failed"
  by (simp add: denied_result_def)

lemma batch_item_success:
  assumes "batch_item cluster kube u statuses denied node w = (Inr r, w')" and "br_status r = Success"
  shows "dict_get denied node = None \<and> (u \<or> dict_get statuses node \<in> {None, Some ''Ready''})"
proof (cases "dict_get denied node")
  case None
  with assms(1) have "set_one cluster kube u statuses node w = (Inr r, w')"
    by (simp add: batch_item_def)
  from set_one_success[OF this assms(2)] None show ?thesis by blast
next
  case (Some reason)
  with assms(1) have "r = denied_result node reason" by (simp add: batch_item_def)
  with assms(2) show ?thesis by simp
qed

lemma batch_loop_success:
  "batch_loop cluster kube u statuses denied names w = (Inr rs, w') \<Longrightarrow> r \<in> set rs \<Longrightarrow>
     br_status r = Success \<Longrightarrow>
     dict_get denied (br_node r) = None \<and>
     (u \<or> dict_get statuses (br_node r) \<in> {None, Some ''Ready''})"
proof (induction names arbitrary: w rs)
  case (Cons node nodes)
  from Cons.prems(1) obtain r1 w1 rs' where
    first: "batch_item cluster kube u statuses denied node w = (Inr r1, w1)"
    and rest: "batch_loop cluster kube u statuses denied nodes w1 = (Inr rs', w')" and "rs = r1 # rs'"
    unfolding batch_loop_Cons by (auto simp: bind_io_Inr_iff)
  with Cons.prems(2) consider "r = r1" | "r \<in> set rs'" by auto
  then show ?case
  proof cases
    case 1
    from first have "br_node r1 = node" by (rule batch_item_node)
    with 1 batch_item_success[OF first] Cons.prems(3) show ?thesis by simp
  qed (use Cons.IH rest Cons.prems(3) in blast)
qed simp

lemma find_distinct:
  "distinct (map f xs) \<Longrightarrow> x \<in> set xs \<Longrightarrow> find (\<lambda>y. f y = f x) xs = Some x"
  by (induction xs) auto

lemma node_statuses_get:
  assumes "node_statuses cluster kube w = (Inr statuses, w')"
  obtains items where "list_node kube w = (Inr items, w')"
    and "distinct (map node_name items) \<longrightarrow>
      (\<forall>n \<in> set items. dict_get statuses (node_name n) = Some (node_status n))"
proof -
  from assms obtain items where "list_node kube w = (Inr items, w')"
    and "statuses = dict_update [] (map (\<lambda>n. (node_name n, node_status n)) items)"
    by (auto simp: node_statuses_def bind_io_Inr_iff)
  moreover have "distinct (map node_name items) \<Longrightarrow> n \<in> set items \<Longrightarrow>
      find (\<lambda>y. node_name y = node_name n) (rev items) = Some n" for n
    by (rule find_distinct) (simp_all flip: rev_map)
  ultimately show ?thesis by (intro that) (auto simp: dict_get_update_map)
qed

section \<open>Taint edits\<close>

definition removal_id :: "taint_remove_spec \<Rightarrow> string \<times> string" where
  "removal_id r = (tr_key r, effect_str (tr_effect r))"

lemma taints_by_id_get:
  "dict_get (taints_by_id existing removed added) i =
     (case find (\<lambda>s. taint_id (spec_taint s) = i) (rev added) of
        Some s \<Rightarrow> Some (spec_taint s)
      | None \<Rightarrow> (if i \<in> removal_id ` set removed then None
                 else find (\<lambda>t. taint_id t = i) (rev existing)))"
  by (auto simp: taints_by_id_def Let_def dict_get_update_map dict_get_foldl_pop removal_id_def
      split: option.split)

lemma wf_taints_by_id [simp]: "wf_dict (taints_by_id existing removed added)"
  by (simp add: taints_by_id_def Let_def)

lemma taints_by_id_ids: "(i, t) \<in> set (taints_by_id existing removed added) \<Longrightarrow> i = taint_id t"
  unfolding taints_by_id_def Let_def
  by (auto dest!: set_dict_update set_foldl_pop)

lemma taints_by_id_list:
  "map (\<lambda>t. (taint_id t, t)) (map snd (taints_by_id existing removed added)) =
     taints_by_id existing removed added"
  unfolding map_map by (rule map_idI) (auto dest: taints_by_id_ids)

lemma distinct_taints_by_id:
  "distinct (map taint_id (map snd (taints_by_id existing removed added)))"
proof -
  have "map taint_id (map snd (taints_by_id existing removed added)) =
      map fst (taints_by_id existing removed added)"
    unfolding map_map by (rule map_cong[OF refl]) (auto dest: taints_by_id_ids)
  moreover have "distinct (map fst (taints_by_id existing removed added))"
    using wf_taints_by_id unfolding wf_dict_def .
  ultimately show ?thesis by (simp only:)
qed

text \<open>A taint whose effect the model knows survives the trip through the response.\<close>

definition known_taint :: "v1_taint \<Rightarrow> bool" where
  "known_taint t \<longleftrightarrow> parse_effect (taint_effect t) \<noteq> None"

lemma known_spec_taint [simp]: "known_taint (spec_taint s)"
  by (simp add: known_taint_def spec_taint_def)

lemma to_taint_specs_known:
  "\<forall>t \<in> set ts. known_taint t \<Longrightarrow> \<exists>ss. to_taint_specs ts w = (Inr ss, w) \<and> map spec_taint ss = ts"
proof (induction ts)
  case (Cons t ts)
  then obtain ss where "to_taint_specs ts w = (Inr ss, w)" and "map spec_taint ss = ts" by auto
  moreover from Cons.prems obtain e where "parse_effect (taint_effect t) = Some e"
    by (auto simp: known_taint_def)
  ultimately show ?case
    by (auto simp: to_taint_spec_def spec_taint_def effect_str_parse bind_io_Inr_iff)
qed simp

lemma known_taints_by_id:
  "\<forall>t \<in> set existing. known_taint t \<Longrightarrow>
     \<forall>t \<in> set (map snd (taints_by_id existing removed added)). known_taint t"
  unfolding taints_by_id_def Let_def
  by (auto dest!: set_dict_update set_foldl_pop)

end
