(* ===== verification/Drain_Facts.thy ===== *)
theory Drain_Facts
  imports Node_Facts
begin

text \<open>
  What a drain promises, by rules of protection stated on the pod alone: a protected pod refuses the whole drain before anything is evicted; the
  pods asked to leave are exactly the eligible ones of the listing, in its order; what is reported
  as still terminating was asked to leave; and, on a clock that a sleep moves forward, the wait
  loop always ends.
\<close>

section \<open>Classification\<close>

text \<open>The rules of a drain, from the pod alone: mirror pods, finished pods and the pods of a DaemonSet are left
  alone; of the others, a pod nobody manages and a pod that keeps data in an \<open>emptyDir\<close> are protected, unless
  the caller opted out of that protection.\<close>

definition left_alone :: "v1_pod \<Rightarrow> bool" where
  "left_alone pod \<longleftrightarrow>
     (case pod_annotations pod of None \<Rightarrow> False | Some d \<Rightarrow> dict_get d ''kubernetes.io/config.mirror'' \<noteq> None) \<or>
     (case pod_phase pod of None \<Rightarrow> False | Some phase \<Rightarrow> lower phase = ''succeeded'' \<or> lower phase = ''failed'') \<or>
     (case pod_owner_kinds pod of None \<Rightarrow> False | Some kinds \<Rightarrow> ''DaemonSet'' \<in> set kinds)"

fun blocks :: "drain_options \<Rightarrow> v1_pod \<Rightarrow> block_reason \<Rightarrow> bool" where
  "blocks options pod Unmanaged \<longleftrightarrow>
     (case pod_owner_kinds pod of None \<Rightarrow> True | Some kinds \<Rightarrow> kinds = []) \<and> \<not> force options"
| "blocks options pod EmptyDir \<longleftrightarrow>
     (case pod_spec pod of
        None \<Rightarrow> False
      | Some spec \<Rightarrow> (case ps_volumes spec of None \<Rightarrow> False | Some volumes \<Rightarrow> True \<in> set volumes)) \<and>
     \<not> delete_emptydir_data options"

definition evictable :: "drain_options \<Rightarrow> v1_pod \<Rightarrow> bool" where
  "evictable options pod \<longleftrightarrow>
     \<not> left_alone pod \<and> \<not> blocks options pod Unmanaged \<and> \<not> blocks options pod EmptyDir"

definition protected_pod :: "drain_options \<Rightarrow> v1_pod \<Rightarrow> bool" where
  "protected_pod options pod \<longleftrightarrow>
     \<not> left_alone pod \<and> (blocks options pod Unmanaged \<or> blocks options pod EmptyDir)"

definition refusal_of :: "drain_options \<Rightarrow> v1_pod \<Rightarrow> blocked_pod" where
  "refusal_of options pod =
     \<lparr>bp_namespace = pod_namespace pod, bp_name = pod_name pod,
      bp_reasons = filter (blocks options pod) [Unmanaged, EmptyDir]\<rparr>"

text \<open>The code classifies by these rules.\<close>

lemma is_skipped_iff: "is_skipped pod \<longleftrightarrow> left_alone pod"
proof -
  have "MIRROR_POD_ANNOTATION \<in> set (keys (or_else (pod_annotations pod) [])) \<longleftrightarrow>
      (case pod_annotations pod of None \<Rightarrow> False | Some d \<Rightarrow> dict_get d ''kubernetes.io/config.mirror'' \<noteq> None)"
    by (auto simp: MIRROR_POD_ANNOTATION_def keys_def map_of_eq_None_iff split: option.split)
  moreover have "lower (str_or (pod_phase pod) []) \<in> {''succeeded'', ''failed''} \<longleftrightarrow>
      (case pod_phase pod of None \<Rightarrow> False | Some phase \<Rightarrow> lower phase = ''succeeded'' \<or> lower phase = ''failed'')"
    by (auto simp: str_or_def lower_def split: option.split)
  ultimately show ?thesis by (auto simp: is_skipped_def left_alone_def split: option.split)
qed

lemma block_reasons_eq: "block_reasons options pod = filter (blocks options pod) [Unmanaged, EmptyDir]"
proof -
  have "uses_emptydir pod \<and> \<not> delete_emptydir_data options \<longleftrightarrow> blocks options pod EmptyDir"
    by (auto simp: uses_emptydir_def list_ex_iff split: option.split)
  moreover have "or_else (pod_owner_kinds pod) [] = [] \<and> \<not> force options \<longleftrightarrow> blocks options pod Unmanaged"
    by (auto split: option.split)
  ultimately show ?thesis by (simp add: block_reasons_def)
qed

lemma blocked_entry_eq: "blocked_entry options pod = refusal_of options pod"
  by (simp only: blocked_entry_def refusal_of_def block_reasons_eq)

lemma classify_pods_eq:
  "classify_pods options pods =
     (filter (evictable options) pods,
      map (refusal_of options) (filter (protected_pod options) pods))"
proof (induction pods)
  case (Cons pod pods)
  have "block_reasons options pod = [] \<longleftrightarrow> \<not> blocks options pod Unmanaged \<and> \<not> blocks options pod EmptyDir"
    unfolding block_reasons_eq by simp
  with Cons show ?case
    by (auto simp: evictable_def protected_pod_def is_skipped_iff blocked_entry_eq simp del: blocks.simps)
qed simp

text \<open>Both opt-outs together leave nothing protected, and one alone answers for its own reason.\<close>

lemma block_reasons_iff:
  "Unmanaged \<in> set (block_reasons options pod) \<longleftrightarrow>
     or_else (pod_owner_kinds pod) [] = [] \<and> \<not> force options"
  "EmptyDir \<in> set (block_reasons options pod) \<longleftrightarrow>
     uses_emptydir pod \<and> \<not> delete_emptydir_data options"
  by (auto simp: block_reasons_def)

lemma forced_protects_nothing:
  "force options \<Longrightarrow> delete_emptydir_data options \<Longrightarrow> \<not> protected_pod options pod"
  by (simp add: protected_pod_def)

section \<open>Steps one to four\<close>

lemma request_evictions_blocked:
  assumes "cordon cluster node kube w = (Inr a, w1)"
    and "list_pod_for_all_namespaces kube (Some (node_selector node)) w1 = (Inr items, w2)"
    and "\<exists>p \<in> set items. protected_pod options p"
  shows "request_evictions cluster node kube options w =
    (Inl (App (DrainBlockedException node
       (map (refusal_of options) (filter (protected_pod options) items)))), w2)"
proof -
  from assms(3) have "filter (protected_pod options) items \<noteq> []" by (simp add: filter_empty_conv)
  then show ?thesis
    using assms(1,2) by (simp add: request_evictions_def classify_pods_eq translate_eval)
qed

lemma request_evictions_returns:
  assumes "request_evictions cluster node kube options w = (Inr evicted, w')"
  obtains a w1 items w2 where "cordon cluster node kube w = (Inr a, w1)"
    and "list_pod_for_all_namespaces kube (Some (node_selector node)) w1 = (Inr items, w2)"
    and "evicted = filter (evictable options) items"
    and "filter (protected_pod options) items = []"
    and "for_io (\<lambda>pod. evict_or_delete cluster kube (pod_name pod) (pod_namespace pod) options)
       evicted w2 = (Inr (), w')"
  using assms unfolding request_evictions_def classify_pods_eq
  by (auto simp: bind_io_Inr_iff split: if_splits)

section \<open>The wait loop\<close>

lemma wait_loop_result:
  assumes "wait_loop clk poll names deadline w = Some (Inr still, w')"
  shows "still \<subseteq> names \<and> (still = {} \<or> deadline \<le> monotonic clk w')"
proof -
  have "\<forall>still w'. r = (Inr still, w') \<longrightarrow>
      still \<subseteq> names \<and> (still = {} \<or> deadline \<le> monotonic clk w')"
    if "wait_loop clk poll names deadline w = Some r" for r
    by (rule wait_loop.raw_induct
        [where P = "\<lambda>clk poll names deadline w r. \<forall>still w'. r = (Inr still, w') \<longrightarrow>
          still \<subseteq> names \<and> (still = {} \<or> deadline \<le> monotonic clk w')", OF _ that])
      (auto simp: Let_def split: prod.splits sum.splits if_splits)
  with assms show ?thesis by blast
qed

lemma wait_loop_error:
  assumes "app_errors_only poll" and "wait_loop clk poll names deadline w = Some (Inl e, w')"
  shows "\<not> is_sdk_failure e"
proof -
  have "app_errors_only poll \<longrightarrow> (\<forall>e w'. r = (Inl e, w') \<longrightarrow> \<not> is_sdk_failure e)"
    if "wait_loop clk poll names deadline w = Some r" for r
    by (rule wait_loop.raw_induct
        [where P = "\<lambda>clk poll names deadline w r. app_errors_only poll \<longrightarrow>
          (\<forall>e w'. r = (Inl e, w') \<longrightarrow> \<not> is_sdk_failure e)", OF _ that])
      (auto simp: Let_def split: prod.splits sum.splits if_splits dest: app_errors_onlyD)
  with assms show ?thesis by blast
qed

lemma wait_loop_round:
  assumes "poll w = (Inr remaining, w1)"
    and "still = {i \<in> set (map pod_id remaining). i \<in> names}"
  shows "wait_loop clk poll names deadline w =
    (if still = {} then Some (Inr {}, w1)
     else if monotonic clk w1 \<ge> deadline then Some (Inr still, w1)
     else wait_loop clk poll names deadline (sleep clk (seconds 2) w1))"
  by (subst wait_loop.simps) (simp only: assms prod.case sum.case Let_def)

lemma drain_returns:
  assumes "drain clk t cluster node kube options w = Some (Inr d, w')"
  obtains evicted w1 still where
    "request_evictions cluster node kube options w = (Inr evicted, w1)"
    and "wait_for_pods_gone clk cluster kube node (set (map pod_id evicted)) t w1 =
      Some (Inr still, w')"
    and "d = drain_result cluster node options evicted still"
  using assms unfolding drain_def
  by (auto split: prod.splits sum.splits option.splits)

lemma wait_for_pods_gone_result:
  assumes "wait_for_pods_gone clk cluster kube node names t w = Some (Inr still, w')"
  shows "still \<subseteq> names \<and> (still = {} \<or> monotonic clk w + seconds t \<le> monotonic clk w')"
  using assms wait_loop_result[of clk "poll_pods cluster kube node" names]
  by (fastforce simp: wait_for_pods_gone_def split: if_splits)

lemma drain_app_errors: "app_errors_only_may (drain clk t cluster node kube options)"
  unfolding app_errors_only_may_def
proof (intro allI impI)
  fix w e w'
  assume run: "drain clk t cluster node kube options w = Some (Inl e, w')"
  show "\<not> is_sdk_failure e"
  proof (cases rule: io_cases[of "request_evictions cluster node kube options" w])
    case (raised e1 w1)
    with run have "e = e1" by (simp add: drain_def)
    with app_errors_onlyD[OF app_request_evictions raised] show ?thesis by simp
  next
    case (returned evicted w1)
    with run have "wait_for_pods_gone clk cluster kube node (set (map pod_id evicted)) t w1 =
        Some (Inl e, w')"
      by (auto simp: drain_def split: option.splits prod.splits sum.splits)
    then show ?thesis
      unfolding wait_for_pods_gone_def
      by (auto simp: poll_pods_def split: if_splits intro: app_intros dest!: wait_loop_error[rotated])
  qed
qed

locale drain_clock =
  fixes clk :: "'w clock" and kube :: "'w core_v1_api"
  assumes sleep_advances: "0 \<le> d \<Longrightarrow> monotonic clk w + d \<le> monotonic clk (sleep clk d w)"
    and poll_keeps: "monotonic clk w \<le> monotonic clk (snd (list_pod_for_all_namespaces kube sel w))"
begin

lemma poll_pods_keeps:
  assumes "poll_pods cluster kube node w = (r, w')"
  shows "monotonic clk w \<le> monotonic clk w'"
proof (cases r)
  case (Inr x)
  with assms poll_keeps[of w "Some (node_selector node)"] show ?thesis
    by (simp add: poll_pods_def)
next
  case (Inl e)
  with assms poll_keeps[of w "Some (node_selector node)"] show ?thesis
    by (auto simp: poll_pods_def translate_Inl)
qed

text \<open>Every round that does not return sleeps two seconds, so the number of rounds is bounded by
  the budget.\<close>

lemma wait_loop_ends:
  "nat (deadline - monotonic clk w) \<le> k \<Longrightarrow>
     \<exists>r. wait_loop clk (poll_pods cluster kube node) names deadline w = Some r"
proof (induction k arbitrary: w rule: less_induct)
  case (less k)
  obtain r1 w1 where poll: "poll_pods cluster kube node w = (r1, w1)" by (metis prod.exhaust)
  then have later: "monotonic clk w \<le> monotonic clk w1" by (rule poll_pods_keeps)
  show ?case
  proof (cases r1)
    case (Inl e)
    with poll show ?thesis by (subst wait_loop.simps) simp
  next
    case (Inr remaining)
    obtain still where still: "still = {i \<in> set (map pod_id remaining). i \<in> names}" by blast
    let ?w2 = "sleep clk (seconds 2) w1"
    have unfold: "wait_loop clk (poll_pods cluster kube node) names deadline w =
      (if still = {} then Some (Inr {}, w1)
       else if monotonic clk w1 \<ge> deadline then Some (Inr still, w1)
       else wait_loop clk (poll_pods cluster kube node) names deadline ?w2)"
      by (rule wait_loop_round[OF _ still]) (use poll Inr in simp)
    show ?thesis
    proof (cases "still = {} \<or> deadline \<le> monotonic clk w1")
      case True
      with unfold show ?thesis by auto
    next
      case False
      have "monotonic clk w1 + seconds 2 \<le> monotonic clk ?w2"
        by (rule sleep_advances) (simp add: seconds_def)
      with later have step: "monotonic clk w + 1 \<le> monotonic clk ?w2"
        by (simp add: seconds_def)
      moreover from False later have "monotonic clk w < deadline" by simp
      ultimately have "nat (deadline - monotonic clk ?w2) < nat (deadline - monotonic clk w)"
        by simp
      with less.prems have "nat (deadline - monotonic clk ?w2) < k" by linarith
      then obtain r where "wait_loop clk (poll_pods cluster kube node) names deadline ?w2 = Some r"
        using less.IH by blast
      with unfold False show ?thesis by simp
    qed
  qed
qed

lemma wait_for_pods_gone_ends:
  "\<exists>r. wait_for_pods_gone clk cluster kube node names t w = Some r"
  using wait_loop_ends[OF order_refl] by (auto simp: wait_for_pods_gone_def)

lemma drain_ends: "\<exists>r. drain clk t cluster node kube options w = Some r"
proof -
  obtain r1 w1 where req: "request_evictions cluster node kube options w = (r1, w1)"
    by (metis prod.exhaust)
  show ?thesis
  proof (cases r1)
    case (Inl e)
    with req show ?thesis by (simp add: drain_def)
  next
    case (Inr evicted)
    obtain r2 w2 where
      "wait_for_pods_gone clk cluster kube node (set (map pod_id evicted)) t w1 = Some (r2, w2)"
      using wait_for_pods_gone_ends by (metis prod.exhaust)
    with req Inr show ?thesis by (cases r2) (auto simp: drain_def)
  qed
qed

end

end
