(* ===== verification/Dry_Run_Kube.thy ===== *)
theory Dry_Run_Kube
  imports Drain_Facts
begin

text \<open>
  \<open>app/services/dry_run_kube_client.py\<close>: the in-memory cluster that stands in for
  \<open>CoreV1Api\<close> when \<open>DRY_RUN_MODE\<close> is set.

  The process-wide \<open>_CLUSTER_STATE\<close> is the field \<open>cluster_states\<close> of the world, a
  dictionary from cluster names to states; the other field is the monotonic clock. Each method is
  an \<open>io\<close> on that world, and \<open>dry_run_core_v1_api cluster\<close> is the class as a
  \<open>core_v1_api\<close>, so that every service operation runs on it unchanged.
\<close>

record kube_state =
  ks_nodes :: "(string, v1_node) dict"
  ks_pods :: "v1_pod list"
  ks_namespaces :: "(string, v1_namespace) dict"

record dry_world =
  cluster_states :: "(string, kube_state) dict"
  now :: int

section \<open>Default contents\<close>

definition KUBELET_VERSION :: string where
  "KUBELET_VERSION = ''v9.99.0-dry-run''"

definition CREATED :: datetime where
  "CREATED = \<lparr>dt_year = 2000, dt_month = 1, dt_day = 1, dt_hour = 0, dt_minute = 0,
     dt_second = 0\<rparr>"

definition READY_NODE :: string where
  "READY_NODE = ''dry-run-node-ready''"

definition NOT_READY_NODE :: string where
  "NOT_READY_NODE = ''dry-run-node-notready''"

definition UNKNOWN_NODE :: string where
  "UNKNOWN_NODE = ''dry-run-node-unknown''"

definition NODE_READINESS :: "(string, string) dict" where
  "NODE_READINESS =
     [(READY_NODE, ''True''), (NOT_READY_NODE, ''False''), (UNKNOWN_NODE, ''Unknown'')]"

definition DRY_RUN_NODES :: "string list" where
  "DRY_RUN_NODES = keys NODE_READINESS"

definition make_node :: "string \<Rightarrow> string \<Rightarrow> bool \<Rightarrow> v1_node" where
  "make_node name ready unschedulable =
     \<lparr>node_name = name,
      node_labels = Some [(''kubernetes.io/hostname'', name), (''dry-run'', ''true'')],
      node_annotations = Some [], node_unschedulable = Some unschedulable, node_taints = Some [],
      node_conditions = Some [\<lparr>cond_type = ''Ready'', cond_status = ready\<rparr>],
      node_kubelet_version = Some KUBELET_VERSION\<rparr>"

definition make_pod ::
  "string \<Rightarrow> string \<Rightarrow> string \<Rightarrow> string option \<Rightarrow> string \<Rightarrow> bool \<Rightarrow> bool \<Rightarrow> v1_pod" where
  "make_pod name ns node owner_kind phase mirror empty_dir =
     \<lparr>pod_name = name, pod_namespace = ns,
      pod_annotations = Some (if mirror then [(MIRROR_POD_ANNOTATION, ''dry-run'')] else []),
      pod_owner_kinds = (case owner_kind of
         None \<Rightarrow> None | Some k \<Rightarrow> (if k = [] then None else Some [k])),
      pod_spec = Some \<lparr>ps_node_name = Some node,
                       ps_volumes = Some (if empty_dir then [True] else [])\<rparr>,
      pod_phase = Some phase, pod_container_statuses = Some []\<rparr>"

definition default_pods :: "v1_pod list" where
  "default_pods =
     (let rs = Some ''ReplicaSet''; ready = READY_NODE
      in [make_pod ''dry-run-web-1'' ''default'' ready rs ''Running'' False False,
          make_pod ''dry-run-web-2'' ''apps'' ready rs ''Running'' False False,
          make_pod ''dry-run-daemon'' ''default'' ready (Some ''DaemonSet'') ''Running'' False False,
          make_pod ''dry-run-mirror'' ''default'' ready None ''Running'' True False,
          make_pod ''dry-run-completed'' ''default'' ready rs ''Succeeded'' False False,
          make_pod ''dry-run-unmanaged'' ''default'' ready None ''Running'' False False,
          make_pod ''dry-run-emptydir'' ''default'' ready rs ''Running'' False True,
          make_pod ''dry-run-other-node'' ''default'' NOT_READY_NODE rs ''Running'' False False])"

definition LAST_APPLIED :: string where
  "LAST_APPLIED = ''kubectl.kubernetes.io/last-applied-configuration''"

definition make_configmap ::
  "string \<Rightarrow> string \<Rightarrow> str_map option \<Rightarrow> str_map option \<Rightarrow> str_map option \<Rightarrow> v1_config_map" where
  "make_configmap name ns data binary_data annotations =
     \<lparr>cm_name = name, cm_namespace = ns, cm_labels = Some [(''dry-run'', ''true'')],
      cm_annotations = Some (or_else annotations []), cm_creation_timestamp = Some CREATED,
      cm_data = data, cm_binary_data = binary_data\<rparr>"

definition default_configmaps :: "v1_config_map list" where
  "default_configmaps =
     [make_configmap ''dry-run-app-config'' ''default''
        (Some [(''LOG_LEVEL'', ''debug''), (''PORT'', ''8080'')]) None None,
      make_configmap ''dry-run-binary'' ''default''
        (Some [(''README'', ''see cert.der'')]) (Some [(''cert.der'', ''AAEC'')]) None,
      make_configmap ''dry-run-applied'' ''default'' (Some [(''LOG_LEVEL'', ''warn'')]) None
        (Some [(LAST_APPLIED,
           ''{\"apiVersion\": \"v1\", \"kind\": \"ConfigMap\", \"data\": {\"LOG_LEVEL\": \"info\"}}''),
               (''meta.helm.sh/release-name'', ''dry-run-release'')]),
      make_configmap ''dry-run-shared'' ''default'' (Some [(''TEAM'', ''default'')]) None None,
      make_configmap ''dry-run-shared'' ''apps'' (Some [(''TEAM'', ''apps'')]) None None]"

definition make_namespace ::
  "string \<Rightarrow> string \<Rightarrow> str_map option \<Rightarrow> str_map option \<Rightarrow> v1_namespace" where
  "make_namespace name phase annotations labels =
     \<lparr>ns_name = name,
      ns_labels = Some (dict_set ''kubernetes.io/metadata.name'' name (or_else labels [])),
      ns_annotations = Some (or_else annotations []), ns_creation_timestamp = Some CREATED,
      ns_deletion_timestamp = (if phase = ''Terminating'' then Some CREATED else None),
      ns_phase = Some phase\<rparr>"

definition default_namespaces :: "(string, v1_namespace) dict" where
  "default_namespaces = map (\<lambda>ns. (ns_name ns, ns))
     [make_namespace ''default'' ''Active'' None None,
      make_namespace ''kube-system'' ''Active'' None None,
      make_namespace ''dry-run-apps'' ''Active''
        (Some [(LAST_APPLIED, ''{\"apiVersion\": \"v1\", \"kind\": \"Namespace\"}''),
               (''meta.helm.sh/release-name'', ''dry-run-release'')]) None,
      make_namespace ''dry-run-terminating'' ''Terminating'' None None]"

definition initial_state :: kube_state where
  "initial_state =
     \<lparr>ks_nodes = map (\<lambda>(name, ready). (name, make_node name ready False)) NODE_READINESS,
      ks_pods = default_pods, ks_namespaces = default_namespaces\<rparr>"

section \<open>Shared state\<close>

text \<open>\<open>_state_for\<close>: a cluster seen for the first time gets the default contents, which stay.\<close>

definition state_for :: "string \<Rightarrow> dry_world \<Rightarrow> kube_state" where
  "state_for cluster w = or_else (dict_get (cluster_states w) cluster) initial_state"

definition put_state :: "string \<Rightarrow> kube_state \<Rightarrow> dry_world \<Rightarrow> dry_world" where
  "put_state cluster s w = w\<lparr>cluster_states := dict_set cluster s (cluster_states w)\<rparr>"

definition reset_dry_run_clusters :: "dry_world \<Rightarrow> dry_world" where
  "reset_dry_run_clusters w = w\<lparr>cluster_states := []\<rparr>"

definition on_state ::
  "string \<Rightarrow> (kube_state \<Rightarrow> (exn + 'a) \<times> kube_state) \<Rightarrow> (dry_world, 'a) call" where
  "on_state cluster f =
     (\<lambda>w. case f (state_for cluster w) of (r, s) \<Rightarrow> (r, put_state cluster s w))"

section \<open>The SDK's own errors\<close>

definition sdk_not_found :: exn where
  "sdk_not_found = ApiException (Some 404) (Some ''Not Found'')"

definition sdk_conflict :: exn where
  "sdk_conflict = ApiException (Some 409) (Some ''Conflict'')"

definition sdk_bad_request :: exn where
  "sdk_bad_request = ApiException (Some 400) (Some ''Bad Request'')"

section \<open>Nodes\<close>

text \<open>A merge patch on one string map: null deletes, anything else sets (\<open>_merge\<close>, and the loop
  of \<open>patch_node\<close>).\<close>

fun merge_into :: "str_map \<Rightarrow> merge_patch \<Rightarrow> str_map" where
  "merge_into d [] = d"
| "merge_into d ((k, None) # p) = merge_into (dict_pop k d) p"
| "merge_into d ((k, Some v) # p) = merge_into (dict_set k v d) p"

definition merge_field :: "str_map option \<Rightarrow> merge_patch option \<Rightarrow> str_map option" where
  "merge_field current p =
     (if or_else p [] = [] then current else Some (merge_into (or_else current []) (or_else p [])))"

definition patched_node :: "node_patch \<Rightarrow> v1_node \<Rightarrow> v1_node" where
  "patched_node p node =
     node\<lparr>node_unschedulable := (case np_unschedulable p of
             Some u \<Rightarrow> Some u | None \<Rightarrow> node_unschedulable node),
          node_taints := (case np_taints p of Some ts \<Rightarrow> Some ts | None \<Rightarrow> node_taints node),
          node_labels := merge_field (node_labels node) (np_labels p),
          node_annotations := merge_field (node_annotations node) (np_annotations p)\<rparr>"

definition dry_list_node :: "kube_state \<Rightarrow> (exn + v1_node list) \<times> kube_state" where
  "dry_list_node s = (Inr (map snd (ks_nodes s)), s)"

definition dry_read_node :: "string \<Rightarrow> kube_state \<Rightarrow> (exn + v1_node) \<times> kube_state" where
  "dry_read_node name s =
     (case dict_get (ks_nodes s) name of
        None \<Rightarrow> (Inl sdk_not_found, s) | Some node \<Rightarrow> (Inr node, s))"

definition dry_patch_node :: "string \<Rightarrow> node_patch \<Rightarrow> kube_state \<Rightarrow> (exn + v1_node) \<times> kube_state"
where
  "dry_patch_node name body s =
     (case dict_get (ks_nodes s) name of
        None \<Rightarrow> (Inl sdk_not_found, s)
      | Some node \<Rightarrow>
          (let node' = patched_node body node
           in (Inr node', s\<lparr>ks_nodes := dict_set name node' (ks_nodes s)\<rparr>)))"

section \<open>Pods\<close>

text \<open>One clause of a field selector; only \<open>spec.nodeName\<close> filters.\<close>

definition select_clause :: "string \<Rightarrow> v1_pod list \<Rightarrow> v1_pod list" where
  "select_clause clause items =
     (case str_partition ''='' clause of (key, _, value) \<Rightarrow>
        if strip key = ''spec.nodeName''
        then filter (\<lambda>p. (case pod_spec p of None \<Rightarrow> None | Some sp \<Rightarrow> ps_node_name sp)
               = Some (strip value)) items
        else items)"

definition dry_list_pods :: "string option \<Rightarrow> kube_state \<Rightarrow> (exn + v1_pod list) \<times> kube_state" where
  "dry_list_pods field_selector s =
     (let selector = or_else field_selector []
      in (Inr (if selector = [] then ks_pods s
               else foldl (\<lambda>items clause. select_clause clause items) (ks_pods s)
                 (split_on CHR '','' selector)), s))"

definition dry_list_namespaced_pod :: "string \<Rightarrow> kube_state \<Rightarrow> (exn + v1_pod list) \<times> kube_state"
where
  "dry_list_namespaced_pod ns s = (Inr (filter (\<lambda>p. pod_namespace p = ns) (ks_pods s)), s)"

text \<open>\<open>_remove_pod\<close>: the first pod of that namespace and name.\<close>

fun pop_pod :: "string \<Rightarrow> string \<Rightarrow> v1_pod list \<Rightarrow> v1_pod list option" where
  "pop_pod ns name [] = None"
| "pop_pod ns name (p # ps) =
     (if pod_namespace p = ns \<and> pod_name p = name then Some ps
      else map_option (\<lambda>rest. p # rest) (pop_pod ns name ps))"

definition dry_remove_pod :: "string \<Rightarrow> string \<Rightarrow> kube_state \<Rightarrow> (exn + unit) \<times> kube_state" where
  "dry_remove_pod ns name s =
     (case pop_pod ns name (ks_pods s) of
        None \<Rightarrow> (Inl sdk_not_found, s) | Some ps \<Rightarrow> (Inr (), s\<lparr>ks_pods := ps\<rparr>))"

section \<open>ConfigMaps\<close>

definition one_page :: "'a list \<Rightarrow> 'a page" where
  "one_page items = \<lparr>page_items = items, page_continue = None\<rparr>"

definition dry_list_config_maps :: "(dry_world, v1_config_map page) call" where
  "dry_list_config_maps = return_io (one_page default_configmaps)"

definition dry_list_namespaced_config_map ::
  "string \<Rightarrow> (dry_world, v1_config_map page) call" where
  "dry_list_namespaced_config_map ns =
     return_io (one_page (filter (\<lambda>c. cm_namespace c = ns) default_configmaps))"

definition dry_read_config_map :: "string \<Rightarrow> string \<Rightarrow> (dry_world, v1_config_map) call" where
  "dry_read_config_map name ns =
     (case find (\<lambda>c. cm_namespace c = ns \<and> cm_name c = name) default_configmaps of
        Some cm \<Rightarrow> return_io cm | None \<Rightarrow> raise_io sdk_not_found)"

section \<open>Namespaces\<close>

text \<open>\<open>^([a-z0-9.-]+/)?[A-Za-z0-9]([-A-Za-z0-9_.]*[A-Za-z0-9])?$\<close>.\<close>

definition LABEL_KEY :: rexp where
  "LABEL_KEY =
     (let d = RSet (\<lambda>c. is_dns_middle c \<or> c = CHR ''.'')
      in RSeq (ROpt (RSeq (RSeq d (RStar d)) (RChr CHR ''/''))) (RName is_alnum is_name_middle))"

definition key_ok :: "string \<Rightarrow> bool" where
  "key_ok key = re_match_anchored LABEL_KEY key"

definition label_matcher :: "string \<Rightarrow> exn + (str_map \<Rightarrow> bool)" where
  "label_matcher clause =
     (let compare = (\<lambda>eq key value.
            if key_ok (strip key)
            then Inr (\<lambda>labels. (dict_get labels (strip key) = Some (strip value)) = eq)
            else Inl sdk_bad_request)
      in case str_partition ''!='' clause of
           (key, True, value) \<Rightarrow> compare False key value
         | _ \<Rightarrow> (case str_partition ''=='' clause of
             (key, True, value) \<Rightarrow> compare True key value
           | _ \<Rightarrow> (case str_partition ''='' clause of
               (key, True, value) \<Rightarrow> compare True key value
             | _ \<Rightarrow>
                 (let negate = startswith clause ''!''; key = strip (removeprefix clause ''!'')
                  in if key_ok key
                     then Inr (\<lambda>labels. (key \<in> set (keys labels)) \<noteq> negate)
                     else Inl sdk_bad_request))))"

fun label_matchers :: "string list \<Rightarrow> exn + (str_map \<Rightarrow> bool) list" where
  "label_matchers [] = Inr []"
| "label_matchers (c # cs) =
     (case label_matcher (strip c) of
        Inl e \<Rightarrow> Inl e
      | Inr m \<Rightarrow> (case label_matchers cs of Inl e \<Rightarrow> Inl e | Inr ms \<Rightarrow> Inr (m # ms)))"

definition dry_list_namespace ::
  "string option \<Rightarrow> kube_state \<Rightarrow> (exn + v1_namespace page) \<times> kube_state" where
  "dry_list_namespace label_selector s =
     (let items = map snd (ks_namespaces s); selector = or_else label_selector []
      in if selector = [] then (Inr (one_page items), s)
         else (case label_matchers (split_on CHR '','' selector) of
                 Inl e \<Rightarrow> (Inl e, s)
               | Inr ms \<Rightarrow>
                   (Inr (one_page (filter
                      (\<lambda>ns. list_all (\<lambda>m. m (or_else (ns_labels ns) [])) ms) items)), s)))"

definition dry_read_namespace :: "string \<Rightarrow> kube_state \<Rightarrow> (exn + v1_namespace) \<times> kube_state" where
  "dry_read_namespace name s =
     (case dict_get (ks_namespaces s) name of
        None \<Rightarrow> (Inl sdk_not_found, s) | Some ns \<Rightarrow> (Inr ns, s))"

definition dry_create_namespace ::
  "namespace_body \<Rightarrow> kube_state \<Rightarrow> (exn + v1_namespace) \<times> kube_state" where
  "dry_create_namespace body s =
     (let name = nb_name body
      in if dict_get (ks_namespaces s) name \<noteq> None then (Inl sdk_conflict, s)
         else (let ns = make_namespace name ''Active'' (Some (nb_annotations body)) (nb_labels body)
               in (Inr ns, s\<lparr>ks_namespaces := dict_set name ns (ks_namespaces s)\<rparr>)))"

definition patched_namespace :: "namespace_patch \<Rightarrow> v1_namespace \<Rightarrow> v1_namespace" where
  "patched_namespace p ns =
     ns\<lparr>ns_labels := Some (merge_into (or_else (ns_labels ns) []) (or_else (nsp_labels p) [])),
        ns_annotations :=
          Some (merge_into (or_else (ns_annotations ns) []) (or_else (nsp_annotations p) []))\<rparr>"

definition dry_patch_namespace ::
  "string \<Rightarrow> namespace_patch \<Rightarrow> kube_state \<Rightarrow> (exn + v1_namespace) \<times> kube_state" where
  "dry_patch_namespace name body s =
     (case dict_get (ks_namespaces s) name of
        None \<Rightarrow> (Inl sdk_not_found, s)
      | Some ns \<Rightarrow>
          (let ns' = patched_namespace body ns
           in (Inr ns', s\<lparr>ks_namespaces := dict_set name ns' (ks_namespaces s)\<rparr>)))"

section \<open>The class\<close>

definition dry_run_core_v1_api :: "string \<Rightarrow> dry_world core_v1_api" where
  "dry_run_core_v1_api cluster =
     \<lparr>list_node = on_state cluster dry_list_node,
      read_node = (\<lambda>n. on_state cluster (dry_read_node n)),
      patch_node = (\<lambda>n p. on_state cluster (dry_patch_node n p)),
      list_pod_for_all_namespaces = (\<lambda>sel. on_state cluster (dry_list_pods sel)),
      list_namespaced_pod = (\<lambda>ns. on_state cluster (dry_list_namespaced_pod ns)),
      delete_namespaced_pod = (\<lambda>n ns g. on_state cluster (dry_remove_pod ns n)),
      create_namespaced_pod_eviction = (\<lambda>n ns g. on_state cluster (dry_remove_pod ns n)),
      list_namespace = (\<lambda>sel lim tok. on_state cluster (dry_list_namespace sel)),
      read_namespace = (\<lambda>n. on_state cluster (dry_read_namespace n)),
      create_namespace = (\<lambda>b. on_state cluster (dry_create_namespace b)),
      patch_namespace = (\<lambda>n p. on_state cluster (dry_patch_namespace n p)),
      list_config_map_for_all_namespaces = (\<lambda>lim tok. dry_list_config_maps),
      list_namespaced_config_map = (\<lambda>ns lim tok. dry_list_namespaced_config_map ns),
      read_namespaced_config_map = (\<lambda>n ns. dry_read_config_map n ns)\<rparr>"

text \<open>\<open>time.monotonic\<close> and \<open>time.sleep\<close> on this world.\<close>

definition dry_clock :: "dry_world clock" where
  "dry_clock = \<lparr>monotonic = now, sleep = (\<lambda>d w. w\<lparr>now := now w + max 0 d\<rparr>)\<rparr>"

end
