(* ===== verification/Kube_Client.thy ===== *)
theory Kube_Client
  imports Dry_Run_Kube Domain_Models
begin

text \<open>
  \<open>app/services/kube_client.py\<close>: building a client from a cluster's configuration, and
  \<open>call_kube\<close>, which resolves the cluster, builds the client, runs the operation and releases
  the client. Reading a kubeconfig and opening connections belong to the SDK: \<open>load_kubeconfig\<close>
  answers the error of a load that fails, and an \<open>api_client\<close> is what the client was built
  from. Also here: \<open>cluster_manager.py\<close> and the three cluster repositories.
\<close>

section \<open>The factory\<close>

datatype api_client =
    FromKubeconfig string
  | FromToken string string "string option"  \<comment> \<open>server, bearer token, path of the CA file\<close>

definition missing_kubeconfig :: "kube_client_config \<Rightarrow> app_exception" where
  "missing_kubeconfig cfg = kube_api_exception
     (''KubeClientConfig for '' @ quoted (kcc_cluster_name cfg) @ '' has source='' @ quoted ''yaml''
      @ '' but no kubeconfig_path.'') None False"

fun source_str :: "config_source \<Rightarrow> string" where
  "source_str Yaml = ''yaml''"
| "source_str Json = ''json''"
| "source_str Api = ''api''"

text \<open>\<open>_ca_file\<close>: one file per distinct CA; \<open>ca_files\<close> maps a content hash to a path,
  \<open>on_disk\<close> is what the file system holds, \<open>next_tmp\<close> the next fresh temporary name.\<close>

record ca_state =
  ca_files :: "(string, string) dict"
  on_disk :: "(string, string) dict"
  next_tmp :: nat

definition tmp_name :: "nat \<Rightarrow> string" where
  "tmp_name n = ''/tmp/'' @ str_of_nat n @ ''.crt''"

definition ca_file :: "(string \<Rightarrow> string) \<Rightarrow> string \<Rightarrow> ca_state \<Rightarrow> string \<times> ca_state" where
  "ca_file sha256 ca_bytes s =
     (let key = sha256 ca_bytes
      in case dict_get (ca_files s) key of
           Some path \<Rightarrow>
             (if path \<in> set (keys (on_disk s)) then (path, s)
              else (let new = tmp_name (next_tmp s)
                    in (new, \<lparr>ca_files = dict_set key new (ca_files s),
                              on_disk = dict_set new ca_bytes (on_disk s),
                              next_tmp = next_tmp s + 1\<rparr>)))
         | None \<Rightarrow>
             (let new = tmp_name (next_tmp s)
              in (new, \<lparr>ca_files = dict_set key new (ca_files s),
                        on_disk = dict_set new ca_bytes (on_disk s),
                        next_tmp = next_tmp s + 1\<rparr>)))"

definition remove_ca_files :: "ca_state \<Rightarrow> ca_state" where
  "remove_ca_files s =
     s\<lparr>on_disk := foldl (\<lambda>d path. dict_pop path d) (on_disk s) (map snd (ca_files s))\<rparr>"

definition from_yaml ::
  "(string \<Rightarrow> string option) \<Rightarrow> kube_client_config \<Rightarrow> exn + api_client" where
  "from_yaml load_kubeconfig cfg =
     (let path = or_else (kcc_kubeconfig_path cfg) []
      in if path = [] then Inl (App (missing_kubeconfig cfg))
         else (case load_kubeconfig path of
                 Some exc \<Rightarrow> Inl (App (kube_api_exception
                   (''Failed to load kubeconfig for '' @ quoted (kcc_cluster_name cfg) @ '': '' @ exc)
                   None False))
               | None \<Rightarrow> Inr (FromKubeconfig path)))"

definition from_token ::
  "(string \<Rightarrow> string) \<Rightarrow> (string \<Rightarrow> exn + string) \<Rightarrow> kube_client_config \<Rightarrow> ca_state \<Rightarrow>
   (exn + api_client) \<times> ca_state" where
  "from_token sha256 b64decode cfg s =
     (let server = or_else (kcc_server cfg) []; token = or_else (kcc_token cfg) [];
          ca = or_else (kcc_ca_data cfg) []
      in if server = [] \<or> token = []
         then (Inl (App (kube_api_exception
                 (''KubeClientConfig for '' @ quoted (kcc_cluster_name cfg) @ '' has source=''
                  @ quoted (source_str (kcc_source cfg)) @ '' but is missing '' @ quoted ''server''
                  @ '' or '' @ quoted ''token'' @ ''.'') None False)), s)
         else if ca = [] then (Inr (FromToken server token None), s)
         else (case b64decode ca of
                 Inl e \<Rightarrow> (Inl e, s)
               | Inr ca_bytes \<Rightarrow>
                   (case ca_file sha256 ca_bytes s of
                      (path, s') \<Rightarrow> (Inr (FromToken server token (Some path)), s'))))"

definition make_api_client ::
  "(string \<Rightarrow> string option) \<Rightarrow> (string \<Rightarrow> string) \<Rightarrow> (string \<Rightarrow> exn + string) \<Rightarrow>
   kube_client_config \<Rightarrow> ca_state \<Rightarrow> (exn + api_client) \<times> ca_state" where
  "make_api_client load_kubeconfig sha256 b64decode cfg s =
     (if kcc_source cfg = Yaml then (from_yaml load_kubeconfig cfg, s)
      else from_token sha256 b64decode cfg s)"

section \<open>Calling Kubernetes\<close>

text \<open>What a request gets its client from: the cluster repository, the factory and the release.
  \<open>release\<close> never raises.\<close>

record ('w, 'kube) kube_access =
  get_kube_client_config :: "string \<Rightarrow> ('w, kube_client_config) call"
  get_core_v1 :: "kube_client_config \<Rightarrow> ('w, 'kube) call"
  release :: "'kube \<Rightarrow> 'w \<Rightarrow> 'w"

definition finally_may :: "('w, 'a) may_call \<Rightarrow> ('w \<Rightarrow> 'w) \<Rightarrow> ('w, 'a) may_call" where
  "finally_may m f = (\<lambda>w. case m w of None \<Rightarrow> None | Some (r, w') \<Rightarrow> Some (r, f w'))"

definition call_kube ::
  "('w, 'kube) kube_access \<Rightarrow> string \<Rightarrow> ('kube \<Rightarrow> ('w, 'a) may_call) \<Rightarrow> ('w, 'a) may_call" where
  "call_kube access cluster op =
     bind_may (always (get_kube_client_config access cluster)) (\<lambda>cfg.
     bind_may (always (get_core_v1 access cfg)) (\<lambda>kube.
       finally_may (op kube) (release access kube)))"

section \<open>The dry-run seam\<close>

definition DRY_RUN_SERVER :: string where
  "DRY_RUN_SERVER = ''https://dry-run.invalid:6443''"

definition DRY_RUN_CLUSTERS :: "string list" where
  "DRY_RUN_CLUSTERS = [''dry-run-cluster'', ''dry-run-cluster-2'']"

definition dry_run_client_config :: "string \<Rightarrow> kube_client_config" where
  "dry_run_client_config cluster =
     \<lparr>kcc_cluster_name = cluster, kcc_source = Json, kcc_kubeconfig_path = None,
      kcc_server = Some DRY_RUN_SERVER, kcc_ca_data = None,
      kcc_token = Some ''dry-run-token-not-a-credential''\<rparr>"

definition dry_run_list_clusters :: "cluster_info list" where
  "dry_run_list_clusters = map (\<lambda>n. \<lparr>ci_name = n, ci_source = ''json''\<rparr>) DRY_RUN_CLUSTERS"

definition dry_run_access :: "(dry_world, dry_world core_v1_api) kube_access" where
  "dry_run_access =
     \<lparr>get_kube_client_config = (\<lambda>cluster. return_io (dry_run_client_config cluster)),
      get_core_v1 = (\<lambda>cfg. return_io (dry_run_core_v1_api (kcc_cluster_name cfg))),
      release = (\<lambda>kube w. w)\<rparr>"

section \<open>File-backed cluster repositories\<close>

text \<open>The directory: file names and contents. \<open>None\<close> is a base path that does not exist.
  A name is taken as one path component.\<close>

type_synonym directory = "(string, string) dict option"

definition dir_path :: "string \<Rightarrow> string \<Rightarrow> string" where
  "dir_path base file = base @ ''/'' @ file"

definition file_in :: "directory \<Rightarrow> string \<Rightarrow> string option" where
  "file_in dir file = (case dir of None \<Rightarrow> None | Some entries \<Rightarrow> dict_get entries file)"

text \<open>\<open>resolve\<close> is \<open>Path.resolve\<close> on the file system at hand.\<close>

definition yaml_client_config ::
  "(string \<Rightarrow> string) \<Rightarrow> string \<Rightarrow> directory \<Rightarrow> string \<Rightarrow> exn + kube_client_config" where
  "yaml_client_config resolve_path base dir cluster =
     (let file = cluster @ ''.yaml''; path = dir_path base file
      in if file_in dir file = None
         then Inl (App (ClusterNotFoundException
           (''Cluster '' @ quoted cluster @ '' not found. No kubeconfig at '' @ quoted path @ ''.'')))
         else Inr \<lparr>kcc_cluster_name = cluster, kcc_source = Yaml,
                   kcc_kubeconfig_path = Some (resolve_path path), kcc_server = None, kcc_ca_data = None, kcc_token = None\<rparr>)"

text \<open>\<open>p.stem\<close>: the name up to its last dot, unless that is its first character or its last;
  of the files matching \<open>*ext\<close>, sorted.\<close>

definition stem :: "string \<Rightarrow> string" where
  "stem file =
     (case rpartition CHR ''.'' file of (before, found, rest) \<Rightarrow>
        if found \<and> before \<noteq> [] \<and> rest \<noteq> [] then before else file)"

definition stems :: "string \<Rightarrow> directory \<Rightarrow> string list" where
  "stems ext dir =
     map stem
       (sorted_list_of_set (set (filter (\<lambda>f. endswith f ext) (keys (or_else dir [])))))"

definition yaml_list_clusters :: "directory \<Rightarrow> cluster_info list" where
  "yaml_list_clusters dir = map (\<lambda>n. \<lparr>ci_name = n, ci_source = ''yaml''\<rparr>) (stems ''.yaml'' dir)"

definition REQUIRED_KEYS :: "string list" where
  "REQUIRED_KEYS = [''ca'', ''server'', ''token'']"

text \<open>\<open>parse\<close> is \<open>json.loads\<close>: the decoded file, or the decode error. A field of the
  configuration is a string or null; anything else fails its model.\<close>

definition config_field :: "json \<Rightarrow> string option option" where
  "config_field v = (case v of JNull \<Rightarrow> Some None | JStr s \<Rightarrow> Some (Some s) | _ \<Rightarrow> None)"

definition json_client_config ::
  "(string \<Rightarrow> string + json) \<Rightarrow> string \<Rightarrow> directory \<Rightarrow> string \<Rightarrow> exn + kube_client_config" where
  "json_client_config parse base dir cluster =
     (let file = cluster @ ''.json''; path = dir_path base file
      in case file_in dir file of
           None \<Rightarrow> Inl (App (ClusterNotFoundException
             (''Cluster '' @ quoted cluster @ '' not found. No credential file at '' @ quoted path
              @ ''.'')))
         | Some contents \<Rightarrow>
             (case parse contents of
                Inl exc \<Rightarrow> Inl (App (ValidationException
                  (''Invalid JSON in credential file '' @ quoted path @ '': '' @ exc)))
              | Inr (JObj data) \<Rightarrow>
                  (let missing = filter (\<lambda>k. k \<notin> set (keys data)) REQUIRED_KEYS;
                       field = (\<lambda>k. config_field (or_else (dict_get data k) JNull))
                   in if missing \<noteq> []
                      then Inl (App (ValidationException
                        (''Credential file '' @ quoted path @ '' is missing required keys: ''
                         @ repr_list missing @ ''. Expected: server, ca, token.'')))
                      else (case (field ''server'', field ''ca'', field ''token'') of
                              (Some server, Some ca, Some token) \<Rightarrow> Inr
                                \<lparr>kcc_cluster_name = cluster, kcc_source = Json,
                                 kcc_kubeconfig_path = None, kcc_server = server,
                                 kcc_ca_data = ca, kcc_token = token\<rparr>
                            | _ \<Rightarrow> Inl (PyError ''ValidationError'')))
              | Inr _ \<Rightarrow> Inl (PyError ''AttributeError'')))"

definition json_list_clusters :: "directory \<Rightarrow> cluster_info list" where
  "json_list_clusters dir = map (\<lambda>n. \<lparr>ci_name = n, ci_source = ''json''\<rparr>) (stems ''.json'' dir)"

section \<open>Lemmas\<close>

text \<open>Whatever the operation does, its client is released once, in the world it left.\<close>

lemma call_kube_runs:
  assumes "get_kube_client_config access cluster w = (Inr cfg, w1)"
    and "get_core_v1 access cfg w1 = (Inr kube, w2)"
  shows "call_kube access cluster op w =
    (case op kube w2 of None \<Rightarrow> None | Some (r, w3) \<Rightarrow> Some (r, release access kube w3))"
  using assms by (simp add: call_kube_def bind_may_first finally_may_def)

lemma call_kube_unknown:
  assumes "get_kube_client_config access cluster w = (Inl e, w1)"
  shows "call_kube access cluster op w = Some (Inl e, w1)"
  using assms by (simp add: call_kube_def bind_may_first)

lemma call_kube_dry_run [simp]:
  "call_kube dry_run_access cluster op w = op (dry_run_core_v1_api cluster) w"
  by (auto simp: call_kube_runs dry_run_access_def dry_run_client_config_def
      call_kube_def bind_may_def finally_may_def split: option.split)

lemma dry_run_config_inert: "kcc_kubeconfig_path (dry_run_client_config cluster) = None"
  by (simp add: dry_run_client_config_def)

text \<open>The CA cache: the same bytes answer the same file while it is there, and the file holds
  them.\<close>

definition ca_inv :: "(string \<Rightarrow> string) \<Rightarrow> ca_state \<Rightarrow> bool" where
  "ca_inv sha256 s \<longleftrightarrow>
     (\<forall>key path. dict_get (ca_files s) key = Some path \<longrightarrow>
        (\<forall>contents. dict_get (on_disk s) path = Some contents \<longrightarrow> sha256 contents = key)) \<and>
     (\<forall>n. next_tmp s \<le> n \<longrightarrow> tmp_name n \<notin> set (map snd (ca_files s)))"

lemma tmp_name_inject [simp]: "tmp_name m = tmp_name n \<longleftrightarrow> m = n"
  by (simp add: tmp_name_def)

lemma dict_set_values: "set (map snd (dict_set k v d)) \<subseteq> insert v (set (map snd d))"
  by (auto dest!: set_dict_set)

lemma ca_inv_write:
  assumes "ca_inv sha256 s"
  shows "ca_inv sha256 \<lparr>ca_files = dict_set (sha256 b) (tmp_name (next_tmp s)) (ca_files s),
    on_disk = dict_set (tmp_name (next_tmp s)) b (on_disk s), next_tmp = next_tmp s + 1\<rparr>"
proof -
  have fresh: "tmp_name n \<notin> set (map snd (ca_files s))" if "next_tmp s \<le> n" for n
    using assms that by (simp add: ca_inv_def)
  have other: "path \<noteq> tmp_name (next_tmp s)" if "dict_get (ca_files s) key = Some path" for key path
    using map_of_SomeD[OF that] fresh[of "next_tmp s"] by (force simp: image_iff)
  have "tmp_name n \<notin> set (map snd (dict_set (sha256 b) (tmp_name (next_tmp s)) (ca_files s)))"
    if "next_tmp s + 1 \<le> n" for n
  proof -
    have "tmp_name n \<noteq> tmp_name (next_tmp s)" using that by simp
    moreover have "tmp_name n \<notin> set (map snd (ca_files s))" using that by (intro fresh) simp
    ultimately show ?thesis
      using dict_set_values[of "sha256 b" "tmp_name (next_tmp s)" "ca_files s"] by blast
  qed
  moreover have "sha256 contents = key"
    if "dict_get (dict_set (sha256 b) (tmp_name (next_tmp s)) (ca_files s)) key = Some path"
      and "dict_get (dict_set (tmp_name (next_tmp s)) b (on_disk s)) path = Some contents"
    for key path contents
    using that assms other[of key path] by (auto simp: ca_inv_def split: if_splits)
  ultimately show ?thesis unfolding ca_inv_def ca_state.simps by blast
qed

lemma ca_file_cases:
  obtains (cached) path where "dict_get (ca_files s) (sha256 b) = Some path"
      and "path \<in> set (keys (on_disk s))" and "ca_file sha256 b s = (path, s)"
    | (fresh) "ca_file sha256 b s = (tmp_name (next_tmp s),
        \<lparr>ca_files = dict_set (sha256 b) (tmp_name (next_tmp s)) (ca_files s),
         on_disk = dict_set (tmp_name (next_tmp s)) b (on_disk s), next_tmp = next_tmp s + 1\<rparr>)"
proof (cases "dict_get (ca_files s) (sha256 b)")
  case None
  then show ?thesis by (intro fresh) (simp add: ca_file_def Let_def)
next
  case (Some path)
  show ?thesis
  proof (cases "path \<in> set (keys (on_disk s))")
    case True
    with Some show ?thesis by (intro cached) (simp_all add: ca_file_def)
  next
    case False
    with Some show ?thesis by (intro fresh) (simp add: ca_file_def Let_def)
  qed
qed

lemma ca_file_spec:
  assumes "ca_inv sha256 s" and "ca_file sha256 b s = (path, s')"
  shows "ca_inv sha256 s'"
    and "\<exists>contents. dict_get (on_disk s') path = Some contents \<and> sha256 contents = sha256 b"
    and "ca_file sha256 b s' = (path, s')"
proof (atomize(full), cases rule: ca_file_cases[of s sha256 b])
  case (cached p)
  then have "path = p" "s' = s" using assms(2) by auto
  moreover from cached(2) obtain contents where "dict_get (on_disk s) p = Some contents"
    by (metis keys_def list.set_map map_of_eq_None_iff not_None_eq)
  ultimately show "ca_inv sha256 s' \<and>
    (\<exists>contents. dict_get (on_disk s') path = Some contents \<and> sha256 contents = sha256 b) \<and>
    ca_file sha256 b s' = (path, s')"
    using assms(1) cached by (auto simp: ca_inv_def)
next
  case fresh
  then have "path = tmp_name (next_tmp s)"
    and s': "s' = \<lparr>ca_files = dict_set (sha256 b) (tmp_name (next_tmp s)) (ca_files s),
         on_disk = dict_set (tmp_name (next_tmp s)) b (on_disk s), next_tmp = next_tmp s + 1\<rparr>"
    using assms(2) by auto
  moreover have "ca_file sha256 b s' = (path, s')"
    using calculation by (simp add: ca_file_def Let_def keys_def)
  ultimately show "ca_inv sha256 s' \<and>
    (\<exists>contents. dict_get (on_disk s') path = Some contents \<and> sha256 contents = sha256 b) \<and>
    ca_file sha256 b s' = (path, s')"
    using ca_inv_write[OF assms(1), of b] by auto
qed

end
