(* ===== verification/Dry_Run_Deploy.thy ===== *)
theory Dry_Run_Deploy
  imports Upstream Kube_Client
begin

text \<open>
  \<open>app/domain/pipeline_models.py\<close> and \<open>app/domain/inventory_models.py\<close>, and the in-memory
  deploy-service of \<open>app/clients/dry_run_deploy_service_client.py\<close>: its process-wide store of pipelines,
  every operation on it, and the synthetic inventory. Each operation that reads the clock takes the
  time as an argument. The copies the code returns are values here, so later changes of the store do
  not reach them.
\<close>

section \<open>Models\<close>

record job_data =
  jd_id :: int
  jd_name :: string
  jd_status :: string

record downstream_ref =
  dr_id :: int
  dr_status :: string
  dr_project_id :: int
  dr_web_url :: string
  dr_bridge_name :: string

record pipeline_data =
  pl_id :: int
  pl_status :: string
  pl_created_at :: "datetime option"
  pl_updated_at :: "datetime option"
  pl_started_at :: "datetime option"
  pl_finished_at :: "datetime option"
  pl_tag_list :: "string list"
  pl_variables :: "pipeline_variable list"
  pl_jobs :: "job_data list"
  pl_downstream :: "downstream_ref list"
  pl_ref_name :: string
  pl_web_url :: string

record running_pipelines =
  rp_has_running :: bool
  rp_count :: int
  rp_pipelines :: "pipeline_data list"

record cluster_ref =
  cr_id :: string
  cr_name :: string
  cr_context :: string

record inventory_node =
  in_id :: string
  in_name :: string
  in_labels :: "(string, string) dict"

record cluster_node_info =
  cni_node_type :: string
  cni_node :: inventory_node
  cni_cluster :: cluster_ref

record bastion_mapping =
  bm_patterns :: "string list"
  bm_runner :: string
  bm_bastion :: string
  bm_bastion_ip :: string

record node_bastion_resolution =
  nbr_node_type :: string
  nbr_node :: inventory_node
  nbr_cluster :: cluster_ref
  nbr_bastion_type :: string
  nbr_source :: string
  nbr_mapping :: bastion_mapping
  nbr_pattern :: string

record cluster_bastion_resolution =
  cbr_cluster_name :: string
  cbr_has_slash :: bool
  cbr_bastion_type :: string
  cbr_mapping :: bastion_mapping
  cbr_pattern :: string

section \<open>The store\<close>

definition PIPELINE_ID_BASE :: int where
  "PIPELINE_ID_BASE = 9990000000"

definition WEB_BASE :: string where
  "WEB_BASE = ''https://dry-run.invalid''"

definition ACTIVE :: "string list" where
  "ACTIVE = [''created'', ''pending'', ''running'']"

record pipeline_store =
  ps_pipelines :: "(int, pipeline_data) dict"
  ps_polls :: "(int, nat) dict"
  ps_next :: int

definition empty_store :: pipeline_store where
  "empty_store = \<lparr>ps_pipelines = [], ps_polls = [], ps_next = PIPELINE_ID_BASE + 1\<rparr>"

definition reset_dry_run_deploy_service :: "(pipeline_store, unit) call" where
  "reset_dry_run_deploy_service w = (Inr (), empty_store)"

text \<open>\<open>_error\<close>: the error deploy-service would have sent, through the real adapter.\<close>

definition dry_error :: "int \<Rightarrow> string \<Rightarrow> string \<Rightarrow> json \<Rightarrow> exn" where
  "dry_error status code message detail =
     (let block = [(''code'', JStr code), (''message'', JStr (''dry-run: '' @ message))]
            @ (if detail \<noteq> JNull then [(''detail'', detail)] else [])
      in case deploy_service_error status (JObj [(''error'', JObj block)]) of
           Inl e \<Rightarrow> e | Inr exc \<Rightarrow> App exc)"

definition full_variables :: "string \<Rightarrow> pipeline_variable list \<Rightarrow> pipeline_variable list" where
  "full_variables action variables = \<lparr>pv_key = ''EXECUTION'', pv_value = action\<rparr> # variables"

definition variable_pairs :: "pipeline_variable list \<Rightarrow> (string \<times> string) list" where
  "variable_pairs vs = sort (map (\<lambda>v. (pv_key v, pv_value v)) vs)"

definition same_variables :: "pipeline_variable list \<Rightarrow> pipeline_variable list \<Rightarrow> bool" where
  "same_variables a b = (variable_pairs a = variable_pairs b)"

definition matching_running :: "pipeline_store \<Rightarrow> string \<Rightarrow> pipeline_variable list \<Rightarrow> pipeline_data list" where
  "matching_running w ref variables =
     filter (\<lambda>p. pl_status p \<in> set ACTIVE \<and> pl_ref_name p = ref \<and> same_variables (pl_variables p) variables)
       (map snd (ps_pipelines w))"

definition get_stored :: "int \<Rightarrow> (pipeline_store, pipeline_data) call" where
  "get_stored pipeline_id w =
     (case dict_get (ps_pipelines w) pipeline_id of
        None \<Rightarrow> (Inl (dry_error 404 ''NOT_FOUND'' (''pipeline '' @ str_of_int pipeline_id @ '' not found'') JNull), w)
      | Some p \<Rightarrow> (Inr p, w))"

definition set_status :: "datetime \<Rightarrow> string \<Rightarrow> bool \<Rightarrow> pipeline_data \<Rightarrow> pipeline_data" where
  "set_status time status finished p =
     p\<lparr>pl_status := status, pl_updated_at := Some time,
       pl_finished_at := (if finished then Some time else None),
       pl_jobs := map (\<lambda>j. j\<lparr>jd_status := status\<rparr>) (pl_jobs p)\<rparr>"

definition put_pipeline :: "int \<Rightarrow> pipeline_data \<Rightarrow> pipeline_store \<Rightarrow> pipeline_store" where
  "put_pipeline i p w = w\<lparr>ps_pipelines := dict_set i p (ps_pipelines w)\<rparr>"

section \<open>Pipelines\<close>

definition new_pipeline :: "datetime \<Rightarrow> int \<Rightarrow> string \<Rightarrow> pipeline_variable list \<Rightarrow> pipeline_data" where
  "new_pipeline time i ref full =
     \<lparr>pl_id = i, pl_status = ''running'', pl_created_at = Some time, pl_updated_at = Some time,
      pl_started_at = Some time, pl_finished_at = None, pl_tag_list = [''dry-run''],
      pl_variables = full,
      pl_jobs = [\<lparr>jd_id = i * 10 + 1, jd_name = ''dry-run-job'', jd_status = ''running''\<rparr>],
      pl_downstream = [], pl_ref_name = ref,
      pl_web_url = WEB_BASE @ ''/pipelines/'' @ str_of_int i\<rparr>"

definition dry_trigger_pipeline ::
  "datetime \<Rightarrow> string \<Rightarrow> string \<Rightarrow> pipeline_variable list \<Rightarrow> (pipeline_store, pipeline_data) call" where
  "dry_trigger_pipeline time action ref variables w =
     (let full = full_variables action variables; running = matching_running w ref full
      in if running \<noteq> []
         then (Inl (dry_error 409 ''CONFLICT''
                 (''an identical pipeline is already running on '' @ quoted ref)
                 (JObj [(''pipeline_ids'', JList (map (\<lambda>p. JNum (pl_id p)) running))])), w)
         else (let i = ps_next w; p = new_pipeline time i ref full
               in (Inr p, \<lparr>ps_pipelines = dict_set i p (ps_pipelines w),
                           ps_polls = dict_set i 0 (ps_polls w), ps_next = i + 1\<rparr>)))"

definition dry_check_running ::
  "string \<Rightarrow> string \<Rightarrow> pipeline_variable list \<Rightarrow> (pipeline_store, running_pipelines) call" where
  "dry_check_running action ref variables w =
     (let running = matching_running w ref (full_variables action variables)
      in (Inr \<lparr>rp_has_running = (running \<noteq> []), rp_count = int (length running), rp_pipelines = running\<rparr>, w))"

text \<open>The poll counter is incremented before the status is looked at; an id without one would be a
  \<open>KeyError\<close>.\<close>

definition count_poll :: "int \<Rightarrow> (pipeline_store, unit) call" where
  "count_poll i w =
     (case dict_get (ps_polls w) i of
        None \<Rightarrow> (Inl (PyError ''KeyError''), w)
      | Some n \<Rightarrow> (Inr (), w\<lparr>ps_polls := dict_set i (n + 1) (ps_polls w)\<rparr>))"

definition move_to ::
  "datetime \<Rightarrow> int \<Rightarrow> string list \<Rightarrow> string \<Rightarrow> bool \<Rightarrow> pipeline_data \<Rightarrow> (pipeline_store, pipeline_data) call"
where
  "move_to time i from status finished p w =
     (if pl_status p \<in> set from
      then (let p' = set_status time status finished p in (Inr p', put_pipeline i p' w))
      else (Inr p, w))"

definition dry_get_pipeline :: "datetime \<Rightarrow> int \<Rightarrow> (pipeline_store, pipeline_data) call" where
  "dry_get_pipeline time i =
     bind_io (get_stored i) (\<lambda>p. bind_io (count_poll i) (\<lambda>_.
       move_to time i [''running''] ''success'' True p))"

definition dry_cancel_pipeline :: "datetime \<Rightarrow> int \<Rightarrow> (pipeline_store, pipeline_data) call" where
  "dry_cancel_pipeline time i =
     bind_io (get_stored i) (move_to time i ACTIVE ''canceled'' True)"

definition dry_retry_pipeline :: "datetime \<Rightarrow> int \<Rightarrow> (pipeline_store, pipeline_data) call" where
  "dry_retry_pipeline time i =
     bind_io (get_stored i) (move_to time i [''canceled'', ''failed''] ''running'' False)"

section \<open>Inventory\<close>

definition DRY_RUN_BASTION_TYPE :: string where
  "DRY_RUN_BASTION_TYPE = ''dry-run''"

definition MAPPING :: bastion_mapping where
  "MAPPING = \<lparr>bm_patterns = [''dry-run-.*''], bm_runner = ''dry-run-runner'', bm_bastion = ''dry-run-bastion'',
     bm_bastion_ip = ''192.0.2.1''\<rparr>"

definition inventory_node_of :: "string \<Rightarrow> exn + inventory_node \<times> cluster_ref" where
  "inventory_node_of node =
     (if node \<notin> set DRY_RUN_NODES
      then Inl (dry_error 404 ''NOT_FOUND'' (''node '' @ quoted node @ '' not in inventory'') JNull)
      else (let cluster = hd DRY_RUN_CLUSTERS
            in Inr (\<lparr>in_id = ''dry-run-id-'' @ node, in_name = node, in_labels = [(''dry-run'', ''true'')]\<rparr>,
                    \<lparr>cr_id = ''dry-run-id-'' @ cluster, cr_name = cluster, cr_context = cluster\<rparr>)))"

definition no_mappings :: "string \<Rightarrow> exn" where
  "no_mappings t = dry_error 404 ''NOT_FOUND'' (''no bastion mappings for type '' @ quoted t) JNull"

definition dry_get_node :: "string \<Rightarrow> (pipeline_store, cluster_node_info) call" where
  "dry_get_node node w =
     (case inventory_node_of node of
        Inl e \<Rightarrow> (Inl e, w)
      | Inr (n, c) \<Rightarrow> (Inr \<lparr>cni_node_type = ''dry-run'', cni_node = n, cni_cluster = c\<rparr>, w))"

definition dry_list_mappings :: "string \<Rightarrow> (pipeline_store, bastion_mapping list) call" where
  "dry_list_mappings type_name w =
     (if type_name \<noteq> DRY_RUN_BASTION_TYPE then (Inl (no_mappings type_name), w) else (Inr [MAPPING], w))"

definition str_given :: "string option \<Rightarrow> bool" where
  "str_given s = (case s of None \<Rightarrow> False | Some x \<Rightarrow> x \<noteq> [])"

definition dry_resolve_node_bastion ::
  "string \<Rightarrow> string option \<Rightarrow> (pipeline_store, node_bastion_resolution) call" where
  "dry_resolve_node_bastion node bastion_type w =
     (case inventory_node_of node of
        Inl e \<Rightarrow> (Inl e, w)
      | Inr (n, c) \<Rightarrow>
          (let resolved = (if str_given bastion_type then the bastion_type else DRY_RUN_BASTION_TYPE)
           in if resolved \<noteq> DRY_RUN_BASTION_TYPE then (Inl (no_mappings resolved), w)
              else (Inr \<lparr>nbr_node_type = ''dry-run'', nbr_node = n, nbr_cluster = c,
                         nbr_bastion_type = resolved,
                         nbr_source = (if str_given bastion_type then ''query_param'' else ''config''),
                         nbr_mapping = MAPPING, nbr_pattern = hd (bm_patterns MAPPING)\<rparr>, w)))"

definition dry_resolve_cluster_bastion :: "string \<Rightarrow> (pipeline_store, cluster_bastion_resolution) call" where
  "dry_resolve_cluster_bastion cluster w =
     (if cluster \<notin> set DRY_RUN_CLUSTERS
      then (Inl (dry_error 404 ''NOT_FOUND'' (''cluster '' @ quoted cluster @ '' not in inventory'') JNull), w)
      else (Inr \<lparr>cbr_cluster_name = cluster, cbr_has_slash = (CHR ''/'' \<in> set cluster),
                 cbr_bastion_type = DRY_RUN_BASTION_TYPE, cbr_mapping = MAPPING,
                 cbr_pattern = hd (bm_patterns MAPPING)\<rparr>, w))"

end
