(* ===== verification/Proxy.thy ===== *)
theory Proxy
  imports Dry_Run_Deploy
begin

text \<open>
  The pipeline and inventory proxy: \<open>app/services/pipeline_service.py\<close>,
  \<open>app/services/inventory_service.py\<close>, \<open>app/api/v1/deploy.py\<close> and \<open>app/api/v1/inventory.py\<close>, over a
  \<open>deploy_client\<close>, which the live client and its dry-run stand-in both are.

  A route resolves the caller from the token first, by \<open>as_user\<close>; the model constructors of the
  live client are the record \<open>deploy_models\<close>.
\<close>

record 'w deploy_client =
  dc_trigger_pipeline :: "string \<Rightarrow> string \<Rightarrow> pipeline_variable list \<Rightarrow> ('w, pipeline_data) call"
  dc_check_running :: "string \<Rightarrow> string \<Rightarrow> pipeline_variable list \<Rightarrow> ('w, running_pipelines) call"
  dc_get_pipeline :: "int \<Rightarrow> ('w, pipeline_data) call"
  dc_cancel_pipeline :: "int \<Rightarrow> ('w, pipeline_data) call"
  dc_retry_pipeline :: "int \<Rightarrow> ('w, pipeline_data) call"
  dc_get_node :: "string \<Rightarrow> ('w, cluster_node_info) call"
  dc_list_mappings :: "string \<Rightarrow> ('w, bastion_mapping list) call"
  dc_resolve_node_bastion :: "string \<Rightarrow> string option \<Rightarrow> ('w, node_bastion_resolution) call"
  dc_resolve_cluster_bastion :: "string \<Rightarrow> ('w, cluster_bastion_resolution) call"

record deploy_models =
  dm_pipeline :: "json \<Rightarrow> exn + pipeline_data"
  dm_running :: "json \<Rightarrow> exn + running_pipelines"
  dm_node :: "json \<Rightarrow> exn + cluster_node_info"
  dm_mapping :: "json \<Rightarrow> exn + bastion_mapping"
  dm_node_bastion :: "json \<Rightarrow> exn + node_bastion_resolution"
  dm_cluster_bastion :: "json \<Rightarrow> exn + cluster_bastion_resolution"

definition live_deploy_client :: "'x client \<Rightarrow> deploy_models \<Rightarrow> 'x client_world deploy_client" where
  "live_deploy_client c m =
     \<lparr>dc_trigger_pipeline = client_trigger_pipeline c (dm_pipeline m),
      dc_check_running = client_check_running c (dm_running m),
      dc_get_pipeline = client_get_pipeline c (dm_pipeline m),
      dc_cancel_pipeline = client_cancel_pipeline c (dm_pipeline m),
      dc_retry_pipeline = client_retry_pipeline c (dm_pipeline m),
      dc_get_node = client_get_node c (dm_node m),
      dc_list_mappings = client_list_mappings c (dm_mapping m),
      dc_resolve_node_bastion = client_resolve_node_bastion c (dm_node_bastion m),
      dc_resolve_cluster_bastion = client_resolve_cluster_bastion c (dm_cluster_bastion m)\<rparr>"

definition dry_run_deploy_client :: "datetime \<Rightarrow> pipeline_store deploy_client" where
  "dry_run_deploy_client time =
     \<lparr>dc_trigger_pipeline = dry_trigger_pipeline time, dc_check_running = dry_check_running,
      dc_get_pipeline = dry_get_pipeline time, dc_cancel_pipeline = dry_cancel_pipeline time,
      dc_retry_pipeline = dry_retry_pipeline time, dc_get_node = dry_get_node,
      dc_list_mappings = dry_list_mappings, dc_resolve_node_bastion = dry_resolve_node_bastion,
      dc_resolve_cluster_bastion = dry_resolve_cluster_bastion\<rparr>"

section \<open>Services\<close>

text \<open>\<open>_maybe_not_found\<close>: an upstream 404 is a 404 here, any other upstream error stays.\<close>

definition maybe_not_found :: "deploy_error \<Rightarrow> string \<Rightarrow> exn" where
  "maybe_not_found d message =
     (if dse_upstream_status d = 404 then App (InventoryNotFound message) else App (DeployServiceError d))"

definition translated :: "string \<Rightarrow> ('w, 'a) call \<Rightarrow> ('w, 'a) call" where
  "translated message m =
     catch_io m (\<lambda>e. raise_io (case e of App (DeployServiceError d) \<Rightarrow> maybe_not_found d message | _ \<Rightarrow> e))"

definition inventory_get_node :: "'w deploy_client \<Rightarrow> string \<Rightarrow> ('w, cluster_node_info) call" where
  "inventory_get_node c node = translated (''node '' @ quoted node @ '' not found'') (dc_get_node c node)"

definition inventory_list_mappings :: "'w deploy_client \<Rightarrow> string \<Rightarrow> ('w, bastion_mapping list) call" where
  "inventory_list_mappings c type_name =
     translated (''no bastion mappings for type '' @ quoted type_name) (dc_list_mappings c type_name)"

definition inventory_resolve_node_bastion ::
  "'w deploy_client \<Rightarrow> string \<Rightarrow> string option \<Rightarrow> ('w, node_bastion_resolution) call" where
  "inventory_resolve_node_bastion c node bastion_type =
     translated (''could not resolve bastion for node '' @ quoted node)
       (dc_resolve_node_bastion c node bastion_type)"

definition inventory_resolve_cluster_bastion ::
  "'w deploy_client \<Rightarrow> string \<Rightarrow> ('w, cluster_bastion_resolution) call" where
  "inventory_resolve_cluster_bastion c cluster =
     translated (''could not resolve bastion for cluster '' @ quoted cluster)
       (dc_resolve_cluster_bastion c cluster)"

section \<open>Routes\<close>

text \<open>The caller of a request: the token, the crypto library and the time.\<close>

record credentials =
  cd_crypto :: crypto
  cd_now :: int
  cd_token :: string

definition as_user :: "credentials \<Rightarrow> string list \<Rightarrow> (user \<Rightarrow> ('w, 'a) call) \<Rightarrow> ('w, 'a) call" where
  "as_user cd needed handler =
     bind_io (lift_io (get_current_user (cd_crypto cd) (cd_now cd) needed (cd_token cd))) handler"

definition enveloped :: "settings \<Rightarrow> string \<Rightarrow> ('w, 'a) call \<Rightarrow> ('w, 'a api_response) call" where
  "enveloped st request_id m = bind_io m (\<lambda>data. return_io (make_response st data request_id))"

definition trigger_pipeline_route where
  "trigger_pipeline_route cd st c request_id action ref variables =
     as_user cd [''deploy_api''] (\<lambda>_. enveloped st request_id (dc_trigger_pipeline c action ref variables))"

definition check_running_route where
  "check_running_route cd st c request_id action ref variables =
     as_user cd [''deploy_api''] (\<lambda>_. enveloped st request_id (dc_check_running c action ref variables))"

definition get_pipeline_route where
  "get_pipeline_route cd st c request_id pipeline_id =
     as_user cd [''deploy_api''] (\<lambda>_. enveloped st request_id (dc_get_pipeline c pipeline_id))"

definition cancel_pipeline_route where
  "cancel_pipeline_route cd st c request_id pipeline_id =
     as_user cd [''deploy_api''] (\<lambda>_. enveloped st request_id (dc_cancel_pipeline c pipeline_id))"

definition retry_pipeline_route where
  "retry_pipeline_route cd st c request_id pipeline_id =
     as_user cd [''deploy_api''] (\<lambda>_. enveloped st request_id (dc_retry_pipeline c pipeline_id))"

definition inventory_node_route where
  "inventory_node_route cd st c request_id node =
     as_user cd [''inventory_api''] (\<lambda>_. enveloped st request_id (inventory_get_node c node))"

definition inventory_mappings_route where
  "inventory_mappings_route cd st c request_id type_name =
     as_user cd [''inventory_api''] (\<lambda>_. enveloped st request_id (inventory_list_mappings c type_name))"

definition inventory_node_bastion_route where
  "inventory_node_bastion_route cd st c request_id node bastion_type =
     as_user cd [''inventory_api''] (\<lambda>_. enveloped st request_id
       (inventory_resolve_node_bastion c node bastion_type))"

definition inventory_cluster_bastion_route where
  "inventory_cluster_bastion_route cd st c request_id cluster =
     as_user cd [''inventory_api''] (\<lambda>_. enveloped st request_id
       (inventory_resolve_cluster_bastion c cluster))"

section \<open>A deploy-service behind the proxy\<close>

text \<open>What the inventory routes rely on: a lookup fails only with an error of deploy-service, and
  changes nothing.\<close>

locale inventory_backend =
  fixes lookup :: "'k \<Rightarrow> ('w, 'a) call"
  assumes lookup_fails: "lookup k w = (Inl e, w') \<Longrightarrow> \<exists>d. e = App (DeployServiceError d)"
    and lookup_reads: "lookup k w = (r, w') \<Longrightarrow> w' = w"
begin

lemma translated_lookup:
  "\<exists>r. translated message (lookup k) w = (r, w) \<and>
     (\<forall>e. r = Inl e \<longrightarrow> e = App (InventoryNotFound message) \<or>
        (\<exists>d. e = App (DeployServiceError d) \<and> dse_upstream_status d \<noteq> 404))"
proof (cases "lookup k w")
  case (Pair r w')
  have w: "w' = w" by (rule lookup_reads[OF Pair])
  show ?thesis
  proof (cases r)
    case (Inl e)
    with Pair obtain d where "e = App (DeployServiceError d)" using lookup_fails by blast
    with Pair Inl w show ?thesis by (simp add: translated_def maybe_not_found_def)
  next
    case (Inr x)
    with Pair w show ?thesis by (simp add: translated_def)
  qed
qed

end

lemma dry_error_deploy:
  "\<exists>d. dry_error status code message detail = App (DeployServiceError d) \<and> dse_upstream_status d = status"
proof -
  let ?block = "[(''code'', JStr code), (''message'', JStr (''dry-run: '' @ message))]
            @ (if detail \<noteq> JNull then [(''detail'', detail)] else [])"
  have "readable_error_body (JObj [(''error'', JObj ?block)])"
    by (simp add: readable_error_body_def readable_error_block_def hashable_def)
  then obtain d where "deploy_service_error status (JObj [(''error'', JObj ?block)]) = Inr (DeployServiceError d)"
    and "dse_upstream_status d = status"
    using deploy_service_error_total by blast
  then show ?thesis by (intro exI[of _ d]) (simp only: dry_error_def Let_def sum.case simp_thms)
qed

lemma dry_error_is_deploy [simp]: "\<exists>d. dry_error status code message detail = App (DeployServiceError d)"
  using dry_error_deploy[of status code message detail] by blast

interpretation dry_node: inventory_backend dry_get_node
  by unfold_locales (auto simp: dry_get_node_def inventory_node_of_def Let_def split: if_splits)

interpretation dry_mappings: inventory_backend dry_list_mappings
  by unfold_locales (auto simp: dry_list_mappings_def no_mappings_def split: if_splits)

interpretation dry_node_bastion: inventory_backend "\<lambda>(node, t). dry_resolve_node_bastion node t"
  by unfold_locales
    (auto simp: dry_resolve_node_bastion_def inventory_node_of_def no_mappings_def Let_def split: if_splits)

interpretation dry_cluster_bastion: inventory_backend dry_resolve_cluster_bastion
  by unfold_locales (auto simp: dry_resolve_cluster_bastion_def split: if_splits)

end
