(* ===== verification/Dry_Run_Command.thy ===== *)
theory Dry_Run_Command
  imports Proxy Login_Redirect
begin

text \<open>
  \<open>app/domain/command_models.py\<close> and the in-memory command service of
  \<open>app/clients/dry_run_command_service_client.py\<close>: its whitelist, the process-wide executions, and every
  operation on them; \<open>app/services/command_service.py\<close> and the routes of \<open>app/api/v1/command.py\<close>.

  The random part of a command id is an argument of the execution. Bytes are characters below 256:
  \<open>utf8_encode\<close> is \<open>str.encode\<close>, and \<open>decode\<close>, an argument, is \<open>bytes.decode(errors="replace")\<close>.
  \<open>json.loads\<close> is the argument \<open>json_loads\<close>.
\<close>

section \<open>Text\<close>

definition utf8_char :: "char \<Rightarrow> string" where
  "utf8_char c =
     (let n = code_point c
      in if n < 128 then [c] else [char_of (192 + n div 64), char_of (128 + n mod 64)])"

definition utf8_encode :: "string \<Rightarrow> string" where
  "utf8_encode s = concat (map utf8_char s)"

text \<open>\<open>str.splitlines()\<close>, on the line boundaries among these characters.\<close>

definition is_line_end :: "char \<Rightarrow> bool" where
  "is_line_end c = (code_point c \<in> {10, 11, 12, 13, 28, 29, 30, 133})"

fun splitlines_from :: "string \<Rightarrow> string \<Rightarrow> string list" where
  "splitlines_from line [] = (if line = [] then [] else [line])"
| "splitlines_from line (c # s) =
     (if is_line_end c
      then line # splitlines_from []
             (if code_point c = 13 \<and> s \<noteq> [] \<and> code_point (hd s) = 10 then tl s else s)
      else splitlines_from (line @ [c]) s)"

definition splitlines :: "string \<Rightarrow> string list" where
  "splitlines s = splitlines_from [] s"

text \<open>\<open>s.replace(old, new)\<close> for a non-empty \<open>old\<close>.\<close>

function replace_all :: "string \<Rightarrow> string \<Rightarrow> string \<Rightarrow> string" where
  "replace_all old new s =
     (if old = [] \<or> s = [] then s
      else if startswith s old then new @ replace_all old new (drop (length old) s)
      else hd s # replace_all old new (tl s))"
  by pat_completeness auto
termination
  by (relation "measure (\<lambda>(old, new, s). length s)") auto

declare replace_all.simps [simp del]

text \<open>\<open>json.dumps(v)\<close> with the separators between items and after a key.\<close>

definition dump_char :: "char \<Rightarrow> string" where
  "dump_char c =
     (let n = code_point c; esc = CHR 0x5C
      in if n = 34 \<or> n = 92 then [esc, c]
         else if n = 8 then [esc, CHR ''b''] else if n = 9 then [esc, CHR ''t'']
         else if n = 10 then [esc, CHR ''n''] else if n = 12 then [esc, CHR ''f'']
         else if n = 13 then [esc, CHR ''r'']
         else if n < 32 \<or> 127 \<le> n
           then [esc, CHR ''u'', CHR ''0'', CHR ''0'', hex_digit (n div 16), hex_digit (n mod 16)]
         else [c])"

definition dump_str :: "string \<Rightarrow> string" where
  "dump_str s = [CHR 0x22] @ concat (map dump_char s) @ [CHR 0x22]"

fun dumps :: "string \<Rightarrow> string \<Rightarrow> json \<Rightarrow> string" where
  "dumps item_sep key_sep JNull = ''null''"
| "dumps item_sep key_sep (JBool b) = (if b then ''true'' else ''false'')"
| "dumps item_sep key_sep (JNum n) = str_of_int n"
| "dumps item_sep key_sep (JStr s) = dump_str s"
| "dumps item_sep key_sep (JList xs) = ''['' @ join item_sep (map (dumps item_sep key_sep) xs) @ '']''"
| "dumps item_sep key_sep (JObj d) =
     ''{'' @ join item_sep (map (\<lambda>(k, v). dump_str k @ key_sep @ dumps item_sep key_sep v) d) @ ''}''"

text \<open>\<open>PipelineVariable.stringify_complex_types\<close>: what a pipeline variable's value becomes.\<close>

definition stringify :: "json \<Rightarrow> string" where
  "stringify v =
     (case v of
        JList _ \<Rightarrow> dumps '','' '':'' v
      | JObj _ \<Rightarrow> dumps '','' '':'' v
      | JNull \<Rightarrow> ''None''
      | JBool b \<Rightarrow> (if b then ''True'' else ''False'')
      | JNum n \<Rightarrow> str_of_int n
      | JStr s \<Rightarrow> s)"

section \<open>Models\<close>

datatype host_type = Ip | Bastion | Hostname | Cluster

fun host_type_str :: "host_type \<Rightarrow> string" where
  "host_type_str Ip = ''ip''"
| "host_type_str Bastion = ''bastion''"
| "host_type_str Hostname = ''hostname''"
| "host_type_str Cluster = ''cluster''"

datatype output_format = Raw | AsJson
datatype command_output_format = TextOutput | JsonOutput
datatype output_json_error = ParseFailed | OutputUnavailable | NotApplicable

record argument_config =
  ac_name :: string
  ac_type :: string
  ac_validation_regex :: string
  ac_required :: bool
  ac_description :: string

record command_config =
  cc_command_name :: string
  cc_description :: string
  cc_disconnects_ssh :: bool
  cc_killable :: bool
  cc_logged :: bool
  cc_checks_script_version :: bool
  cc_min_script_version :: "string option"
  cc_output_format :: command_output_format
  cc_pipeline :: "string list list"
  cc_arguments :: "argument_config list"

record command_whitelist =
  cw_name :: string
  cw_allow_hosts :: "string list"
  cw_deny_hosts :: "string list"
  cw_allow_commands :: "command_config list"

record command_option =
  co_timeout_seconds :: int
  co_bastion_type :: "string option"
  co_ip_label :: "string option"

record execution_request =
  er_command_name :: string
  er_host :: string
  er_host_type :: host_type
  er_port :: int
  er_username :: string
  er_ssh_config :: string
  er_option :: "command_option option"
  er_arguments :: "(string, json) dict"
  er_min_script_version :: "string option"

record execution_response =
  ex_command_id :: "string option"
  ex_status :: string
  ex_message :: string
  ex_exit_status :: "int option"
  ex_output :: "string option"
  ex_exec_command :: "string option"
  ex_host_type :: "host_type option"
  ex_resolved_ip :: "string option"
  ex_pgids :: "int list"
  ex_output_json :: json
  ex_output_json_error :: "output_json_error option"

record log_line =
  ll_num :: int
  ll_content_html :: string

record command_trace =
  ct_command_id :: string
  ct_status :: string
  ct_next_byte_offset :: int
  ct_next_line_num :: int
  ct_lines :: "log_line list"
  ct_total_size :: int
  ct_size_warning :: bool
  ct_too_large :: bool
  ct_not_logged :: bool
  ct_log_host :: "string option"
  ct_log_port :: "int option"
  ct_log_user :: "string option"
  ct_log_file_path :: "string option"

section \<open>The whitelist\<close>

definition RESOLVED_IP :: string where "RESOLVED_IP = ''192.0.2.10''"
definition LOG_HOST :: string where "LOG_HOST = ''dry-run-control-node.invalid''"
definition DRY_RUN_PING :: string where "DRY_RUN_PING = ''dry_run_ansible_ping''"
definition DRY_RUN_FACTS :: string where "DRY_RUN_FACTS = ''dry_run_ansible_facts''"

definition ping_config :: command_config where
  "ping_config = \<lparr>cc_command_name = DRY_RUN_PING,
     cc_description = ''dry-run: ansible ping (never executed)'', cc_disconnects_ssh = False,
     cc_killable = True, cc_logged = True, cc_checks_script_version = False,
     cc_min_script_version = None, cc_output_format = TextOutput,
     cc_pipeline = [[''ansible'', ''{host}'', ''-m'', ''ping'']], cc_arguments = []\<rparr>"

definition facts_config :: command_config where
  "facts_config = \<lparr>cc_command_name = DRY_RUN_FACTS,
     cc_description = ''dry-run: ansible facts as JSON (never executed)'', cc_disconnects_ssh = False,
     cc_killable = False, cc_logged = False, cc_checks_script_version = False,
     cc_min_script_version = None, cc_output_format = JsonOutput,
     cc_pipeline = [[''ansible'', ''{host}'', ''-m'', ''setup'']],
     cc_arguments = [\<lparr>ac_name = ''filter'', ac_type = ''str'', ac_validation_regex = [],
       ac_required = False, ac_description = ''fact filter, echoed back in the output''\<rparr>]\<rparr>"

definition whitelist :: "command_config list" where
  "whitelist = [ping_config, facts_config]"

definition config_of :: "string \<Rightarrow> command_config option" where
  "config_of command_name = find (\<lambda>c. cc_command_name c = command_name) whitelist"

section \<open>The executions\<close>

record execution =
  xn_config :: command_config
  xn_request :: execution_request
  xn_response :: execution_response
  xn_log_lines :: "string list"

type_synonym executions = "(string, execution) dict"

definition reset_dry_run_command_service :: "(executions, unit) call" where
  "reset_dry_run_command_service w = (Inr (), [])"

definition dry_get_all_commands_info :: "(executions, command_whitelist) call" where
  "dry_get_all_commands_info = return_io
     \<lparr>cw_name = ''cluster_proxy'', cw_allow_hosts = [''.*''], cw_deny_hosts = [], cw_allow_commands = whitelist\<rparr>"

definition dry_get_command_info :: "string \<Rightarrow> (executions, command_config) call" where
  "dry_get_command_info command_name =
     (case config_of command_name of
        None \<Rightarrow> raise_io (dry_error 404 ''NOT_FOUND'' (''command '' @ quoted command_name @ '' not found'') JNull)
      | Some config \<Rightarrow> return_io config)"

definition exec_command_of :: "command_config \<Rightarrow> string \<Rightarrow> string" where
  "exec_command_of config host =
     join '' && '' (map (\<lambda>step. replace_all ''{host}'' host (join '' '' step)) (cc_pipeline config))"

definition new_execution :: "string \<Rightarrow> command_config \<Rightarrow> execution_request \<Rightarrow> execution" where
  "new_execution command_id config body =
     (let exec_command = exec_command_of config (er_host body)
      in \<lparr>xn_config = config, xn_request = body,
          xn_response =
            \<lparr>ex_command_id = Some command_id, ex_status = ''running'',
             ex_message = ''dry-run: command was not executed'', ex_exit_status = None,
             ex_output = None, ex_exec_command = Some exec_command,
             ex_host_type = Some (er_host_type body),
             ex_resolved_ip = Some (if er_host_type body = Ip then er_host body else RESOLVED_IP),
             ex_pgids = [], ex_output_json = JNull, ex_output_json_error = None\<rparr>,
          xn_log_lines =
            (if cc_logged config
             then [''dry-run: '' @ cc_command_name config @ '' on '' @ er_host body @ '' (''
                     @ host_type_str (er_host_type body) @ '')'',
                   ''dry-run: would run: '' @ exec_command,
                   ''dry-run: nothing was executed; no SSH connection was opened'']
             else [])\<rparr>)"

definition dry_execute_command ::
  "string \<Rightarrow> execution_request \<Rightarrow> (executions, execution_response) call" where
  "dry_execute_command hex body w =
     (case config_of (er_command_name body) of
        None \<Rightarrow> (Inl (dry_error 403 ''FORBIDDEN''
          (''command '' @ quoted (er_command_name body) @ '' is not in the cluster_proxy whitelist'') JNull), w)
      | Some config \<Rightarrow>
          (let command_id = ''dry-run-'' @ hex; x = new_execution command_id config body
           in (Inr (xn_response x), dict_set command_id x w)))"

definition get_execution :: "string \<Rightarrow> (executions, execution) call" where
  "get_execution command_id w =
     (case dict_get w command_id of
        None \<Rightarrow> (Inl (dry_error 404 ''NOT_FOUND'' (''command '' @ command_id @ '' not found'') JNull), w)
      | Some x \<Rightarrow> (Inr x, w))"

definition output_of :: "execution \<Rightarrow> string" where
  "output_of x =
     (if cc_output_format (xn_config x) = JsonOutput
      then dumps '', '' '': '' (JObj [(''dry_run'', JBool True), (''host'', JStr (er_host (xn_request x))),
             (''arguments'', JObj (er_arguments (xn_request x)))])
      else ''dry-run: '' @ er_host (xn_request x) @ '' | SUCCESS => pong (not executed)'' @ [newline])"

definition complete :: "execution \<Rightarrow> execution" where
  "complete x =
     (if ex_status (xn_response x) = ''running''
      then x\<lparr>xn_response := (xn_response x)\<lparr>ex_status := ''success'', ex_exit_status := Some 0,
               ex_message := ''dry-run: completed; nothing was executed'',
               ex_output := Some (output_of x)\<rparr>,
             xn_log_lines := xn_log_lines x @
               (if cc_logged (xn_config x) then [''dry-run: finished with exit status 0''] else [])\<rparr>
      else x)"

definition observe_execution :: "string \<Rightarrow> (executions, execution) call" where
  "observe_execution command_id =
     bind_io (get_execution command_id) (\<lambda>x w. (Inr (complete x), dict_set command_id (complete x) w))"

definition with_json :: "(string \<Rightarrow> string + json) \<Rightarrow> execution_response \<Rightarrow> exn + execution_response" where
  "with_json json_loads result =
     (if ex_status result = ''success''
      then (case json_loads (case ex_output result of None \<Rightarrow> ''null'' | Some s \<Rightarrow> (if s = [] then ''null'' else s)) of
              Inl _ \<Rightarrow> Inl (PyError ''JSONDecodeError'')
            | Inr v \<Rightarrow> Inr (result\<lparr>ex_output_json := v\<rparr>))
      else Inr (result\<lparr>ex_output_json_error := Some NotApplicable\<rparr>))"

definition dry_get_command_result ::
  "(string \<Rightarrow> string + json) \<Rightarrow> string \<Rightarrow> output_format \<Rightarrow> (executions, execution_response) call" where
  "dry_get_command_result json_loads command_id fmt =
     bind_io (observe_execution command_id) (\<lambda>x.
       if fmt = AsJson \<and> cc_output_format (xn_config x) \<noteq> JsonOutput
       then raise_io (dry_error 400 ''BAD_REQUEST''
         (''command '' @ quoted (cc_command_name (xn_config x)) @ '' does not declare output_format json'') JNull)
       else if fmt = AsJson then lift_io (with_json json_loads (xn_response x))
       else return_io (xn_response x))"

definition py_bool :: "bool \<Rightarrow> string" where
  "py_bool b = (if b then ''True'' else ''False'')"

definition kill_execution :: "bool \<Rightarrow> execution \<Rightarrow> execution" where
  "kill_execution forced x =
     (if ex_status (xn_response x) = ''running''
      then x\<lparr>xn_response := (xn_response x)\<lparr>ex_status := ''killed'',
               ex_message := ''dry-run: kill accepted; nothing was running''\<rparr>,
             xn_log_lines := xn_log_lines x @ [''dry-run: killed (force='' @ py_bool forced @ '')'']\<rparr>
      else x)"

definition dry_kill_command :: "string \<Rightarrow> bool \<Rightarrow> (executions, execution_response) call" where
  "dry_kill_command command_id forced =
     bind_io (get_execution command_id) (\<lambda>x w.
       if \<not> cc_killable (xn_config x)
       then (Inl (dry_error 400 ''BAD_REQUEST''
         (''command '' @ quoted (cc_command_name (xn_config x)) @ '' is not killable'') JNull), w)
       else (Inr (xn_response (kill_execution forced x)), dict_set command_id (kill_execution forced x) w))"

definition log_bytes :: "execution \<Rightarrow> string" where
  "log_bytes x = utf8_encode (concat (map (\<lambda>line. line @ [newline]) (xn_log_lines x)))"

text \<open>\<open>xs[i:]\<close>.\<close>

definition from_index :: "int \<Rightarrow> 'a list \<Rightarrow> 'a list" where
  "from_index i xs = (if 0 \<le> i then drop (nat i) xs else drop (length xs - nat (- i)) xs)"

definition log_slice :: "(string \<Rightarrow> string) \<Rightarrow> execution \<Rightarrow> int \<Rightarrow> int \<Rightarrow> log_line list" where
  "log_slice decode x byte_offset line_num =
     map (\<lambda>(i, line). \<lparr>ll_num = line_num + int i, ll_content_html = html_escape True line\<rparr>)
       (enumerate 0 (splitlines (decode (from_index byte_offset (log_bytes x)))))"

definition trace_of :: "(string \<Rightarrow> string) \<Rightarrow> string \<Rightarrow> execution \<Rightarrow> int \<Rightarrow> int \<Rightarrow> command_trace" where
  "trace_of decode command_id x byte_offset line_num =
     (let status = ex_status (xn_response x)
      in if \<not> cc_logged (xn_config x)
         then \<lparr>ct_command_id = command_id, ct_status = status, ct_next_byte_offset = byte_offset,
               ct_next_line_num = line_num, ct_lines = [], ct_total_size = 0, ct_size_warning = False,
               ct_too_large = False, ct_not_logged = True, ct_log_host = None, ct_log_port = None,
               ct_log_user = None, ct_log_file_path = None\<rparr>
         else (let lines = log_slice decode x byte_offset line_num
               in \<lparr>ct_command_id = command_id, ct_status = status,
                   ct_next_byte_offset = int (length (log_bytes x)),
                   ct_next_line_num = line_num + int (length lines), ct_lines = lines,
                   ct_total_size = int (length (log_bytes x)), ct_size_warning = False, ct_too_large = False,
                   ct_not_logged = False, ct_log_host = Some LOG_HOST, ct_log_port = Some 22,
                   ct_log_user = Some ''dry-run'',
                   ct_log_file_path = Some (''/dry-run/logs/'' @ command_id @ ''.log'')\<rparr>))"

definition dry_get_command_trace ::
  "(string \<Rightarrow> string) \<Rightarrow> string \<Rightarrow> int \<Rightarrow> int \<Rightarrow> (executions, command_trace) call" where
  "dry_get_command_trace decode command_id byte_offset line_num =
     bind_io (observe_execution command_id)
       (\<lambda>x. return_io (trace_of decode command_id x byte_offset line_num))"

section \<open>The service and its routes\<close>

record 'w command_client =
  cm_get_all_commands_info :: "('w, command_whitelist) call"
  cm_get_command_info :: "string \<Rightarrow> ('w, command_config) call"
  cm_execute_command :: "execution_request \<Rightarrow> ('w, execution_response) call"
  cm_get_command_result :: "string \<Rightarrow> output_format \<Rightarrow> ('w, execution_response) call"
  cm_kill_command :: "string \<Rightarrow> bool \<Rightarrow> ('w, execution_response) call"
  cm_get_command_trace :: "string \<Rightarrow> int \<Rightarrow> int \<Rightarrow> ('w, command_trace) call"

definition dry_run_command_client ::
  "(string \<Rightarrow> string) \<Rightarrow> (string \<Rightarrow> string + json) \<Rightarrow> string \<Rightarrow> executions command_client" where
  "dry_run_command_client decode json_loads hex =
     \<lparr>cm_get_all_commands_info = dry_get_all_commands_info, cm_get_command_info = dry_get_command_info,
      cm_execute_command = dry_execute_command hex, cm_get_command_result = dry_get_command_result json_loads,
      cm_kill_command = dry_kill_command, cm_get_command_trace = dry_get_command_trace decode\<rparr>"

record command_models =
  mm_whitelist :: "json \<Rightarrow> exn + command_whitelist"
  mm_config :: "json \<Rightarrow> exn + command_config"
  mm_response :: "json \<Rightarrow> exn + execution_response"
  mm_trace :: "json \<Rightarrow> exn + command_trace"
  mm_dump :: "execution_request \<Rightarrow> json"

fun output_format_str :: "output_format \<Rightarrow> string" where
  "output_format_str Raw = ''raw''"
| "output_format_str AsJson = ''json''"

definition live_command_client :: "'x client \<Rightarrow> command_models \<Rightarrow> 'x client_world command_client" where
  "live_command_client c m =
     \<lparr>cm_get_all_commands_info = client_get_all_commands_info c (mm_whitelist m),
      cm_get_command_info = client_get_command_info c (mm_config m),
      cm_execute_command = (\<lambda>body. client_execute_command c (mm_response m) (mm_dump m body)),
      cm_get_command_result = (\<lambda>i fmt. client_get_command_result c (mm_response m) i (output_format_str fmt)),
      cm_kill_command = client_kill_command c (mm_response m),
      cm_get_command_trace = client_get_command_trace c (mm_trace m)\<rparr>"

definition commands_info_route where
  "commands_info_route cd st c request_id =
     as_user cd [''command_api''] (\<lambda>_. enveloped st request_id (cm_get_all_commands_info c))"

definition command_info_route where
  "command_info_route cd st c request_id command_name =
     as_user cd [''command_api''] (\<lambda>_. enveloped st request_id (cm_get_command_info c command_name))"

definition execute_command_route where
  "execute_command_route cd st c request_id body =
     as_user cd [''command_api''] (\<lambda>_. enveloped st request_id (cm_execute_command c body))"

definition command_result_route where
  "command_result_route cd st c request_id command_id fmt =
     as_user cd [''command_api''] (\<lambda>_. enveloped st request_id (cm_get_command_result c command_id fmt))"

definition kill_command_route where
  "kill_command_route cd st c request_id command_id forced =
     as_user cd [''command_api''] (\<lambda>_. enveloped st request_id (cm_kill_command c command_id forced))"

text \<open>The trace also takes the token from the cookie.\<close>

definition command_trace_route ::
  "crypto \<Rightarrow> int \<Rightarrow> string option \<Rightarrow> string option \<Rightarrow> settings \<Rightarrow> 'w command_client \<Rightarrow> string \<Rightarrow> string \<Rightarrow>
   int \<Rightarrow> int \<Rightarrow> ('w, command_trace api_response) call" where
  "command_trace_route cr time header_token cookie st c request_id command_id byte_offset line_num =
     bind_io (lift_io (get_current_user_cookie_or_header cr time [''command_api''] header_token cookie)) (\<lambda>_.
       enveloped st request_id (cm_get_command_trace c command_id byte_offset line_num))"

text \<open>The log viewer: the fields its page is filled with. The id is checked before anything is rendered.\<close>

record viewer =
  vw_title :: string
  vw_heading :: string
  vw_trace_url :: string
  vw_meta_html :: string

definition is_command_id :: "string \<Rightarrow> bool" where
  "is_command_id s \<longleftrightarrow> re_full (let p = RSet (\<lambda>c. is_alnum c \<or> c = CHR ''_'' \<or> c = CHR ''-'') in RSeq p (RStar p)) s"

definition view_command :: "string \<Rightarrow> exn + viewer" where
  "view_command command_id =
     (if \<not> is_command_id command_id then Inl (App (NotFoundException ''Command not found.''))
      else (let safe_id = html_escape True command_id
            in Inr \<lparr>vw_title = ''Command Log Viewer | '' @ safe_id, vw_heading = ''Command: '' @ safe_id,
                    vw_trace_url = execution_path command_id ''/trace/ui'',
                    vw_meta_html = ''<div><span class='' @ [CHR 0x22] @ ''label'' @ [CHR 0x22]
                      @ ''>Command ID</span><code>'' @ safe_id @ ''</code></div>''\<rparr>))"

end
