(* ===== verification/Users_Machine.thy ===== *)
theory Users_Machine
  imports Users_File
begin

text \<open>
  The users file under concurrent requests and edits. A request takes the \<open>stat\<close> of the file
  before the lock and reads it, if it must, under the lock; the file may be replaced at any moment in
  between, and requests interleave. The machine keeps every version the file has had, the cache, and
  the requests that are between their \<open>stat\<close> and their turn at the lock, each with the number of the
  version it saw. A replacement has a stamp no earlier version had, as inode, times and size give it.

  The invariant is that the cache, kept under the stamp of some version, holds a version at least as
  recent; so every answer is that of a version the file had since the request began.
\<close>

record machine =
  versions :: "users_path list"
  shared :: users_cache
  waiting :: "nat \<Rightarrow> (stamp \<times> nat) option"

definition current :: "machine \<Rightarrow> users_path" where
  "current m = last (versions m)"

definition stamp_of :: "users_path \<Rightarrow> stamp option" where
  "stamp_of f = (case f of NoFile _ \<Rightarrow> None | File s _ \<Rightarrow> Some s)"

datatype event =
    Replace users_path
  | Stat nat
  | Answer nat nat "exn + users_document"  \<comment> \<open>request, the version it saw, what it answers\<close>

inductive step :: "engines \<Rightarrow> machine \<Rightarrow> event \<Rightarrow> machine \<Rightarrow> bool" for eng :: engines where
  replace: "(\<And>g. g \<in> set (versions m) \<Longrightarrow> stamp_of g \<noteq> None \<Longrightarrow> stamp_of g \<noteq> stamp_of f) \<Longrightarrow>
    step eng m (Replace f) (m\<lparr>versions := versions m @ [f]\<rparr>)"
| stat: "stat_users_file (current m) = Inr s \<Longrightarrow>
    step eng m (Stat t) (m\<lparr>waiting := (waiting m)(t \<mapsto> (s, length (versions m) - 1))\<rparr>)"
| stat_fails: "stat_users_file (current m) = Inl e \<Longrightarrow>
    step eng m (Answer t (length (versions m) - 1) (Inl e)) m"
| locked: "waiting m t = Some (s, i) \<Longrightarrow> load_locked eng s (current m) (shared m) = (r, c) \<Longrightarrow>
    step eng m (Answer t i r) (m\<lparr>shared := c, waiting := (waiting m)(t := None)\<rparr>)"

definition start :: "users_path \<Rightarrow> machine" where
  "start f = \<lparr>versions = [f], shared = empty_cache, waiting = (\<lambda>_. None)\<rparr>"

inductive reachable :: "engines \<Rightarrow> users_path \<Rightarrow> machine \<Rightarrow> bool" for eng :: engines and f0 :: users_path
where
  init: "reachable eng f0 (start f0)"
| more: "reachable eng f0 m \<Longrightarrow> step eng m e m' \<Longrightarrow> reachable eng f0 m'"

definition stamps_once :: "users_path list \<Rightarrow> bool" where
  "stamps_once vs \<longleftrightarrow> (\<forall>i j s. i < length vs \<longrightarrow> j < length vs \<longrightarrow>
     stamp_of (vs ! i) = Some s \<longrightarrow> stamp_of (vs ! j) = Some s \<longrightarrow> i = j)"

definition machine_inv :: "engines \<Rightarrow> machine \<Rightarrow> bool" where
  "machine_inv eng m \<longleftrightarrow> versions m \<noteq> [] \<and> stamps_once (versions m) \<and>
     (\<forall>t s i. waiting m t = Some (s, i) \<longrightarrow> i < length (versions m) \<and> stamp_of (versions m ! i) = Some s) \<and>
     (\<forall>s doc. cached_stamp (shared m) = Some s \<longrightarrow> cached_doc (shared m) = Some doc \<longrightarrow>
        (\<exists>i k. i \<le> k \<and> k < length (versions m) \<and> stamp_of (versions m ! i) = Some s \<and>
           parse_file eng (versions m ! k) = Inr doc))"

lemma machine_invD:
  assumes "machine_inv eng m"
  shows "versions m \<noteq> []" and "stamps_once (versions m)"
    and "waiting m t = Some (s, i) \<Longrightarrow> i < length (versions m) \<and> stamp_of (versions m ! i) = Some s"
    and "cached_stamp (shared m) = Some s \<Longrightarrow> cached_doc (shared m) = Some doc \<Longrightarrow>
      \<exists>i k. i \<le> k \<and> k < length (versions m) \<and> stamp_of (versions m ! i) = Some s \<and>
        parse_file eng (versions m ! k) = Inr doc"
  using assms by (simp_all add: machine_inv_def)

lemma stat_stamp: "stat_users_file f = Inr s \<longleftrightarrow> stamp_of f = Some s"
  by (cases f) (auto simp: stat_users_file_def stamp_of_def)

lemma current_nth: "versions m \<noteq> [] \<Longrightarrow> current m = versions m ! (length (versions m) - 1)"
  by (simp add: current_def last_conv_nth)

lemma load_locked_cases:
  assumes "load_locked eng s f c = (r, c')"
  obtains (cached) doc where "cached_doc c = Some doc" and "cached_stamp c = Some s"
      and "r = Inr doc" and "c' = c"
    | (parsed) doc where "parse_file eng f = Inr doc" and "r = Inr doc"
      and "c' = \<lparr>cached_stamp = Some s, cached_doc = Some doc\<rparr>"
    | (refused) e where "parse_file eng f = Inl e" and "r = Inl e" and "c' = c"
  using assms
  by (auto simp: load_locked_def split: option.splits if_splits sum.splits)

lemma inv_start: "machine_inv eng (start f)"
  by (simp add: machine_inv_def start_def stamps_once_def empty_cache_def)

lemma inv_replace:
  assumes "machine_inv eng m"
    and "\<And>g. g \<in> set (versions m) \<Longrightarrow> stamp_of g \<noteq> None \<Longrightarrow> stamp_of g \<noteq> stamp_of f"
  shows "machine_inv eng (m\<lparr>versions := versions m @ [f]\<rparr>)"
proof -
  have nth: "(versions m @ [f]) ! i = versions m ! i" if "i < length (versions m)" for i
    using that by (simp add: nth_append)
  have new: "stamp_of (versions m ! i) \<noteq> Some s" if "i < length (versions m)" "stamp_of f = Some s" for i s
    using that assms(2)[of "versions m ! i"] by auto
  have "stamps_once (versions m @ [f])"
    using machine_invD(2)[OF assms(1)] new unfolding stamps_once_def
    by (auto simp: nth_append less_Suc_eq)
  moreover have "\<exists>i k. i \<le> k \<and> k < length (versions m @ [f]) \<and>
      stamp_of ((versions m @ [f]) ! i) = Some s \<and> parse_file eng ((versions m @ [f]) ! k) = Inr doc"
    if held: "cached_stamp (shared m) = Some s" "cached_doc (shared m) = Some doc" for s doc
  proof -
    obtain i k where "i \<le> k" "k < length (versions m)" "stamp_of (versions m ! i) = Some s"
      "parse_file eng (versions m ! k) = Inr doc"
      using machine_invD(4)[OF assms(1) held] by blast
    then show ?thesis by (intro exI[of _ i] exI[of _ k]) (simp add: nth)
  qed
  moreover have "i < length (versions m @ [f]) \<and> stamp_of ((versions m @ [f]) ! i) = Some s"
    if "waiting m t = Some (s, i)" for t s i
    using machine_invD(3)[OF assms(1) that] nth by auto
  ultimately show ?thesis by (simp add: machine_inv_def)
qed

lemma inv_stat:
  assumes "machine_inv eng m" and "stat_users_file (current m) = Inr s"
  shows "machine_inv eng (m\<lparr>waiting := (waiting m)(t \<mapsto> (s, length (versions m) - 1))\<rparr>)"
  using assms by (auto simp: machine_inv_def stat_stamp current_nth)

lemma inv_locked:
  assumes "machine_inv eng m" and "waiting m t = Some (s, i)"
    and "load_locked eng s (current m) (shared m) = (r, c)"
  shows "machine_inv eng (m\<lparr>shared := c, waiting := (waiting m)(t := None)\<rparr>)"
  using assms(3)
proof (cases rule: load_locked_cases)
  case (parsed doc)
  have i: "i < length (versions m)" "stamp_of (versions m ! i) = Some s" "versions m \<noteq> []"
    using machine_invD(1,3)[OF assms(1)] assms(2) by blast+
  then have "i \<le> length (versions m) - 1" "length (versions m) - 1 < length (versions m)"
    "parse_file eng (versions m ! (length (versions m) - 1)) = Inr doc"
    using parsed(1) current_nth[of m] by auto
  with i(2) have "\<exists>i k. i \<le> k \<and> k < length (versions m) \<and> stamp_of (versions m ! i) = Some s \<and>
      parse_file eng (versions m ! k) = Inr doc" by blast
  with assms(1) parsed(3) show ?thesis by (simp add: machine_inv_def)
qed (use assms(1) in \<open>simp_all add: machine_inv_def\<close>)

lemma inv_reachable: "reachable eng f0 m \<Longrightarrow> machine_inv eng m"
proof (induction rule: reachable.induct)
  case init
  show ?case by (rule inv_start)
next
  case (more m e m')
  from more(2) more(3) show ?case
    by cases (use inv_stat in \<open>auto intro: inv_replace inv_locked\<close>)
qed

text \<open>An answer is that of a version the file had between the request's \<open>stat\<close> and its answer. For
  a file that is gone the text of the error says which of the two calls noticed.\<close>

definition answers :: "engines \<Rightarrow> users_path \<Rightarrow> (exn + users_document) set" where
  "answers eng f = {answer eng f, parse_file eng f}"

lemma parse_ok_answer: "parse_file eng f = Inr doc \<Longrightarrow> answer eng f = Inr doc"
  by (cases f)
    (simp_all add: answer_def stat_users_file_def parse_file_def read_users_document_def read_text_def)

lemma answer_of_version:
  assumes "machine_inv eng m" and "step eng m (Answer t i r) m'"
  shows "\<exists>k. i \<le> k \<and> k < length (versions m) \<and> r \<in> answers eng (versions m ! k)"
  using assms(2)
proof cases
  case (stat_fails e)
  then show ?thesis
    using assms(1) current_nth[of m]
    by (intro exI[of _ i]) (auto simp: machine_inv_def answers_def answer_def)
next
  case (locked s c)
  have i: "i < length (versions m)" "stamp_of (versions m ! i) = Some s" "versions m \<noteq> []"
    using machine_invD(1,3)[OF assms(1)] locked by blast+
  have now: "i \<le> length (versions m) - 1" "length (versions m) - 1 < length (versions m)"
    using i by auto
  from locked(3) show ?thesis
  proof (cases rule: load_locked_cases)
    case (cached doc)
    then obtain j k where jk: "j \<le> k" "k < length (versions m)" "stamp_of (versions m ! j) = Some s"
      "parse_file eng (versions m ! k) = Inr doc"
      using machine_invD(4)[OF assms(1)] by blast
    have "j = i"
      using machine_invD(2)[OF assms(1)] i jk unfolding stamps_once_def by (meson le_less_trans)
    with jk cached show ?thesis by (intro exI[of _ k]) (simp add: answers_def)
  next
    case (parsed doc)
    with now i(3) show ?thesis
      by (intro exI[of _ "length (versions m) - 1"]) (simp add: current_nth answers_def)
  next
    case (refused e)
    with now i(3) show ?thesis
      by (intro exI[of _ "length (versions m) - 1"]) (simp add: current_nth answers_def)
  qed
qed

end
