(* ===== verification/Auth_Properties.thy ===== *)
theory Auth_Properties
  imports Auth Users_Properties
begin

text \<open>
  What logging in gives: the issued token says who logged in and with which scopes until it expires,
  a token lets a caller through only with every scope the route asks for, a wrong password and an
  unknown account are answered alike, and the browser is never sent to another host.
\<close>

section \<open>Tokens\<close>

lemma strings_of_json_strs: "strings_of (map JStr xs) = Some xs"
  by (induction xs) auto

lemma strings_of_Some: "strings_of xs = Some ss \<Longrightarrow> xs = map JStr ss"
  by (induction xs arbitrary: ss rule: strings_of.induct) auto

lemma missing_scopes_strs:
  "missing_scopes (json_strs ss) needed = Inr (filter (\<lambda>s. s \<notin> set ss) needed)"
  by (induction needed) (auto simp: py_in_def json_strs_def)

lemma user_of_Inr:
  "user_of account scopes = Inr u \<longleftrightarrow> account = JStr (u_account u) \<and> scopes = json_strs (u_scopes u)"
  by (auto simp: user_of_def json_strs_def strings_of_json_strs
      split: json.splits option.splits dest: strings_of_Some)

lemma user_of_payload_Inr:
  assumes "user_of_payload needed p = Inr u"
  shows "dict_get p ''sub'' = Some (JStr (u_account u)) \<and> u_account u \<noteq> [] \<and>
    or_else (dict_get p ''scopes'') (JList []) = json_strs (u_scopes u) \<and> set needed \<subseteq> set (u_scopes u)"
proof -
  let ?account = "or_else (dict_get p ''sub'') JNull" and ?scopes = "or_else (dict_get p ''scopes'') (JList [])"
  have ok: "truthy ?account" "missing_scopes ?scopes needed = Inr []" "user_of ?account ?scopes = Inr u"
    using assms by (auto simp: user_of_payload_def Let_def split: if_splits sum.splits)
  from ok(3) have u: "?account = JStr (u_account u)" "?scopes = json_strs (u_scopes u)"
    by (auto simp: user_of_Inr)
  have "dict_get p ''sub'' = Some (JStr (u_account u))"
    using u(1) by (cases "dict_get p ''sub''") auto
  moreover have "u_account u \<noteq> []" using ok(1) u(1) by (simp add: truthy_def)
  moreover have "set needed \<subseteq> set (u_scopes u)"
    using ok(2) u(2) by (auto simp: missing_scopes_strs filter_empty_conv)
  ultimately show ?thesis using u(2) by simp
qed

text \<open>What a login signs.\<close>

definition issued_payload :: "settings \<Rightarrow> int \<Rightarrow> string \<Rightarrow> string list \<Rightarrow> payload" where
  "issued_payload st now account scopes =
     [(''sub'', JStr account), (''scopes'', json_strs scopes),
      (''exp'', JNum (now + ACCESS_TOKEN_EXPIRE_MINUTES st * 60))]"

lemma generate_token_issued:
  "td_access_token (generate_token cr st now u) =
     jwt_encode cr (issued_payload st now (u_account u) (u_scopes u))"
  by (simp add: generate_token_def create_access_token_def issued_payload_def)

lemma user_of_issued:
  assumes "account \<noteq> []"
  shows "user_of_payload needed (issued_payload st now account scopes) =
    (if set needed \<subseteq> set scopes then Inr \<lparr>u_account = account, u_scopes = scopes\<rparr>
     else Inl (forbidden needed (filter (\<lambda>s. s \<notin> set scopes) needed)))"
proof -
  have "user_of (JStr account) (json_strs scopes) = Inr \<lparr>u_account = account, u_scopes = scopes\<rparr>"
    by (simp add: user_of_Inr)
  with assms show ?thesis
    by (auto simp: user_of_payload_def issued_payload_def missing_scopes_strs truthy_def
        filter_empty_conv Let_def)
qed

lemma answer_read: "answer eng f = Inr doc \<Longrightarrow> read_users_document eng f = Inr doc"
  by (auto simp: answer_def parse_file_def split: sum.splits read_error.splits)

lemma entry_sound:
  assumes "answer eng f = Inr doc" and "entry_of doc account = Some u"
  shows "ue_account u = account" and "account \<noteq> []"
proof -
  obtain raw where raw: "parse_users_document (compile_regex eng) raw = Inr doc"
    using answer_read[OF assms(1)]
    by (auto simp: read_users_document_def split: contents.splits sum.splits)
  from assms(2) have "u \<in> set (doc_users doc)" "ue_account u = account"
    by (auto simp: entry_of_def dest: find_SomeD)
  with parse_Inr(3)[OF raw] show "ue_account u = account" "account \<noteq> []"
    by (auto simp: sound_user_def)
qed

lemma file_account:
  assumes "cache_inv eng (uw_path w) (uw_cache w)" and "answer eng (uw_path w) = Inr doc"
  shows "\<exists>w'. json_get_by_account eng account w = (Inr (map_option
      (\<lambda>u. \<lparr>ud_account = ue_account u, ud_hashed_password = ue_hashed_password u,
            ud_scopes = ue_scopes u\<rparr>) (entry_of doc account)), w')"
proof -
  obtain r w' where call: "json_get_by_account eng account w = (r, w')"
    by (cases "json_get_by_account eng account w")
  with json_store.by_account_law[OF assms(1) call] assms(2) show ?thesis by auto
qed

text \<open>A login with the right password, and what its token is worth.\<close>

lemma token_login:
  assumes "cache_inv eng (uw_path w) (uw_cache w)" and "answer eng (uw_path w) = Inr doc"
    and "entry_of doc account = Some u" and "checkpw cr password (ue_hashed_password u) = Inr True"
  obtains w' where "token_endpoint cr st (json_get_by_account eng) now account password w =
      (let data = generate_token cr st now \<lparr>u_account = account, u_scopes = ue_scopes u\<rparr>
       in (Inr (data, access_cookie (td_access_token data) (td_expires_in data)), w'))"
proof -
  note u = entry_sound[OF assms(2,3)]
  obtain w' where "json_get_by_account eng account w = (Inr (Some
      \<lparr>ud_account = account, ud_hashed_password = ue_hashed_password u, ud_scopes = ue_scopes u\<rparr>), w')"
    using file_account[OF assms(1,2), of account] assms(3) u(1) by auto
  then show ?thesis using assms(4) that by (simp add: token_endpoint_def authenticate_def bind_io_def Let_def)
qed

lemma issued_token_user:
  assumes "answer eng (uw_path w) = Inr doc" and "entry_of doc account = Some u"
    and "jwt_decode cr later (jwt_encode cr (issued_payload st now account (ue_scopes u))) =
      Inr (issued_payload st now account (ue_scopes u))"
  shows "get_current_user cr later needed
      (td_access_token (generate_token cr st now \<lparr>u_account = account, u_scopes = ue_scopes u\<rparr>)) =
    (if set needed \<subseteq> set (ue_scopes u) then Inr \<lparr>u_account = account, u_scopes = ue_scopes u\<rparr>
     else Inl (forbidden needed (filter (\<lambda>s. s \<notin> set (ue_scopes u)) needed)))"
  using assms(3) user_of_issued[OF entry_sound(2)[OF assms(1,2)]]
  by (simp add: get_current_user_def decode_access_token_def generate_token_issued)
text \<open>C23: a login against the users file answers a token and the same token as a cookie; whoever
  presents it while it is accepted is the account that logged in, with exactly the scopes the file
  gives it, if these cover what the route asks for, and is refused with the missing ones otherwise.
  The JWT library is trusted to read back the payload it signed.\<close>

theorem login_round_trip:
  assumes "cache_inv eng (uw_path w) (uw_cache w)" and "answer eng (uw_path w) = Inr doc"
    and "entry_of doc account = Some u" and "checkpw cr password (ue_hashed_password u) = Inr True"
    and signed: "jwt_decode cr later (jwt_encode cr (issued_payload st now account (ue_scopes u))) =
      Inr (issued_payload st now account (ue_scopes u))"
  shows "\<exists>data ck w'. token_endpoint cr st (json_get_by_account eng) now account password w =
      (Inr (data, ck), w') \<and>
    ck_value ck = td_access_token data \<and> ck_max_age ck = ACCESS_TOKEN_EXPIRE_MINUTES st * 60 \<and>
    get_current_user cr later needed (td_access_token data) =
      (if set needed \<subseteq> set (ue_scopes u) then Inr \<lparr>u_account = account, u_scopes = ue_scopes u\<rparr>
       else Inl (forbidden needed (filter (\<lambda>s. s \<notin> set (ue_scopes u)) needed)))"
proof -
  let ?data = "generate_token cr st now \<lparr>u_account = account, u_scopes = ue_scopes u\<rparr>"
  obtain w' where "token_endpoint cr st (json_get_by_account eng) now account password w =
      (let data = ?data in (Inr (data, access_cookie (td_access_token data) (td_expires_in data)), w'))"
    using token_login[OF assms(1-4)] .
  with issued_token_user[OF assms(2,3) signed, of needed] show ?thesis
    by (intro exI[of _ ?data] exI[of _ "access_cookie (td_access_token ?data) (td_expires_in ?data)"] exI[of _ w'])
      (simp add: access_cookie_def generate_token_def Let_def)
qed

definition sample_settings :: settings where
  "sample_settings = \<lparr>DRY_RUN_MODE = False, KUBECONFIG_BASE_PATH = '''', USERS_JSON_PATH = '''',
     ACCESS_TOKEN_EXPIRE_MINUTES = 60, DRAIN_DEFAULT_TIMEOUT_SECONDS = 25,
     PROVENANCE_ANNOTATION_PREFIX = '''', DEPLOY_SERVICE_URL = '''', DEPLOY_SERVICE_USERNAME = '''',
     DEPLOY_SERVICE_PASSWORD = '''', DEPLOY_SERVICE_TOKEN = ''''\<rparr>"

text \<open>A library that signs one payload, as \<open>token\<close>, and accepts it for an hour.\<close>

definition sample_crypto :: crypto where
  "sample_crypto =
     \<lparr>checkpw = (\<lambda>plain hash. Inr (plain = ''secret'')), hashpw = (\<lambda>plain salt. Inr sample_hash),
      jwt_encode = (\<lambda>p. ''token''),
      jwt_decode = (\<lambda>now t. if t = ''token'' \<and> now < 3600
         then Inr (issued_payload sample_settings 0 ''ops'' [''node:write'']) else Inl ''bad'')\<rparr>"

definition sample_world :: users_world where
  "sample_world = \<lparr>uw_path = stamped 1 (Text ''ok''), uw_cache = empty_cache\<rparr>"

lemma sample_world_ok:
  "cache_inv sample_engines (uw_path sample_world) (uw_cache sample_world)"
  "answer sample_engines (uw_path sample_world) = Inr sample_doc"
  using sample_read[of 1]
  by (simp_all add: sample_world_def cache_inv_def empty_cache_def answer_def parse_file_def
      stat_users_file_def stamped_def)

lemma login_round_trip_witness:
  "\<exists>data ck w'. token_endpoint sample_crypto sample_settings (json_get_by_account sample_engines) 0
      ''ops'' ''secret'' sample_world = (Inr (data, ck), w') \<and>
    get_current_user sample_crypto 60 [''node:write''] (td_access_token data) =
      Inr \<lparr>u_account = ''ops'', u_scopes = [''node:write'']\<rparr>"
proof -
  let ?u = "\<lparr>ue_account = ''ops'', ue_hashed_password = sample_hash,
                   ue_scopes = [''node:write''], ue_policies = []\<rparr>"
  have "entry_of sample_doc ''ops'' = Some ?u" by (simp add: entry_of_def sample_doc_def)
  moreover have "checkpw sample_crypto ''secret'' (ue_hashed_password ?u) = Inr True"
    by (simp add: sample_crypto_def)
  moreover have "jwt_decode sample_crypto 60 (jwt_encode sample_crypto
      (issued_payload sample_settings 0 ''ops'' (ue_scopes ?u))) =
      Inr (issued_payload sample_settings 0 ''ops'' (ue_scopes ?u))"
    by (simp add: sample_crypto_def)
  ultimately show ?thesis
    using login_round_trip[OF sample_world_ok, of "''ops''" ?u sample_crypto "''secret''" 60
        sample_settings 0 "[''node:write'']"]
    by auto
qed

text \<open>C9: whoever a route lets through presented a token the library accepts whose subject is that
  account, and whose scopes are a list of strings with every scope the route asks for; a string of
  scopes, which would contain a scope as a substring, never passes.\<close>

theorem token_gate:
  assumes "get_current_user cr now needed token = Inr u"
  shows "\<exists>p. jwt_decode cr now token = Inr p \<and> dict_get p ''sub'' = Some (JStr (u_account u)) \<and>
    u_account u \<noteq> [] \<and> or_else (dict_get p ''scopes'') (JList []) = json_strs (u_scopes u) \<and>
    set needed \<subseteq> set (u_scopes u)"
proof -
  obtain p where "jwt_decode cr now token = Inr p" "user_of_payload needed p = Inr u"
    using assms by (auto simp: get_current_user_def decode_access_token_def split: sum.splits)
  with user_of_payload_Inr show ?thesis by blast
qed

lemma token_gate_witness:
  "get_current_user sample_crypto 5 [''node:write''] ''token'' =
     Inr \<lparr>u_account = ''ops'', u_scopes = [''node:write'']\<rparr> \<and>
   (\<exists>p. jwt_decode sample_crypto 5 ''token'' = Inr p \<and> dict_get p ''sub'' = Some (JStr ''ops''))"
proof -
  have "get_current_user sample_crypto 5 [''node:write''] ''token'' =
      Inr \<lparr>u_account = ''ops'', u_scopes = [''node:write'']\<rparr>"
    using user_of_issued[of "''ops''" "[''node:write'']" sample_settings 0 "[''node:write'']"]
    by (simp add: get_current_user_def decode_access_token_def sample_crypto_def)
  with token_gate[OF this] show ?thesis by auto
qed

section \<open>Refused logins\<close>

text \<open>An attempt no account answers to, or with a password that is not the account's.\<close>

definition rejected :: "crypto \<Rightarrow> 'w user_repository \<Rightarrow> string \<Rightarrow> string \<Rightarrow> 'w \<Rightarrow> 'w \<Rightarrow> bool" where
  "rejected cr repo account password w w' \<longleftrightarrow>
     repo account w = (Inr None, w') \<or>
     (\<exists>d. repo account w = (Inr (Some d), w') \<and> checkpw cr password (ud_hashed_password d) = Inr False)"

text \<open>An unknown account and a wrong password are answered alike, by the token endpoint with one
  and the same 401, by the login form with one and the same page, and no token is issued.\<close>

theorem refused_logins_look_alike:
  assumes "rejected cr repo account password w w'"
  shows "token_endpoint cr st repo now account password w =
      (Inl (App (AuthException ''Invalid account or password.'' JNull)), w') \<and>
    login_submit decode cr st repo now account password next_path w =
      (Inr (LoginPage (html_escape True (safe_next_path decode (Some next_path) ''/docs''))
         (error_div ''Invalid username or password.'')), w')"
  using assms
  by (auto simp: rejected_def token_endpoint_def login_submit_def authenticate_def bind_io_def
      invalid_credentials_def Let_def)

lemma refused_logins_look_alike_witness:
  "\<exists>w1 w2. token_endpoint sample_crypto sample_settings (json_get_by_account sample_engines) 0
      ''nobody'' ''secret'' sample_world = (Inl (App (AuthException ''Invalid account or password.'' JNull)), w1) \<and>
    token_endpoint sample_crypto sample_settings (json_get_by_account sample_engines) 0
      ''ops'' ''wrong'' sample_world = (Inl (App (AuthException ''Invalid account or password.'' JNull)), w2)"
proof -
  obtain w1 where "json_get_by_account sample_engines ''nobody'' sample_world = (Inr None, w1)"
    using file_account[OF sample_world_ok, of "''nobody''"] by (auto simp: entry_of_def sample_doc_def)
  then have r1: "rejected sample_crypto (json_get_by_account sample_engines) ''nobody'' ''secret'' sample_world w1"
    by (simp add: rejected_def)
  obtain d w2 where "json_get_by_account sample_engines ''ops'' sample_world = (Inr (Some d), w2)"
    using file_account[OF sample_world_ok, of "''ops''"] by (auto simp: entry_of_def sample_doc_def)
  then have r2: "rejected sample_crypto (json_get_by_account sample_engines) ''ops'' ''wrong'' sample_world w2"
    by (auto simp: rejected_def sample_crypto_def)
  from refused_logins_look_alike[OF r1, of sample_settings 0] refused_logins_look_alike[OF r2, of sample_settings 0]
  show ?thesis by blast
qed

section \<open>Where a login leads\<close>

text \<open>C24: a login never leads off this host: whatever \<open>next\<close> is, and however often its escapes are
  decoded (up to twice), the redirect is a path with a single leading slash; a plain path of this
  host is kept as it is; and what the page repeats of \<open>next\<close> holds no markup and no quote.\<close>

theorem login_stays_on_this_host:
  assumes "ascii_transparent decode"
    and "login_submit decode cr st repo now account password next_path w = (Inr ans, w')"
  shows "(case ans of
       SeeOther url ck \<Rightarrow> local_path url \<and> local_path (unquote decode url) \<and>
         (local_path next_path \<and> CHR ''%'' \<notin> set next_path \<longrightarrow> url = next_path)
     | LoginPage next_html error_html \<Rightarrow>
         \<forall>c \<in> set next_html. c \<notin> {CHR ''<'', CHR ''>'', CHR 0x22, CHR 0x27})"
proof (cases ans)
  case (LoginPage next_html error_html)
  with assms(2) have "next_html = html_escape True (safe_next_path decode (Some next_path) ''/docs'')"
    by (auto simp: login_submit_def Let_def split: prod.splits sum.splits exn.splits app_exception.splits)
  with LoginPage show ?thesis by (auto dest: html_escape_plain)
next
  case (SeeOther url ck)
  let ?p = "safe_next_path decode (Some next_path) ''/docs''"
  from SeeOther assms(2) have url: "url = ?p"
    by (auto simp: login_submit_def Let_def split: prod.splits sum.splits exn.splits app_exception.splits)
  have docs: "local_path ''/docs''" "unquote decode ''/docs'' = ''/docs''"
    using unquote_plain[OF assms(1), of "''/docs''"] by (simp_all add: local_path_def)
  have "local_path (unquote decode ?p)"
    using docs by (auto simp: safe_next_path_def guard_refuses_iff Let_def)
  moreover have "?p = next_path" if "local_path next_path" "CHR ''%'' \<notin> set next_path"
    using that unquote_plain[OF assms(1) that(2)]
    by (auto simp: safe_next_path_def guard_refuses_iff Let_def local_path_def)
  ultimately show ?thesis using SeeOther url safe_next_path_local[OF docs(1)] by simp
qed

text \<open>Sent to \<open>/%2fevil\<close>, a good login ends on the default page.\<close>

lemma login_stays_on_this_host_witness:
  "\<exists>ck w'. login_submit id sample_crypto sample_settings (json_get_by_account sample_engines) 0
      ''ops'' ''secret'' ''/%2fevil'' sample_world = (Inr (SeeOther ''/docs'' ck), w') \<and> local_path ''/docs''"
proof -
  have id: "ascii_transparent id" by (simp add: ascii_transparent_def)
  obtain d w' where "json_get_by_account sample_engines ''ops'' sample_world = (Inr (Some d), w')"
    using file_account[OF sample_world_ok, of "''ops''"] by (auto simp: entry_of_def sample_doc_def)
  moreover have "safe_next_path id (Some ''/%2fevil'') ''/docs'' = ''/docs''"
    using encoded_slash_refused[OF id, of "CHR ''f''" "''evil''" "''/docs''"] by simp
  ultimately have "\<exists>ck. login_submit id sample_crypto sample_settings (json_get_by_account sample_engines) 0
      ''ops'' ''secret'' ''/%2fevil'' sample_world = (Inr (SeeOther ''/docs'' ck), w')"
    by (simp add: login_submit_def authenticate_def bind_io_def sample_crypto_def Let_def)
  with login_stays_on_this_host[OF id] show ?thesis by (metis (no_types, lifting) login_answer.simps(6))
qed

end
