(* ===== verification/Proxy_Properties.thy ===== *)
theory Proxy_Properties
  imports Proxy Auth_Properties "HOL-Library.Multiset"
begin

text \<open>
  The pipeline and inventory proxy. The dry-run store keeps its invariant and follows the lifecycle it
  stands in for, through every sequence of operations; a duplicate trigger is refused; and an
  inventory lookup that fails is a 404 or a 502.
\<close>

section \<open>Operations on the dry-run store\<close>

datatype pipeline_op =
    Trigger datetime string string "pipeline_variable list"
  | CheckRunning string string "pipeline_variable list"
  | Poll datetime int
  | Cancel datetime int
  | Retry datetime int

fun perform_pipeline :: "pipeline_op \<Rightarrow> pipeline_store \<Rightarrow> pipeline_store" where
  "perform_pipeline (Trigger time action ref vs) w = snd (dry_trigger_pipeline time action ref vs w)"
| "perform_pipeline (CheckRunning action ref vs) w = snd (dry_check_running action ref vs w)"
| "perform_pipeline (Poll time i) w = snd (dry_get_pipeline time i w)"
| "perform_pipeline (Cancel time i) w = snd (dry_cancel_pipeline time i w)"
| "perform_pipeline (Retry time i) w = snd (dry_retry_pipeline time i w)"

definition run_pipelines :: "pipeline_op list \<Rightarrow> pipeline_store" where
  "run_pipelines ops = fold perform_pipeline ops empty_store"

section \<open>The invariant\<close>

text \<open>A stored pipeline: its own id, one of the three states, finished unless it runs, and its jobs
  in its state.\<close>

definition pipeline_ok :: "int \<Rightarrow> int \<Rightarrow> pipeline_data \<Rightarrow> bool" where
  "pipeline_ok next_id i p \<longleftrightarrow> pl_id p = i \<and> PIPELINE_ID_BASE < i \<and> i < next_id \<and>
     pl_status p \<in> {''running'', ''success'', ''canceled''} \<and>
     (pl_finished_at p = None \<longleftrightarrow> pl_status p = ''running'') \<and>
     (\<forall>j \<in> set (pl_jobs p). jd_status j = pl_status p)"

definition store_inv :: "pipeline_store \<Rightarrow> bool" where
  "store_inv w \<longleftrightarrow> PIPELINE_ID_BASE < ps_next w \<and> wf_dict (ps_pipelines w) \<and>
     (\<forall>i. dict_get (ps_polls w) i = None \<longleftrightarrow> dict_get (ps_pipelines w) i = None) \<and>
     (\<forall>i p. dict_get (ps_pipelines w) i = Some p \<longrightarrow> pipeline_ok (ps_next w) i p)"

lemma store_invD:
  assumes "store_inv w" and "dict_get (ps_pipelines w) i = Some p"
  shows "pipeline_ok (ps_next w) i p" and "\<exists>n. dict_get (ps_polls w) i = Some n"
  using assms unfolding store_inv_def by (simp, metis not_None_eq)

lemma pipeline_ok_later: "pipeline_ok n i p \<Longrightarrow> n \<le> m \<Longrightarrow> pipeline_ok m i p"
  by (simp add: pipeline_ok_def)

lemma pipeline_ok_set_status:
  assumes "pipeline_ok n i p" and "status \<in> {''running'', ''success'', ''canceled''}"
    and "finished \<longleftrightarrow> status \<noteq> ''running''"
  shows "pipeline_ok n i (set_status time status finished p)"
  using assms by (auto simp: pipeline_ok_def set_status_def)

lemma inv_empty: "store_inv empty_store"
  by (simp add: store_inv_def empty_store_def)

lemma inv_put:
  assumes "store_inv w" and "dict_get (ps_pipelines w) i \<noteq> None" and "pipeline_ok (ps_next w) i p"
  shows "store_inv (put_pipeline i p w)"
  using assms by (auto simp: store_inv_def put_pipeline_def)

lemma inv_count_poll:
  assumes "store_inv w" and "count_poll i w = (Inr (), w')"
  shows "store_inv w'" and "ps_pipelines w' = ps_pipelines w" and "ps_next w' = ps_next w"
proof -
  obtain n where n: "dict_get (ps_polls w) i = Some n" and w': "w' = w\<lparr>ps_polls := dict_set i (n + 1) (ps_polls w)\<rparr>"
    using assms(2) by (auto simp: count_poll_def split: option.splits)
  have "dict_get (ps_polls w) i = None \<longleftrightarrow> dict_get (ps_pipelines w) i = None"
    using assms(1) unfolding store_inv_def by blast
  with n have "dict_get (ps_pipelines w) i \<noteq> None" by simp
  with assms(1) w' show "store_inv w'" by (auto simp: store_inv_def)
  show "ps_pipelines w' = ps_pipelines w" "ps_next w' = ps_next w" using w' by simp_all
qed

section \<open>The lifecycle\<close>

definition statuses :: "pipeline_store \<Rightarrow> int \<Rightarrow> string option" where
  "statuses w i = map_option pl_status (dict_get (ps_pipelines w) i)"

definition advance :: "int \<Rightarrow> string set \<Rightarrow> string \<Rightarrow> (int \<Rightarrow> string option) \<Rightarrow> int \<Rightarrow> string option" where
  "advance i from to m = (case m i of None \<Rightarrow> m | Some s \<Rightarrow> if s \<in> from then m(i \<mapsto> to) else m)"

inductive lifecycle :: "(int \<Rightarrow> string option) \<Rightarrow> pipeline_op \<Rightarrow> (int \<Rightarrow> string option) \<Rightarrow> bool" where
  started: "m i = None \<Longrightarrow> lifecycle m (Trigger time action ref vs) (m(i \<mapsto> ''running''))"
| duplicate: "''running'' \<in> ran m \<Longrightarrow> lifecycle m (Trigger time action ref vs) m"
| checked: "lifecycle m (CheckRunning action ref vs) m"
| polled: "lifecycle m (Poll time i) (advance i {''running''} ''success'' m)"
| cancelled: "lifecycle m (Cancel time i) (advance i {''running''} ''canceled'' m)"
| retried: "lifecycle m (Retry time i) (advance i {''canceled''} ''running'' m)"

text \<open>One move, as the three operations make it.\<close>

lemma move_to_step:
  assumes inv: "store_inv w" and p: "dict_get (ps_pipelines w) i = Some p"
    and to: "to \<in> {''running'', ''success'', ''canceled''}" "finished \<longleftrightarrow> to \<noteq> ''running''"
    and here: "\<And>s. s \<in> {''running'', ''success'', ''canceled''} \<Longrightarrow> s \<in> set from \<longleftrightarrow> s \<in> F"
    and move: "move_to time i from to finished p w = (r, w')"
  shows "store_inv w' \<and> statuses w' = advance i F to (statuses w) \<and>
    (\<exists>q. r = Inr q \<and> pl_id q = i \<and> statuses w' i = Some (pl_status q))"
proof -
  have ok: "pipeline_ok (ps_next w) i p" by (rule store_invD(1)[OF inv p])
  then have s: "pl_status p \<in> {''running'', ''success'', ''canceled''}" "pl_id p = i"
    by (simp_all add: pipeline_ok_def)
  show ?thesis
  proof (cases "pl_status p \<in> F")
    case True
    with move here[OF s(1)] have w': "w' = put_pipeline i (set_status time to finished p) w"
      "r = Inr (set_status time to finished p)"
      by (auto simp: move_to_def Let_def)
    have "store_inv w'" unfolding w'
      using inv p pipeline_ok_set_status[OF ok to] by (intro inv_put) simp_all
    moreover have "statuses w' = advance i F to (statuses w)"
      using True p by (auto simp: w' statuses_def advance_def put_pipeline_def set_status_def)
    moreover have "statuses w' i = Some (pl_status (set_status time to finished p))"
      by (simp add: w' statuses_def put_pipeline_def)
    moreover have "pl_id (set_status time to finished p) = i" using s(2) by (simp add: set_status_def)
    ultimately show ?thesis using w'(2)
      by (intro conjI exI[of _ "set_status time to finished p"]) assumption+
  next
    case False
    with move here[OF s(1)] have w': "w' = w" "r = Inr p" by (simp_all add: move_to_def)
    have at: "statuses w i = Some (pl_status p)" using p by (simp add: statuses_def)
    with False have "advance i F to (statuses w) = statuses w" by (simp add: advance_def)
    with inv s(2) at show ?thesis unfolding w' by (intro conjI exI[of _ p]) simp_all
  qed
qed

lemma get_stored_cases:
  assumes "bind_io (get_stored i) f w = (r, w')"
  obtains (gone) "dict_get (ps_pipelines w) i = None" and "w' = w"
      and "r = Inl (dry_error 404 ''NOT_FOUND'' (''pipeline '' @ str_of_int i @ '' not found'') JNull)"
    | (found) p where "dict_get (ps_pipelines w) i = Some p" and "f p w = (r, w')"
  using assms by (auto simp: bind_io_def get_stored_def split: option.splits)

lemma advance_None: "m i = None \<Longrightarrow> advance i F to m = m"
  by (simp add: advance_def)

lemma poll_step:
  assumes inv: "store_inv w" and get: "dry_get_pipeline time i w = (r, w')"
  shows "store_inv w' \<and> statuses w' = advance i {''running''} ''success'' (statuses w) \<and>
    (case statuses w' i of
       None \<Rightarrow> r = Inl (dry_error 404 ''NOT_FOUND'' (''pipeline '' @ str_of_int i @ '' not found'') JNull)
     | Some s \<Rightarrow> \<exists>q. r = Inr q \<and> pl_id q = i \<and> pl_status q = s)"
  using get unfolding dry_get_pipeline_def
proof (cases rule: get_stored_cases)
  case gone
  with inv show ?thesis by (simp add: statuses_def advance_None)
next
  case (found p)
  obtain n where n: "dict_get (ps_polls w) i = Some n" using store_invD(2)[OF inv found(1)] by blast
  then obtain v where v: "count_poll i w = (Inr (), v)" by (simp add: count_poll_def)
  note counted = inv_count_poll[OF inv v]
  from found(2) v have move: "move_to time i [''running''] ''success'' True p v = (r, w')"
    by (simp add: bind_io_def)
  have p: "dict_get (ps_pipelines v) i = Some p" using found(1) counted(2) by simp
  have "statuses v = statuses w" by (rule ext) (simp add: statuses_def counted(2))
  then show ?thesis
    using move_to_step[OF counted(1) p, of "''success''" True "[''running'']" "{''running''}" time r w'] move
    by auto
qed

lemma cancel_step:
  assumes inv: "store_inv w" and get: "dry_cancel_pipeline time i w = (r, w')"
  shows "store_inv w' \<and> statuses w' = advance i {''running''} ''canceled'' (statuses w)"
  using get unfolding dry_cancel_pipeline_def
proof (cases rule: get_stored_cases)
  case gone
  with inv show ?thesis by (simp add: statuses_def advance_None)
next
  case (found p)
  then show ?thesis
    using move_to_step[OF inv found(1), of "''canceled''" True ACTIVE "{''running''}" time r w']
    by (auto simp: ACTIVE_def)
qed

lemma retry_step:
  assumes inv: "store_inv w" and get: "dry_retry_pipeline time i w = (r, w')"
  shows "store_inv w' \<and> statuses w' = advance i {''canceled''} ''running'' (statuses w)"
  using get unfolding dry_retry_pipeline_def
proof (cases rule: get_stored_cases)
  case gone
  with inv show ?thesis by (simp add: statuses_def advance_None)
next
  case (found p)
  then show ?thesis
    using move_to_step[OF inv found(1), of "''running''" False "[''canceled'', ''failed'']" "{''canceled''}" time r w']
    by auto
qed

section \<open>Triggers\<close>

lemma sort_eq_mset: "sort xs = sort ys \<longleftrightarrow> mset xs = mset ys"
proof
  assume "sort xs = sort ys"
  then have "mset (sort xs) = mset (sort ys)" by simp
  then show "mset xs = mset ys" by simp
next
  assume "mset xs = mset ys"
  then show "sort xs = sort ys" by (intro properties_for_sort) simp_all
qed

lemma same_variables_mset:
  "same_variables a b \<longleftrightarrow> mset (map (\<lambda>v. (pv_key v, pv_value v)) a) = mset (map (\<lambda>v. (pv_key v, pv_value v)) b)"
  by (simp add: same_variables_def variable_pairs_def sort_eq_mset)

lemma matching_running_ids:
  assumes "store_inv w" and "p \<in> set (matching_running w ref vs)"
  shows "statuses w (pl_id p) = Some ''running'' \<and> dict_get (ps_pipelines w) (pl_id p) = Some p"
proof -
  obtain i where "(i, p) \<in> set (ps_pipelines w)" and active: "pl_status p \<in> set ACTIVE"
    using assms(2) by (auto simp: matching_running_def)
  with assms(1) have p: "dict_get (ps_pipelines w) i = Some p"
    by (simp add: store_inv_def wf_dict_def map_of_is_SomeI)
  from store_invD(1)[OF assms(1) this] active have "pl_id p = i" "pl_status p = ''running''"
    by (auto simp: pipeline_ok_def ACTIVE_def)
  with p show ?thesis by (simp add: statuses_def)
qed

lemma fresh_id:
  assumes "store_inv w" shows "dict_get (ps_pipelines w) (ps_next w) = None"
proof (rule ccontr)
  assume "dict_get (ps_pipelines w) (ps_next w) \<noteq> None"
  then obtain p where "dict_get (ps_pipelines w) (ps_next w) = Some p" by blast
  from store_invD(1)[OF assms this] show False by (simp add: pipeline_ok_def)
qed

lemma inv_trigger:
  assumes "store_inv w"
  shows "store_inv (snd (dry_trigger_pipeline time action ref vs w))"
proof (cases "matching_running w ref (full_variables action vs) = []")
  case False
  with assms show ?thesis by (simp add: dry_trigger_pipeline_def Let_def)
next
  case True
  let ?p = "new_pipeline time (ps_next w) ref (full_variables action vs)"
  have base: "PIPELINE_ID_BASE < ps_next w" using assms by (simp add: store_inv_def)
  have "pipeline_ok (ps_next w + 1) (ps_next w) ?p"
    using base by (simp add: pipeline_ok_def new_pipeline_def)
  moreover have "pipeline_ok (ps_next w + 1) i q" if "dict_get (ps_pipelines w) i = Some q" for i q
    using pipeline_ok_later[OF store_invD(1)[OF assms that]] by simp
  ultimately have "store_inv \<lparr>ps_pipelines = dict_set (ps_next w) ?p (ps_pipelines w),
      ps_polls = dict_set (ps_next w) 0 (ps_polls w), ps_next = ps_next w + 1\<rparr>"
    using assms base by (auto simp: store_inv_def)
  with True show ?thesis by (simp add: dry_trigger_pipeline_def Let_def)
qed

lemma lifecycle_trigger:
  assumes "store_inv w"
  shows "lifecycle (statuses w) (Trigger time action ref vs)
    (statuses (snd (dry_trigger_pipeline time action ref vs w)))"
proof (cases "matching_running w ref (full_variables action vs)")
  case (Cons p ps)
  with matching_running_ids[OF assms, of p ref "full_variables action vs"]
  have "''running'' \<in> ran (statuses w)" by (auto intro: ranI)
  with Cons show ?thesis by (simp add: dry_trigger_pipeline_def Let_def lifecycle.duplicate)
next
  case Nil
  have "statuses (snd (dry_trigger_pipeline time action ref vs w)) = (statuses w)(ps_next w \<mapsto> ''running'')"
    using Nil by (auto simp: dry_trigger_pipeline_def Let_def statuses_def new_pipeline_def)
  moreover have "statuses w (ps_next w) = None" using fresh_id[OF assms] by (simp add: statuses_def)
  ultimately show ?thesis by (simp add: lifecycle.started)
qed

lemma inv_perform: "store_inv w \<Longrightarrow> store_inv (perform_pipeline op w)"
proof (cases op)
  case (Trigger time action ref vs)
  then show "store_inv w \<Longrightarrow> ?thesis" by (simp add: inv_trigger)
next
  case (CheckRunning action ref vs)
  then show "store_inv w \<Longrightarrow> ?thesis" by (simp add: dry_check_running_def Let_def)
next
  case (Poll time i)
  then show "store_inv w \<Longrightarrow> ?thesis" using poll_step[of w time i] by (cases "dry_get_pipeline time i w") simp
next
  case (Cancel time i)
  then show "store_inv w \<Longrightarrow> ?thesis" using cancel_step[of w time i] by (cases "dry_cancel_pipeline time i w") simp
next
  case (Retry time i)
  then show "store_inv w \<Longrightarrow> ?thesis" using retry_step[of w time i] by (cases "dry_retry_pipeline time i w") simp
qed

lemma inv_run: "store_inv (run_pipelines ops)"
proof -
  have "store_inv w \<Longrightarrow> store_inv (fold perform_pipeline ops w)" for w
    by (induction ops arbitrary: w) (simp_all add: inv_perform)
  then show ?thesis using inv_empty by (simp add: run_pipelines_def)
qed

text \<open>C12: whatever operations the dry-run deploy-service has answered, its store keeps its invariant
  (every pipeline has its own id from the synthetic range, a poll counter, one of the three states,
  its jobs in that state, and a finishing time unless it runs), and the next operation moves the
  statuses as the lifecycle says: a poll ends a running pipeline, cancelling stops one, retrying
  restarts a cancelled one, a trigger adds one or is a duplicate.\<close>

theorem dry_pipelines_follow_the_lifecycle:
  "store_inv (run_pipelines ops) \<and>
   lifecycle (statuses (run_pipelines ops)) op (statuses (perform_pipeline op (run_pipelines ops)))"
proof -
  let ?w = "run_pipelines ops"
  note inv = inv_run[of ops]
  have "lifecycle (statuses ?w) op (statuses (perform_pipeline op ?w))"
  proof (cases op)
    case (Trigger time action ref vs)
    with inv show ?thesis by (simp add: lifecycle_trigger)
  next
    case (CheckRunning action ref vs)
    then show ?thesis by (simp add: dry_check_running_def Let_def lifecycle.checked)
  next
    case (Poll time i)
    then show ?thesis
      using poll_step[OF inv, of time i] lifecycle.polled[of "statuses ?w" time i]
      by (cases "dry_get_pipeline time i ?w") simp
  next
    case (Cancel time i)
    then show ?thesis
      using cancel_step[OF inv, of time i] lifecycle.cancelled[of "statuses ?w" time i]
      by (cases "dry_cancel_pipeline time i ?w") simp
  next
    case (Retry time i)
    then show ?thesis
      using retry_step[OF inv, of time i] lifecycle.retried[of "statuses ?w" time i]
      by (cases "dry_retry_pipeline time i ?w") simp
  qed
  with inv show ?thesis by blast
qed

text \<open>The refusals of the stand-in, as the error adapter reads them.\<close>

lemma dry_conflict:
  "\<exists>d. dry_error 409 ''CONFLICT'' message detail = App (DeployServiceError d) \<and>
     dse_upstream_status d = 409 \<and> dse_error_code d = PIPELINE_CONFLICT"
  by (cases "detail = JNull")
    (simp_all add: dry_error_def deploy_service_error_def lookup_raw_code_def DEPLOY_CODE_MAP_def or_code_def Let_def)

text \<open>What has been triggered and not polled cannot be triggered again, in whatever order its
  variables are given: the stand-in refuses with a conflict and changes nothing, and that reaches the
  caller as a 502 whose code says so.\<close>

theorem duplicate_trigger_is_refused:
  assumes "dry_trigger_pipeline time action ref vs (run_pipelines ops) = (Inr p, w)"
    and "mset (map (\<lambda>v. (pv_key v, pv_value v)) vs') = mset (map (\<lambda>v. (pv_key v, pv_value v)) vs)"
  shows "\<exists>d. dry_trigger_pipeline time' action ref vs' w = (Inl (App (DeployServiceError d)), w) \<and>
    dse_upstream_status d = 409 \<and> dse_error_code d = PIPELINE_CONFLICT \<and>
    http_status_of (DeployServiceError d) = 502"
proof -
  let ?w = "run_pipelines ops"
  have p: "p = new_pipeline time (ps_next ?w) ref (full_variables action vs)"
    and w: "ps_pipelines w = dict_set (ps_next ?w) p (ps_pipelines ?w)"
    using assms(1) by (auto simp: dry_trigger_pipeline_def Let_def split: if_splits)
  have "(ps_next ?w, p) \<in> set (ps_pipelines w)"
    using w by (metis dict_get_set map_of_SomeD)
  moreover have "same_variables (pl_variables p) (full_variables action vs')"
    using assms(2) by (simp add: p new_pipeline_def same_variables_mset full_variables_def)
  moreover have "pl_status p \<in> set ACTIVE" "pl_ref_name p = ref"
    by (simp_all add: p new_pipeline_def ACTIVE_def)
  ultimately have "p \<in> set (matching_running w ref (full_variables action vs'))"
    by (force simp: matching_running_def)
  then have running: "matching_running w ref (full_variables action vs') \<noteq> []" by auto
  obtain d where d: "dry_error 409 ''CONFLICT'' (''an identical pipeline is already running on '' @ quoted ref)
      (JObj [(''pipeline_ids'', JList (map (\<lambda>p. JNum (pl_id p)) (matching_running w ref (full_variables action vs'))))]) =
      App (DeployServiceError d)" "dse_upstream_status d = 409" "dse_error_code d = PIPELINE_CONFLICT"
    using dry_conflict by blast
  from running d show ?thesis
    by (intro exI[of _ d]) (simp only: dry_trigger_pipeline_def Let_def if_True simp_thms http_status_of.simps)
qed

lemma duplicate_trigger_is_refused_witness:
  "\<exists>d w. dry_trigger_pipeline CREATED ''deploy'' ''main''
     [\<lparr>pv_key = ''b'', pv_value = ''2''\<rparr>, \<lparr>pv_key = ''a'', pv_value = ''1''\<rparr>] w =
     (Inl (App (DeployServiceError d)), w) \<and> dse_error_code d = PIPELINE_CONFLICT"
proof -
  let ?vs = "[\<lparr>pv_key = ''a'', pv_value = ''1''\<rparr>, \<lparr>pv_key = ''b'', pv_value = ''2''\<rparr>]"
  have "matching_running (run_pipelines []) ''main'' (full_variables ''deploy'' ?vs) = []"
    by (simp add: run_pipelines_def empty_store_def matching_running_def)
  then obtain p w where "dry_trigger_pipeline CREATED ''deploy'' ''main'' ?vs (run_pipelines []) = (Inr p, w)"
    by (simp add: dry_trigger_pipeline_def Let_def)
  from duplicate_trigger_is_refused[OF this,
      of "[\<lparr>pv_key = ''b'', pv_value = ''2''\<rparr>, \<lparr>pv_key = ''a'', pv_value = ''1''\<rparr>]" CREATED]
  show ?thesis by (auto simp: add_mset_commute)
qed

section \<open>The inventory\<close>

text \<open>A lookup that finds what it is asked for exactly when \<open>P\<close>, is otherwise this service's own 404,
  and changes nothing.\<close>

definition found_iff :: "bool \<Rightarrow> ('w, 'a) call \<Rightarrow> 'w \<Rightarrow> bool" where
  "found_iff P c w \<longleftrightarrow>
     (if P then \<exists>x. c w = (Inr x, w) else \<exists>m. c w = (Inl (App (InventoryNotFound m)), w))"

lemma found_iff_translated:
  assumes "P \<Longrightarrow> \<exists>x. c w = (Inr x, w)"
    and "\<not> P \<Longrightarrow> \<exists>code msg detail. c w = (Inl (dry_error 404 code msg detail), w)"
  shows "found_iff P (translated m c) w"
proof (cases P)
  case True
  with assms(1) show ?thesis by (auto simp: found_iff_def translated_def)
next
  case False
  with assms(2) obtain code msg detail where c: "c w = (Inl (dry_error 404 code msg detail), w)" by blast
  obtain d where "dry_error 404 code msg detail = App (DeployServiceError d)" "dse_upstream_status d = 404"
    using dry_error_deploy by blast
  with c False show ?thesis by (simp add: found_iff_def translated_def maybe_not_found_def)
qed

text \<open>On the dry-run inventory every lookup answers for exactly the synthetic nodes, clusters and
  bastion type, and is otherwise this service's own 404, not the 502 of an upstream error; it never
  changes the store.\<close>

theorem dry_inventory_answers:
  "found_iff (node \<in> set DRY_RUN_NODES) (inventory_get_node (dry_run_deploy_client time) node) w \<and>
   found_iff (t = DRY_RUN_BASTION_TYPE) (inventory_list_mappings (dry_run_deploy_client time) t) w \<and>
   found_iff (node \<in> set DRY_RUN_NODES \<and> bt \<in> {None, Some [], Some DRY_RUN_BASTION_TYPE})
     (inventory_resolve_node_bastion (dry_run_deploy_client time) node bt) w \<and>
   found_iff (cluster \<in> set DRY_RUN_CLUSTERS)
     (inventory_resolve_cluster_bastion (dry_run_deploy_client time) cluster) w"
proof (intro conjI)
  show "found_iff (node \<in> set DRY_RUN_NODES) (inventory_get_node (dry_run_deploy_client time) node) w"
    unfolding inventory_get_node_def
    by (rule found_iff_translated)
      (auto simp: dry_run_deploy_client_def dry_get_node_def inventory_node_of_def Let_def)
  show "found_iff (t = DRY_RUN_BASTION_TYPE) (inventory_list_mappings (dry_run_deploy_client time) t) w"
    unfolding inventory_list_mappings_def
    by (rule found_iff_translated)
      (auto simp: dry_run_deploy_client_def dry_list_mappings_def no_mappings_def)
  show "found_iff (node \<in> set DRY_RUN_NODES \<and> bt \<in> {None, Some [], Some DRY_RUN_BASTION_TYPE})
     (inventory_resolve_node_bastion (dry_run_deploy_client time) node bt) w"
    unfolding inventory_resolve_node_bastion_def
    by (rule found_iff_translated)
      (auto simp: dry_run_deploy_client_def dry_resolve_node_bastion_def inventory_node_of_def
         no_mappings_def str_given_def Let_def split: option.splits)
  show "found_iff (cluster \<in> set DRY_RUN_CLUSTERS)
     (inventory_resolve_cluster_bastion (dry_run_deploy_client time) cluster) w"
    unfolding inventory_resolve_cluster_bastion_def
    by (rule found_iff_translated)
      (auto simp: dry_run_deploy_client_def dry_resolve_cluster_bastion_def)
qed

end
