(* ===== verification/Command_Properties.thy ===== *)
theory Command_Properties
  imports Dry_Run_Command Proxy_Properties
begin

text \<open>
  The command proxy: what the whitelist lets through, how an execution ends, what the log viewer is
  served poll after poll, and what its page repeats of the id.
\<close>

section \<open>Operations on the executions\<close>

datatype command_op =
    Execute string execution_request
  | Result string output_format
  | Kill string bool
  | Trace string int int

fun perform_command ::
  "(string \<Rightarrow> string) \<Rightarrow> (string \<Rightarrow> string + json) \<Rightarrow> command_op \<Rightarrow> executions \<Rightarrow> executions" where
  "perform_command decode json_loads (Execute hex body) w = snd (dry_execute_command hex body w)"
| "perform_command decode json_loads (Result i fmt) w = snd (dry_get_command_result json_loads i fmt w)"
| "perform_command decode json_loads (Kill i forced) w = snd (dry_kill_command i forced w)"
| "perform_command decode json_loads (Trace i offset num) w = snd (dry_get_command_trace decode i offset num w)"

definition run_commands ::
  "(string \<Rightarrow> string) \<Rightarrow> (string \<Rightarrow> string + json) \<Rightarrow> command_op list \<Rightarrow> executions \<Rightarrow> executions" where
  "run_commands decode json_loads ops w = fold (perform_command decode json_loads) ops w"

text \<open>The command an operation starts, if it starts one.\<close>

definition starts :: "command_op \<Rightarrow> string \<Rightarrow> bool" where
  "starts op i \<longleftrightarrow> (\<exists>hex body. op = Execute hex body \<and> i = ''dry-run-'' @ hex)"

abbreviation status_of :: "execution \<Rightarrow> string" where
  "status_of x \<equiv> ex_status (xn_response x)"

section \<open>Every operation changes one execution, or starts one\<close>

lemma get_execution_cases:
  assumes "bind_io (get_execution i) f w = (r, w')"
  obtains (gone) "dict_get w i = None" and "w' = w"
      and "r = Inl (dry_error 404 ''NOT_FOUND'' (''command '' @ i @ '' not found'') JNull)"
    | (found) x where "dict_get w i = Some x" and "f x w = (r, w')"
  using assms by (auto simp: bind_io_def get_execution_def split: option.splits)

lemma observe_execution_found:
  "dict_get w i = Some x \<Longrightarrow> observe_execution i w = (Inr (complete x), dict_set i (complete x) w)"
  by (simp add: observe_execution_def bind_io_def get_execution_def)

lemma observe_execution_gone:
  "dict_get w i = None \<Longrightarrow> observe_execution i w =
     (Inl (dry_error 404 ''NOT_FOUND'' (''command '' @ i @ '' not found'') JNull), w)"
  by (simp add: observe_execution_def bind_io_def get_execution_def)

lemma result_state:
  "snd (dry_get_command_result json_loads i fmt w) =
     (case dict_get w i of None \<Rightarrow> w | Some x \<Rightarrow> dict_set i (complete x) w)"
  by (cases "dict_get w i")
    (simp_all add: dry_get_command_result_def bind_io_def observe_execution_found observe_execution_gone
      lift_io_def split: sum.split)

lemma trace_state:
  "snd (dry_get_command_trace decode i offset num w) =
     (case dict_get w i of None \<Rightarrow> w | Some x \<Rightarrow> dict_set i (complete x) w)"
  by (cases "dict_get w i")
    (simp_all add: dry_get_command_trace_def bind_io_def observe_execution_found observe_execution_gone)

lemma kill_state:
  "snd (dry_kill_command i forced w) =
     (case dict_get w i of None \<Rightarrow> w
      | Some x \<Rightarrow> (if cc_killable (xn_config x) then dict_set i (kill_execution forced x) w else w))"
  by (cases "dict_get w i") (simp_all add: dry_kill_command_def bind_io_def get_execution_def)

lemma execute_state:
  "snd (dry_execute_command hex body w) =
     (case config_of (er_command_name body) of None \<Rightarrow> w
      | Some config \<Rightarrow> dict_set (''dry-run-'' @ hex) (new_execution (''dry-run-'' @ hex) config body) w)"
  by (simp add: dry_execute_command_def Let_def split: option.split)

text \<open>What an operation leaves of an execution it does not replace.\<close>

lemma perform_keeps:
  assumes "dict_get w i = Some x" and "\<not> starts op i"
  shows "dict_get (perform_command decode json_loads op w) i \<in> {Some x, Some (complete x)} \<union>
    {Some (kill_execution forced x) | forced. True}"
proof (cases op)
  case (Execute hex body)
  with assms show ?thesis
    by (auto simp: execute_state starts_def split: option.split)
qed (use assms in \<open>auto simp: result_state trace_state kill_state split: option.split\<close>)

lemma settled_complete [simp]: "status_of x \<noteq> ''running'' \<Longrightarrow> complete x = x"
  and settled_kill [simp]: "status_of x \<noteq> ''running'' \<Longrightarrow> kill_execution forced x = x"
  by (simp_all add: complete_def kill_execution_def)

lemma complete_settles [simp]: "status_of (complete x) \<noteq> ''running''"
  by (simp add: complete_def)

lemma settled_stays:
  assumes "dict_get w i = Some x" and "status_of x \<noteq> ''running''" and "\<forall>op \<in> set ops. \<not> starts op i"
  shows "dict_get (run_commands decode json_loads ops w) i = Some x"
  using assms(1,3)
proof (induction ops arbitrary: w)
  case (Cons op ops)
  then have "dict_get (perform_command decode json_loads op w) i = Some x"
    using perform_keeps[of w i x op decode json_loads] assms(2) by auto
  with Cons show ?case by (simp add: run_commands_def)
qed (simp add: run_commands_def)

text \<open>The states an execution can be in.\<close>

definition executions_ok :: "executions \<Rightarrow> bool" where
  "executions_ok w \<longleftrightarrow> (\<forall>i x. dict_get w i = Some x \<longrightarrow> status_of x \<in> {''running'', ''success'', ''killed''})"

lemma executions_ok_run: "executions_ok w \<Longrightarrow> executions_ok (run_commands decode json_loads ops w)"
proof (induction ops arbitrary: w)
  case (Cons op ops)
  have "executions_ok (perform_command decode json_loads op w)"
    using Cons.prems
    by (cases op) (auto simp: executions_ok_def execute_state result_state trace_state kill_state
        complete_def kill_execution_def new_execution_def Let_def split: option.splits if_splits)
  from Cons.IH[OF this] show ?case by (simp add: run_commands_def)
qed (simp add: run_commands_def)

section \<open>The log viewer\<close>

lemma observed_trace:
  assumes "dict_get w i = Some x"
  shows "dry_get_command_trace decode i offset num w =
    (Inr (trace_of decode i (complete x) offset num), dict_set i (complete x) w)"
  using assms by (simp add: dry_get_command_trace_def bind_io_def observe_execution_found)

lemma map_snd_enumerate: "map (\<lambda>x. f (snd x)) (enumerate n xs) = map f xs"
  by (induction xs arbitrary: n) auto

lemma map_fst_enumerate_from: "map (\<lambda>x. f (fst x)) (enumerate 0 xs) = map f [0..<length xs]"
proof -
  have "map (\<lambda>x. f (fst x)) (enumerate 0 xs) = map f (map fst (enumerate 0 xs))"
    by (simp only: map_map comp_def)
  also have "map fst (enumerate 0 xs) = [0..<length xs]" by (simp add: enumerate_eq_zip)
  finally show ?thesis .
qed

lemma splitlines_Nil [simp]: "splitlines [] = []"
  by (simp add: splitlines_def)

lemma from_index_length [simp]: "from_index (int (length xs)) xs = []"
  by (simp add: from_index_def)

text \<open>The viewer's polls tile the log. The first poll of an execution, from the start, serves
  every line of its log, escaped and numbered from one, with a final status; whatever is done
  afterwards, short of starting an execution of the same id, a poll from the cursor it returned
  serves no further line, leaves the cursor where it is and repeats the status.\<close>

theorem trace_polls_tile_the_log:
  assumes "executions_ok w" and "dict_get w i = Some x" and "cc_logged (xn_config x)"
    and "ascii_transparent decode"
    and "dry_get_command_trace decode i 0 1 w = (Inr t, w')" and "\<forall>op \<in> set ops. \<not> starts op i"
  shows "\<exists>t'. fst (dry_get_command_trace decode i (ct_next_byte_offset t) (ct_next_line_num t)
        (run_commands decode json_loads ops w')) = Inr t' \<and>
    map ll_content_html (ct_lines t) = map (html_escape True) (splitlines (decode (log_bytes (complete x)))) \<and>
    map ll_num (ct_lines t) = map (\<lambda>k. 1 + int k) [0..<length (ct_lines t)] \<and>
    ct_lines t' = [] \<and> ct_next_byte_offset t' = ct_next_byte_offset t \<and>
    ct_next_line_num t' = ct_next_line_num t \<and> ct_status t' = ct_status t \<and>
    ct_status t \<in> {''success'', ''killed''}"
proof -
  let ?x = "complete x"
  from observed_trace[OF assms(2), of decode 0 1] assms(5)
  have t: "t = trace_of decode i ?x 0 1" and w': "w' = dict_set i ?x w" by simp_all
  have logged: "cc_logged (xn_config ?x)" using assms(3) by (simp add: complete_def)
  have "dict_get w' i = Some ?x" by (simp add: w')
  then have later: "dict_get (run_commands decode json_loads ops w') i = Some ?x"
    using assms(6) by (intro settled_stays) simp_all
  have "status_of x \<in> {''running'', ''success'', ''killed''}"
    using assms(1,2) unfolding executions_ok_def by blast
  then have final: "status_of ?x \<in> {''success'', ''killed''}" by (auto simp: complete_def)
  have offset: "ct_next_byte_offset t = int (length (log_bytes ?x))"
    using logged by (simp add: t trace_of_def Let_def)
  have "log_slice decode ?x (ct_next_byte_offset t) (ct_next_line_num t) = []"
    using assms(4) by (simp add: log_slice_def offset ascii_transparent_def)
  moreover have "complete ?x = ?x" by simp
  ultimately have next_poll: "fst (dry_get_command_trace decode i (ct_next_byte_offset t) (ct_next_line_num t)
      (run_commands decode json_loads ops w')) =
      Inr (trace_of decode i ?x (ct_next_byte_offset t) (ct_next_line_num t))"
    "ct_lines (trace_of decode i ?x (ct_next_byte_offset t) (ct_next_line_num t)) = []"
    using observed_trace[OF later, of decode "ct_next_byte_offset t" "ct_next_line_num t"] logged
    by (simp_all add: trace_of_def Let_def)
  have "log_slice decode ?x (ct_next_byte_offset t) (ct_next_line_num t) = []"
    by fact
  moreover have "map ll_content_html (ct_lines t) =
      map (html_escape True) (splitlines (decode (log_bytes ?x)))"
    using logged by (simp add: t trace_of_def log_slice_def from_index_def comp_def case_prod_beta
        map_snd_enumerate Let_def)
  moreover have "map ll_num (ct_lines t) = map (\<lambda>k. 1 + int k) [0..<length (ct_lines t)]"
    using logged by (simp add: t trace_of_def log_slice_def comp_def case_prod_beta
        map_fst_enumerate_from[of "\<lambda>k. 1 + int k"] Let_def)
  ultimately show ?thesis
    using next_poll logged offset final
    by (intro exI[of _ "trace_of decode i ?x (ct_next_byte_offset t) (ct_next_line_num t)"])
      (simp add: trace_of_def t Let_def)
qed

section \<open>Executions\<close>

lemma config_of_eq:
  "config_of name = (if name = DRY_RUN_PING then Some ping_config
     else if name = DRY_RUN_FACTS then Some facts_config else None)"
  by (auto simp: config_of_def whitelist_def ping_config_def facts_config_def)

lemma dry_forbidden:
  "\<exists>d. dry_error 403 ''FORBIDDEN'' message JNull = App (DeployServiceError d) \<and>
     dse_upstream_status d = 403 \<and> dse_error_code d = DEPLOY_SERVICE_FORBIDDEN"
  by (simp add: dry_error_def deploy_service_error_def lookup_raw_code_def DEPLOY_CODE_MAP_def or_code_def Let_def)

text \<open>The execution an operation is about.\<close>

fun command_of :: "command_op \<Rightarrow> string" where
  "command_of (Execute hex body) = ''dry-run-'' @ hex"
| "command_of (Result i fmt) = i"
| "command_of (Kill i forced) = i"
| "command_of (Trace i offset num) = i"

lemma perform_elsewhere:
  "command_of op \<noteq> i \<Longrightarrow> dict_get (perform_command decode json_loads op w) i = dict_get w i"
  by (cases op)
    (auto simp: execute_state result_state trace_state kill_state split: option.split)

text \<open>C39: the dry-run proxy runs exactly the two commands of its whitelist: any other is refused as
  forbidden and starts nothing; one of the two starts an execution that is running, and the first
  look at its result, in raw format, whatever is done to other executions before, finds it ended with success.\<close>

theorem whitelisted_commands_end:
  assumes "\<forall>op \<in> set ops. command_of op \<noteq> ''dry-run-'' @ hex"
  shows "if er_command_name body \<in> {DRY_RUN_PING, DRY_RUN_FACTS}
    then \<exists>started w' ended. dry_execute_command hex body w = (Inr started, w') \<and>
      ex_status started = ''running'' \<and>
      fst (dry_get_command_result json_loads (''dry-run-'' @ hex) Raw (run_commands decode json_loads ops w')) =
        Inr ended \<and>
      ex_status ended = ''success'' \<and> ex_exit_status ended = Some 0 \<and>
      ex_exec_command ended = ex_exec_command started
    else \<exists>d. dry_execute_command hex body w = (Inl (App (DeployServiceError d)), w) \<and>
      dse_upstream_status d = 403 \<and> dse_error_code d = DEPLOY_SERVICE_FORBIDDEN"
proof (cases "er_command_name body \<in> {DRY_RUN_PING, DRY_RUN_FACTS}")
  case True
  let ?i = "''dry-run-'' @ hex"
  have "config_of (er_command_name body) \<noteq> None" using True by (auto simp: config_of_eq)
  then obtain config where config: "config_of (er_command_name body) = Some config" by blast
  let ?x = "new_execution ?i config body" and ?w' = "dict_set ?i (new_execution ?i config body) w"
  have run: "dry_execute_command hex body w = (Inr (xn_response ?x), ?w')"
    using config by (simp add: dry_execute_command_def Let_def)
  have "dict_get (run_commands decode json_loads ops' v) ?i = dict_get v ?i" if "set ops' \<subseteq> set ops" for ops' v
    using that assms
    by (induction ops' arbitrary: v) (simp_all add: run_commands_def perform_elsewhere)
  then have "dict_get (run_commands decode json_loads ops ?w') ?i = Some ?x" by simp
  then have "fst (dry_get_command_result json_loads ?i Raw (run_commands decode json_loads ops ?w')) =
      Inr (xn_response (complete ?x))"
    by (simp add: dry_get_command_result_def bind_io_def observe_execution_found)
  with run True show ?thesis
    by (auto simp: new_execution_def complete_def Let_def)
next
  case False
  then have config: "config_of (er_command_name body) = None"
    by (simp add: config_of_eq)
  obtain d where "dry_error 403 ''FORBIDDEN'' (''command '' @ quoted (er_command_name body) @
      '' is not in the cluster_proxy whitelist'') JNull = App (DeployServiceError d)"
    "dse_upstream_status d = 403" "dse_error_code d = DEPLOY_SERVICE_FORBIDDEN"
    using dry_forbidden by blast
  with config False show ?thesis
    by (simp only: dry_execute_command_def option.case if_False) (intro exI[of _ d], simp)
qed

text \<open>The id of a viewer page.\<close>

definition plain_id_char :: "char \<Rightarrow> bool" where
  "plain_id_char c \<longleftrightarrow> is_alnum c \<or> c = CHR ''_'' \<or> c = CHR ''-''"

lemma is_command_id_iff: "is_command_id s \<longleftrightarrow> s \<noteq> [] \<and> (\<forall>c \<in> set s. plain_id_char c)"
  by (cases s) (auto simp: is_command_id_def re_full_set_seq plain_id_char_def Let_def simp del: re_full.simps)

lemma escape_plain_id: "plain_id_char c \<Longrightarrow> escape_char quote c = [c]"
  by (auto simp: escape_char_def plain_id_char_def is_alnum_def is_lower_alnum_def code_point_def)

text \<open>A log viewer page is rendered exactly for an id made of letters, digits, underscores and
  hyphens, which escaping leaves alone, so nothing of the id can end the attribute, the script or the
  URL it stands in; any other id is a 404.\<close>

theorem viewer_page_is_inert:
  "case view_command command_id of
     Inr v \<Rightarrow> command_id \<noteq> [] \<and> list_all plain_id_char command_id \<and>
       html_escape True command_id = command_id \<and>
       vw_trace_url v = ''/api/v1/command/execution/'' @ command_id @ ''/trace/ui''
   | Inl e \<Rightarrow> e = App (NotFoundException ''Command not found.'') \<and>
       (command_id = [] \<or> list_ex (\<lambda>c. \<not> plain_id_char c) command_id)"
proof (cases "is_command_id command_id")
  case True
  then have plain: "\<forall>c \<in> set command_id. plain_id_char c" by (simp add: is_command_id_iff)
  have "html_escape True s = s" if "\<forall>c \<in> set s. plain_id_char c" for s
    using that by (induction s) (simp_all add: html_escape_def escape_plain_id)
  with plain True show ?thesis
    by (simp add: view_command_def is_command_id_iff execution_path_def list_all_iff Let_def)
next
  case False
  then show ?thesis by (auto simp: view_command_def is_command_id_iff list_ex_iff)
qed

section \<open>A run\<close>

definition sample_execution :: execution_request where
  "sample_execution = \<lparr>er_command_name = DRY_RUN_PING, er_host = ''h'', er_host_type = Ip, er_port = 22,
     er_username = ''u'', er_ssh_config = ''default'', er_option = None, er_arguments = [],
     er_min_script_version = None\<rparr>"

lemma whitelisted_commands_end_witness:
  "\<exists>started w' ended. dry_execute_command ''a'' sample_execution [] = (Inr started, w') \<and>
     fst (dry_get_command_result (\<lambda>_. Inl []) ''dry-run-a'' Raw
       (run_commands id (\<lambda>_. Inl []) [Kill ''dry-run-b'' True] w')) = Inr ended \<and>
     ex_status ended = ''success''"
  using whitelisted_commands_end[of "[Kill ''dry-run-b'' True]" "''a''" sample_execution "[]" "\<lambda>_. Inl []" id]
  by (auto simp: sample_execution_def)

lemma trace_polls_tile_the_log_witness:
  "\<exists>w i t w' t'. dry_get_command_trace id i 0 1 w = (Inr t, w') \<and> length (ct_lines t) = 4 \<and>
     fst (dry_get_command_trace id i (ct_next_byte_offset t) (ct_next_line_num t)
       (run_commands id (\<lambda>_. Inl []) [Kill i True] w')) = Inr t' \<and> ct_lines t' = []"
proof -
  let ?x = "new_execution ''dry-run-a'' ping_config sample_execution"
  let ?w = "[(''dry-run-a'', ?x)]"
  have ok: "executions_ok ?w"
    by (auto simp: executions_ok_def new_execution_def Let_def split: if_splits)
  have logged: "cc_logged (xn_config ?x)" by (simp add: new_execution_def ping_config_def Let_def)
  have id: "ascii_transparent id" by (simp add: ascii_transparent_def)
  have x: "dict_get ?w ''dry-run-a'' = Some ?x" by simp
  obtain t w' where t: "dry_get_command_trace id ''dry-run-a'' 0 1 ?w = (Inr t, w')"
    using observed_trace[OF x] by blast
  have "\<forall>op \<in> set [Kill ''dry-run-a'' True]. \<not> starts op ''dry-run-a''" by (simp add: starts_def)
  from trace_polls_tile_the_log[OF ok x logged id t this, of "\<lambda>_. Inl []"]
  obtain t' where t': "fst (dry_get_command_trace id ''dry-run-a'' (ct_next_byte_offset t) (ct_next_line_num t)
       (run_commands id (\<lambda>_. Inl []) [Kill ''dry-run-a'' True] w')) = Inr t'" "ct_lines t' = []"
    and lines: "map ll_content_html (ct_lines t) = map (html_escape True) (splitlines (id (log_bytes (complete ?x))))"
    by blast
  have "length (splitlines (log_bytes (complete ?x))) = 4"
    by code_simp
  with lines have "length (ct_lines t) = 4" by (metis id_apply length_map)
  with t t' show ?thesis by blast
qed

end
