(* ===== verification/Upstream_Properties.thy ===== *)
theory Upstream_Properties
  imports Upstream Auth_Properties
begin

text \<open>
  What a call to deploy-service may send, and what its failures become. The traffic of a client is
  observed by wrapping any upstream so that each login leaves an entry with the status it got, or \<open>None\<close>
  when it raised, and each request one with what it was answered or what it raised.
\<close>

section \<open>Observed traffic\<close>

datatype traffic = Login "int option" | Sent request "exn + http_response"

record 'x observed =
  ob_log :: "traffic list"
  ob_inner :: 'x

definition status_seen :: "exn + http_response \<Rightarrow> int option" where
  "status_seen r = (case r of Inl _ \<Rightarrow> None | Inr h \<Rightarrow> Some (hr_status h))"

definition observe ::
  "('x, http_response) call \<Rightarrow> (exn + http_response \<Rightarrow> traffic) \<Rightarrow> ('x observed, http_response) call"
where
  "observe m f w = (case m (ob_inner w) of
     (r, x) \<Rightarrow> (r, w\<lparr>ob_log := ob_log w @ [f r], ob_inner := x\<rparr>))"

definition observed :: "'x upstream \<Rightarrow> 'x observed upstream" where
  "observed up =
     \<lparr>up_now = up_now up \<circ> ob_inner,
      up_login = (\<lambda>url name pw. observe (up_login up url name pw) (\<lambda>r. Login (status_seen r))),
      up_send = (\<lambda>url q. observe (up_send up url q) (Sent q))\<rparr>"

abbreviation log_of :: "'x observed client_world \<Rightarrow> traffic list" where
  "log_of w \<equiv> ob_log (cw_rest w)"

fun is_login :: "traffic \<Rightarrow> bool" where
  "is_login (Login _) = True"
| "is_login (Sent _ _) = False"

text \<open>\<open>adds m P\<close>: whatever \<open>m\<close> does, the traffic it adds and its outcome are in \<open>P\<close>.\<close>

definition adds :: "('x observed client_world, 'a) call \<Rightarrow> (traffic list \<Rightarrow> exn + 'a \<Rightarrow> bool) \<Rightarrow> bool" where
  "adds m P \<longleftrightarrow> (\<forall>w. \<exists>es. log_of (snd (m w)) = log_of w @ es \<and> P es (fst (m w)))"

lemma addsE:
  assumes "adds m P" and "m w = (r, w')"
  obtains es where "log_of w' = log_of w @ es" and "P es r"
  using assms unfolding adds_def by (metis fst_conv snd_conv)

lemma adds_pure: "(\<And>w. \<exists>r. m w = (r, w) \<and> P [] r) \<Longrightarrow> adds m P"
  unfolding adds_def by (metis append_Nil2 fst_conv snd_conv)

lemma adds_bind:
  assumes "adds m P" and "\<And>x. adds (f x) (Q x)"
    and "\<And>es e. P es (Inl e) \<Longrightarrow> R es (Inl e)"
    and "\<And>es es' x r. P es (Inr x) \<Longrightarrow> Q x es' r \<Longrightarrow> R (es @ es') r"
  shows "adds (bind_io m f) R"
  unfolding adds_def
proof
  fix w
  show "\<exists>es. log_of (snd (bind_io m f w)) = log_of w @ es \<and> R es (fst (bind_io m f w))"
  proof (cases "m w")
    case (Pair r v)
    then obtain es where es: "log_of v = log_of w @ es" "P es r" using addsE[OF assms(1) Pair] by blast
    show ?thesis
    proof (cases r)
      case (Inl e)
      with Pair es assms(3) show ?thesis by (auto simp: bind_io_def)
    next
      case (Inr x)
      obtain r' u where f: "f x v = (r', u)" by (cases "f x v")
      then obtain es' where "log_of u = log_of v @ es'" "Q x es' r'"
        using addsE[OF assms(2) f] by blast
      with Pair Inr f es assms(4) show ?thesis by (auto simp: bind_io_def)
    qed
  qed
qed

lemma adds_mono: "adds m P \<Longrightarrow> (\<And>es r. P es r \<Longrightarrow> Q es r) \<Longrightarrow> adds m Q"
  unfolding adds_def by blast

lemma adds_send:
  "adds (outside (up_send (observed up) url q)) (\<lambda>es r. es = [Sent q r])"
  by (auto simp: adds_def outside_def observed_def observe_def split: prod.split)

lemma adds_login:
  "adds (outside (up_login (observed up) url n pw)) (\<lambda>es r. es = [Login (status_seen r)])"
  by (auto simp: adds_def outside_def observed_def observe_def split: prod.split)

text \<open>A refresh is one login, which the upstream must have answered with 200.\<close>

definition one_login :: "traffic list \<Rightarrow> exn + 'a \<Rightarrow> bool" where
  "one_login es r \<longleftrightarrow> (\<exists>s. es = [Login s] \<and> ((\<exists>x. r = Inr x) \<longrightarrow> s = Some 200))"

lemma adds_fetch: "adds (fetch_new_token (observed up) mg) one_login"
  unfolding fetch_new_token_def
proof (rule adds_bind[OF adds_login])
  fix response :: http_response
  show "adds (if hr_status response \<noteq> 200
      then raise_io (App (AuthException ''Failed to authenticate with deploy-service.'' JNull))
      else bind_io (lift_io (body_json response)) (\<lambda>data.
           bind_io (lift_io (subscript data ''access_token'')) (\<lambda>token.
           bind_io (lift_io (json_get data ''expires_in'' (JNum 3600))) (\<lambda>expires_in.
             return_io (token, expires_in)))))
    (\<lambda>es r. es = [] \<and> ((\<exists>x. r = Inr x) \<longrightarrow> hr_status response = 200))"
    by (rule adds_pure) (auto simp: bind_io_def lift_io_def split: sum.split)
qed (auto simp: one_login_def status_seen_def)

lemma adds_refresh: "adds (refresh (observed up) mg) one_login"
  unfolding refresh_def
proof (rule adds_bind[OF adds_fetch])
  fix x :: "json \<times> json"
  show "adds (case x of (token, expires_in) \<Rightarrow> \<lambda>w. (let w' = w\<lparr>cw_token := token\<rparr>
        in case as_number expires_in of
             Inl e \<Rightarrow> (Inl e, w')
           | Inr n \<Rightarrow> (Inr (), w'\<lparr>cw_expire_at := up_now (observed up) (cw_rest w) + n - 30\<rparr>)))
      (\<lambda>es r. es = [])"
    by (auto simp: adds_def Let_def split: prod.split sum.split)
qed (auto simp: one_login_def)

definition at_most_a_login :: "traffic list \<Rightarrow> exn + 'a \<Rightarrow> bool" where
  "at_most_a_login es r \<longleftrightarrow> es = [] \<and> (\<exists>x. r = Inr x) \<or> one_login es r"

lemma adds_get_token: "adds (get_token (observed up) mg) at_most_a_login"
  unfolding adds_def
proof
  fix w
  have "adds (bind_io (refresh (observed up) mg) (\<lambda>_ w'. (Inr (cw_token w'), w'))) one_login"
    by (rule adds_bind[OF adds_refresh, where Q = "\<lambda>_ es r. es = []"])
      (auto simp: adds_def one_login_def)
  then show "\<exists>es. log_of (snd (get_token (observed up) mg w)) = log_of w @ es \<and>
      at_most_a_login es (fst (get_token (observed up) mg w))"
    by (auto simp: get_token_def adds_def at_most_a_login_def)
qed

section \<open>The traffic of a request\<close>

definition logins :: "nat \<Rightarrow> traffic list \<Rightarrow> bool" where
  "logins n es \<longleftrightarrow> length es \<le> n \<and> list_all is_login es"

text \<open>What a caller is to be told of the last request: what it raised, the error its status and body stand
  for, or its body.\<close>

definition told :: "exn + http_response \<Rightarrow> exn + json" where
  "told reply =
     (case reply of
        Inl e \<Rightarrow> Inl e
      | Inr h \<Rightarrow>
          (if hr_status h \<in> {400..599} then Inl (raise_for_error h)
           else (case hr_json h of None \<Rightarrow> Inl (PyError ''JSONDecodeError'') | Some v \<Rightarrow> Inr v)))"

text \<open>Nothing was sent; or one request; or one that was refused with 401 and then nothing more; or
  that and, after a login deploy-service accepted, a second and last one. The answer is what the last
  request says, unless there was no token to send it with.\<close>

inductive request_traffic :: "(json \<Rightarrow> request) \<Rightarrow> traffic list \<Rightarrow> exn + json \<Rightarrow> bool"
  for req :: "json \<Rightarrow> request" where
  no_token: "logins 1 es \<Longrightarrow> request_traffic req es (Inl e)"
| single: "logins 1 es \<Longrightarrow> (\<forall>h. reply = Inr h \<longrightarrow> hr_status h \<noteq> 401) \<Longrightarrow>
    request_traffic req (es @ [Sent (req t) reply]) (told reply)"
| refused: "logins 1 es \<Longrightarrow> hr_status h = 401 \<Longrightarrow> logins 2 es' \<Longrightarrow>
    request_traffic req (es @ Sent (req t) (Inr h) # es') (Inl e)"
| retried: "logins 1 es \<Longrightarrow> hr_status h = 401 \<Longrightarrow> logins 2 es' \<Longrightarrow> Login (Some 200) \<in> set es' \<Longrightarrow>
    request_traffic req (es @ Sent (req t) (Inr h) # es' @ [Sent (req t') reply]) (told reply)"

lemma one_login_logins: "one_login es r \<Longrightarrow> logins 1 es"
  and at_most_a_login_logins: "at_most_a_login es' r' \<Longrightarrow> logins 1 es'"
  by (auto simp: one_login_def at_most_a_login_def logins_def)

lemma logins_mono: "logins m es \<Longrightarrow> m \<le> n \<Longrightarrow> logins n es"
  by (simp add: logins_def)

lemma logins_append: "logins m es \<Longrightarrow> logins n es' \<Longrightarrow> m + n \<le> k \<Longrightarrow> logins k (es @ es')"
  by (simp add: logins_def)

text \<open>What follows the first answer.\<close>

inductive retry_traffic ::
  "(json \<Rightarrow> request) \<Rightarrow> http_response \<Rightarrow> traffic list \<Rightarrow> exn + http_response \<Rightarrow> bool"
  for req :: "json \<Rightarrow> request" and first :: http_response where
  kept: "hr_status first \<noteq> 401 \<Longrightarrow> retry_traffic req first [] (Inr first)"
| gave_up: "hr_status first = 401 \<Longrightarrow> logins 2 es \<Longrightarrow> retry_traffic req first es (Inl e)"
| again: "hr_status first = 401 \<Longrightarrow> logins 2 es \<Longrightarrow> Login (Some 200) \<in> set es \<Longrightarrow>
    retry_traffic req first (es @ [Sent (req t) r]) r"

lemma adds_retry:
  "adds (if hr_status response = 401
        then bind_io (refresh (observed up) mg) (\<lambda>_.
             bind_io (get_token (observed up) mg) (\<lambda>token'.
               outside (up_send (observed up) base_url (req token'))))
        else return_io response) (retry_traffic req response)"
proof (cases "hr_status response = 401")
  case True
  define P where "P es r \<longleftrightarrow> logins 1 es \<and> (\<exists>e. r = Inl e) \<or>
      (\<exists>ls t. logins 1 ls \<and> es = ls @ [Sent (req t) r])" for es and r :: "exn + http_response"
  have inner: "adds (bind_io (get_token (observed up) mg) (\<lambda>token'.
      outside (up_send (observed up) base_url (req token')))) P"
    by (rule adds_bind[OF adds_get_token adds_send]) (auto simp: P_def dest: at_most_a_login_logins)
  have "adds (bind_io (refresh (observed up) mg) (\<lambda>_. bind_io (get_token (observed up) mg) (\<lambda>token'.
      outside (up_send (observed up) base_url (req token'))))) (retry_traffic req response)"
  proof (rule adds_bind[OF adds_refresh inner])
    fix es :: "traffic list" and e
    assume "one_login es (Inl e :: exn + unit)"
    then show "retry_traffic req response es (Inl e)"
      using True by (intro retry_traffic.gave_up) (auto intro: logins_mono dest: one_login_logins)
  next
    fix es es' x and r :: "exn + http_response"
    assume first: "one_login es (Inr x :: exn + unit)" and "P es' r"
    from first have es: "logins 1 es" "Login (Some 200) \<in> set es"
      by (auto simp: one_login_def logins_def)
    from \<open>P es' r\<close> consider (no) e where "logins 1 es'" "r = Inl e"
      | (yes) ls t where "logins 1 ls" "es' = ls @ [Sent (req t) r]"
      by (auto simp: P_def)
    then show "retry_traffic req response (es @ es') r"
    proof cases
      case no
      with True es show ?thesis by (auto intro!: retry_traffic.gave_up logins_append)
    next
      case yes
      then have "es @ es' = (es @ ls) @ [Sent (req t) r]" by simp
      with True es yes(1) show ?thesis
        by (auto simp del: append_assoc intro!: retry_traffic.again logins_append)
    qed
  qed
  with True show ?thesis by simp
next
  case False
  then show ?thesis by (auto intro!: adds_pure retry_traffic.kept)
qed

lemma adds_settle:
  "adds (if is_error response then raise_io (raise_for_error response) else lift_io (body_json response))
     (\<lambda>es r. es = [] \<and> r = told (Inr response))"
  by (rule adds_pure) (auto simp: lift_io_def told_def is_error_def body_json_def split: option.split)

text \<open>C10: a call to deploy-service sends at most two requests and at most three logins, whatever the
  upstream does; the second request goes out only after the first was refused with 401 and a login
  was accepted; and what the call answers or raises is what the last request was answered: its body,
  the error its status stands for, or what the sending raised.\<close>

theorem a_call_retries_at_most_once:
  assumes "request_with_retry (observed up) mg base_url req w = (r, w')"
  shows "\<exists>es. log_of w' = log_of w @ es \<and> request_traffic req es r"
proof -
  let ?settle = "\<lambda>response. if is_error response then raise_io (raise_for_error response)
      else lift_io (body_json response)"
  let ?retry = "\<lambda>response. if hr_status response = 401
        then bind_io (refresh (observed up) mg) (\<lambda>_.
             bind_io (get_token (observed up) mg) (\<lambda>token'.
               outside (up_send (observed up) base_url (req token'))))
        else return_io response"
  have rest: "adds (bind_io (?retry response) ?settle)
      (\<lambda>es r. \<exists>q. retry_traffic req response es q \<and> r = told q)" for response
    by (rule adds_bind[OF adds_retry adds_settle]) (auto simp: told_def)
  have sent: "adds (bind_io (outside (up_send (observed up) base_url (req t))) (\<lambda>response.
      bind_io (?retry response) ?settle))
      (\<lambda>es r. \<forall>ls. logins 1 ls \<longrightarrow> request_traffic req (ls @ es) r)" for t
  proof (rule adds_bind[OF adds_send rest])
    fix es e
    assume es: "es = [Sent (req t) (Inl e)]"
    have "told (Inl e) = Inl e" by (simp add: told_def)
    then show "\<forall>ls. logins 1 ls \<longrightarrow> request_traffic req (ls @ es) (Inl e)"
      using request_traffic.single[of _ "Inl e" req t] by (simp add: es)
  next
    fix es es' response r
    assume es: "es = [Sent (req t) (Inr response)]"
    assume "\<exists>q. retry_traffic req response es' q \<and> r = told q"
    then obtain q where q: "retry_traffic req response es' q" and r: "r = told q" by blast
    from q show "\<forall>ls. logins 1 ls \<longrightarrow> request_traffic req (ls @ es @ es') r"
    proof cases
      case kept
      then show ?thesis using request_traffic.single[of _ "Inr response" req t] by (simp add: es r)
    next
      case (gave_up e)
      then show ?thesis
        using request_traffic.refused[of _ response es' req t e] by (simp add: es r told_def)
    next
      case (again es0 t')
      then show ?thesis using request_traffic.retried[of _ response es0 req t t' q] by (simp add: es r)
    qed
  qed
  have "adds (request_with_retry (observed up) mg base_url req) (request_traffic req)"
    unfolding request_with_retry_def
    by (rule adds_bind[OF adds_get_token sent])
      (auto intro: request_traffic.no_token dest: at_most_a_login_logins)
  from addsE[OF this assms] show ?thesis by blast
qed

text \<open>An upstream that refuses the first request with 401 and answers the second.\<close>

definition sample_upstream :: "nat upstream" where
  "sample_upstream =
     \<lparr>up_now = (\<lambda>n. 0),
      up_login = (\<lambda>url name pw n. (Inr \<lparr>hr_status = 200, hr_json = Some (JObj
         [(''access_token'', JStr ''t''), (''expires_in'', JNum 3600)])\<rparr>, n)),
      up_send = (\<lambda>url q n. (Inr (if n = 0 then \<lparr>hr_status = 401, hr_json = None\<rparr>
         else \<lparr>hr_status = 200, hr_json = Some (JObj [(''data'', JNum 7)])\<rparr>), Suc n))\<rparr>"

definition sample_request :: "json \<Rightarrow> request" where
  "sample_request t = \<lparr>rq_method = ''GET'', rq_path = ''/'', rq_params = [], rq_body = None, rq_bearer = t\<rparr>"

lemmas upstream_eval = request_with_retry_def get_token_def refresh_def fetch_new_token_def outside_def
  bind_io_def lift_io_def body_json_def subscript_def json_get_def as_number_def is_expired_def is_error_def

lemma a_call_retries_at_most_once_witness:
  "\<exists>w' es. request_with_retry (observed sample_upstream) (deploy_token_manager sample_settings) [] sample_request
     (initial_world sample_settings \<lparr>ob_log = [], ob_inner = 0\<rparr>) = (Inr (JObj [(''data'', JNum 7)]), w') \<and>
   log_of w' = es \<and> length es = 4 \<and> request_traffic sample_request es (Inr (JObj [(''data'', JNum 7)]))"
proof -
  let ?w = "initial_world sample_settings \<lparr>ob_log = [], ob_inner = 0 :: nat\<rparr>"
  obtain w' where run: "request_with_retry (observed sample_upstream) (deploy_token_manager sample_settings) []
      sample_request ?w = (Inr (JObj [(''data'', JNum 7)]), w')" and len: "length (log_of w') = 4"
    by (simp add: upstream_eval observed_def observe_def sample_upstream_def initial_world_def
        truthy_def sample_settings_def)
  from a_call_retries_at_most_once[OF run] run len show ?thesis by (auto simp: initial_world_def)
qed

section \<open>Errors\<close>

lemma lookup_raw_code_no_app [simp]: "lookup_raw_code v \<noteq> Inl (App e)"
  by (cases v) (simp_all add: lookup_raw_code_def)

text \<open>C38: an error answer of deploy-service becomes a 502 that carries its status and code, or its
  status alone when the body says nothing, exactly when the body's error entry can be read; one whose
  \<open>error\<close> is no object, or whose code is a list or an object, escapes as a plain Python error.\<close>

theorem upstream_errors_become_502:
  "(\<exists>d. raise_for_error h = App (DeployServiceError d) \<and> dse_upstream_status d = hr_status h \<and>
      http_status_of (DeployServiceError d) = 502) \<longleftrightarrow>
   readable_error_body (or_else (hr_json h) (JObj []))"
proof -
  have "(\<exists>d. raise_for_error h = App (DeployServiceError d) \<and> dse_upstream_status d = hr_status h) \<longleftrightarrow>
      (\<exists>d. deploy_service_error (hr_status h) (or_else (hr_json h) (JObj [])) = Inr (DeployServiceError d) \<and>
         dse_upstream_status d = hr_status h)"
    by (auto simp: raise_for_error_def deploy_service_error_def Let_def
        split: sum.splits json.splits)
  then show ?thesis by (simp add: deploy_service_error_total)
qed

lemma unreadable_error_escapes:
  "raise_for_error \<lparr>hr_status = 500, hr_json = Some (JObj [(''error'', JStr ''boom'')])\<rparr> = PyError ''AttributeError''"
  "raise_for_error \<lparr>hr_status = 500, hr_json = Some (JObj [(''error'', JObj [(''code'', JList [])])])\<rparr> =
     PyError ''TypeError''"
  by (simp_all add: raise_for_error_def deploy_service_error_def lookup_raw_code_def)

section \<open>The configured token\<close>

text \<open>The token of the settings is never sent: its expiry is the epoch, so the first call fetches.\<close>

lemma configured_token_is_never_sent:
  assumes "0 \<le> up_now up x"
  shows "get_token up mg (initial_world st x) =
    bind_io (refresh up mg) (\<lambda>_ w'. (Inr (cw_token w'), w')) (initial_world st x)"
  using assms by (simp add: get_token_def is_expired_def initial_world_def)

text \<open>A token that lives thirty seconds or less is fetched again by every call.\<close>

lemma short_lived_token_is_refetched:
  assumes "refresh up mg w = (Inr (), w')" and "cw_expire_at w' = up_now up (cw_rest w') + n - 30" and "n \<le> 30"
  shows "is_expired up w'"
  using assms by (simp add: is_expired_def)

end
