(* ===== verification/Application.thy ===== *)
theory Application
  imports Command_Properties Upstream_Properties
begin

text \<open>
  \<open>app/main.py\<close> and \<open>app/core/logging.py\<close>, as far as they decide something: whether a process may
  start, which stand-ins it uses, which pages it has, and the request id of a request. Also the
  factories \<open>get_cluster_repo\<close> of \<open>app/core/dependencies.py\<close> and \<open>_get_pipeline_service\<close>,
  \<open>_get_inventory_service\<close> and \<open>_get_command_service\<close> of the proxy routes, as the choice they make.
\<close>

record app_settings = settings +
  APP_ENV :: string
  DEBUG :: bool

section \<open>Starting\<close>

text \<open>\<open>_guard_dry_run\<close>, and the load of the users file before the first request.\<close>

definition guard_dry_run :: "app_settings \<Rightarrow> exn + unit" where
  "guard_dry_run st =
     (if \<not> DRY_RUN_MODE st then Inr ()
      else if APP_ENV st = ''prod'' then Inl (PyError ''RuntimeError'') else Inr ())"

datatype page = Health | Docs | Redoc | Metrics | TokenPost | LoginGet | LoginPost | Api

definition create_app :: "app_settings \<Rightarrow> exn + page list" where
  "create_app st =
     (case guard_dry_run st of
        Inl e \<Rightarrow> Inl e
      | Inr _ \<Rightarrow> Inr ([Health] @ (if DEBUG st then [Docs, Redoc] else [])
                    @ [TokenPost, LoginGet, LoginPost, Api, Metrics]))"

definition start_service :: "engines \<Rightarrow> app_settings \<Rightarrow> (users_world, page list) call" where
  "start_service eng st =
     bind_io (lift_io (create_app st)) (\<lambda>pages.
     bind_io (load_call eng) (\<lambda>_. return_io pages))"

section \<open>Stand-ins\<close>

datatype cluster_repo = DryRunClusters | YamlClusters string

definition get_cluster_repo :: "app_settings \<Rightarrow> cluster_repo" where
  "get_cluster_repo st =
     (if DRY_RUN_MODE st then DryRunClusters else YamlClusters (KUBECONFIG_BASE_PATH st))"

text \<open>Which client the three proxy services get: the stand-in, or the live one.\<close>

datatype 'x backend = StandIn | Live "'x client"

definition proxy_backend :: "'x upstream \<Rightarrow> app_settings \<Rightarrow> 'x backend" where
  "proxy_backend up st =
     (if DRY_RUN_MODE st then StandIn else Live (make_client up (settings.truncate st)))"

section \<open>Request ids\<close>

record tagged_response =
  tr_request_id :: string          \<comment> \<open>what the request ran under\<close>
  tr_coordination_id :: "string option" \<comment> \<open>the response header, if one is added\<close>

definition dispatch_request_id :: "string option \<Rightarrow> string \<Rightarrow> tagged_response" where
  "dispatch_request_id coordination_id uuid =
     (let from_client = coordination_id \<noteq> None;
          request_id = (case coordination_id of Some i \<Rightarrow> (if i \<noteq> [] then i else uuid) | None \<Rightarrow> uuid)
      in \<lparr>tr_request_id = request_id,
          tr_coordination_id = (if from_client then Some request_id else None)\<rparr>)"

definition health_filter :: "string \<Rightarrow> bool" where
  "health_filter msg = (\<not> sublist ''/health'' msg \<and> \<not> sublist ''/metrics'' msg)"

section \<open>Properties\<close>

text \<open>A process that comes up is not in dry-run mode in production, and the users file it read
  was valid; in production every cluster and every deploy-service call is then the real one.\<close>

theorem serving_process_is_sound:
  assumes "cache_inv eng (uw_path w) (uw_cache w)" and "start_service eng st w = (Inr pages, w')"
  shows "(\<exists>doc. answer eng (uw_path w) = Inr doc) \<and>
    (APP_ENV st = ''prod'' \<longrightarrow> get_cluster_repo st = YamlClusters (KUBECONFIG_BASE_PATH st) \<and>
       proxy_backend up st \<noteq> StandIn) \<and>
    (Docs \<in> set pages \<longleftrightarrow> DEBUG st)"
proof -
  obtain v where v: "load_call eng w = (answer eng (uw_path w), v)" using load_call_eq[OF assms(1)] .
  obtain ps where ps: "create_app st = Inr ps"
    using assms(2) by (auto simp: start_service_def bind_io_def lift_io_def split: sum.splits)
  with assms(2) v have "\<exists>doc. answer eng (uw_path w) = Inr doc" and "pages = ps"
    by (auto simp: start_service_def bind_io_def lift_io_def split: sum.splits)
  with ps show ?thesis
    by (auto simp: create_app_def guard_dry_run_def get_cluster_repo_def proxy_backend_def
        split: sum.splits if_splits)
qed

definition sample_app :: app_settings where
  "sample_app = settings.extend sample_settings \<lparr>APP_ENV = ''prod'', DEBUG = False\<rparr>"

lemma serving_process_is_sound_witness:
  "\<exists>pages w'. start_service sample_engines sample_app sample_world = (Inr pages, w') \<and>
     proxy_backend sample_upstream sample_app \<noteq> StandIn"
proof -
  obtain v where "load_call sample_engines sample_world = (answer sample_engines (uw_path sample_world), v)"
    using load_call_eq[OF sample_world_ok(1)] .
  then have "\<exists>pages. start_service sample_engines sample_app sample_world = (Inr pages, v)"
    using sample_world_ok(2)
    by (simp add: start_service_def bind_io_def lift_io_def create_app_def guard_dry_run_def
        sample_app_def sample_settings_def settings.defs)
  then obtain pages where run: "start_service sample_engines sample_app sample_world = (Inr pages, v)" ..
  have "APP_ENV sample_app = ''prod''" by (simp add: sample_app_def settings.defs)
  with serving_process_is_sound[OF sample_world_ok(1) run, of sample_upstream] run show ?thesis by blast
qed

text \<open>An empty coordination header is echoed as the generated id.\<close>

lemma empty_header_is_echoed:
  "tr_coordination_id (dispatch_request_id (Some []) uuid) = Some uuid"
  by (simp add: dispatch_request_id_def Let_def)

end
