(* ===== verification/Cluster_Contract.thy ===== *)
theory Cluster_Contract
  imports Dry_Run_Kube
begin

text \<open>
  The contract between the node operations and the API they call. \<open>node_store\<close> states what
  \<open>CoreV1Api\<close> documents of its node calls, over an abstraction \<open>nodes\<close> of the world: a listing
  shows every node once, a read answers the node or a 404, a patch changes the patched fields and
  nothing else. Inside it, the operations of the service are given their full functional
  specification. \<open>drain_store\<close> adds the pods and the clock, for the drain.

  The dry-run client is shown to keep the contract, so every lemma holds of it.
\<close>

section \<open>The effect of a patch\<close>

definition wf_patch :: "node_patch \<Rightarrow> bool" where
  "wf_patch p \<longleftrightarrow> wf_dict (or_else (np_labels p) []) \<and> wf_dict (or_else (np_annotations p) [])"

definition label_map :: "v1_node \<Rightarrow> string \<rightharpoonup> string" where
  "label_map v = dict_get (or_else (node_labels v) [])"

definition annotation_map :: "v1_node \<Rightarrow> string \<rightharpoonup> string" where
  "annotation_map v = dict_get (or_else (node_annotations v) [])"

definition patch_effect :: "node_patch \<Rightarrow> v1_node \<Rightarrow> v1_node \<Rightarrow> bool" where
  "patch_effect p v v' \<longleftrightarrow>
     node_name v' = node_name v \<and> node_conditions v' = node_conditions v \<and>
     node_unschedulable v' =
       (case np_unschedulable p of Some u \<Rightarrow> Some u | None \<Rightarrow> node_unschedulable v) \<and>
     node_taints v' = (case np_taints p of Some ts \<Rightarrow> Some ts | None \<Rightarrow> node_taints v) \<and>
     label_map v' = merge_spec (label_map v) (or_else (np_labels p) []) \<and>
     annotation_map v' = merge_spec (annotation_map v) (or_else (np_annotations p) [])"

lemma merge_spec_Nil [simp]: "merge_spec m [] = m"
  by (simp add: merge_spec_def)

lemma merge_into_get:
  "wf_dict p \<Longrightarrow> dict_get (merge_into d p) = merge_spec (dict_get d) p"
proof (induction d p rule: merge_into.induct)
  case (2 d k p)
  then have "map_of p k = None" by (auto simp: wf_dict_def map_of_eq_None_iff)
  with 2 show ?case by (auto simp: wf_dict_def merge_spec_def fun_eq_iff split: option.split)
next
  case (3 d k v p)
  then have "map_of p k = None" by (auto simp: wf_dict_def map_of_eq_None_iff)
  with 3 show ?case by (auto simp: wf_dict_def merge_spec_def fun_eq_iff split: option.split)
qed simp

lemma merge_field_get:
  "wf_dict (or_else p []) \<Longrightarrow>
     dict_get (or_else (merge_field cur p) []) = merge_spec (dict_get (or_else cur [])) (or_else p [])"
  by (auto simp: merge_field_def merge_into_get)

lemma patch_effect_patched_node: "wf_patch p \<Longrightarrow> patch_effect p v (patched_node p v)"
  by (simp add: patch_effect_def patched_node_def wf_patch_def label_map_def annotation_map_def
      merge_field_get)

lemma patch_effect_status: "patch_effect p v v' \<Longrightarrow> node_status v' = node_status v"
  by (simp add: patch_effect_def node_status_def)

lemma wf_patch_unschedulable [simp]: "wf_patch (empty_node_patch\<lparr>np_unschedulable := u\<rparr>)"
  and wf_patch_taints [simp]: "wf_patch (empty_node_patch\<lparr>np_taints := ts\<rparr>)"
  by (simp_all add: wf_patch_def empty_node_patch_def)

lemma wf_key_merge_patch [simp]: "wf_dict (key_merge_patch s r)"
  by (simp add: key_merge_patch_def)

lemma wf_patch_labels [simp]: "wf_patch (empty_node_patch\<lparr>np_labels := Some (key_merge_patch s r)\<rparr>)"
  and wf_patch_annotations [simp]:
    "wf_patch (empty_node_patch\<lparr>np_annotations := Some (key_merge_patch s r)\<rparr>)"
  by (simp_all add: wf_patch_def empty_node_patch_def)

section \<open>Nodes\<close>

abbreviation scheduling :: "bool \<Rightarrow> node_patch" where
  "scheduling u \<equiv> empty_node_patch\<lparr>np_unschedulable := Some u\<rparr>"

text \<open>Whether the service attempts the node, and with what outcome; \<open>u\<close> is cordon.\<close>

definition accepted :: "bool \<Rightarrow> (string, string) dict \<Rightarrow> (string \<rightharpoonup> v1_node) \<Rightarrow> string \<Rightarrow> bool" where
  "accepted u denied ns n \<longleftrightarrow>
     dict_get denied n = None \<and> (\<exists>v. ns n = Some v \<and> (u \<or> node_status v = ''Ready''))"

definition statuses_of :: "(string \<rightharpoonup> v1_node) \<Rightarrow> (string, string) dict \<Rightarrow> bool" where
  "statuses_of ns statuses \<longleftrightarrow> dict_get statuses = map_option node_status \<circ> ns"

definition batch_effect :: "bool \<Rightarrow> string set \<Rightarrow> (string \<rightharpoonup> v1_node) \<Rightarrow> (string \<rightharpoonup> v1_node) \<Rightarrow> bool" where
  "batch_effect u ok ns ns' \<longleftrightarrow>
     (\<forall>n. if n \<in> ok then \<exists>v v'. ns n = Some v \<and> ns' n = Some v' \<and> patch_effect (scheduling u) v v'
          else ns' n = ns n)"

lemma batch_effect_in:
  "batch_effect u ok ns ns' \<Longrightarrow> n \<in> ok \<Longrightarrow>
     \<exists>v v'. ns n = Some v \<and> ns' n = Some v' \<and> patch_effect (scheduling u) v v'"
  unfolding batch_effect_def by (drule spec[of _ n]) simp

lemma batch_effect_out: "batch_effect u ok ns ns' \<Longrightarrow> n \<notin> ok \<Longrightarrow> ns' n = ns n"
  unfolding batch_effect_def by (drule spec[of _ n]) simp

lemma statuses_lookup:
  assumes "distinct (map node_name items)"
  shows "dict_get (dict_update [] (map (\<lambda>n. (node_name n, node_status n)) items)) k =
    (map_option node_status \<circ> map_of (map (\<lambda>n. (node_name n, n)) items)) k"
proof (cases "\<exists>n \<in> set items. node_name n = k")
  case True
  then obtain n where n: "n \<in> set items" "node_name n = k" by blast
  then have "find (\<lambda>y. node_name y = k) (rev items) = Some n"
    using find_distinct[of node_name "rev items" n] assms by (simp flip: rev_map)
  moreover have "map_of (map (\<lambda>n. (node_name n, n)) items) k = Some n"
    using n assms by (intro map_of_is_SomeI) (auto simp: comp_def)
  ultimately show ?thesis by (simp add: dict_get_update_map)
next
  case False
  then have "find (\<lambda>y. node_name y = k) (rev items) = None"
    by (auto simp: find_None_iff)
  moreover have "map_of (map (\<lambda>n. (node_name n, n)) items) k = None"
    using False by (auto simp: map_of_eq_None_iff)
  ultimately show ?thesis by (simp add: dict_get_update_map)
qed

locale node_store =
  fixes kube :: "'w core_v1_api"
    and nodes :: "'w \<Rightarrow> string \<rightharpoonup> v1_node"
    and inv :: "'w \<Rightarrow> bool"
  assumes list_law: "inv w \<Longrightarrow> list_node kube w = (rl, w') \<Longrightarrow> inv w' \<and> nodes w' = nodes w \<and>
      (\<exists>items. rl = Inr items \<and> distinct (map node_name items) \<and>
         nodes w = map_of (map (\<lambda>n. (node_name n, n)) items))"
    and read_law: "inv w \<Longrightarrow> read_node kube n w = (rr, w') \<Longrightarrow> inv w' \<and> nodes w' = nodes w \<and>
      (case nodes w n of Some v \<Rightarrow> rr = Inr v
       | None \<Rightarrow> \<exists>reason. rr = Inl (ApiException (Some 404) reason))"
    and patch_law: "inv w \<Longrightarrow> wf_patch p \<Longrightarrow> patch_node kube n p w = (rp, w') \<Longrightarrow> inv w' \<and>
      (case nodes w n of
         Some v \<Rightarrow> \<exists>v'. rp = Inr v' \<and> patch_effect p v v' \<and> nodes w' = (nodes w)(n \<mapsto> v')
       | None \<Rightarrow> (\<exists>reason. rp = Inl (ApiException (Some 404) reason)) \<and> nodes w' = nodes w)"
begin

lemma read_found:
  assumes "inv w" and "nodes w n = Some v"
  obtains w' where "read_node_checked c n kube w = (Inr v, w')" and "inv w'"
    and "nodes w' = nodes w"
proof -
  obtain r w' where run: "read_node kube n w = (r, w')" by (metis prod.exhaust)
  with read_law[OF assms(1) run] assms(2) show ?thesis
    by (intro that[of w']) (auto simp: read_node_checked_def)
qed

lemma read_missing:
  assumes "inv w" and "nodes w n = None"
  obtains w' where "read_node_checked c n kube w = (Inl (App (node_not_found c n)), w')"
    and "inv w'" and "nodes w' = nodes w"
proof -
  obtain r w' where run: "read_node kube n w = (r, w')" by (metis prod.exhaust)
  with read_law[OF assms(1) run] assms(2) show ?thesis
    by (intro that[of w']) (auto simp: read_node_checked_def translate_Inl)
qed

lemma patch_found:
  assumes "inv w" and "wf_patch p" and "nodes w n = Some v"
  obtains v' w' where "patch_node kube n p w = (Inr v', w')" and "inv w'"
    and "patch_effect p v v'" and "nodes w' = (nodes w)(n \<mapsto> v')"
proof -
  obtain r w' where run: "patch_node kube n p w = (r, w')" by (metis prod.exhaust)
  with patch_law[OF assms(1,2) run] assms(3) show ?thesis by (auto intro: that)
qed

lemma patch_missing:
  assumes "inv w" and "wf_patch p" and "nodes w n = None"
  obtains reason w' where "patch_node kube n p w = (Inl (ApiException (Some 404) reason), w')"
    and "inv w'" and "nodes w' = nodes w"
proof -
  obtain r w' where run: "patch_node kube n p w = (r, w')" by (metis prod.exhaust)
  with patch_law[OF assms(1,2) run] assms(3) show ?thesis by (auto intro: that)
qed

subsection \<open>Cordon and uncordon\<close>

lemma patch_unschedulable_found:
  assumes "inv w" and "nodes w n = Some v"
  obtains v' w' where "patch_unschedulable c n kube u w = (Inr (), w')" and "inv w'"
    and "patch_effect (scheduling u) v v'" and "nodes w' = (nodes w)(n \<mapsto> v')"
proof -
  obtain v' w' where run: "patch_node kube n (scheduling u) w = (Inr v', w')" "inv w'"
      "patch_effect (scheduling u) v v'" "nodes w' = (nodes w)(n \<mapsto> v')"
    using patch_found[OF assms(1) _ assms(2), of "scheduling u"] by auto
  then show ?thesis
    by (intro that[of w' v']) (auto simp: patch_unschedulable_def bind_io_Inr_iff)
qed

lemma patch_unschedulable_missing:
  assumes "inv w" and "nodes w n = None"
  obtains w' where "patch_unschedulable c n kube u w = (Inl (App (node_not_found c n)), w')"
    and "inv w'" and "nodes w' = nodes w"
proof -
  obtain reason w' where run: "patch_node kube n (scheduling u) w =
      (Inl (ApiException (Some 404) reason), w')" "inv w'" "nodes w' = nodes w"
    using patch_missing[OF assms(1) _ assms(2), of "scheduling u"] by auto
  then show ?thesis
    by (intro that[of w']) (auto simp: patch_unschedulable_def bind_io_Inl_iff translate_Inl)
qed

lemma cordon_found:
  assumes "inv w" and "nodes w n = Some v"
  obtains v' w' where "cordon c n kube w = (Inr (action_data c n ''cordon''), w')" and "inv w'"
    and "patch_effect (scheduling True) v v'" and "nodes w' = (nodes w)(n \<mapsto> v')"
proof -
  obtain v' w' where "patch_unschedulable c n kube True w = (Inr (), w')" "inv w'"
      "patch_effect (scheduling True) v v'" "nodes w' = (nodes w)(n \<mapsto> v')"
    using assms by (rule patch_unschedulable_found)
  then show ?thesis by (intro that[of w' v']) (simp_all add: cordon_def)
qed

lemma uncordon_ready:
  assumes "inv w" and "nodes w n = Some v" and "node_status v = ''Ready''"
  obtains v' w' where "uncordon c n kube w = (Inr (action_data c n ''uncordon''), w')" and "inv w'"
    and "patch_effect (scheduling False) v v'" and "nodes w' = (nodes w)(n \<mapsto> v')"
proof -
  obtain w1 where r: "read_node_checked c n kube w = (Inr v, w1)" "inv w1" "nodes w1 = nodes w"
    using read_found[OF assms(1,2)] by metis
  with assms(2) have "nodes w1 n = Some v" by simp
  with r(2) obtain v' w' where p: "patch_unschedulable c n kube False w1 = (Inr (), w')" "inv w'"
      "patch_effect (scheduling False) v v'" "nodes w' = (nodes w1)(n \<mapsto> v')"
    using patch_unschedulable_found by metis
  show ?thesis
    by (rule that[of w' v']) (use r p assms(3) in \<open>simp_all add: uncordon_def Let_def\<close>)
qed

lemma uncordon_not_ready:
  assumes "inv w" and "nodes w n = Some v" and "node_status v \<noteq> ''Ready''"
  obtains w' where
    "uncordon c n kube w = (Inl (App (NodeNotReadyException n (node_status v))), w')" and "inv w'"
    and "nodes w' = nodes w"
proof -
  obtain w1 where "read_node_checked c n kube w = (Inr v, w1)" "inv w1" "nodes w1 = nodes w"
    using read_found[OF assms(1,2)] by metis
  with assms(3) show ?thesis by (intro that[of w1]) (simp_all add: uncordon_def Let_def)
qed

subsection \<open>Batches\<close>

lemma set_one_spec:
  assumes "inv w" and "u \<or> statuses_of (nodes w) statuses" and "dict_get denied n = None"
  obtains r w' where "set_one c kube u statuses n w = (Inr r, w')" and "inv w'" and "br_node r = n"
    and "br_status r = (if accepted u denied (nodes w) n then Success else Failed)"
    and "batch_effect u (if accepted u denied (nodes w) n then {n} else {}) (nodes w) (nodes w')"
proof (cases "nodes w n")
  case None
  obtain w' where p: "patch_unschedulable c n kube u w = (Inl (App (node_not_found c n)), w')"
      "inv w'" "nodes w' = nodes w"
    using patch_unschedulable_missing[OF assms(1) None] by metis
  from None assms(2) have no_status: "u \<or> dict_get statuses n = None"
    by (auto simp: statuses_of_def)
  show ?thesis
    by (rule that[of "failed_result n (node_not_found c n)" w'])
      (use p no_status None in \<open>auto simp: set_one_def catch_io_def node_not_found_def accepted_def
        batch_effect_def split: option.split\<close>)
next
  case (Some v)
  from assms(2) Some have status: "u \<or> dict_get statuses n = Some (node_status v)"
    by (auto simp: statuses_of_def)
  show ?thesis
  proof (cases "u \<or> node_status v = ''Ready''")
    case True
    obtain v' w' where p: "patch_unschedulable c n kube u w = (Inr (), w')" "inv w'"
        "patch_effect (scheduling u) v v'" "nodes w' = (nodes w)(n \<mapsto> v')"
      using patch_unschedulable_found[OF assms(1) Some] by metis
    have acc: "accepted u denied (nodes w) n" using True Some assms(3) by (simp add: accepted_def)
    show ?thesis
      by (rule that[of "\<lparr>br_node = n, br_status = Success, br_error_code = None,
            br_message = None, br_kube_status = None\<rparr>" w'])
        (use p status True acc Some in \<open>auto simp: set_one_def catch_io_def batch_effect_def
          split: option.split\<close>)
  next
    case False
    then have acc: "\<not> accepted u denied (nodes w) n" using Some by (simp add: accepted_def)
    show ?thesis
      by (rule that[of "failed_result n (NodeNotReadyException n (node_status v))" w])
        (use status False acc assms(1) in \<open>auto simp: set_one_def catch_io_def batch_effect_def\<close>)
  qed
qed

lemma batch_item_spec:
  assumes "inv w" and "u \<or> statuses_of (nodes w) statuses \<or> dict_get denied n \<noteq> None"
  obtains r w' where "batch_item c kube u statuses denied n w = (Inr r, w')" and "inv w'"
    and "br_node r = n"
    and "br_status r = (if accepted u denied (nodes w) n then Success else Failed)"
    and "batch_effect u (if accepted u denied (nodes w) n then {n} else {}) (nodes w) (nodes w')"
proof (cases "dict_get denied n")
  case None
  obtain r w' where "set_one c kube u statuses n w = (Inr r, w')" "inv w'" "br_node r = n"
      "br_status r = (if accepted u denied (nodes w) n then Success else Failed)"
      "batch_effect u (if accepted u denied (nodes w) n then {n} else {}) (nodes w) (nodes w')"
    using set_one_spec[OF assms(1) _ None] assms(2) None by (metis (no_types, lifting))
  then show ?thesis by (intro that[of r w']) (simp_all add: batch_item_def None)
next
  case (Some reason)
  then have acc: "\<not> accepted u denied (nodes w) n" by (simp add: accepted_def)
  show ?thesis
    by (rule that[of "denied_result n reason" w])
      (use Some acc assms(1) in \<open>simp_all add: batch_item_def batch_effect_def denied_result_def\<close>)
qed

lemma batch_effect_status:
  assumes "batch_effect u ok ns ns'"
  shows "map_option node_status (ns' n) = map_option node_status (ns n)"
proof (cases "n \<in> ok")
  case True
  with assms obtain v v' where "ns n = Some v" "ns' n = Some v'" "patch_effect (scheduling u) v v'"
    by (blast dest: batch_effect_in)
  then show ?thesis by (simp add: patch_effect_status)
next
  case False
  with assms show ?thesis by (simp add: batch_effect_def)
qed

lemma batch_effect_accepted:
  assumes "batch_effect u ok ns ns'"
  shows "accepted u denied ns' n \<longleftrightarrow> accepted u denied ns n"
  using batch_effect_status[OF assms, of n]
  by (cases "ns n"; cases "ns' n") (auto simp: accepted_def)

lemma batch_loop_spec:
  assumes "inv w"
    and "u \<or> statuses_of (nodes w) statuses \<or> (\<forall>n \<in> set names. dict_get denied n \<noteq> None)"
    and "distinct names"
  shows "\<exists>rs w'. batch_loop c kube u statuses denied names w = (Inr rs, w') \<and> inv w' \<and>
    map (\<lambda>r. (br_node r, br_status r)) rs =
      map (\<lambda>n. (n, if accepted u denied (nodes w) n then Success else Failed)) names \<and>
    batch_effect u {n \<in> set names. accepted u denied (nodes w) n} (nodes w) (nodes w')"
  using assms
proof (induction names arbitrary: w)
  case Nil
  then show ?case by (auto simp: batch_effect_def)
next
  case (Cons n ns)
  obtain r w1 where item: "batch_item c kube u statuses denied n w = (Inr r, w1)" "inv w1"
      "br_node r = n" "br_status r = (if accepted u denied (nodes w) n then Success else Failed)"
    and eff: "batch_effect u (if accepted u denied (nodes w) n then {n} else {}) (nodes w) (nodes w1)"
    using batch_item_spec[OF Cons.prems(1), of u statuses denied n c] Cons.prems(2)
    by (metis (no_types, lifting) list.set_intros(1))
  note acc = batch_effect_accepted[OF eff]
  have "u \<or> statuses_of (nodes w1) statuses \<or> (\<forall>n \<in> set ns. dict_get denied n \<noteq> None)"
    using Cons.prems(2) batch_effect_status[OF eff] by (auto simp: statuses_of_def fun_eq_iff)
  then obtain rs w' where rest: "batch_loop c kube u statuses denied ns w1 = (Inr rs, w')" "inv w'"
      "map (\<lambda>r. (br_node r, br_status r)) rs =
        map (\<lambda>n. (n, if accepted u denied (nodes w) n then Success else Failed)) ns"
    and eff': "batch_effect u {n \<in> set ns. accepted u denied (nodes w) n} (nodes w1) (nodes w')"
    using Cons.IH[OF item(2)] Cons.prems(3) acc by auto
  have "batch_effect u {m \<in> set (n # ns). accepted u denied (nodes w) m} (nodes w) (nodes w')"
    unfolding batch_effect_def
  proof
    fix m
    show "if m \<in> {m \<in> set (n # ns). accepted u denied (nodes w) m}
      then \<exists>v v'. nodes w m = Some v \<and> nodes w' m = Some v' \<and> patch_effect (scheduling u) v v'
      else nodes w' m = nodes w m"
      using spec[OF eff[unfolded batch_effect_def], of m]
        spec[OF eff'[unfolded batch_effect_def], of m] Cons.prems(3)
      by (cases "m = n") (auto split: if_splits)
  qed
  with item rest show ?case
    by (intro exI[of _ "r # rs"] exI[of _ w']) (simp add: batch_loop_Cons del: batch_loop.simps)
qed

lemma batch_spec:
  assumes "inv w"
  shows "\<exists>d w'. batch_set_unschedulable c names kube u action denied w = (Inr d, w') \<and> inv w' \<and>
    map (\<lambda>r. (br_node r, br_status r)) (bd_results d) =
      map (\<lambda>n. (n, if accepted u denied (nodes w) n then Success else Failed)) (unique names) \<and>
    batch_effect u {n \<in> set names. accepted u denied (nodes w) n} (nodes w) (nodes w')"
proof -
  let ?none = "\<forall>n \<in> set names. dict_get denied n \<noteq> None"
  have start: "\<exists>statuses w1.
      (if \<not> u \<and> list_ex (\<lambda>n. dict_get denied n = None) (unique names)
       then node_statuses c kube else return_io []) w = (Inr statuses, w1) \<and>
      inv w1 \<and> nodes w1 = nodes w \<and> (u \<or> statuses_of (nodes w1) statuses \<or> ?none)"
  proof (cases "u \<or> ?none")
    case True
    then have "\<not> (\<not> u \<and> list_ex (\<lambda>n. dict_get denied n = None) (unique names))"
      by (auto simp: list_ex_iff)
    then have "(if \<not> u \<and> list_ex (\<lambda>n. dict_get denied n = None) (unique names)
        then node_statuses c kube else return_io []) w = (Inr [], w)"
      by (simp only: if_False return_io_apply)
    with True assms show ?thesis by blast
  next
    case False
    then have work: "\<not> u \<and> list_ex (\<lambda>n. dict_get denied n = None) (unique names)"
      by (auto simp: list_ex_iff)
    obtain r w1 where run: "list_node kube w = (r, w1)" by (metis prod.exhaust)
    then obtain items where items: "r = Inr items" "distinct (map node_name items)"
        "nodes w = map_of (map (\<lambda>n. (node_name n, n)) items)" "inv w1" "nodes w1 = nodes w"
      using list_law[OF assms run] by auto
    define statuses where
      "statuses = dict_update [] (map (\<lambda>n. (node_name n, node_status n)) items)"
    have "statuses_of (nodes w1) statuses"
      unfolding statuses_of_def statuses_def items(3,5)
      by (rule ext) (rule statuses_lookup[OF items(2)])
    moreover have "node_statuses c kube w = (Inr statuses, w1)"
      using run items(1) by (simp add: node_statuses_def statuses_def bind_io_Inr_iff)
    ultimately show ?thesis using items(4,5) unfolding if_P[OF work] by blast
  qed
  then obtain statuses w1 where first:
      "(if \<not> u \<and> list_ex (\<lambda>n. dict_get denied n = None) (unique names)
        then node_statuses c kube else return_io []) w = (Inr statuses, w1)"
    and w1: "inv w1" "nodes w1 = nodes w" "u \<or> statuses_of (nodes w1) statuses \<or> ?none"
    by blast
  from w1(3) have "u \<or> statuses_of (nodes w1) statuses \<or>
      (\<forall>n \<in> set (unique names). dict_get denied n \<noteq> None)" by simp
  from batch_loop_spec[OF w1(1) this distinct_unique, of c]
  obtain rs w' where loop: "batch_loop c kube u statuses denied (unique names) w1 = (Inr rs, w')"
    and "inv w' \<and> map (\<lambda>r. (br_node r, br_status r)) rs =
      map (\<lambda>n. (n, if accepted u denied (nodes w) n then Success else Failed)) (unique names) \<and>
      batch_effect u {n \<in> set names. accepted u denied (nodes w) n} (nodes w) (nodes w')"
    unfolding w1(2) set_unique by blast
  moreover from first loop have
    "batch_set_unschedulable c names kube u action denied w = (Inr (batch_data c action rs), w')"
    unfolding batch_set_unschedulable_def Let_def unique_node_names_eq
    by (subst bind_io_Inr) (assumption, simp add: bind_io_Inr_iff)
  ultimately show ?thesis by (auto simp: batch_data_summary)
qed

end

section \<open>Label, annotation and taint edits\<close>

text \<open>What an edit request asks of a key.\<close>

definition edited :: "(string \<rightharpoonup> string) \<Rightarrow> str_map \<Rightarrow> string list \<Rightarrow> (string \<rightharpoonup> string)" where
  "edited m added removed = (\<lambda>k. if k \<in> set removed then None
     else case dict_get added k of Some v \<Rightarrow> Some v | None \<Rightarrow> m k)"

lemma merge_spec_edited: "wf_dict s \<Longrightarrow> merge_spec m (key_merge_patch s r) = edited m s r"
  by (simp add: fun_eq_iff merge_spec_key_merge_patch edited_def)

text \<open>The taints of a node by key and effect; with distinct identities, which one wins does not
  matter.\<close>

definition taint_map :: "v1_node \<Rightarrow> string \<times> string \<rightharpoonup> v1_taint" where
  "taint_map v = map_of (map (\<lambda>t. (taint_id t, t)) (or_else (node_taints v) []))"

definition taints_ok :: "v1_node \<Rightarrow> bool" where
  "taints_ok v \<longleftrightarrow> distinct (map taint_id (or_else (node_taints v) [])) \<and>
     (\<forall>t \<in> set (or_else (node_taints v) []). known_taint t)"

definition edited_taints ::
  "(string \<times> string \<rightharpoonup> v1_taint) \<Rightarrow> taint_spec list \<Rightarrow> taint_remove_spec list \<Rightarrow>
   (string \<times> string \<rightharpoonup> v1_taint)" where
  "edited_taints m added removed = (\<lambda>i. case find (\<lambda>s. taint_id (spec_taint s) = i) (rev added) of
       Some s \<Rightarrow> Some (spec_taint s)
     | None \<Rightarrow> (if i \<in> removal_id ` set removed then None else m i))"

lemma find_rev_map_of:
  "distinct (map f xs) \<Longrightarrow> find (\<lambda>x. f x = k) (rev xs) = map_of (map (\<lambda>x. (f x, x)) xs) k"
proof (induction xs)
  case (Cons x xs)
  have "find (\<lambda>y. f y = k) (rev xs) = None" if "f x = k"
  proof -
    have "f y \<noteq> k" if "y \<in> set xs" for y
      using Cons.prems that \<open>f x = k\<close> by (metis distinct.simps(2) image_eqI image_set list.simps(9))
    then show ?thesis by (simp add: find_None_iff)
  qed
  with Cons show ?case by (auto simp: find_append split: option.split)
qed simp

lemma taints_by_id_edited:
  assumes "distinct (map taint_id (or_else (node_taints v) []))"
  shows "map_of (map (\<lambda>t. (taint_id t, t))
      (map snd (taints_by_id (or_else (node_taints v) []) removed added))) =
    edited_taints (taint_map v) added removed"
  unfolding taints_by_id_list
  by (rule ext) (simp add: taints_by_id_get edited_taints_def taint_map_def find_rev_map_of[OF assms]
      del: map_map split: option.split)

context node_store
begin

lemma label_node_spec:
  assumes "inv w" and "nodes w n = Some v" and "wf_dict (or_else set_opt [])"
    and "or_else set_opt [] \<noteq> [] \<or> or_else remove_opt [] \<noteq> []"
  shows "\<exists>d v' w'. label_node c n kube set_opt remove_opt w = (Inr d, w') \<and> inv w' \<and>
    nodes w' = (nodes w)(n \<mapsto> v') \<and>
    label_map v' = edited (label_map v) (or_else set_opt []) (or_else remove_opt []) \<and>
    dict_get (nl_labels d) = label_map v'"
proof -
  let ?m = "key_merge_patch (or_else set_opt []) (or_else remove_opt [])"
  let ?p = "empty_node_patch\<lparr>np_labels := Some ?m\<rparr>"
  have ne: "?m \<noteq> []" using assms(4) by (auto simp: key_merge_patch_eq_Nil)
  obtain v' w1 where p: "patch_node kube n ?p w = (Inr v', w1)" "inv w1" "patch_effect ?p v v'"
      "nodes w1 = (nodes w)(n \<mapsto> v')"
    using patch_found[OF assms(1) _ assms(2), of ?p] by auto
  then have "nodes w1 n = Some v'" by simp
  then obtain w' where r: "read_node_checked c n kube w1 = (Inr v', w')" "inv w'" "nodes w' = nodes w1"
    using read_found[OF p(2)] by metis
  have "label_map v' = merge_spec (label_map v) ?m"
    using p(3) by (simp add: patch_effect_def empty_node_patch_def)
  then have eff: "label_map v' = edited (label_map v) (or_else set_opt []) (or_else remove_opt [])"
    by (simp add: merge_spec_edited[OF assms(3)])
  have "label_node c n kube set_opt remove_opt w =
      (Inr \<lparr>nl_status = ''success'', nl_cluster = c, nl_node = n, nl_action = ''label'',
         nl_labels = or_else (node_labels v') []\<rparr>, w')"
    using ne p(1) r(1)
    by (simp add: label_node_def patch_labels_def fetch_node_labels_def Let_def bind_io_Inr_iff)
  with p(4) r(2,3) eff show ?thesis by (auto simp: label_map_def)
qed

lemma taint_node_spec:
  assumes "inv w" and "nodes w n = Some v" and "taints_ok v"
    and "or_else set_opt [] \<noteq> [] \<or> or_else remove_opt [] \<noteq> []"
  shows "\<exists>d v' w'. taint_node c n kube set_opt remove_opt w = (Inr d, w') \<and> inv w' \<and>
    nodes w' = (nodes w)(n \<mapsto> v') \<and>
    taint_map v' = edited_taints (taint_map v) (or_else set_opt []) (or_else remove_opt []) \<and>
    taints_ok v' \<and> map spec_taint (nt_taints d) = or_else (node_taints v') []"
proof -
  let ?s = "or_else set_opt []" let ?r = "or_else remove_opt []"
  let ?ts = "map snd (taints_by_id (or_else (node_taints v) []) ?r ?s)"
  let ?p = "empty_node_patch\<lparr>np_taints := Some ?ts\<rparr>"
  obtain w1 where r1: "read_node_checked c n kube w = (Inr v, w1)" "inv w1" "nodes w1 = nodes w"
    using read_found[OF assms(1,2)] by metis
  obtain v' w2 where p: "patch_node kube n ?p w1 = (Inr v', w2)" "inv w2" "patch_effect ?p v v'"
      "nodes w2 = (nodes w1)(n \<mapsto> v')"
    using patch_found[OF r1(2) wf_patch_taints[of "Some ?ts"], of n v] assms(2) r1(3) by auto
  then have "nodes w2 n = Some v'" by simp
  then obtain w' where r2: "read_node_checked c n kube w2 = (Inr v', w')" "inv w'"
      "nodes w' = nodes w2"
    using read_found[OF p(2)] by metis
  have ts: "node_taints v' = Some ?ts"
    using p(3) by (simp add: patch_effect_def)
  have known: "\<forall>t \<in> set ?ts. known_taint t"
    using assms(3) by (intro known_taints_by_id) (simp add: taints_ok_def)
  obtain ss where both: "to_taint_specs ?ts w' = (Inr ss, w') \<and> map spec_taint ss = ?ts"
    by (rule exE[OF to_taint_specs_known[OF known]])
  note ss = both[THEN conjunct1] both[THEN conjunct2]
  have translated: "bind_io (translate_kube_errors c what nf (patch_node kube n ?p)) f w1 = f v' w2"
    for what nf and f :: "v1_node \<Rightarrow> ('w, 'z) call"
    by (rule bind_io_Inr) (use p(1) in simp)
  have run: "taint_node c n kube set_opt remove_opt w =
      (Inr \<lparr>nt_status = ''success'', nt_cluster = c, nt_node = n, nt_action = ''taint'',
         nt_taints = ss\<rparr>, w')"
    unfolding taint_node_def Let_def bind_io_Inr[where m = "read_node_checked c n kube", OF r1(1)]
      if_P[OF assms(4)] bind_io_assoc
    by (simp add: translated r2(1) ss(1) ts del: map_map)
  have "taint_map v' = edited_taints (taint_map v) ?s ?r"
    using assms(3) taints_by_id_edited[of v ?r ?s] unfolding taint_map_def ts taints_ok_def
    by (simp del: map_map)
  moreover have "taints_ok v'"
    using known distinct_taints_by_id by (simp add: taints_ok_def ts del: map_map)
  ultimately show ?thesis using run p(4) r1(3) r2(2,3) ss(2) ts by auto
qed

end

section \<open>Drain on a cluster that terminates pods at once\<close>

definition on_node :: "string \<Rightarrow> v1_pod \<Rightarrow> bool" where
  "on_node n p \<longleftrightarrow>
     (case pod_spec p of None \<Rightarrow> None | Some sp \<Rightarrow> ps_node_name sp) = Some n"

definition targets :: "drain_options \<Rightarrow> string \<Rightarrow> v1_pod list \<Rightarrow> v1_pod list" where
  "targets options n ps = filter (evictable options) (filter (on_node n) ps)"

definition without :: "(string \<times> string) set \<Rightarrow> v1_pod list \<Rightarrow> v1_pod list" where
  "without ids ps = filter (\<lambda>p. pod_id p \<notin> ids) ps"

lemma without_empty [simp]: "without {} ps = ps"
  and without_insert: "without (insert i ids) ps = without ids (without {i} ps)"
  by (auto simp: without_def intro!: filter_cong)

lemma without_targets:
  assumes "distinct (map pod_id ps)"
  shows "without (pod_id ` set (targets options n ps)) ps =
    filter (\<lambda>p. \<not> (on_node n p \<and> evictable options p)) ps"
  unfolding without_def
proof (rule filter_cong[OF refl])
  fix p assume p: "p \<in> set ps"
  have "pod_id p \<in> pod_id ` set (targets options n ps) \<longleftrightarrow> p \<in> set (targets options n ps)"
    using assms p by (auto simp: targets_def distinct_map dest: inj_onD)
  with p show "pod_id p \<notin> pod_id ` set (targets options n ps) \<longleftrightarrow>
      \<not> (on_node n p \<and> evictable options p)"
    by (auto simp: targets_def)
qed

text \<open>\<open>evict_law\<close> and \<open>delete_law\<close> say that a pod is gone once the call returns, as the
  dry-run cluster does.\<close>

locale drain_store = node_store kube nodes inv + drain_clock clk kube
  for kube :: "'w core_v1_api" and nodes :: "'w \<Rightarrow> string \<rightharpoonup> v1_node" and inv :: "'w \<Rightarrow> bool"
    and clk :: "'w clock" +
  fixes pods :: "'w \<Rightarrow> v1_pod list"
  assumes pods_distinct: "inv w \<Longrightarrow> distinct (map pod_id (pods w))"
    and patch_pods: "inv w \<Longrightarrow> wf_patch p \<Longrightarrow> pods (snd (patch_node kube n p w)) = pods w"
    and select_law: "inv w \<Longrightarrow> nodes w n \<noteq> None \<Longrightarrow>
      list_pod_for_all_namespaces kube (Some (node_selector n)) w = (rl, w') \<Longrightarrow>
      rl = Inr (filter (on_node n) (pods w)) \<and> inv w' \<and> nodes w' = nodes w \<and> pods w' = pods w"
    and evict_law: "inv w \<Longrightarrow> create_namespaced_pod_eviction kube nm ns g w = (re, w') \<Longrightarrow>
      inv w' \<and> nodes w' = nodes w \<and> pods w' = without {(ns, nm)} (pods w) \<and>
      (re = Inr () \<or> (\<exists>reason. re = Inl (ApiException (Some 404) reason)))"
    and delete_law: "inv w \<Longrightarrow> delete_namespaced_pod kube nm ns g w = (re, w') \<Longrightarrow>
      inv w' \<and> nodes w' = nodes w \<and> pods w' = without {(ns, nm)} (pods w) \<and>
      (re = Inr () \<or> (\<exists>reason. re = Inl (ApiException (Some 404) reason)))"
begin

lemma evict_or_delete_spec:
  assumes "inv w"
  obtains w' where "evict_or_delete c kube nm ns options w = (Inr (), w')" and "inv w'"
    and "nodes w' = nodes w" and "pods w' = without {(ns, nm)} (pods w)"
proof (cases "disable_eviction options")
  case True
  obtain r w' where run: "delete_namespaced_pod kube nm ns (grace_period_seconds options) w = (r, w')"
    by (metis prod.exhaust)
  with delete_law[OF assms run] show ?thesis
    by (intro that[of w']) (auto simp: evict_or_delete_def True catch_io_def)
next
  case False
  obtain r w' where
    run: "create_namespaced_pod_eviction kube nm ns (grace_period_seconds options) w = (r, w')"
    by (metis prod.exhaust)
  with evict_law[OF assms run] show ?thesis
    by (intro that[of w']) (auto simp: evict_or_delete_def False catch_io_def)
qed

lemma evict_all_spec:
  assumes "inv w"
  shows "\<exists>w'. for_io (\<lambda>p. evict_or_delete c kube (pod_name p) (pod_namespace p) options) ps w
      = (Inr (), w') \<and> inv w' \<and> nodes w' = nodes w \<and> pods w' = without (pod_id ` set ps) (pods w)"
  using assms
proof (induction ps arbitrary: w)
  case (Cons p ps)
  obtain w1 where e: "evict_or_delete c kube (pod_name p) (pod_namespace p) options w = (Inr (), w1)"
      "inv w1" "nodes w1 = nodes w" "pods w1 = without {pod_id p} (pods w)"
    using evict_or_delete_spec[OF Cons.prems] unfolding pod_id_def by metis
  obtain w' where "for_io (\<lambda>p. evict_or_delete c kube (pod_name p) (pod_namespace p) options) ps w1
      = (Inr (), w') \<and> inv w' \<and> nodes w' = nodes w1 \<and> pods w' = without (pod_id ` set ps) (pods w1)"
    using Cons.IH[OF e(2)] by blast
  with e show ?case
    by (auto simp: without_insert[of "pod_id p" "pod_id ` set ps"])
qed simp

lemma request_evictions_spec:
  assumes "inv w" and "nodes w n = Some v"
  shows "\<exists>v' w'. patch_effect (scheduling True) v v' \<and> inv w' \<and> nodes w' = (nodes w)(n \<mapsto> v') \<and>
    (if \<exists>p \<in> set (pods w). on_node n p \<and> protected_pod options p
     then pods w' = pods w \<and> request_evictions c n kube options w =
       (Inl (App (DrainBlockedException n (map (refusal_of options)
          (filter (protected_pod options) (filter (on_node n) (pods w)))))), w')
     else pods w' = without (pod_id ` set (targets options n (pods w))) (pods w) \<and>
       request_evictions c n kube options w = (Inr (targets options n (pods w)), w'))"
proof -
  obtain v' w1 where p: "patch_node kube n (scheduling True) w = (Inr v', w1)" "inv w1"
      "patch_effect (scheduling True) v v'" "nodes w1 = (nodes w)(n \<mapsto> v')"
    using patch_found[OF assms(1) _ assms(2), of "scheduling True"] by auto
  have cordon: "cordon c n kube w = (Inr (action_data c n ''cordon''), w1)"
    using p(1) by (simp add: cordon_def patch_unschedulable_def bind_io_Inr_iff)
  have pods1: "pods w1 = pods w" using patch_pods[OF assms(1), of "scheduling True" n] p(1) by simp
  obtain r w2 where l: "list_pod_for_all_namespaces kube (Some (node_selector n)) w1 = (r, w2)"
    by (metis prod.exhaust)
  have sel: "r = Inr (filter (on_node n) (pods w))" "inv w2" "nodes w2 = nodes w1" "pods w2 = pods w"
    using select_law[OF p(2) _ l] p(4) pods1 by auto
  note list = l[unfolded sel(1)]
  show ?thesis
  proof (cases "\<exists>p \<in> set (pods w). on_node n p \<and> protected_pod options p")
    case True
    then have "\<exists>p \<in> set (filter (on_node n) (pods w)). protected_pod options p" by auto
    from request_evictions_blocked[OF cordon list this] True p(3,4) sel(2-) show ?thesis by auto
  next
    case False
    then have none: "filter (protected_pod options) (filter (on_node n) (pods w)) = []"
      by (auto simp: filter_empty_conv)
    obtain w' where ev: "for_io (\<lambda>p. evict_or_delete c kube (pod_name p) (pod_namespace p) options)
        (targets options n (pods w)) w2 = (Inr (), w')" "inv w'" "nodes w' = nodes w2"
        "pods w' = without (pod_id ` set (targets options n (pods w))) (pods w2)"
      using evict_all_spec[OF sel(2)] by blast
    have "request_evictions c n kube options w = (Inr (targets options n (pods w)), w')"
      unfolding request_evictions_def
      by (simp add: cordon translate_eval list classify_pods_eq none ev(1) del: filter_filter
          flip: targets_def)
    with ev p(3,4) sel(3,4) False show ?thesis by auto
  qed
qed

lemma drain_spec:
  assumes "inv w" and "nodes w n = Some v"
    and "\<not> (\<exists>p \<in> set (pods w). on_node n p \<and> protected_pod options p)"
  shows "\<exists>v' w'. drain clk t c n kube options w =
      Some (Inr (drain_result c n options (targets options n (pods w)) {}), w') \<and>
    inv w' \<and> patch_effect (scheduling True) v v' \<and> nodes w' = (nodes w)(n \<mapsto> v') \<and>
    pods w' = filter (\<lambda>p. \<not> (on_node n p \<and> evictable options p)) (pods w)"
proof -
  let ?ts = "targets options n (pods w)"
  obtain v' w1 where v': "patch_effect (scheduling True) v v'" "nodes w1 = (nodes w)(n \<mapsto> v')"
    and w1: "inv w1" "pods w1 = without (pod_id ` set ?ts) (pods w)"
    and req: "request_evictions c n kube options w = (Inr ?ts, w1)"
    using request_evictions_spec[OF assms(1,2), of options c] unfolding if_not_P[OF assms(3)]
    by blast
  have "\<exists>w'. wait_for_pods_gone clk c kube n (set (map pod_id ?ts)) t w1 = Some (Inr {}, w') \<and>
      inv w' \<and> nodes w' = nodes w1 \<and> pods w' = pods w1"
  proof (cases "set (map pod_id ?ts) = {}")
    case True
    with w1 show ?thesis by (simp add: wait_for_pods_gone_def)
  next
    case False
    obtain r w2 where l: "list_pod_for_all_namespaces kube (Some (node_selector n)) w1 = (r, w2)"
      by (metis prod.exhaust)
    have sel: "r = Inr (filter (on_node n) (pods w1))" "inv w2" "nodes w2 = nodes w1" "pods w2 = pods w1"
      using select_law[OF w1(1) _ l] v'(2) by auto
    have gone: "pod_id p \<notin> pod_id ` set ?ts" if "p \<in> set (pods w1)" for p
      using that unfolding w1(2) without_def by simp
    have "{} = {i \<in> set (map pod_id (filter (on_node n) (pods w1))). i \<in> set (map pod_id ?ts)}"
      unfolding set_map set_filter using gone by blast
    from wait_loop_round[OF _ this, of "poll_pods c kube n" w1 w2 clk]
    have "wait_loop clk (poll_pods c kube n) (set (map pod_id ?ts)) d w1 = Some (Inr {}, w2)" for d
      using l sel(1) by (simp add: poll_pods_def)
    with False sel(2-) show ?thesis by (auto simp: wait_for_pods_gone_def)
  qed
  then obtain w' where "wait_for_pods_gone clk c kube n (set (map pod_id ?ts)) t w1 = Some (Inr {}, w')"
    and "inv w'" "nodes w' = nodes w1" "pods w' = pods w1" by blast
  with req v' w1 without_targets[OF pods_distinct[OF assms(1)], of options n] show ?thesis
    by (intro exI[of _ v'] exI[of _ w']) (simp add: drain_def)
qed

lemma drain_refused:
  assumes "inv w" and "nodes w n = Some v"
    and "\<exists>p \<in> set (pods w). on_node n p \<and> protected_pod options p"
  shows "\<exists>v' w'. drain clk t c n kube options w =
      Some (Inl (App (DrainBlockedException n (map (refusal_of options)
        (filter (protected_pod options) (filter (on_node n) (pods w)))))), w') \<and>
    inv w' \<and> patch_effect (scheduling True) v v' \<and> nodes w' = (nodes w)(n \<mapsto> v') \<and> pods w' = pods w"
proof -
  obtain v' w' where "patch_effect (scheduling True) v v'" "nodes w' = (nodes w)(n \<mapsto> v')" "inv w'"
      "pods w' = pods w" and req: "request_evictions c n kube options w =
       (Inl (App (DrainBlockedException n (map (refusal_of options)
          (filter (protected_pod options) (filter (on_node n) (pods w)))))), w')"
    using request_evictions_spec[OF assms(1,2), of options c] unfolding if_P[OF assms(3)] by blast
  then show ?thesis by (intro exI[of _ v'] exI[of _ w']) (simp add: drain_def)
qed

end

end
