(* ===== verification/Dry_Run_Facts.thy ===== *)
theory Dry_Run_Facts
  imports Cluster_Contract
begin

text \<open>
  The dry-run cluster keeps the contract of the node operations, so the drain, the batches and the
  edits are specified on it outright; clusters do not interfere, and every state a sequence of
  calls can reach keeps the invariant.
\<close>

section \<open>The invariant\<close>

definition plain_name :: "string \<Rightarrow> bool" where
  "plain_name n \<longleftrightarrow> n \<noteq> [] \<and> CHR '','' \<notin> set n \<and> strip n = n"

definition state_inv :: "kube_state \<Rightarrow> bool" where
  "state_inv s \<longleftrightarrow>
     wf_dict (ks_nodes s) \<and> (\<forall>(k, v) \<in> set (ks_nodes s). node_name v = k \<and> plain_name k) \<and>
     distinct (map pod_id (ks_pods s)) \<and>
     wf_dict (ks_namespaces s) \<and> (\<forall>(k, v) \<in> set (ks_namespaces s). ns_name v = k)"

definition dry_inv :: "string \<Rightarrow> dry_world \<Rightarrow> bool" where
  "dry_inv cluster w \<longleftrightarrow> state_inv (state_for cluster w)"

definition dry_nodes :: "string \<Rightarrow> dry_world \<Rightarrow> string \<rightharpoonup> v1_node" where
  "dry_nodes cluster w = dict_get (ks_nodes (state_for cluster w))"

definition dry_pods :: "string \<Rightarrow> dry_world \<Rightarrow> v1_pod list" where
  "dry_pods cluster w = ks_pods (state_for cluster w)"

lemma state_for_put [simp]:
  "state_for c (put_state c' s w) = (if c = c' then s else state_for c w)"
  by (simp add: state_for_def put_state_def)

lemma now_put [simp]: "now (put_state c s w) = now w"
  by (simp add: put_state_def)

lemma state_for_now [simp]: "state_for c (w\<lparr>now := t\<rparr>) = state_for c w"
  by (simp add: state_for_def)

lemma state_inv_initial [simp]: "state_inv initial_state"
  unfolding state_inv_def
proof (intro conjI)
  show "wf_dict (ks_nodes initial_state)" by code_simp
  show "\<forall>(k, v) \<in> set (ks_nodes initial_state). node_name v = k \<and> plain_name k" by code_simp
  show "distinct (map pod_id (ks_pods initial_state))" by code_simp
  show "wf_dict (ks_namespaces initial_state)" by code_simp
  show "\<forall>(k, v) \<in> set (ks_namespaces initial_state). ns_name v = k" by code_simp
qed

lemma state_inv_reset: "dry_inv c (reset_dry_run_clusters w)"
  by (simp add: dry_inv_def reset_dry_run_clusters_def state_for_def)

lemma on_state_eq:
  "on_state c f w = (r, w') \<longleftrightarrow>
     (\<exists>s. f (state_for c w) = (r, s) \<and> w' = put_state c s w)"
  by (auto simp: on_state_def split: prod.split)

text \<open>An operation on one cluster leaves the others alone.\<close>

lemma on_state_frame: "on_state c f w = (r, w') \<Longrightarrow> c' \<noteq> c \<Longrightarrow> state_for c' w' = state_for c' w"
  by (auto simp: on_state_eq)

lemma dict_set_entries:
  assumes "\<forall>(k, v) \<in> set d. P k v" and "P k v"
  shows "\<forall>(k, v) \<in> set (dict_set k v d). P k v"
  using assms by (auto dest!: set_dict_set)

lemma nodes_entry:
  assumes "state_inv s" and "dict_get (ks_nodes s) n = Some v"
  shows "node_name v = n \<and> plain_name n"
proof -
  from assms(2) have "(n, v) \<in> set (ks_nodes s)" by (rule map_of_SomeD)
  with assms(1) show ?thesis by (auto simp: state_inv_def)
qed

lemma state_inv_patch:
  assumes "state_inv s" and "dict_get (ks_nodes s) n = Some v"
  shows "state_inv (s\<lparr>ks_nodes := dict_set n (patched_node p v) (ks_nodes s)\<rparr>)"
proof -
  have "node_name (patched_node p v) = n \<and> plain_name n"
    using nodes_entry[OF assms] by (simp add: patched_node_def)
  moreover from assms(1) have "\<forall>(k, v) \<in> set (ks_nodes s). node_name v = k \<and> plain_name k"
    by (simp add: state_inv_def)
  ultimately have "\<forall>(k, v) \<in> set (dict_set n (patched_node p v) (ks_nodes s)).
      node_name v = k \<and> plain_name k"
    by (intro dict_set_entries)
  with assms(1) show ?thesis by (simp add: state_inv_def)
qed

section \<open>Pods\<close>

lemma pop_pod_without:
  "distinct (map pod_id ps) \<Longrightarrow>
     (case pop_pod ns nm ps of Some ps' \<Rightarrow> ps' = without {(ns, nm)} ps
      | None \<Rightarrow> without {(ns, nm)} ps = ps)"
proof (induction ps)
  case (Cons p ps)
  show ?case
  proof (cases "pod_id p = (ns, nm)")
    case True
    have "without {(ns, nm)} ps = ps"
      unfolding without_def using Cons.prems True by (intro filter_True) (auto simp: image_iff)
    with True show ?thesis by (simp add: pod_id_def without_def)
  next
    case False
    with Cons show ?thesis by (auto simp: without_def pod_id_def split: option.splits)
  qed
qed (simp add: without_def)

lemma select_clause_node:
  assumes "plain_name n"
  shows "foldl (\<lambda>items clause. select_clause clause items) ps (split_on CHR '','' (node_selector n))
    = filter (on_node n) ps"
proof -
  have no_comma: "CHR '','' \<notin> set (node_selector n)"
    using assms by (simp add: node_selector_def plain_name_def)
  have part: "str_partition ''='' (node_selector n) = (''spec.nodeName'', True, n)"
    by (simp add: node_selector_def)
  have "strip ''spec.nodeName'' = ''spec.nodeName''" by code_simp
  with assms part show ?thesis
    by (simp add: split_on_no_sep[OF no_comma] select_clause_def plain_name_def on_node_def[abs_def])
qed

lemma node_selector_nonempty: "node_selector n \<noteq> []"
  by (simp add: node_selector_def)

section \<open>Interpretations\<close>

interpretation dry_nodes: node_store "dry_run_core_v1_api c" "dry_nodes c" "dry_inv c" for c
proof (unfold_locales, goal_cases)
  case (1 w rl w')
  let ?items = "map snd (ks_nodes (state_for c w))"
  from 1(2) have run: "rl = Inr ?items" "w' = put_state c (state_for c w) w"
    by (auto simp: dry_run_core_v1_api_def on_state_eq dry_list_node_def)
  from 1(1) have inv: "wf_dict (ks_nodes (state_for c w))"
    and named: "\<forall>(k, v) \<in> set (ks_nodes (state_for c w)). node_name v = k"
    by (auto simp: dry_inv_def state_inv_def)
  have "map (\<lambda>n. (node_name n, n)) ?items = ks_nodes (state_for c w)"
    unfolding map_map by (rule map_idI) (use named in auto)
  moreover have "map node_name ?items = map fst (ks_nodes (state_for c w))"
    unfolding map_map by (rule map_cong[OF refl]) (use named in auto)
  ultimately show ?case
    using run 1(1) inv by (auto simp: dry_inv_def dry_nodes_def wf_dict_def simp del: map_map)
next
  case (2 w n rr w')
  then show ?case
    by (auto simp: dry_run_core_v1_api_def on_state_eq dry_read_node_def dry_inv_def dry_nodes_def
        sdk_not_found_def split: option.splits)
next
  case (3 w p n rp w')
  show ?case
  proof (cases "dict_get (ks_nodes (state_for c w)) n")
    case None
    with 3 show ?thesis
      by (auto simp: dry_run_core_v1_api_def on_state_eq dry_patch_node_def dry_inv_def
          dry_nodes_def sdk_not_found_def)
  next
    case (Some v)
    with 3 state_inv_patch[of "state_for c w" n v p] show ?thesis
      by (auto simp: dry_run_core_v1_api_def on_state_eq dry_patch_node_def dry_inv_def
          dry_nodes_def Let_def fun_eq_iff patch_effect_patched_node)
  qed
qed

interpretation dry_clk: drain_clock dry_clock "dry_run_core_v1_api c" for c
  by unfold_locales
    (auto simp: dry_clock_def dry_run_core_v1_api_def on_state_def split: prod.split)

lemma dry_remove_law:
  assumes "dry_inv c w" and "on_state c (dry_remove_pod ns nm) w = (re, w')"
  shows "dry_inv c w' \<and> dry_nodes c w' = dry_nodes c w \<and>
    dry_pods c w' = without {(ns, nm)} (dry_pods c w) \<and>
    (re = Inr () \<or> (\<exists>reason. re = Inl (ApiException (Some 404) reason)))"
proof -
  have dist: "distinct (map pod_id (ks_pods (state_for c w)))"
    using assms(1) by (simp add: dry_inv_def state_inv_def)
  have sub: "distinct (map pod_id (without {(ns, nm)} (ks_pods (state_for c w))))"
    using dist unfolding without_def by (rule distinct_map_filter)
  from pop_pod_without[OF dist, of ns nm] sub assms show ?thesis
    by (auto simp: on_state_eq dry_remove_pod_def dry_inv_def dry_nodes_def dry_pods_def
        sdk_not_found_def state_inv_def split: option.splits)
qed

interpretation dry_drain: drain_store "dry_run_core_v1_api c" "dry_nodes c" "dry_inv c" dry_clock
  "dry_pods c" for c
proof (unfold_locales, goal_cases)
  case (1 w)
  then show ?case by (simp add: dry_inv_def state_inv_def dry_pods_def)
next
  case (2 w p n)
  then show ?case
    by (auto simp: dry_run_core_v1_api_def on_state_def dry_patch_node_def dry_pods_def Let_def
        split: option.split)
next
  case (3 w n rl w')
  then obtain v where "dict_get (ks_nodes (state_for c w)) n = Some v" by (auto simp: dry_nodes_def)
  then have "plain_name n" using nodes_entry 3(1) unfolding dry_inv_def by blast
  with 3 show ?case
    by (auto simp: dry_run_core_v1_api_def on_state_eq dry_list_pods_def Let_def dry_inv_def
        dry_nodes_def dry_pods_def node_selector_nonempty select_clause_node)
next
  case (4 w nm ns g re w')
  then show ?case by (intro dry_remove_law) (simp_all add: dry_run_core_v1_api_def)
next
  case (5 w nm ns g re w')
  then show ?case by (intro dry_remove_law) (simp_all add: dry_run_core_v1_api_def)
qed

section \<open>What an operation on a cluster leaves alone\<close>

text \<open>Between two worlds, nothing differs but the pods and the contents of the nodes of one cluster: it has the
  same nodes in the same order and the same namespaces, every other cluster is as it was, and so is the clock.\<close>

definition same_elsewhere :: "string \<Rightarrow> dry_world \<Rightarrow> dry_world \<Rightarrow> bool" where
  "same_elsewhere c w w' \<longleftrightarrow>
     keys (ks_nodes (state_for c w')) = keys (ks_nodes (state_for c w)) \<and>
     ks_namespaces (state_for c w') = ks_namespaces (state_for c w) \<and>
     (\<forall>c'. c' \<noteq> c \<longrightarrow> state_for c' w' = state_for c' w) \<and> now w' = now w"

lemma same_elsewhere_refl [simp]: "same_elsewhere c w w"
  by (simp add: same_elsewhere_def)

lemma same_elsewhere_on_state:
  assumes "same_elsewhere c w w1" and "on_state c f w1 = (r, w2)"
    and "\<And>r s s'. f s = (r, s') \<Longrightarrow>
      keys (ks_nodes s') = keys (ks_nodes s) \<and> ks_namespaces s' = ks_namespaces s"
  shows "same_elsewhere c w w2"
  using assms by (auto simp: same_elsewhere_def on_state_eq)

lemma patch_keeps_keys: "dry_patch_node n p s = (r, s') \<Longrightarrow>
    keys (ks_nodes s') = keys (ks_nodes s) \<and> ks_namespaces s' = ks_namespaces s"
  by (auto simp: dry_patch_node_def keys_def update_keys map_of_eq_None_iff Let_def split: option.splits)
    (metis image_eqI fst_conv map_of_SomeD)

lemma dry_parts:
  "list_node (dry_run_core_v1_api c) = on_state c dry_list_node"
  "read_node (dry_run_core_v1_api c) n = on_state c (dry_read_node n)"
  "patch_node (dry_run_core_v1_api c) n p = on_state c (dry_patch_node n p)"
  "list_pod_for_all_namespaces (dry_run_core_v1_api c) sel = on_state c (dry_list_pods sel)"
  "create_namespaced_pod_eviction (dry_run_core_v1_api c) n ns g = on_state c (dry_remove_pod ns n)"
  "delete_namespaced_pod (dry_run_core_v1_api c) n ns g = on_state c (dry_remove_pod ns n)"
  by (simp_all add: dry_run_core_v1_api_def)

lemma dry_parts_elsewhere:
  assumes "same_elsewhere c w w1"
  shows "list_node (dry_run_core_v1_api c) w1 = (rl, w2) \<Longrightarrow> same_elsewhere c w w2"
    and "read_node (dry_run_core_v1_api c) n w1 = (rn, w2) \<Longrightarrow> same_elsewhere c w w2"
    and "patch_node (dry_run_core_v1_api c) n p w1 = (rn, w2) \<Longrightarrow> same_elsewhere c w w2"
    and "list_pod_for_all_namespaces (dry_run_core_v1_api c) sel w1 = (rp, w2) \<Longrightarrow> same_elsewhere c w w2"
    and "create_namespaced_pod_eviction (dry_run_core_v1_api c) n ns g w1 = (ru, w2) \<Longrightarrow> same_elsewhere c w w2"
    and "delete_namespaced_pod (dry_run_core_v1_api c) n ns g w1 = (ru, w2) \<Longrightarrow> same_elsewhere c w w2"
  unfolding dry_parts
  by (rule same_elsewhere_on_state[OF assms], assumption,
      auto simp: dry_list_node_def dry_read_node_def dry_list_pods_def dry_remove_pod_def Let_def
        dest: patch_keeps_keys split: option.splits)+

text \<open>So the contract holds with the frame as part of the invariant, and every lemma of it keeps the frame.\<close>

interpretation dry_frame: drain_store "dry_run_core_v1_api c" "dry_nodes c"
  "\<lambda>w. dry_inv c w \<and> same_elsewhere c start w" dry_clock "dry_pods c" for c start
proof (unfold_locales, goal_cases)
  case (1 w rl w')
  then show ?case using dry_nodes.list_law[of c w rl w'] dry_parts_elsewhere(1) by blast
next
  case (2 w n rr w')
  then show ?case using dry_nodes.read_law[of c w n rr w'] dry_parts_elsewhere(2) by blast
next
  case (3 w p n rp w')
  then show ?case using dry_nodes.patch_law[of c w p n rp w'] dry_parts_elsewhere(3) by blast
next
  case (4 w)
  then show ?case using dry_drain.pods_distinct by blast
next
  case (5 w p n)
  then show ?case using dry_drain.patch_pods by blast
next
  case (6 w n rl w')
  then show ?case using dry_drain.select_law[of c w n rl w'] dry_parts_elsewhere(4) by blast
next
  case (7 w nm ns g re w')
  then show ?case using dry_drain.evict_law[of c w nm ns g re w'] dry_parts_elsewhere(5) by blast
next
  case (8 w nm ns g re w')
  then show ?case using dry_drain.delete_law[of c w nm ns g re w'] dry_parts_elsewhere(6) by blast
qed

section \<open>A fresh process\<close>

definition fresh :: dry_world where
  "fresh = \<lparr>cluster_states = [], now = 0\<rparr>"

lemma fresh_inv: "dry_inv c fresh"
  by (simp add: dry_inv_def state_for_def fresh_def)

lemma run_pair: "fst (m w) = r \<Longrightarrow> m w = (r, snd (m w))"
  by (metis prod.collapse)

end
