(* ===== verification/Node_Batch.thy ===== *)
theory Node_Batch
  imports Policy_Service Kube_Client Node_Service
begin

text \<open>
  \<open>app/services/node_batch_service.py\<close>: a batch cordon or uncordon under the access policy. Nodes
  the policy refuses come back as failures; a batch refused entirely never resolves the cluster.
\<close>

datatype batch_action = CordonBatch | UncordonBatch

fun batch_action_str :: "batch_action \<Rightarrow> string" where
  "batch_action_str CordonBatch = ''cordon''"
| "batch_action_str UncordonBatch = ''uncordon''"

fun POLICY_ACTION :: "batch_action \<Rightarrow> policy_action" where
  "POLICY_ACTION CordonBatch = NODE_CORDON"
| "POLICY_ACTION UncordonBatch = NODE_UNCORDON"

type_synonym 'w access = "('w, 'w core_v1_api) kube_access"

definition node_batch ::
  "batch_action \<Rightarrow> string \<Rightarrow> string list \<Rightarrow> 'w core_v1_api \<Rightarrow> (string, string) dict \<Rightarrow>
   ('w, batch_node_action_data) call" where
  "node_batch action cluster names kube denied =
     (if action = CordonBatch then cordon_many cluster names kube (Some denied)
      else uncordon_many cluster names kube (Some denied))"

definition run_batch ::
  "'w policy_repository \<Rightarrow> 'w access \<Rightarrow> user \<Rightarrow> string \<Rightarrow> batch_action \<Rightarrow> string list \<Rightarrow>
   ('w, batch_node_action_data) may_call" where
  "run_batch get_policies access user cluster action node_names =
     (let names = unique_node_names node_names
      in bind_may
           (always (denied_nodes get_policies user (action_str (POLICY_ACTION action)) cluster names))
           (\<lambda>denied.
              if names \<noteq> [] \<and> list_all (\<lambda>n. dict_get denied n \<noteq> None) names
              then return_may (batch_data cluster (batch_action_str action)
                (map (\<lambda>n. denied_result n (or_else (dict_get denied n) [])) names))
              else call_kube access cluster
                (\<lambda>kube. always (node_batch action cluster names kube denied))))"

end
