(* ===== verification/Paging.thy ===== *)
theory Paging
  imports Kube_Model
begin

text \<open>
  The paging loop of the namespace and ConfigMap listings: fetch a page, keep what the filter
  keeps, follow the continue token until a page has none. The two loops of the services differ
  only in the fetch and in the filter, which are arguments here.

  \<open>paged_source\<close> is the contract of a paged listing: a token stands for a position, and pages
  tile the list. On such a source the loop ends and answers for the whole list, whatever the page
  boundaries.
\<close>

definition PAGE_SIZE :: nat where
  "PAGE_SIZE = 500"

definition last_page :: "'a page \<Rightarrow> bool" where
  "last_page p = (page_continue p = None \<or> page_continue p = Some [])"

text \<open>\<open>keep\<close> may raise: building a response item is a validation.\<close>

partial_function (option) collect_pages ::
  "(string option \<Rightarrow> ('w, 'a page) call) \<Rightarrow> ('a list \<Rightarrow> exn + 'b list) \<Rightarrow> string option \<Rightarrow>
   'b list \<Rightarrow> 'w \<Rightarrow> ((exn + 'b list) \<times> 'w) option" where
  "collect_pages fetch keep token collected w =
     (case fetch token w of
        (Inl e, w1) \<Rightarrow> Some (Inl e, w1)
      | (Inr p, w1) \<Rightarrow>
          (case keep (page_items p) of
             Inl e \<Rightarrow> Some (Inl e, w1)
           | Inr xs \<Rightarrow>
               (if last_page p then Some (Inr (collected @ xs), w1)
                else collect_pages fetch keep (page_continue p) (collected @ xs) w1)))"

text \<open>Building items one by one, stopping at the first that does not validate.\<close>

fun build_all :: "('a \<Rightarrow> exn + 'b) \<Rightarrow> 'a list \<Rightarrow> exn + 'b list" where
  "build_all f [] = Inr []"
| "build_all f (x # xs) =
     (case f x of
        Inl e \<Rightarrow> Inl e
      | Inr y \<Rightarrow> (case build_all f xs of Inl e \<Rightarrow> Inl e | Inr ys \<Rightarrow> Inr (y # ys)))"

lemma build_all_append:
  "build_all f (xs @ ys) =
     (case build_all f xs of
        Inl e \<Rightarrow> Inl e
      | Inr as \<Rightarrow> (case build_all f ys of Inl e \<Rightarrow> Inl e | Inr bs \<Rightarrow> Inr (as @ bs)))"
  by (induction xs) (auto split: sum.splits)

lemma build_all_pure: "build_all (\<lambda>x. Inr (f x)) xs = Inr (map f xs)"
  by (induction xs) auto

lemma build_all_Inr:
  assumes "\<And>x. x \<in> set xs \<Longrightarrow> f x = Inr (g x)"
  shows "build_all f xs = Inr (map g xs)"
  using assms by (induction xs) auto

text \<open>A filter followed by building is a homomorphism into the error monad.\<close>

definition splits_pages :: "('a list \<Rightarrow> exn + 'b list) \<Rightarrow> bool" where
  "splits_pages keep \<longleftrightarrow> keep [] = Inr [] \<and>
     (\<forall>xs ys. keep (xs @ ys) =
        (case keep xs of
           Inl e \<Rightarrow> Inl e
         | Inr as \<Rightarrow> (case keep ys of Inl e \<Rightarrow> Inl e | Inr bs \<Rightarrow> Inr (as @ bs))))"

lemma splits_pages_build: "splits_pages (\<lambda>xs. build_all f (filter P xs))"
  by (simp add: splits_pages_def build_all_append)

locale paged_source =
  fixes fetch :: "string option \<Rightarrow> ('w, 'a page) call"
    and items :: "'w \<Rightarrow> 'a list"
    and at :: "string option \<Rightarrow> nat"
  assumes starts: "at None = 0"
    and page_law: "at t \<le> length (items w) \<Longrightarrow> fetch t w = (r, w') \<Longrightarrow>
      items w' = items w \<and> (\<exists>p. r = Inr p \<and>
        page_items p = take (length (page_items p)) (drop (at t) (items w)) \<and>
        (if last_page p then at t + length (page_items p) = length (items w)
         else at t < at (page_continue p) \<and>
           at (page_continue p) = at t + length (page_items p) \<and>
           at (page_continue p) \<le> length (items w)))"
begin

lemma collect_from:
  assumes "splits_pages keep" and "at t \<le> length (items w)"
  shows "\<exists>w'. items w' = items w \<and> collect_pages fetch keep t collected w =
    Some (case keep (drop (at t) (items w)) of
            Inl e \<Rightarrow> Inl e | Inr xs \<Rightarrow> Inr (collected @ xs), w')"
  using assms(2)
proof (induction "length (items w) - at t" arbitrary: t w collected rule: less_induct)
  case less
  obtain r w1 where run: "fetch t w = (r, w1)" by (metis prod.exhaust)
  from page_law[OF less.prems run] obtain p where p: "r = Inr p" "items w1 = items w"
      "page_items p = take (length (page_items p)) (drop (at t) (items w))"
    and bounds: "if last_page p then at t + length (page_items p) = length (items w)
         else at t < at (page_continue p) \<and>
           at (page_continue p) = at t + length (page_items p) \<and>
           at (page_continue p) \<le> length (items w)"
    by blast
  have tile: "drop (at t) (items w) = page_items p @ drop (at t + length (page_items p)) (items w)"
    using p(3) by (metis add.commute append_take_drop_id drop_drop)
  have keep_tile: "keep (drop (at t) (items w)) =
      (case keep (page_items p) of
         Inl e \<Rightarrow> Inl e
       | Inr as \<Rightarrow> (case keep (drop (at t + length (page_items p)) (items w)) of
                     Inl e \<Rightarrow> Inl e | Inr bs \<Rightarrow> Inr (as @ bs)))"
    using assms(1) unfolding tile splits_pages_def by blast
  show ?case
  proof (cases "keep (page_items p)")
    case (Inl e)
    then show ?thesis
      using run p(1,2) keep_tile by (subst collect_pages.simps) auto
  next
    case (Inr as)
    show ?thesis
    proof (cases "last_page p")
      case True
      then have "drop (at t + length (page_items p)) (items w) = []" using bounds by simp
      moreover have "keep [] = Inr []" using assms(1) by (simp add: splits_pages_def)
      ultimately show ?thesis
        using run p(1,2) keep_tile Inr True by (subst collect_pages.simps) auto
    next
      case False
      then have next_bounds: "at t < at (page_continue p)"
          "at (page_continue p) = at t + length (page_items p)"
          "at (page_continue p) \<le> length (items w1)"
        using bounds p(2) by auto
      have "length (items w1) - at (page_continue p) < length (items w) - at t"
        using next_bounds unfolding p(2) by linarith
      from less.hyps[OF this next_bounds(3), of "collected @ as"] obtain w' where
        "items w' = items w1" and "collect_pages fetch keep (page_continue p) (collected @ as) w1 =
          Some (case keep (drop (at (page_continue p)) (items w1)) of
                  Inl e \<Rightarrow> Inl e | Inr xs \<Rightarrow> Inr ((collected @ as) @ xs), w')"
        by blast
      then show ?thesis
        using run p(1,2) keep_tile Inr False next_bounds(2)
        by (subst collect_pages.simps) (auto split: sum.splits)
    qed
  qed
qed

lemma collect_all:
  assumes "splits_pages keep"
  shows "\<exists>w'. items w' = items w \<and> collect_pages fetch keep None [] w = Some (keep (items w), w')"
proof -
  obtain w' where "items w' = items w" and "collect_pages fetch keep None [] w =
      Some (case keep (items w) of Inl e \<Rightarrow> Inl e | Inr xs \<Rightarrow> Inr ([] @ xs), w')"
    using collect_from[OF assms, of None w "[]"] starts by auto
  moreover have "(case keep (items w) of Inl e \<Rightarrow> Inl e | Inr xs \<Rightarrow> Inr ([] @ xs)) = keep (items w)"
    by (simp split: sum.split)
  ultimately show ?thesis by auto
qed

end

end
