(* ===== verification/Namespace_Service.thy ===== *)
theory Namespace_Service
  imports Paging Domain_Models Kubernetes_Models
begin

text \<open>
  \<open>app/services/namespace_service.py\<close>: creating, listing, reading and editing namespaces. The
  service's two constructor arguments, the provenance prefix and the clock, are arguments of the
  operations that use them; the clock answers UTC, to the second.
\<close>

definition NS_LAST_APPLIED :: string where
  "NS_LAST_APPLIED = ''kubectl.kubernetes.io/last-applied-configuration''"

definition PHASES :: "(string, string) dict" where
  "PHASES = map (\<lambda>p. (lower p, p)) [''Active'', ''Terminating'']"

section \<open>Conversions\<close>

definition phase_of :: "v1_namespace \<Rightarrow> string" where
  "phase_of ns = str_or (ns_phase ns) ''Active''"

definition readable_annotations :: "v1_namespace \<Rightarrow> str_map" where
  "readable_annotations ns =
     filter (\<lambda>(k, v). k \<noteq> NS_LAST_APPLIED) (or_else (ns_annotations ns) [])"

text \<open>The response models declare the status as one of the two phases, and refuse any other.\<close>

definition known_phase :: "string \<Rightarrow> bool" where
  "known_phase p = (p \<in> set (map snd PHASES))"

definition to_detail :: "string \<Rightarrow> v1_namespace \<Rightarrow> exn + namespace_detail_data" where
  "to_detail cluster ns =
     (if \<not> known_phase (phase_of ns) then Inl (PyError ''ValidationError'')
      else Inr \<lparr>nsd_cluster = cluster, nsd_name = ns_name ns, nsd_status = phase_of ns,
                nsd_labels = or_else (ns_labels ns) [], nsd_annotations = readable_annotations ns,
                nsd_creation_timestamp = ns_creation_timestamp ns,
                nsd_deletion_timestamp = ns_deletion_timestamp ns\<rparr>)"

definition to_summary :: "v1_namespace \<Rightarrow> exn + namespace_summary" where
  "to_summary ns =
     (if \<not> known_phase (phase_of ns) then Inl (PyError ''ValidationError'')
      else Inr \<lparr>nss_name = ns_name ns, nss_status = phase_of ns,
                nss_labels = or_else (ns_labels ns) [],
                nss_creation_timestamp = ns_creation_timestamp ns\<rparr>)"

definition lift_result :: "exn + 'a \<Rightarrow> ('w, 'a) call" where
  "lift_result r = (\<lambda>w. (r, w))"

definition namespace_not_found :: "string \<Rightarrow> string \<Rightarrow> app_exception" where
  "namespace_not_found cluster name = NamespaceNotFoundException
     (''Namespace '' @ quoted name @ '' not found in cluster '' @ quoted cluster @ ''.'')"

definition read_what :: "string \<Rightarrow> string \<Rightarrow> string" where
  "read_what cluster name = ''read namespace '' @ quoted name @ '' of cluster '' @ quoted cluster"

section \<open>Provenance\<close>

definition keys_under :: "string \<Rightarrow> string list \<Rightarrow> string list" where
  "keys_under pre ks = filter (\<lambda>k. is_under_domain k pre) (unique ks)"

definition named_keys :: "string \<Rightarrow> string \<Rightarrow> string list \<Rightarrow> string list" where
  "named_keys kind pre ks =
     (if keys_under pre ks = [] then [] else [kind @ '' keys '' @ repr_list (keys_under pre ks)])"

definition refuse_provenance_keys ::
  "string \<Rightarrow> string list \<Rightarrow> string list \<Rightarrow> ('w, unit) call" where
  "refuse_provenance_keys pre labels annotations =
     (let named = named_keys ''label'' pre labels @ named_keys ''annotation'' pre annotations
      in if named \<noteq> []
         then raise_io (App (ValidationException
           (join ''; '' named @ '' are under '' @ quoted pre
            @ '', which belongs to this service and cannot be written by a caller.'')))
         else return_io ())"

text \<open>\<open>strftime("%Y-%m-%dT%H:%M:%SZ")\<close>.\<close>

definition two_digits :: "nat \<Rightarrow> string" where
  "two_digits n = (if n < 10 then ''0'' @ str_of_nat n else str_of_nat n)"

definition timestamp :: "datetime \<Rightarrow> string" where
  "timestamp t =
     str_of_nat (dt_year t) @ ''-'' @ two_digits (dt_month t) @ ''-'' @ two_digits (dt_day t)
     @ ''T'' @ two_digits (dt_hour t) @ '':'' @ two_digits (dt_minute t) @ '':''
     @ two_digits (dt_second t) @ ''Z''"

definition provenance :: "string \<Rightarrow> datetime \<Rightarrow> string \<Rightarrow> caller \<Rightarrow> merge_patch" where
  "provenance pre now_utc verb caller =
     dict_update []
       [(pre @ ''/'' @ verb @ ''-by'', Some (caller_account caller)),
        (pre @ ''/'' @ verb @ ''-at'', Some (timestamp now_utc)),
        (pre @ ''/last-request-id'',
         if caller_request_id caller = [] then None else Some (caller_request_id caller))]"

definition not_null :: "merge_patch \<Rightarrow> str_map" where
  "not_null p = concat (map (\<lambda>(k, v). (case v of None \<Rightarrow> [] | Some x \<Rightarrow> [(k, x)])) p)"

section \<open>Create\<close>

definition already_exists ::
  "string \<Rightarrow> string \<Rightarrow> 'w core_v1_api \<Rightarrow> ('w, app_exception) call" where
  "already_exists cluster name kube =
     bind_io
       (translate_kube_errors cluster (read_what cluster name) None
          (catch_io
             (bind_io (read_namespace kube name) (\<lambda>ns. return_io (Some (phase_of ns))))
             (\<lambda>e. case e of
                    ApiException status _ \<Rightarrow>
                      (if status \<noteq> Some 404 then raise_io e else return_io None)
                  | _ \<Rightarrow> raise_io e)))
       (\<lambda>phase. return_io (NamespaceAlreadyExistsException
          (if phase = Some ''Terminating''
           then ''Namespace '' @ quoted name @ '' in cluster '' @ quoted cluster
                @ '' is being deleted; its name cannot be reused until the deletion finishes.''
           else ''Namespace '' @ quoted name @ '' already exists in cluster '' @ quoted cluster
                @ ''.'')
          (JObj [(''name'', JStr name), (''status'', json_opt_str phase)])))"

definition create_body ::
  "string \<Rightarrow> datetime \<Rightarrow> string \<Rightarrow> str_map \<Rightarrow> caller \<Rightarrow> str_map option \<Rightarrow> namespace_body" where
  "create_body pre now_utc name labels caller annotations =
     \<lparr>nb_name = name, nb_labels = (if labels = [] then None else Some labels),
      nb_annotations =
        dict_update (dict_update [] (or_else annotations []))
          (not_null (provenance pre now_utc ''created'' caller))\<rparr>"

definition create_namespace_op ::
  "string \<Rightarrow> ('w \<Rightarrow> datetime) \<Rightarrow> string \<Rightarrow> string \<Rightarrow> str_map \<Rightarrow> caller \<Rightarrow> 'w core_v1_api \<Rightarrow>
   str_map option \<Rightarrow> ('w, namespace_detail_data) call" where
  "create_namespace_op pre clock_utc cluster name labels caller kube annotations =
     bind_io (refuse_provenance_keys pre (keys labels) (keys (or_else annotations []))) (\<lambda>_.
     bind_io
       (translate_kube_errors cluster
          (''create namespace '' @ quoted name @ '' in cluster '' @ quoted cluster) None
          (catch_io
             (\<lambda>w. create_namespace kube
                (create_body pre (clock_utc w) name labels caller annotations) w)
             (\<lambda>e. case e of
                    ApiException status _ \<Rightarrow>
                      (if status \<noteq> Some 409 then raise_io e
                       else bind_io (already_exists cluster name kube) (\<lambda>exc. raise_io (App exc)))
                  | _ \<Rightarrow> raise_io e)))
       (\<lambda>ns. lift_result (to_detail cluster ns)))"

section \<open>Edit\<close>

definition refuse_reserved :: "string \<Rightarrow> string \<Rightarrow> ('w, unit) call" where
  "refuse_reserved name what =
     (if is_reserved_namespace_name name
      then raise_io (App (ValidationException
        (''Namespace '' @ quoted name @ '' is reserved for Kubernetes; its '' @ what
         @ '' cannot be changed through this service.'')))
      else return_io ())"

definition patch_namespace_checked ::
  "string \<Rightarrow> string \<Rightarrow> string \<Rightarrow> 'w core_v1_api \<Rightarrow> ('w \<Rightarrow> namespace_patch) \<Rightarrow>
   ('w, v1_namespace) call" where
  "patch_namespace_checked cluster what name kube body =
     translate_kube_errors cluster
       (''patch '' @ what @ '' on namespace '' @ quoted name @ '' of cluster '' @ quoted cluster)
       (Some (namespace_not_found cluster name))
       (\<lambda>w. patch_namespace kube name (body w) w)"

definition update_labels ::
  "string \<Rightarrow> ('w \<Rightarrow> datetime) \<Rightarrow> string \<Rightarrow> string \<Rightarrow> str_map \<Rightarrow> string list \<Rightarrow> caller \<Rightarrow>
   'w core_v1_api \<Rightarrow> ('w, namespace_labels_data) call" where
  "update_labels pre clock_utc cluster name set_labels remove_labels caller kube =
     bind_io (refuse_reserved name ''labels'') (\<lambda>_.
     bind_io (refuse_provenance_keys pre (keys set_labels @ remove_labels) []) (\<lambda>_.
     bind_io
       (patch_namespace_checked cluster ''labels'' name kube
          (\<lambda>w. \<lparr>nsp_labels = Some (key_merge_patch set_labels remove_labels),
                nsp_annotations = Some (provenance pre (clock_utc w) ''last-modified'' caller)\<rparr>))
       (\<lambda>ns. return_io \<lparr>nsl_cluster = cluster, nsl_name = name,
                         nsl_labels = or_else (ns_labels ns) []\<rparr>)))"

definition update_annotations ::
  "string \<Rightarrow> ('w \<Rightarrow> datetime) \<Rightarrow> string \<Rightarrow> string \<Rightarrow> str_map \<Rightarrow> string list \<Rightarrow> caller \<Rightarrow>
   'w core_v1_api \<Rightarrow> ('w, namespace_annotations_data) call" where
  "update_annotations pre clock_utc cluster name set_annotations remove_annotations caller kube =
     bind_io (refuse_reserved name ''annotations'') (\<lambda>_.
     bind_io (refuse_provenance_keys pre [] (keys set_annotations @ remove_annotations)) (\<lambda>_.
     bind_io
       (patch_namespace_checked cluster ''annotations'' name kube
          (\<lambda>w. \<lparr>nsp_labels = None,
                nsp_annotations = Some
                  (dict_update (key_merge_patch set_annotations remove_annotations)
                     (provenance pre (clock_utc w) ''last-modified'' caller))\<rparr>))
       (\<lambda>ns. return_io \<lparr>nsa_cluster = cluster, nsa_name = name,
                         nsa_annotations = readable_annotations ns\<rparr>)))"

section \<open>List and read\<close>

definition fetch_namespaces ::
  "string \<Rightarrow> 'w core_v1_api \<Rightarrow> string option \<Rightarrow> string option \<Rightarrow>
   ('w, v1_namespace page) call" where
  "fetch_namespaces cluster kube label_selector token =
     translate_kube_errors cluster (''list namespaces of cluster '' @ quoted cluster) None
       (catch_io (list_namespace kube label_selector PAGE_SIZE token)
          (\<lambda>e. case e of
                 ApiException status exc_reason \<Rightarrow>
                   (if status = Some 400
                    then raise_io (App (ValidationException
                      (''Invalid label selector '' @ quoted (or_else label_selector ''None'')
                       @ '': '' @ reason_text exc_reason)))
                    else raise_io e)
               | _ \<Rightarrow> raise_io e))"

definition namespace_selected ::
  "string list option \<Rightarrow> string list option \<Rightarrow> v1_namespace \<Rightarrow> bool" where
  "namespace_selected name_prefixes statuses ns =
     ((or_else name_prefixes [] = [] \<or>
       list_ex (startswith (ns_name ns)) (or_else name_prefixes [])) \<and>
      (or_else statuses [] = [] \<or>
       phase_of ns \<in> set (concat (map (\<lambda>s.
         (case dict_get PHASES (lower s) of None \<Rightarrow> [] | Some p \<Rightarrow> [p])) (or_else statuses [])))))"

definition unknown_statuses :: "string list option \<Rightarrow> string list" where
  "unknown_statuses statuses =
     filter (\<lambda>s. lower s \<notin> set (keys PHASES)) (or_else statuses [])"

definition list_namespaces ::
  "string \<Rightarrow> 'w core_v1_api \<Rightarrow> string list option \<Rightarrow> string list option \<Rightarrow> string option \<Rightarrow> 'w \<Rightarrow>
   ((exn + namespace_list_data) \<times> 'w) option" where
  "list_namespaces cluster kube name_prefixes statuses label_selector w =
     (if unknown_statuses statuses \<noteq> []
      then Some (Inl (App (ValidationException
        (''Unknown namespace status '' @ repr_list (unknown_statuses statuses)
         @ ''; expected one of '' @ repr_list (map snd PHASES) @ ''.''))), w)
      else (case collect_pages (fetch_namespaces cluster kube label_selector)
                   (\<lambda>items. build_all to_summary
                      (filter (namespace_selected name_prefixes statuses) items)) None [] w of
              None \<Rightarrow> None
            | Some (Inl e, w1) \<Rightarrow> Some (Inl e, w1)
            | Some (Inr namespaces, w1) \<Rightarrow>
                Some (Inr \<lparr>nsld_cluster = cluster, nsld_namespaces = namespaces\<rparr>, w1)))"

definition get_namespace ::
  "string \<Rightarrow> string \<Rightarrow> 'w core_v1_api \<Rightarrow> ('w, namespace_detail_data) call" where
  "get_namespace cluster name kube =
     bind_io (translate_kube_errors cluster (read_what cluster name)
                (Some (namespace_not_found cluster name)) (read_namespace kube name))
       (\<lambda>ns. lift_result (to_detail cluster ns))"

end
