(* ===== verification/Configmap_Service.thy ===== *)
theory Configmap_Service
  imports Paging Kubernetes_Models
begin

text \<open>
  \<open>app/services/configmap_service.py\<close>: the ConfigMap listing, which never carries a value, and
  the read of one ConfigMap.
\<close>

definition CM_LAST_APPLIED :: string where
  "CM_LAST_APPLIED = ''kubectl.kubernetes.io/last-applied-configuration''"

definition cm_summary :: "v1_config_map \<Rightarrow> config_map_summary" where
  "cm_summary cm =
     \<lparr>cms_name = cm_name cm, cms_namespace = cm_namespace cm,
      cms_keys = sorted_list_of_set
        (set (keys (or_else (cm_data cm) [])) \<union> set (keys (or_else (cm_binary_data cm) []))),
      cms_labels = or_else (cm_labels cm) [], cms_creation_timestamp = cm_creation_timestamp cm\<rparr>"

definition fetch_configmaps ::
  "string \<Rightarrow> string \<Rightarrow> 'w core_v1_api \<Rightarrow> string option \<Rightarrow> ('w, v1_config_map page) call" where
  "fetch_configmaps cluster ns kube token =
     translate_kube_errors cluster
       (''list configmaps in namespace '' @ quoted ns @ '' of cluster '' @ quoted cluster) None
       (if ns = ''*'' then list_config_map_for_all_namespaces kube PAGE_SIZE token
        else list_namespaced_config_map kube ns PAGE_SIZE token)"

definition cm_selected :: "string list option \<Rightarrow> v1_config_map \<Rightarrow> bool" where
  "cm_selected name_prefixes cm =
     (or_else name_prefixes [] = [] \<or> list_ex (startswith (cm_name cm)) (or_else name_prefixes []))"

definition list_configmaps ::
  "string \<Rightarrow> string \<Rightarrow> 'w core_v1_api \<Rightarrow> string list option \<Rightarrow> 'w \<Rightarrow>
   ((exn + config_map_list_data) \<times> 'w) option" where
  "list_configmaps cluster ns kube name_prefixes w =
     (case collect_pages (fetch_configmaps cluster ns kube)
             (\<lambda>items. build_all (\<lambda>cm. Inr (cm_summary cm)) (filter (cm_selected name_prefixes) items))
             None [] w of
        None \<Rightarrow> None
      | Some (Inl e, w1) \<Rightarrow> Some (Inl e, w1)
      | Some (Inr configmaps, w1) \<Rightarrow>
          Some (Inr \<lparr>cml_cluster = cluster, cml_namespace = ns, cml_configmaps = configmaps\<rparr>, w1))"

definition configmap_not_found :: "string \<Rightarrow> string \<Rightarrow> string \<Rightarrow> app_exception" where
  "configmap_not_found cluster ns name = ConfigMapNotFoundException
     (''ConfigMap '' @ quoted name @ '' not found in namespace '' @ quoted ns
      @ '' of cluster '' @ quoted cluster @ '' (the namespace may not exist either).'')"

definition get_configmap ::
  "string \<Rightarrow> string \<Rightarrow> string \<Rightarrow> 'w core_v1_api \<Rightarrow> ('w, config_map_detail_data) call" where
  "get_configmap cluster ns name kube =
     bind_io
       (translate_kube_errors cluster
          (''read configmap '' @ quoted (ns @ ''/'' @ name) @ '' of cluster '' @ quoted cluster)
          (Some (configmap_not_found cluster ns name)) (read_namespaced_config_map kube name ns))
       (\<lambda>cm. return_io
          \<lparr>cmd_cluster = cluster, cmd_name = cm_name cm, cmd_namespace = cm_namespace cm,
           cmd_labels = or_else (cm_labels cm) [],
           cmd_annotations =
             filter (\<lambda>(k, v). k \<noteq> CM_LAST_APPLIED) (or_else (cm_annotations cm) []),
           cmd_creation_timestamp = cm_creation_timestamp cm,
           cmd_data = or_else (cm_data cm) [], cmd_binary_data = or_else (cm_binary_data cm) []\<rparr>)"

end
