(* ===== verification/Routes.thy ===== *)
theory Routes
  imports Node_Batch Namespace_Service Configmap_Service
begin

text \<open>
  The Kubernetes endpoints, \<open>app/api/v1/nodes.py\<close>, \<open>namespaces.py\<close>, \<open>pods.py\<close>,
  \<open>clusters.py\<close> and \<open>configmaps.py\<close>: each handler, from the authenticated user and the parsed
  request to the envelope. A write asks the policy first, then runs its operation through
  \<open>call_kube\<close>. What every handler is injected (settings, policy store, cluster access, clocks,
  request id) is the record \<open>context\<close>.
\<close>

record 'w app_context =
  ctx_settings :: settings
  ctx_policies :: "'w policy_repository"
  ctx_access :: "'w access"
  ctx_clock :: "'w clock"
  ctx_utc_now :: "'w \<Rightarrow> datetime"
  ctx_request_id :: string

definition respond :: "'w app_context \<Rightarrow> ('w, 'a) may_call \<Rightarrow> ('w, 'a api_response) may_call" where
  "respond ctx m =
     bind_may m (\<lambda>data. return_may (make_response (ctx_settings ctx) data (ctx_request_id ctx)))"

definition policed ::
  "'w app_context \<Rightarrow> user \<Rightarrow> policy_action \<Rightarrow> policy_params \<Rightarrow> ('w, 'a) may_call \<Rightarrow> ('w, 'a) may_call"
where
  "policed ctx user action params m =
     bind_may (always (enforce (ctx_policies ctx) user (action_str action) params)) (\<lambda>_. m)"

definition split_csv :: "string option \<Rightarrow> string list" where
  "split_csv value =
     (let v = or_else value []
      in if v = [] then [] else filter (\<lambda>s. s \<noteq> []) (map strip (split_on CHR '','' v)))"

section \<open>Nodes\<close>

definition get_node_route ::
  "'w app_context \<Rightarrow> user \<Rightarrow> string \<Rightarrow> string \<Rightarrow> ('w, node_detail_data api_response) may_call" where
  "get_node_route ctx user cluster node =
     respond ctx (call_kube (ctx_access ctx) cluster (\<lambda>kube. always (get_node cluster node kube)))"

definition cordon_node_route ::
  "'w app_context \<Rightarrow> user \<Rightarrow> string \<Rightarrow> string \<Rightarrow> ('w, node_action_data api_response) may_call" where
  "cordon_node_route ctx user cluster node =
     policed ctx user NODE_CORDON (node_params cluster node)
       (respond ctx (call_kube (ctx_access ctx) cluster (\<lambda>kube. always (cordon cluster node kube))))"

definition uncordon_node_route ::
  "'w app_context \<Rightarrow> user \<Rightarrow> string \<Rightarrow> string \<Rightarrow> ('w, node_action_data api_response) may_call" where
  "uncordon_node_route ctx user cluster node =
     policed ctx user NODE_UNCORDON (node_params cluster node)
       (respond ctx (call_kube (ctx_access ctx) cluster (\<lambda>kube. always (uncordon cluster node kube))))"

definition run_batch_route ::
  "'w app_context \<Rightarrow> user \<Rightarrow> string \<Rightarrow> string list \<Rightarrow> batch_action \<Rightarrow>
   ('w, batch_node_action_data api_response) may_call" where
  "run_batch_route ctx user cluster nodes action =
     respond ctx (run_batch (ctx_policies ctx) (ctx_access ctx) user cluster action nodes)"

definition cordon_nodes_route ::
  "'w app_context \<Rightarrow> user \<Rightarrow> string \<Rightarrow> string list \<Rightarrow>
   ('w, batch_node_action_data api_response) may_call" where
  "cordon_nodes_route ctx user cluster nodes = run_batch_route ctx user cluster nodes CordonBatch"

definition uncordon_nodes_route ::
  "'w app_context \<Rightarrow> user \<Rightarrow> string \<Rightarrow> string list \<Rightarrow>
   ('w, batch_node_action_data api_response) may_call" where
  "uncordon_nodes_route ctx user cluster nodes = run_batch_route ctx user cluster nodes UncordonBatch"

definition drain_node_route ::
  "'w app_context \<Rightarrow> user \<Rightarrow> string \<Rightarrow> string \<Rightarrow> drain_request \<Rightarrow>
   ('w, drain_action_data api_response) may_call" where
  "drain_node_route ctx user cluster node body =
     policed ctx user NODE_DRAIN (node_params cluster node)
       (respond ctx
          (if dr_dry_run body
           then return_may ((default_drain_action_data cluster node)\<lparr>da_dry_run := True\<rparr>)
           else call_kube (ctx_access ctx) cluster
             (\<lambda>kube. drain (ctx_clock ctx) (DRAIN_DEFAULT_TIMEOUT_SECONDS (ctx_settings ctx))
                cluster node kube (dr_options body))))"

definition patch_node_labels_route ::
  "'w app_context \<Rightarrow> user \<Rightarrow> string \<Rightarrow> string \<Rightarrow> node_patch_request \<Rightarrow>
   ('w, node_labels_data api_response) may_call" where
  "patch_node_labels_route ctx user cluster node body =
     policed ctx user NODE_LABEL (node_params cluster node)
       (respond ctx (call_kube (ctx_access ctx) cluster
          (\<lambda>kube. always (label_node cluster node kube (Some (npr_set body)) (Some (npr_remove body))))))"

definition patch_node_annotations_route ::
  "'w app_context \<Rightarrow> user \<Rightarrow> string \<Rightarrow> string \<Rightarrow> node_patch_request \<Rightarrow>
   ('w, node_annotations_data api_response) may_call" where
  "patch_node_annotations_route ctx user cluster node body =
     policed ctx user NODE_ANNOTATE (node_params cluster node)
       (respond ctx (call_kube (ctx_access ctx) cluster
          (\<lambda>kube. always
             (annotate_node cluster node kube (Some (npr_set body)) (Some (npr_remove body))))))"

definition patch_node_taints_route ::
  "'w app_context \<Rightarrow> user \<Rightarrow> string \<Rightarrow> string \<Rightarrow> node_taint_request \<Rightarrow>
   ('w, node_taint_data api_response) may_call" where
  "patch_node_taints_route ctx user cluster node body =
     policed ctx user NODE_TAINT (node_params cluster node)
       (respond ctx (call_kube (ctx_access ctx) cluster
          (\<lambda>kube. always (taint_node cluster node kube (Some (ntr_set body)) (Some (ntr_remove body))))))"

section \<open>Clusters and pods\<close>

definition list_clusters_route ::
  "'w app_context \<Rightarrow> user \<Rightarrow> cluster_info list \<Rightarrow> ('w, cluster_info list api_response) may_call" where
  "list_clusters_route ctx user clusters = respond ctx (return_may clusters)"

definition list_nodes_route ::
  "'w app_context \<Rightarrow> user \<Rightarrow> string \<Rightarrow> ('w, node_list_data api_response) may_call" where
  "list_nodes_route ctx user cluster =
     respond ctx (call_kube (ctx_access ctx) cluster (\<lambda>kube. always (list_nodes cluster kube)))"

definition list_pods_route ::
  "'w app_context \<Rightarrow> user \<Rightarrow> string \<Rightarrow> string \<Rightarrow> string option \<Rightarrow> string option \<Rightarrow> string option \<Rightarrow>
   ('w, pod_list_data api_response) may_call" where
  "list_pods_route ctx user cluster ns node status pod_name_csv =
     respond ctx (call_kube (ctx_access ctx) cluster
       (\<lambda>kube. always (list_pods cluster ns kube (Some (split_csv node)) (Some (split_csv status))
          (Some (split_csv pod_name_csv)))))"

section \<open>ConfigMaps\<close>

definition list_configmaps_route ::
  "'w app_context \<Rightarrow> user \<Rightarrow> string \<Rightarrow> string \<Rightarrow> string option \<Rightarrow>
   ('w, config_map_list_data api_response) may_call" where
  "list_configmaps_route ctx user cluster ns name =
     respond ctx (call_kube (ctx_access ctx) cluster
       (\<lambda>kube. list_configmaps cluster ns kube (Some (split_csv name))))"

definition get_configmap_route ::
  "'w app_context \<Rightarrow> user \<Rightarrow> string \<Rightarrow> string \<Rightarrow> string \<Rightarrow>
   ('w, config_map_detail_data api_response) may_call" where
  "get_configmap_route ctx user cluster ns name =
     respond ctx (call_kube (ctx_access ctx) cluster
       (\<lambda>kube. always (get_configmap cluster ns name kube)))"

section \<open>Namespaces\<close>

definition request_caller :: "'w app_context \<Rightarrow> user \<Rightarrow> caller" where
  "request_caller ctx user =
     \<lparr>caller_account = u_account user, caller_request_id = ctx_request_id ctx\<rparr>"

definition ctx_prefix :: "'w app_context \<Rightarrow> string" where
  "ctx_prefix ctx = PROVENANCE_ANNOTATION_PREFIX (ctx_settings ctx)"

definition list_namespaces_route ::
  "'w app_context \<Rightarrow> user \<Rightarrow> string \<Rightarrow> string option \<Rightarrow> string option \<Rightarrow> string option \<Rightarrow>
   ('w, namespace_list_data api_response) may_call" where
  "list_namespaces_route ctx user cluster name status label_selector =
     respond ctx (call_kube (ctx_access ctx) cluster
       (\<lambda>kube. list_namespaces cluster kube (Some (split_csv name)) (Some (split_csv status))
          (if or_else label_selector [] = [] then None else label_selector)))"

definition get_namespace_route ::
  "'w app_context \<Rightarrow> user \<Rightarrow> string \<Rightarrow> string \<Rightarrow> ('w, namespace_detail_data api_response) may_call"
where
  "get_namespace_route ctx user cluster name =
     respond ctx (call_kube (ctx_access ctx) cluster
       (\<lambda>kube. always (get_namespace cluster name kube)))"

definition create_namespace_route ::
  "'w app_context \<Rightarrow> user \<Rightarrow> string \<Rightarrow> namespace_create_request \<Rightarrow>
   ('w, namespace_detail_data api_response) may_call" where
  "create_namespace_route ctx user cluster body =
     policed ctx user NAMESPACE_CREATE (namespace_params cluster (ncr_name body))
       (respond ctx (call_kube (ctx_access ctx) cluster
          (\<lambda>kube. always (create_namespace_op (ctx_prefix ctx) (ctx_utc_now ctx) cluster
             (ncr_name body) (ncr_labels body) (request_caller ctx user) kube
             (Some (ncr_annotations body))))))"

definition patch_namespace_labels_route ::
  "'w app_context \<Rightarrow> user \<Rightarrow> string \<Rightarrow> string \<Rightarrow> metadata_patch_request \<Rightarrow>
   ('w, namespace_labels_data api_response) may_call" where
  "patch_namespace_labels_route ctx user cluster name body =
     policed ctx user NAMESPACE_LABEL (namespace_params cluster name)
       (respond ctx (call_kube (ctx_access ctx) cluster
          (\<lambda>kube. always (update_labels (ctx_prefix ctx) (ctx_utc_now ctx) cluster name
             (mpr_set body) (mpr_remove body) (request_caller ctx user) kube))))"

definition patch_namespace_annotations_route ::
  "'w app_context \<Rightarrow> user \<Rightarrow> string \<Rightarrow> string \<Rightarrow> metadata_patch_request \<Rightarrow>
   ('w, namespace_annotations_data api_response) may_call" where
  "patch_namespace_annotations_route ctx user cluster name body =
     policed ctx user NAMESPACE_ANNOTATE (namespace_params cluster name)
       (respond ctx (call_kube (ctx_access ctx) cluster
          (\<lambda>kube. always (update_annotations (ctx_prefix ctx) (ctx_utc_now ctx) cluster name
             (mpr_set body) (mpr_remove body) (request_caller ctx user) kube))))"

section \<open>Lemmas\<close>

lemma policed_denied:
  assumes "ctx_policies ctx (u_account user) w = (Inr policies, w1)"
    and "\<not> policy_permits policies action params"
  shows "\<exists>e. policed ctx user action params m w = Some (Inl (App e), w1) \<and> http_status_of e = 403"
proof -
  obtain d where "enforce (ctx_policies ctx) user (action_str action) params w =
      (if policy_permits policies action params then Inr ()
       else Inl (App (denial (action_str action) params d)), w1)"
    using enforce_eq[where get_policies = "ctx_policies ctx", OF assms(1)] by metis
  with assms(2) have "policed ctx user action params m w =
      Some (Inl (App (denial (action_str action) params d)), w1)"
    by (simp add: policed_def bind_may_first)
  then show ?thesis by (auto simp: denial_def)
qed

lemma policed_permitted:
  assumes "ctx_policies ctx (u_account user) w = (Inr policies, w1)"
    and "policy_permits policies action params"
  shows "policed ctx user action params m w = m w1"
proof -
  obtain d where "enforce (ctx_policies ctx) user (action_str action) params w =
      (if policy_permits policies action params then Inr ()
       else Inl (App (denial (action_str action) params d)), w1)"
    using enforce_eq[where get_policies = "ctx_policies ctx", OF assms(1)] by metis
  with assms(2) show ?thesis by (simp add: policed_def bind_may_first)
qed

text \<open>A policy store that fails closes every write: nothing runs after it.\<close>

lemma policed_store_fails:
  assumes "ctx_policies ctx (u_account user) w = (Inl e, w1)"
  shows "policed ctx user action params m w = Some (Inl e, w1)"
  using assms by (simp add: policed_def enforce_def bind_may_first)

end
