(* ===== verification/Policy_Properties.thy ===== *)
theory Policy_Properties
  imports Dry_Run_Facts Routes
begin

text \<open>
  The properties of the access policy: what a decision says, what validation accepts, that every
  write endpoint is behind it, and what a batch does under it. They rest on the lemmas of
  \<open>Access_Policy\<close>, \<open>Policy_Service\<close> and \<open>Routes\<close>.
\<close>

section \<open>Concrete inputs\<close>

definition on_cluster :: "string \<Rightarrow> rule_effect \<Rightarrow> policy_action set \<Rightarrow> string \<Rightarrow> policy_rule" where
  "on_cluster i e acts cluster =
     \<lparr>rule_id = i, rule_description = None, effect_of = e, targets_of = acts,
      patterns_of = [(CLUSTER, \<lambda>v. v = cluster)]\<rparr>"

definition on_node_name :: "string \<Rightarrow> rule_effect \<Rightarrow> policy_action set \<Rightarrow> string \<Rightarrow> policy_rule" where
  "on_node_name i e acts node =
     \<lparr>rule_id = i, rule_description = None, effect_of = e, targets_of = acts,
      patterns_of = [(NODE, \<lambda>v. v = node)]\<rparr>"

text \<open>Everyone may act on \<open>dev\<close>; this user may not cordon the not-ready node.\<close>

definition dev_policies :: access_policies where
  "dev_policies =
     \<lparr>ap_account = ''ann'', global_rules = [on_cluster ''g'' Allow {NODE_CORDON, NODE_DRAIN} ''dev''],
      user_rules = [on_node_name ''u'' Deny {NODE_CORDON} NOT_READY_NODE]\<rparr>"

lemma dev_account [simp]: "ap_account dev_policies = ''ann''"
  by (simp add: dev_policies_def)

definition ann :: user where
  "ann = \<lparr>u_account = ''ann'', u_scopes = []\<rparr>"

definition dev_settings :: settings where
  "dev_settings =
     \<lparr>DRY_RUN_MODE = True, KUBECONFIG_BASE_PATH = [], USERS_JSON_PATH = [],
      ACCESS_TOKEN_EXPIRE_MINUTES = 30, DRAIN_DEFAULT_TIMEOUT_SECONDS = 25,
      PROVENANCE_ANNOTATION_PREFIX = ''acme.io'', DEPLOY_SERVICE_URL = [],
      DEPLOY_SERVICE_USERNAME = [], DEPLOY_SERVICE_PASSWORD = [], DEPLOY_SERVICE_TOKEN = []\<rparr>"

definition dev_context :: "dry_world policy_repository \<Rightarrow> dry_world app_context" where
  "dev_context store =
     \<lparr>ctx_settings = dev_settings, ctx_policies = store, ctx_access = dry_run_access,
      ctx_clock = dry_clock, ctx_utc_now = (\<lambda>w. CREATED), ctx_request_id = ''r-1''\<rparr>"

section \<open>Decisions\<close>

text \<open>C7: a request is allowed exactly when its action is one the service knows and both layers
  permit it: no deny rule of the layer for that action matches, and if the layer has allow rules
  for it, one of them matches.\<close>

theorem allowed_iff_both_layers_permit:
  "(\<exists>d. evaluate policies s params = Inr d \<and> pd_allowed d) \<longleftrightarrow>
   (\<exists>a. s = action_str a \<and> permits (global_rules policies) a params \<and>
      permits (user_rules policies) a params)"
proof
  assume "\<exists>d. evaluate policies s params = Inr d \<and> pd_allowed d"
  then obtain d where d: "evaluate policies s params = Inr d" "pd_allowed d" by blast
  then obtain a where a: "s = action_str a"
    by (auto simp: evaluate_def parse_action_Some split: option.splits)
  with d evaluate_action[of policies a params] show "\<exists>a. s = action_str a \<and>
      permits (global_rules policies) a params \<and> permits (user_rules policies) a params"
    by (auto simp: policy_permits_def)
next
  assume "\<exists>a. s = action_str a \<and> permits (global_rules policies) a params \<and>
      permits (user_rules policies) a params"
  then show "\<exists>d. evaluate policies s params = Inr d \<and> pd_allowed d"
    using evaluate_action[of policies _ params] by (auto simp: policy_permits_def)
qed

text \<open>A denial names the first layer that refuses; when it names a rule, that is a deny rule
  of the layer that targets the action and matches; when it names none, the layer has allow rules
  for the action and none of them matches.\<close>

theorem denial_names_its_cause:
  assumes "evaluate policies (action_str a) params = Inr d" and "\<not> pd_allowed d"
  shows "\<exists>rules.
    (if permits (global_rules policies) a params
     then pd_layer d = Some UserLayer \<and> rules = user_rules policies
     else pd_layer d = Some Global \<and> rules = global_rules policies) \<and>
    (case pd_rule_id d of
       Some i \<Rightarrow> \<exists>r \<in> set rules. rule_id r = i \<and> effect_of r = Deny \<and> a \<in> targets_of r \<and>
                  rule_matches r params
     | None \<Rightarrow> (\<exists>r \<in> set rules. effect_of r = Allow \<and> a \<in> targets_of r) \<and>
               \<not> (\<exists>r \<in> set rules. effect_of r = Allow \<and> a \<in> targets_of r \<and> rule_matches r params))"
proof -
  have cause: "case pd_rule_id d of
       Some i \<Rightarrow> \<exists>r \<in> set rules. rule_id r = i \<and> effect_of r = Deny \<and> a \<in> targets_of r \<and>
                  rule_matches r params
     | None \<Rightarrow> (\<exists>r \<in> set rules. effect_of r = Allow \<and> a \<in> targets_of r) \<and>
               \<not> (\<exists>r \<in> set rules. effect_of r = Allow \<and> a \<in> targets_of r \<and> rule_matches r params)"
    if "d = evaluate_layer rules l (ap_account policies) a params" for rules l
    using assms(2) that
    by (auto simp: evaluate_layer_def Let_def applies_to_def ALLOWED_def list_ex_iff
        filter_empty_conv split: option.splits if_splits dest!: find_SomeD)
  show ?thesis
  proof (cases "permits (global_rules policies) a params")
    case True
    with assms have "d = evaluate_layer (user_rules policies) UserLayer (ap_account policies) a params"
      by (auto simp: evaluate_eq ALLOWED_def split: if_splits)
    with True cause[OF this] assms(2) evaluate_layer_denied(1) show ?thesis by auto
  next
    case False
    with assms have "d = evaluate_layer (global_rules policies) Global (ap_account policies) a params"
      by (auto simp: evaluate_eq)
    with False cause[OF this] assms(2) evaluate_layer_denied(1) show ?thesis by auto
  qed
qed

lemma denial_names_its_cause_witness:
  "\<exists>r \<in> set (user_rules dev_policies). rule_id r = ''u'' \<and> effect_of r = Deny \<and>
     NODE_CORDON \<in> targets_of r \<and> rule_matches r (node_params ''dev'' NOT_READY_NODE)"
proof -
  let ?d = "evaluate_layer (user_rules dev_policies) UserLayer ''ann'' NODE_CORDON
      (node_params ''dev'' NOT_READY_NODE)"
  have permitted: "permits (global_rules dev_policies) NODE_CORDON (node_params ''dev'' NOT_READY_NODE)"
    by (simp add: permits_def dev_policies_def on_cluster_def rule_matches_def node_params_def
        param_value_def)
  moreover have refused: "\<not> permits (user_rules dev_policies) NODE_CORDON (node_params ''dev'' NOT_READY_NODE)"
    by (simp add: permits_def dev_policies_def on_node_name_def rule_matches_def node_params_def
        param_value_def)
  ultimately have d: "evaluate dev_policies (action_str NODE_CORDON) (node_params ''dev'' NOT_READY_NODE)
      = Inr ?d"
    using evaluate_eq[of dev_policies NODE_CORDON "node_params ''dev'' NOT_READY_NODE"]
    by simp
  have "\<not> pd_allowed ?d" using refused by (simp add: evaluate_layer_allowed)
  moreover have "pd_rule_id ?d = Some ''u''"
    by (simp add: evaluate_layer_def dev_policies_def on_node_name_def applies_to_def
        rule_matches_def node_params_def param_value_def)
  ultimately show ?thesis
    using denial_names_its_cause[OF d] permitted by auto
qed

text \<open>The order and the repetition of rules do not matter to the verdict.\<close>

theorem verdict_ignores_rule_order:
  assumes "set (global_rules p) = set (global_rules q)" and "set (user_rules p) = set (user_rules q)"
  shows "(\<exists>d. evaluate p s params = Inr d \<and> pd_allowed d) \<longleftrightarrow>
    (\<exists>d. evaluate q s params = Inr d \<and> pd_allowed d)"
proof -
  have "permits (global_rules p) a params = permits (global_rules q) a params"
    and "permits (user_rules p) a params = permits (user_rules q) a params" for a
    using assms by (simp_all add: permits_def)
  moreover have "(\<exists>d. evaluate x s params = Inr d \<and> pd_allowed d) \<longleftrightarrow>
      (\<exists>a. s = action_str a \<and> policy_permits x a params)" for x
  proof (cases "parse_action s")
    case None
    then show ?thesis using parse_action_str by (auto simp: evaluate_def)
  next
    case (Some a)
    then have "s = action_str a" by (simp add: parse_action_Some)
    moreover have "action_str b = action_str a \<longleftrightarrow> b = a" for b
      by (metis option.inject parse_action_str)
    ultimately have "(\<exists>b. s = action_str b \<and> policy_permits x b params) \<longleftrightarrow> policy_permits x a params"
      by metis
    with \<open>s = action_str a\<close> evaluate_action[of x a params] show ?thesis by auto
  qed
  ultimately show ?thesis by (simp add: policy_permits_def)
qed

lemma verdict_ignores_rule_order_witness:
  "(\<exists>d. evaluate dev_policies ''node.cordon'' [] = Inr d \<and> pd_allowed d) \<longleftrightarrow>
   (\<exists>d. evaluate (dev_policies\<lparr>user_rules := user_rules dev_policies @ user_rules dev_policies\<rparr>)
      ''node.cordon'' [] = Inr d \<and> pd_allowed d)"
  by (rule verdict_ignores_rule_order) simp_all

text \<open>A user's rules only tighten: what is allowed with them is allowed without them.\<close>

theorem user_rules_only_tighten:
  assumes "evaluate policies s params = Inr d" and "pd_allowed d"
  shows "evaluate (policies\<lparr>user_rules := []\<rparr>) s params = Inr ALLOWED"
proof -
  obtain a where a: "s = action_str a"
    using assms by (auto simp: evaluate_def parse_action_Some split: option.splits)
  with assms evaluate_action[of policies a params] have "policy_permits policies a params" by auto
  with a show ?thesis by (simp add: evaluate_eq policy_permits_def)
qed

lemma user_rules_only_tighten_witness:
  "evaluate (dev_policies\<lparr>user_rules := []\<rparr>) ''node.cordon'' (node_params ''dev'' READY_NODE) = Inr ALLOWED"
proof -
  have "permits (global_rules dev_policies) NODE_CORDON (node_params ''dev'' READY_NODE)"
    "permits (user_rules dev_policies) NODE_CORDON (node_params ''dev'' READY_NODE)"
    by (simp_all add: permits_def dev_policies_def on_cluster_def on_node_name_def rule_matches_def
        node_params_def param_value_def READY_NODE_def NOT_READY_NODE_def)
  then have "evaluate dev_policies (action_str NODE_CORDON) (node_params ''dev'' READY_NODE) = Inr ALLOWED"
    using evaluate_eq[of dev_policies NODE_CORDON "node_params ''dev'' READY_NODE"] by simp
  from user_rules_only_tighten[OF this] show ?thesis by (simp add: ALLOWED_def)
qed

section \<open>Validation of rules\<close>

text \<open>C37: a rule that validates targets exactly the actions its globs match, each glob matches
  one, and each of its patterns is the compiled regular expression of its own entry, for a
  parameter that some targeted action carries.\<close>

theorem valid_rule_targets_and_patterns:
  assumes "resolve compile r = Inr rule"
  shows "targets_of rule = {a. \<exists>p \<in> set (rs_actions r). fnmatchcase (action_str a) p} \<and>
    (\<forall>p \<in> set (rs_actions r). \<exists>a \<in> targets_of rule. fnmatchcase (action_str a) p) \<and>
    map (\<lambda>(p, f). (param_str p, Inr f)) (patterns_of rule) = map (\<lambda>(k, x). (k, compile x)) (rs_match r) \<and>
    (\<forall>p \<in> set (keys (patterns_of rule)). \<exists>a \<in> targets_of rule. p \<in> POLICY_ACTIONS a)"
proof (intro conjI)
  note facts = resolve_Inr[OF assms]
  have hits: "hits p = {a. fnmatchcase (action_str a) p}" for p by (auto simp: hits_def)
  show targets: "targets_of rule = {a. \<exists>p \<in> set (rs_actions r). fnmatchcase (action_str a) p}"
    using facts(2) by (auto simp: hits)
  show "\<forall>p \<in> set (rs_actions r). \<exists>a \<in> targets_of rule. fnmatchcase (action_str a) p"
    using facts(3) unfolding targets hits by blast
  show "\<forall>p \<in> set (keys (patterns_of rule)). \<exists>a \<in> targets_of rule. p \<in> POLICY_ACTIONS a"
    using facts(4) by (auto simp: keys_def carried_def)
  obtain ps where ps: "compile_patterns compile r (rs_match r) = Inr ps" "patterns_of rule = ps"
    using assms by (auto simp: resolve_def split: sum.splits)
  have "compile_patterns compile r m = Inr ps \<Longrightarrow>
      map (\<lambda>(p, f). (param_str p, Inr f)) ps = map (\<lambda>(k, x). (k, compile x)) m" for m ps
  proof (induction compile r m arbitrary: ps rule: compile_patterns.induct)
    case (2 compile r key regex m)
    then show ?case by (auto simp: parse_param_def split: sum.splits option.splits if_splits)
  qed simp
  from this[OF ps(1)] ps(2)
  show "map (\<lambda>(p, f). (param_str p, Inr f)) (patterns_of rule) = map (\<lambda>(k, x). (k, compile x)) (rs_match r)"
    by simp
qed

definition drain_rule :: rule_source where
  "drain_rule = \<lparr>rs_id = ''no-prod'', rs_description = None, rs_actions = [''node.d*''],
     rs_effect = Deny, rs_match = [(''cluster'', ''prod'')]\<rparr>"

definition literal :: regex_engine where
  "literal s = Inr (\<lambda>v. v = s)"

lemma valid_rule_targets_and_patterns_witness:
  "\<exists>rule. resolve literal drain_rule = Inr rule \<and> targets_of rule = {NODE_DRAIN}"
proof -
  have "\<not> isl (resolve literal drain_rule)" by code_simp
  then obtain rule where rule: "resolve literal drain_rule = Inr rule" by (metis sum.collapse(2))
  have names: "list_all (\<lambda>a. fnmatchcase (action_str a) ''node.d*'' = (a = NODE_DRAIN)) POLICY_ACTIONS_ALL"
    by code_simp
  have "fnmatchcase (action_str a) ''node.d*'' = (a = NODE_DRAIN)" for a
    using names all_actions[of a] by (auto simp: list_all_iff)
  with valid_rule_targets_and_patterns[OF rule] have "targets_of rule = {NODE_DRAIN}"
    by (simp add: drain_rule_def)
  with rule show ?thesis by blast
qed

text \<open>Validation does not refuse every rule that can never fire: a rule for all actions that
  matches on both a node and a namespace is accepted, and matches no request the service makes.\<close>

definition both_keys :: "string \<Rightarrow> string \<Rightarrow> rule_source" where
  "both_keys node_regex namespace_regex =
     \<lparr>rs_id = ''inert'', rs_description = None, rs_actions = [''*''], rs_effect = Deny,
      rs_match = [(''node'', node_regex), (''namespace'', namespace_regex)]\<rparr>"

theorem inert_rule_is_accepted:
  assumes "compile node_regex = Inr f" and "compile namespace_regex = Inr g"
  shows "\<exists>rule. resolve compile (both_keys node_regex namespace_regex) = Inr rule \<and>
    targets_of rule = UNIV \<and>
    (\<forall>c n. \<not> rule_matches rule (node_params c n) \<and> \<not> rule_matches rule (namespace_params c n))"
proof -
  have "list_all (\<lambda>a. fnmatchcase (action_str a) ''*'') POLICY_ACTIONS_ALL" by code_simp
  then have all: "hits ''*'' = UNIV" by (auto simp: hits_def list_all_iff)
  have "{NODE, NAMESPACE} \<subseteq> carried UNIV"
    by (force simp: carried_def POLICY_ACTIONS_def intro: exI[of _ NODE_DRAIN] exI[of _ NAMESPACE_CREATE])
  then have "''node'' \<in> param_str ` carried UNIV" "''namespace'' \<in> param_str ` carried UNIV"
    by (metis image_eqI insert_subset param_str.simps(2), metis image_eqI insert_subset param_str.simps(3))
  then have "resolve compile (both_keys node_regex namespace_regex) = Inr \<lparr>rule_id = ''inert'',
      rule_description = None, effect_of = Deny, targets_of = UNIV, patterns_of = [(NODE, f), (NAMESPACE, g)]\<rparr>"
    using assms by (simp add: resolve_def both_keys_def all keys_def parse_param_def)
  then show ?thesis
    by (auto simp: rule_matches_def node_params_def namespace_params_def param_value_def)
qed

lemma inert_rule_is_accepted_witness:
  "\<exists>rule. resolve literal (both_keys ''n'' ''s'') = Inr rule \<and>
     \<not> rule_matches rule (node_params ''c'' ''n'')"
proof -
  have "literal ''n'' = Inr (\<lambda>v. v = ''n'')" "literal ''s'' = Inr (\<lambda>v. v = ''s'')"
    by (simp_all add: literal_def)
  from inert_rule_is_accepted[OF this] show ?thesis by blast
qed

section \<open>Every write is policed\<close>

text \<open>The nine write endpoints that act on one resource, as one type of request; \<open>perform\<close> runs
  the endpoint and forgets the answer.\<close>

datatype write_request =
    CordonNode string string
  | UncordonNode string string
  | DrainNode string string drain_request
  | PatchNodeLabels string string node_patch_request
  | PatchNodeAnnotations string string node_patch_request
  | PatchNodeTaints string string node_taint_request
  | CreateNamespaceIn string namespace_create_request
  | PatchNamespaceLabels string string metadata_patch_request
  | PatchNamespaceAnnotations string string metadata_patch_request

fun write_action :: "write_request \<Rightarrow> policy_action" where
  "write_action (CordonNode c n) = NODE_CORDON"
| "write_action (UncordonNode c n) = NODE_UNCORDON"
| "write_action (DrainNode c n b) = NODE_DRAIN"
| "write_action (PatchNodeLabels c n b) = NODE_LABEL"
| "write_action (PatchNodeAnnotations c n b) = NODE_ANNOTATE"
| "write_action (PatchNodeTaints c n b) = NODE_TAINT"
| "write_action (CreateNamespaceIn c b) = NAMESPACE_CREATE"
| "write_action (PatchNamespaceLabels c n b) = NAMESPACE_LABEL"
| "write_action (PatchNamespaceAnnotations c n b) = NAMESPACE_ANNOTATE"

fun write_params :: "write_request \<Rightarrow> policy_params" where
  "write_params (CordonNode c n) = node_params c n"
| "write_params (UncordonNode c n) = node_params c n"
| "write_params (DrainNode c n b) = node_params c n"
| "write_params (PatchNodeLabels c n b) = node_params c n"
| "write_params (PatchNodeAnnotations c n b) = node_params c n"
| "write_params (PatchNodeTaints c n b) = node_params c n"
| "write_params (CreateNamespaceIn c b) = namespace_params c (ncr_name b)"
| "write_params (PatchNamespaceLabels c n b) = namespace_params c n"
| "write_params (PatchNamespaceAnnotations c n b) = namespace_params c n"

definition forget :: "('w, 'a) may_call \<Rightarrow> ('w, unit) may_call" where
  "forget m = bind_may m (\<lambda>_. return_may ())"

fun perform :: "'w app_context \<Rightarrow> user \<Rightarrow> write_request \<Rightarrow> ('w, unit) may_call" where
  "perform ctx u (CordonNode c n) = forget (cordon_node_route ctx u c n)"
| "perform ctx u (UncordonNode c n) = forget (uncordon_node_route ctx u c n)"
| "perform ctx u (DrainNode c n b) = forget (drain_node_route ctx u c n b)"
| "perform ctx u (PatchNodeLabels c n b) = forget (patch_node_labels_route ctx u c n b)"
| "perform ctx u (PatchNodeAnnotations c n b) = forget (patch_node_annotations_route ctx u c n b)"
| "perform ctx u (PatchNodeTaints c n b) = forget (patch_node_taints_route ctx u c n b)"
| "perform ctx u (CreateNamespaceIn c b) = forget (create_namespace_route ctx u c b)"
| "perform ctx u (PatchNamespaceLabels c n b) = forget (patch_namespace_labels_route ctx u c n b)"
| "perform ctx u (PatchNamespaceAnnotations c n b) = forget (patch_namespace_annotations_route ctx u c n b)"

lemma forget_policed: "forget (policed ctx u a ps m) = policed ctx u a ps (forget m)"
  by (rule ext) (auto simp: forget_def policed_def bind_may_def split: option.split prod.split sum.split)

lemma perform_policed:
  "\<exists>m. perform ctx u req = policed ctx u (write_action req) (write_params req) m"
  by (cases req)
    (simp_all add: forget_policed cordon_node_route_def uncordon_node_route_def drain_node_route_def
      patch_node_labels_route_def patch_node_annotations_route_def patch_node_taints_route_def
      create_namespace_route_def patch_namespace_labels_route_def
      patch_namespace_annotations_route_def, blast+)

text \<open>C4: a write on one resource that the policy does not permit is answered 403 and reaches nothing: the world is the
  one reading the policy left, no cluster having been looked up.\<close>

theorem denied_write_touches_nothing:
  assumes "ctx_policies ctx (u_account u) w = (Inr policies, w1)"
    and "\<not> (permits (global_rules policies) (write_action req) (write_params req) \<and>
           permits (user_rules policies) (write_action req) (write_params req))"
  shows "\<exists>e. perform ctx u req w = Some (Inl (App e), w1) \<and> http_status_of e = 403"
proof -
  have denied: "\<not> policy_permits policies (write_action req) (write_params req)"
    using assms(2) by (simp add: policy_permits_def)
  obtain m where "perform ctx u req = policed ctx u (write_action req) (write_params req) m"
    using perform_policed by metis
  with policed_denied[OF assms(1) denied] show ?thesis by metis
qed

lemma denied_write_touches_nothing_witness:
  "\<exists>e. perform (dev_context (\<lambda>_. return_io dev_policies)) ann (CordonNode ''prod'' READY_NODE) fresh =
     Some (Inl (App e), fresh) \<and> http_status_of e = 403"
proof -
  have load: "ctx_policies (dev_context (\<lambda>_. return_io dev_policies)) (u_account ann) fresh =
      (Inr dev_policies, fresh)"
    by (simp add: dev_context_def)
  have "\<not> permits (global_rules dev_policies) NODE_CORDON (node_params ''prod'' READY_NODE)"
    by (simp add: permits_def dev_policies_def on_cluster_def rule_matches_def node_params_def
        param_value_def)
  then show ?thesis
    using denied_write_touches_nothing[OF load, of "CordonNode ''prod'' READY_NODE"] by simp
qed

lemma answered: "map_option (isl \<circ> fst) z = Some False \<Longrightarrow> \<exists>r w'. z = Some (Inr r, w')"
  by (cases z; cases "fst (the z)") auto

lemma perform_permitted:
  assumes "perform ctx u req w = Some (Inr r, w')"
  shows "\<exists>policies w1. ctx_policies ctx (u_account u) w = (Inr policies, w1) \<and>
    permits (global_rules policies) (write_action req) (write_params req) \<and>
    permits (user_rules policies) (write_action req) (write_params req)"
proof -
  obtain m where run: "perform ctx u req = policed ctx u (write_action req) (write_params req) m"
    using perform_policed by metis
  show ?thesis
  proof (cases rule: io_cases[of "ctx_policies ctx (u_account u)" w])
    case (raised e v)
    from policed_store_fails[OF raised, of "write_action req" "write_params req" m] assms run
    show ?thesis by simp
  next
    case (returned policies v)
    have "policy_permits policies (write_action req) (write_params req)"
    proof (rule ccontr)
      assume "\<not> policy_permits policies (write_action req) (write_params req)"
      from policed_denied[OF returned this] assms run show False by (metis Inl_Inr_False Pair_inject option.inject)
    qed
    with returned show ?thesis by (auto simp: policy_permits_def)
  qed
qed

text \<open>A write that is answered was permitted: the policy was read first, and both layers
  permitted the action on the resource the request names.\<close>

theorem answered_write_was_permitted:
  assumes "perform ctx u req w = Some (Inr r, w')"
  shows "\<exists>policies w1. ctx_policies ctx (u_account u) w = (Inr policies, w1) \<and>
    permits (global_rules policies) (write_action req) (write_params req) \<and>
    permits (user_rules policies) (write_action req) (write_params req)"
  by (rule perform_permitted[OF assms])

lemma answered_write_was_permitted_witness:
  "permits (user_rules dev_policies) NODE_CORDON (node_params ''dev'' READY_NODE)"
proof -
  let ?ctx = "dev_context (\<lambda>_. return_io dev_policies)"
  have load: "ctx_policies ?ctx (u_account ann) fresh = (Inr dev_policies, fresh)"
    by (simp add: dev_context_def)
  have run: "map_option (isl \<circ> fst) (forget (respond ?ctx (call_kube dry_run_access ''dev''
      (\<lambda>kube. always (cordon ''dev'' READY_NODE kube)))) fresh) = Some False"
    by code_simp
  have perm: "policy_permits dev_policies NODE_CORDON (node_params ''dev'' READY_NODE)"
    by (simp add: policy_permits_def permits_def dev_policies_def on_cluster_def on_node_name_def
        rule_matches_def node_params_def param_value_def READY_NODE_def NOT_READY_NODE_def)
  have "ctx_access ?ctx = dry_run_access" by (simp add: dev_context_def)
  with run have "map_option (isl \<circ> fst) (perform ?ctx ann (CordonNode ''dev'' READY_NODE) fresh) = Some False"
    by (simp only: perform.simps cordon_node_route_def forget_policed policed_permitted[OF load perm])
  then obtain r w' where "perform ?ctx ann (CordonNode ''dev'' READY_NODE) fresh = Some (Inr r, w')"
    using answered by metis
  from answered_write_was_permitted[OF this] load show ?thesis by auto
qed

section \<open>Batches under the policy\<close>

lemma run_batch_after_policy:
  assumes "get_policies (u_account u) w = (Inr policies, w1)"
  shows "\<exists>denied. (\<forall>n. dict_get denied n \<noteq> None \<longleftrightarrow>
      n \<in> set names \<and> \<not> policy_permits policies (POLICY_ACTION action) (node_params c n)) \<and>
    run_batch get_policies access u c action names w =
      (if names \<noteq> [] \<and> (\<forall>n \<in> set names. dict_get denied n \<noteq> None)
       then return_may (batch_data c (batch_action_str action)
         (map (\<lambda>n. denied_result n (or_else (dict_get denied n) [])) (unique names))) w1
       else call_kube access c
         (\<lambda>kube. always (node_batch action c (unique names) kube denied)) w1)"
proof -
  have un: "unique_node_names names = unique names"
    by (simp add: unique_node_names_def keys_dict_fromkeys)
  obtain denied where
    run: "denied_nodes get_policies u (action_str (POLICY_ACTION action)) c (unique names) w = (Inr denied, w1)"
    and get: "\<And>n. dict_get denied n \<noteq> None \<longleftrightarrow>
      n \<in> set (unique names) \<and> \<not> policy_permits policies (POLICY_ACTION action) (node_params c n)"
    using denied_nodes_get[where get_policies = get_policies, OF assms] by metis
  show ?thesis
  proof (intro exI[of _ denied] conjI allI)
    show "dict_get denied n \<noteq> None \<longleftrightarrow>
        n \<in> set names \<and> \<not> policy_permits policies (POLICY_ACTION action) (node_params c n)" for n
      using get[of n] by simp
    show "run_batch get_policies access u c action names w =
      (if names \<noteq> [] \<and> (\<forall>n \<in> set names. dict_get denied n \<noteq> None)
       then return_may (batch_data c (batch_action_str action)
         (map (\<lambda>n. denied_result n (or_else (dict_get denied n) [])) (unique names))) w1
       else call_kube access c
         (\<lambda>kube. always (node_batch action c (unique names) kube denied)) w1)"
      using run unfolding run_batch_def un Let_def
      by (subst bind_may_first(2)[of _ _ denied w1]) (auto simp: list_all_iff)
  qed
qed

text \<open>A batch none of whose nodes the policy permits is answered without ever resolving the
  cluster, whatever the cluster would do: one failure per distinct node, each a policy denial.\<close>

theorem refused_batch_needs_no_cluster:
  assumes "get_policies (u_account u) w = (Inr policies, w1)" and "names \<noteq> []"
    and "\<And>n. n \<in> set names \<Longrightarrow> \<not> policy_permits policies (POLICY_ACTION action) (node_params c n)"
  shows "\<exists>d. run_batch get_policies access u c action names w = Some (Inr d, w1) \<and>
    map br_node (bd_results d) = unique names \<and> bs_succeeded (bd_summary d) = 0 \<and>
    (\<forall>r \<in> set (bd_results d). br_status r = Failed \<and>
       br_error_code r = Some (code_str POLICY_DENIED))"
proof -
  obtain denied where get: "\<And>n. dict_get denied n \<noteq> None \<longleftrightarrow>
      n \<in> set names \<and> \<not> policy_permits policies (POLICY_ACTION action) (node_params c n)"
    and run: "run_batch get_policies access u c action names w =
      (if names \<noteq> [] \<and> (\<forall>n \<in> set names. dict_get denied n \<noteq> None)
       then return_may (batch_data c (batch_action_str action)
         (map (\<lambda>n. denied_result n (or_else (dict_get denied n) [])) (unique names))) w1
       else call_kube access c
         (\<lambda>kube. always (node_batch action c (unique names) kube denied)) w1)"
    using run_batch_after_policy[where get_policies = get_policies and access = access
        and c = c and action = action and names = names, OF assms(1)] by blast
  have "\<forall>n \<in> set names. dict_get denied n \<noteq> None" using get assms(3) by blast
  with run assms(2) have "run_batch get_policies access u c action names w =
      Some (Inr (batch_data c (batch_action_str action)
         (map (\<lambda>n. denied_result n (or_else (dict_get denied n) [])) (unique names))), w1)"
    by (simp add: return_may_def)
  moreover have "filter (\<lambda>r. br_status r = Success)
      (map (\<lambda>n. denied_result n (or_else (dict_get denied n) [])) (unique names)) = []"
    by (auto simp: filter_empty_conv denied_result_def)
  ultimately show ?thesis by (auto simp: batch_data_summary denied_result_def comp_def)
qed

lemma refused_batch_needs_no_cluster_witness:
  "\<exists>d. run_batch (\<lambda>_. return_io dev_policies) dry_run_access ann ''prod'' CordonBatch
      [READY_NODE, READY_NODE] fresh = Some (Inr d, fresh) \<and> map br_node (bd_results d) = [READY_NODE]"
proof -
  have load: "(\<lambda>_. return_io dev_policies) (u_account ann) fresh = (Inr dev_policies, fresh)" by simp
  have "\<not> policy_permits dev_policies (POLICY_ACTION CordonBatch) (node_params ''prod'' READY_NODE)"
    by (simp add: policy_permits_def permits_def dev_policies_def on_cluster_def rule_matches_def
        node_params_def param_value_def)
  then have "\<not> policy_permits dev_policies (POLICY_ACTION CordonBatch) (node_params ''prod'' n)"
    if "n \<in> set [READY_NODE, READY_NODE]" for n
    using that by auto
  from refused_batch_needs_no_cluster[where get_policies = "\<lambda>_. return_io dev_policies" and u = ann
      and names = "[READY_NODE, READY_NODE]" and access = dry_run_access, OF load _ this]
  show ?thesis by auto
qed

text \<open>C21: on the dry-run cluster a batch under the policy always answers, and it succeeds for, and
  changes, exactly the nodes the policy permits that exist and, to uncordon, are Ready.\<close>

theorem dry_batch_under_policy:
  assumes "get_policies (u_account u) w = (Inr policies, w1)" and "dry_inv c w1"
  shows "\<exists>d w'. run_batch get_policies dry_run_access u c action names w = Some (Inr d, w') \<and>
    map (\<lambda>r. (br_node r, br_status r)) (bd_results d) =
      map (\<lambda>n. (n, if policy_permits policies (POLICY_ACTION action) (node_params c n) \<and>
                    (\<exists>v. dry_nodes c w1 n = Some v \<and> (action = CordonBatch \<or> node_status v = ''Ready''))
                 then Success else Failed)) (unique names) \<and>
    batch_effect (action = CordonBatch)
      {n \<in> set names. policy_permits policies (POLICY_ACTION action) (node_params c n) \<and>
         (\<exists>v. dry_nodes c w1 n = Some v \<and> (action = CordonBatch \<or> node_status v = ''Ready''))}
      (dry_nodes c w1) (dry_nodes c w')"
proof -
  obtain denied where get: "\<And>n. dict_get denied n \<noteq> None \<longleftrightarrow>
      n \<in> set names \<and> \<not> policy_permits policies (POLICY_ACTION action) (node_params c n)"
    and run: "run_batch get_policies dry_run_access u c action names w =
      (if names \<noteq> [] \<and> (\<forall>n \<in> set names. dict_get denied n \<noteq> None)
       then return_may (batch_data c (batch_action_str action)
         (map (\<lambda>n. denied_result n (or_else (dict_get denied n) [])) (unique names))) w1
       else call_kube dry_run_access c
         (\<lambda>kube. always (node_batch action c (unique names) kube denied)) w1)"
    using run_batch_after_policy[where get_policies = get_policies and access = dry_run_access
        and c = c and action = action and names = names, OF assms(1)] by blast
  let ?ok = "\<lambda>n. policy_permits policies (POLICY_ACTION action) (node_params c n) \<and>
      (\<exists>v. dry_nodes c w1 n = Some v \<and> (action = CordonBatch \<or> node_status v = ''Ready''))"
  have ok: "accepted (action = CordonBatch) denied (dry_nodes c w1) n \<longleftrightarrow> ?ok n" if "n \<in> set names" for n
    using get[of n] that by (auto simp: accepted_def)
  show ?thesis
  proof (cases "names \<noteq> [] \<and> (\<forall>n \<in> set names. dict_get denied n \<noteq> None)")
    case True
    then have none: "\<forall>n \<in> set names. \<not> policy_permits policies (POLICY_ACTION action) (node_params c n)"
      using get by blast
    have empty: "{n \<in> set names. ?ok n} = {}" using none by blast
    from True run have "run_batch get_policies dry_run_access u c action names w =
      Some (Inr (batch_data c (batch_action_str action)
         (map (\<lambda>n. denied_result n (or_else (dict_get denied n) [])) (unique names))), w1)"
      by (simp add: return_may_def)
    then show ?thesis
      unfolding empty using none
      by (auto simp: batch_data_summary denied_result_def batch_effect_def)
  next
    case False
    obtain d w' where spec: "batch_set_unschedulable c (unique names) (dry_run_core_v1_api c)
        (action = CordonBatch) (batch_action_str action) denied w1 = (Inr d, w')"
      "map (\<lambda>r. (br_node r, br_status r)) (bd_results d) =
        map (\<lambda>n. (n, if accepted (action = CordonBatch) denied (dry_nodes c w1) n then Success else Failed))
          (unique names)"
      "batch_effect (action = CordonBatch)
        {n \<in> set names. accepted (action = CordonBatch) denied (dry_nodes c w1) n}
        (dry_nodes c w1) (dry_nodes c w')"
      using dry_nodes.batch_spec[OF assms(2), of c "unique names" "action = CordonBatch"
          "batch_action_str action" denied] by auto
    have "node_batch action c (unique names) (dry_run_core_v1_api c) denied w1 = (Inr d, w')"
      using spec(1)
      by (cases action) (simp_all add: node_batch_def cordon_many_def uncordon_many_def)
    moreover from False run have "run_batch get_policies dry_run_access u c action names w =
        call_kube dry_run_access c (\<lambda>kube. always (node_batch action c (unique names) kube denied)) w1"
      by argo
    ultimately have answer: "run_batch get_policies dry_run_access u c action names w = Some (Inr d, w')"
      by simp
    have "{n \<in> set names. accepted (action = CordonBatch) denied (dry_nodes c w1) n} =
        {n \<in> set names. ?ok n}"
      using ok by blast
    moreover have "map (\<lambda>n. (n, if accepted (action = CordonBatch) denied (dry_nodes c w1) n
          then Success else Failed)) (unique names) =
        map (\<lambda>n. (n, if ?ok n then Success else Failed)) (unique names)"
      using ok by simp
    ultimately show ?thesis using answer spec(2,3) by metis
  qed
qed

lemma dry_batch_under_policy_witness:
  "\<exists>d w'. run_batch (\<lambda>_. return_io dev_policies) dry_run_access ann ''dev'' CordonBatch
      [READY_NODE, NOT_READY_NODE] fresh = Some (Inr d, w') \<and>
    map (\<lambda>r. (br_node r, br_status r)) (bd_results d) = [(READY_NODE, Success), (NOT_READY_NODE, Failed)]"
proof -
  have load: "(\<lambda>_. return_io dev_policies) (u_account ann) fresh = (Inr dev_policies, fresh)" by simp
  have "READY_NODE \<noteq> NOT_READY_NODE" by (simp add: READY_NODE_def NOT_READY_NODE_def)
  moreover have "dict_get (ks_nodes initial_state) READY_NODE \<noteq> None" by code_simp
  moreover have "policy_permits dev_policies NODE_CORDON (node_params ''dev'' READY_NODE)"
    by (simp add: policy_permits_def permits_def dev_policies_def on_cluster_def on_node_name_def
        rule_matches_def node_params_def param_value_def READY_NODE_def NOT_READY_NODE_def)
  moreover have "\<not> policy_permits dev_policies NODE_CORDON (node_params ''dev'' NOT_READY_NODE)"
    by (simp add: policy_permits_def permits_def dev_policies_def on_cluster_def on_node_name_def
        rule_matches_def node_params_def param_value_def)
  moreover have "dry_nodes ''dev'' fresh = dict_get (ks_nodes initial_state)"
    by (simp add: dry_nodes_def state_for_def fresh_def)
  ultimately show ?thesis
    using dry_batch_under_policy[where get_policies = "\<lambda>_. return_io dev_policies" and u = ann
        and c = "''dev''" and action = CordonBatch and names = "[READY_NODE, NOT_READY_NODE]",
        OF load fresh_inv] by auto
qed

end
