(* ===== verification/End_To_End.thy ===== *)
theory End_To_End
  imports Auth_Properties Policy_Properties
begin

text \<open>
  A write over HTTP, from the token to the cluster: the token dependency with the scope every
  Kubernetes route asks for, the policy of the users file, and the route. The world of a process is its
  users file with the cache, and the rest, which is what the clusters live in.
\<close>

record 'c site =
  site_users :: users_world
  site_rest :: 'c

definition on_users :: "(users_world, 'a) call \<Rightarrow> ('c site, 'a) call" where
  "on_users m w = (case m (site_users w) of (r, v) \<Rightarrow> (r, w\<lparr>site_users := v\<rparr>))"

text \<open>\<open>get_policy_service\<close>: the policy of the users file.\<close>

definition file_policies :: "engines \<Rightarrow> 'c site policy_repository" where
  "file_policies eng account = on_users (json_get_policies eng account)"

definition write_over_http ::
  "crypto \<Rightarrow> int \<Rightarrow> string \<Rightarrow> 'w app_context \<Rightarrow> write_request \<Rightarrow> ('w, unit) may_call" where
  "write_over_http cr time token ctx req w =
     (case get_current_user cr time [''cluster_api''] token of
        Inl e \<Rightarrow> Some (Inl e, w)
      | Inr u \<Rightarrow> perform ctx u req w)"

lemma file_policies_answer:
  assumes "cache_inv eng (uw_path (site_users w)) (uw_cache (site_users w))"
    and "file_policies eng account w = (Inr policies, w')"
  shows "\<exists>doc. answer eng (uw_path (site_users w)) = Inr doc \<and> policies = policies_of doc account"
proof -
  obtain r v where call: "json_get_policies eng account (site_users w) = (r, v)"
    by (cases "json_get_policies eng account (site_users w)")
  with assms(2) have "r = Inr policies" by (simp add: file_policies_def on_users_def)
  with json_store.policies_law[OF assms(1) call] show ?thesis by (auto split: sum.splits)
qed

text \<open>C5: whoever gets an answer to a write on one resource over HTTP presented a token the library accepts, whose
  subject is an account and whose scopes include \<open>cluster_api\<close>; and the users file as it is permits the
  action on that resource, by its global rules and by the rules of that account.\<close>

theorem answered_write_was_authorised:
  assumes "ctx_policies ctx = file_policies eng"
    and "cache_inv eng (uw_path (site_users w)) (uw_cache (site_users w))"
    and "write_over_http cr time token ctx req w = Some (Inr r, w')"
  shows "\<exists>p account doc. jwt_decode cr time token = Inr p \<and> dict_get p ''sub'' = Some (JStr account) \<and>
    (\<exists>scopes. dict_get p ''scopes'' = Some (json_strs scopes) \<and> ''cluster_api'' \<in> set scopes) \<and>
    answer eng (uw_path (site_users w)) = Inr doc \<and>
    permits (doc_policies doc) (write_action req) (write_params req) \<and>
    permits (user_rules (policies_of doc account)) (write_action req) (write_params req)"
proof -
  obtain u where u: "get_current_user cr time [''cluster_api''] token = Inr u"
    and run: "perform ctx u req w = Some (Inr r, w')"
    using assms(3) by (auto simp: write_over_http_def split: sum.splits)
  from u obtain p where p: "jwt_decode cr time token = Inr p" "user_of_payload [''cluster_api''] p = Inr u"
    by (auto simp: get_current_user_def decode_access_token_def split: sum.splits)
  note who = user_of_payload_Inr[OF p(2)]
  then have scopes: "dict_get p ''scopes'' = Some (json_strs (u_scopes u))"
    by (cases "dict_get p ''scopes''") (auto simp: json_strs_def)
  obtain policies w1 where load: "ctx_policies ctx (u_account u) w = (Inr policies, w1)"
    and ok: "permits (global_rules policies) (write_action req) (write_params req)"
      "permits (user_rules policies) (write_action req) (write_params req)"
    using perform_permitted[OF run] by blast
  obtain doc where doc: "answer eng (uw_path (site_users w)) = Inr doc" "policies = policies_of doc (u_account u)"
    using file_policies_answer[OF assms(2)] load assms(1) by metis
  have "global_rules policies = doc_policies doc" by (simp add: doc(2) policies_of_def)
  with p(1) who scopes ok doc show ?thesis
    by (intro exI[of _ p] exI[of _ "u_account u"] exI[of _ doc]) auto
qed

definition cluster_crypto :: crypto where
  "cluster_crypto = sample_crypto\<lparr>jwt_decode := (\<lambda>now t. if t = ''token''
     then Inr (issued_payload sample_settings 0 ''ops'' [''cluster_api'']) else Inl ''bad'')\<rparr>"

definition no_clusters :: "'w access" where
  "no_clusters = \<lparr>get_kube_client_config = (\<lambda>_. raise_io (App (ClusterNotFoundException ''no cluster''))),
     get_core_v1 = (\<lambda>_. raise_io (PyError [])), release = (\<lambda>_ w. w)\<rparr>"

definition sample_context :: "unit site app_context" where
  "sample_context =
     \<lparr>ctx_settings = sample_settings, ctx_policies = file_policies sample_engines, ctx_access = no_clusters,
      ctx_clock = \<lparr>monotonic = (\<lambda>_. 0), sleep = (\<lambda>_ w. w)\<rparr>, ctx_utc_now = (\<lambda>w. CREATED),
      ctx_request_id = ''r''\<rparr>"

definition rehearsal :: write_request where
  "rehearsal = DrainNode ''c'' ''n2''
     \<lparr>dr_options = default_drain_options, dr_dry_run = True, dr_reason = None\<rparr>"

text \<open>A rehearsed drain of a node the file does not freeze.\<close>

lemma answered_write_was_authorised_witness:
  "\<exists>r w'. write_over_http cluster_crypto 5 ''token'' sample_context rehearsal
      \<lparr>site_users = sample_world, site_rest = ()\<rparr> = Some (Inr r, w') \<and>
    permits (doc_policies sample_doc) NODE_DRAIN (node_params ''c'' ''n2'')"
proof -
  let ?w = "\<lparr>site_users = sample_world, site_rest = ()\<rparr>"
  let ?u = "\<lparr>u_account = ''ops'', u_scopes = [''cluster_api'']\<rparr>"
  have u: "get_current_user cluster_crypto 5 [''cluster_api''] ''token'' = Inr ?u"
    using user_of_issued[of "''ops''" "[''cluster_api'']" sample_settings 0 "[''cluster_api'']"]
    by (simp add: get_current_user_def decode_access_token_def cluster_crypto_def)
  obtain v where v: "json_get_policies sample_engines ''ops'' sample_world =
      (Inr (policies_of sample_doc ''ops''), v)"
    using json_store.policies_answer[OF sample_world_ok(1), of "''ops''"] sample_world_ok(2) by auto
  then have load: "ctx_policies sample_context (u_account ?u) ?w =
      (Inr (policies_of sample_doc ''ops''), \<lparr>site_users = v, site_rest = ()\<rparr>)"
    by (simp add: sample_context_def file_policies_def on_users_def)
  have perm: "policy_permits (policies_of sample_doc ''ops'') NODE_DRAIN (node_params ''c'' ''n2'')"
    by (simp add: policy_permits_def permits_def policies_of_def sample_doc_def freeze_rule_def
        entry_of_def rule_matches_def node_params_def param_value_def)
  have "perform sample_context ?u rehearsal ?w = forget (respond sample_context
      (return_may ((default_drain_action_data ''c'' ''n2'')\<lparr>da_dry_run := True\<rparr>)))
      \<lparr>site_users = v, site_rest = ()\<rparr>"
    by (simp only: rehearsal_def perform.simps drain_node_route_def forget_policed
        policed_permitted[OF load perm] drain_request.simps if_True)
  then obtain r w' where run: "write_over_http cluster_crypto 5 ''token'' sample_context rehearsal ?w = Some (Inr r, w')"
    using u by (simp add: write_over_http_def forget_def respond_def bind_may_def return_may_def)
  have "ctx_policies sample_context = file_policies sample_engines" by (simp add: sample_context_def)
  moreover have "cache_inv sample_engines (uw_path (site_users ?w)) (uw_cache (site_users ?w))"
    using sample_world_ok(1) by simp
  ultimately obtain doc where "answer sample_engines (uw_path (site_users ?w)) = Inr doc"
    and "permits (doc_policies doc) (write_action rehearsal) (write_params rehearsal)"
    using answered_write_was_authorised[OF _ _ run] by blast
  with run sample_world_ok(2) show ?thesis by (auto simp: rehearsal_def)
qed

end
