(* ===== verification/Node_Properties.thy ===== *)
theory Node_Properties
  imports Dry_Run_Facts Routes
begin

text \<open>
  The properties of the node operations: drain, cordon and uncordon, batches, label, annotation
  and taint edits. Those about a cluster rest on the contract of \<open>Cluster_Contract\<close>, read off
  the dry-run cluster, and those about every cluster on \<open>Node_Facts\<close> and \<open>Drain_Facts\<close>.
\<close>

section \<open>Concrete inputs\<close>

text \<open>The options of a drain that forces everything.\<close>

abbreviation dry_kube :: "dry_world core_v1_api" where
  "dry_kube \<equiv> dry_run_core_v1_api ''c''"

definition all_in :: drain_options where
  "all_in = default_drain_options\<lparr>force := True, delete_emptydir_data := True\<rparr>"

lemma fresh_nodes [simp]: "dry_nodes c fresh = dict_get (ks_nodes initial_state)"
  by (simp add: dry_nodes_def state_for_def fresh_def)

lemma fresh_pods [simp]: "dry_pods c fresh = default_pods"
  by (simp add: dry_pods_def state_for_def fresh_def initial_state_def)

lemma ready_node: "dry_nodes c fresh READY_NODE = Some (make_node READY_NODE ''True'' False)"
proof -
  have "dict_get (ks_nodes initial_state) READY_NODE = Some (make_node READY_NODE ''True'' False)"
    by code_simp
  then show ?thesis by simp
qed

lemma notready_node:
  "dry_nodes c fresh NOT_READY_NODE = Some (make_node NOT_READY_NODE ''False'' False)"
proof -
  have "dict_get (ks_nodes initial_state) NOT_READY_NODE =
      Some (make_node NOT_READY_NODE ''False'' False)"
    by code_simp
  then show ?thesis by simp
qed

lemma fresh_cordon: "fst (cordon ''c'' READY_NODE dry_kube fresh) =
    Inr (action_data ''c'' READY_NODE ''cordon'')"
  by code_simp

lemma fresh_list: "fst (list_pod_for_all_namespaces dry_kube (Some (node_selector READY_NODE))
    (snd (cordon ''c'' READY_NODE dry_kube fresh))) =
    Inr (filter (on_node READY_NODE) default_pods)"
  by code_simp

section \<open>Drain\<close>

text \<open>C1: a drain that would touch a protected pod is refused before anything is evicted. A pod is protected when
  it is no mirror pod, has not finished and belongs to no DaemonSet, and nobody manages it or it keeps data
  in an \<open>emptyDir\<close>, unless the caller opted out of that protection. The error lists every protected pod of the
  node, in the order of the listing, each with all its reasons, and no call is made after the listing, so
  the cluster is as the cordon and the listing left it.\<close>

theorem drain_refuses_before_evicting:
  assumes "cordon cluster node kube w = (Inr a, w1)"
    and "list_pod_for_all_namespaces kube (Some (node_selector node)) w1 = (Inr items, w2)"
    and "p \<in> set items" and "protected_pod options p"
  shows "drain clk t cluster node kube options w =
    Some (Inl (App (DrainBlockedException node
      (map (refusal_of options) (filter (protected_pod options) items)))), w2)"
proof -
  have "\<exists>p \<in> set items. protected_pod options p" using assms(3,4) by blast
  from request_evictions_blocked[OF assms(1,2) this] show ?thesis by (simp add: drain_def)
qed

lemma drain_refuses_before_evicting_witness:
  "\<exists>w2. drain dry_clock 25 ''c'' READY_NODE dry_kube default_drain_options fresh =
    Some (Inl (App (DrainBlockedException READY_NODE
      [\<lparr>bp_namespace = ''default'', bp_name = ''dry-run-unmanaged'', bp_reasons = [Unmanaged]\<rparr>,
       \<lparr>bp_namespace = ''default'', bp_name = ''dry-run-emptydir'', bp_reasons = [EmptyDir]\<rparr>])), w2)"
proof -
  let ?p = "make_pod ''dry-run-unmanaged'' ''default'' READY_NODE None ''Running'' False False"
  have "?p \<in> set (filter (on_node READY_NODE) default_pods)" by code_simp
  moreover have "protected_pod default_drain_options ?p" by code_simp
  moreover have "map (refusal_of default_drain_options)
      (filter (protected_pod default_drain_options) (filter (on_node READY_NODE) default_pods)) =
      [\<lparr>bp_namespace = ''default'', bp_name = ''dry-run-unmanaged'', bp_reasons = [Unmanaged]\<rparr>,
       \<lparr>bp_namespace = ''default'', bp_name = ''dry-run-emptydir'', bp_reasons = [EmptyDir]\<rparr>]"
    by code_simp
  ultimately show ?thesis
    using drain_refuses_before_evicting[OF run_pair[where m = "cordon ''c'' READY_NODE dry_kube", OF fresh_cordon]
        run_pair[where m = "list_pod_for_all_namespaces dry_kube (Some (node_selector READY_NODE))",
          OF fresh_list], of ?p default_drain_options] by auto
qed

text \<open>C17: when a drain answers, no pod of the node was protected; the pods reported as drained
  are exactly the evictable ones of the listing, in its order, and each of them was evicted or
  deleted; what is reported as still terminating is among them, and the node is reported emptied
  exactly when nothing is.\<close>

theorem drain_reports_its_targets:
  assumes "drain clk t cluster node kube options w = Some (Inr d, w')"
  shows "\<exists>a w1 items w2 w3.
    cordon cluster node kube w = (Inr a, w1) \<and>
    list_pod_for_all_namespaces kube (Some (node_selector node)) w1 = (Inr items, w2) \<and>
    (\<forall>p \<in> set items. \<not> protected_pod options p) \<and>
    for_io (\<lambda>p. evict_or_delete cluster kube (pod_name p) (pod_namespace p) options)
      (filter (evictable options) items) w2 = (Inr (), w3) \<and>
    drained_pods d = map (\<lambda>p. \<lparr>pr_name = pod_name p, pr_namespace = pod_namespace p\<rparr>)
      (filter (evictable options) items) \<and>
    set (still_terminating d) \<subseteq> set (drained_pods d) \<and>
    (node_emptied d \<longleftrightarrow> still_terminating d = [])"
proof -
  obtain evicted w1' still where req: "request_evictions cluster node kube options w = (Inr evicted, w1')"
    and wait: "wait_for_pods_gone clk cluster kube node (set (map pod_id evicted)) t w1' =
      Some (Inr still, w')"
    and d: "d = drain_result cluster node options evicted still"
    using assms by (rule drain_returns)
  have sub: "still \<subseteq> pod_id ` set evicted" and fin: "finite still"
    using wait_for_pods_gone_result[OF wait] by (auto intro: finite_subset)
  obtain a w1 items w2 where "cordon cluster node kube w = (Inr a, w1)"
    and "list_pod_for_all_namespaces kube (Some (node_selector node)) w1 = (Inr items, w2)"
    and ev: "evicted = filter (evictable options) items"
    and none: "filter (protected_pod options) items = []"
    and "for_io (\<lambda>pod. evict_or_delete cluster kube (pod_name pod) (pod_namespace pod) options)
       evicted w2 = (Inr (), w1')"
    using request_evictions_returns[OF req] by blast
  moreover have "set (still_terminating d) \<subseteq> set (drained_pods d)"
    using sub fin by (auto simp: d drain_result_def pod_id_def)
  moreover have "node_emptied d \<longleftrightarrow> still_terminating d = []"
    by (simp add: d drain_result_def)
  moreover have "\<forall>p \<in> set items. \<not> protected_pod options p"
    using none by (simp add: filter_empty_conv)
  ultimately show ?thesis by (fastforce simp: d drain_result_def)
qed

text \<open>C18: a drain always returns, provided sleeping moves the clock on by the time asked for and
  listing pods does not turn it back, whatever the cluster answers.\<close>

theorem drain_terminates:
  assumes "\<And>d w. 0 \<le> d \<Longrightarrow> monotonic clk w + d \<le> monotonic clk (sleep clk d w)"
    and "\<And>sel w. monotonic clk w \<le> monotonic clk (snd (list_pod_for_all_namespaces kube sel w))"
  shows "\<exists>r. drain clk t cluster node kube options w = Some r"
proof -
  have "drain_clock clk kube" by unfold_locales (use assms in auto)
  then show ?thesis by (rule drain_clock.drain_ends)
qed

lemma drain_terminates_witness:
  "\<exists>r. drain dry_clock 25 ''c'' READY_NODE dry_kube all_in fresh = Some r"
  by (rule drain_terminates[where clk = dry_clock and kube = dry_kube])
    (simp_all add: dry_clk.sleep_advances dry_clk.poll_keeps)

text \<open>C19: draining a known node of the dry-run cluster when no pod of it is protected removes exactly its
  evictable pods, cordons the node, reports the pods in order and the node as emptied, and changes nothing
  else: every other node and pod stays as it is, the nodes keep their order, and the namespaces, every
  other cluster and the clock are untouched.\<close>

theorem dry_drain_empties_the_node:
  assumes "dry_inv c w" and "dry_nodes c w n = Some v"
    and "\<And>p. p \<in> set (dry_pods c w) \<Longrightarrow> on_node n p \<Longrightarrow> \<not> protected_pod options p"
  shows "\<exists>v' w'. drain dry_clock t c n (dry_run_core_v1_api c) options w =
      Some (Inr (drain_result c n options (targets options n (dry_pods c w)) {}), w') \<and>
    patch_effect (scheduling True) v v' \<and> dry_nodes c w' = (dry_nodes c w)(n \<mapsto> v') \<and>
    dry_pods c w' = filter (\<lambda>p. \<not> (on_node n p \<and> evictable options p)) (dry_pods c w) \<and>
    same_elsewhere c w w' \<and> dry_inv c w'"
  using dry_frame.drain_spec[of c w w n v options t c] assms by fastforce

lemma dry_drain_empties_the_node_witness:
  "\<exists>w'. drain dry_clock 25 ''c'' READY_NODE dry_kube all_in fresh =
      Some (Inr (drain_result ''c'' READY_NODE all_in (targets all_in READY_NODE default_pods) {}), w')"
  using dry_drain_empties_the_node[OF fresh_inv[of "''c''"] ready_node, of all_in 25]
  by (auto simp: all_in_def forced_protects_nothing)

lemma drain_reports_its_targets_witness:
  "\<exists>d w'. drain dry_clock 25 ''c'' READY_NODE dry_kube all_in fresh = Some (Inr d, w') \<and>
     set (still_terminating d) \<subseteq> set (drained_pods d)"
proof -
  have none: "\<not> (\<exists>p \<in> set (dry_pods ''c'' fresh). on_node READY_NODE p \<and> protected_pod all_in p)"
    by (auto simp: all_in_def forced_protects_nothing)
  obtain d w' where "drain dry_clock 25 ''c'' READY_NODE dry_kube all_in fresh = Some (Inr d, w')"
    using dry_drain.drain_spec[OF fresh_inv ready_node none] by blast
  with drain_reports_its_targets[OF this] show ?thesis by blast
qed

text \<open>Refusing a drain leaves the pods of the dry-run cluster alone, but not the node: it has
  been cordoned, whatever the text of the error says.\<close>

theorem dry_drain_refused_cordons:
  assumes "dry_inv c w" and "dry_nodes c w n = Some v"
    and "p \<in> set (dry_pods c w)" and "on_node n p" and "protected_pod options p"
  shows "\<exists>bs v' w'. drain dry_clock t c n (dry_run_core_v1_api c) options w =
      Some (Inl (App (DrainBlockedException n bs)), w') \<and> bs \<noteq> [] \<and>
    dry_pods c w' = dry_pods c w \<and> dry_nodes c w' n = Some v' \<and> node_unschedulable v' = Some True"
proof -
  have blocked: "\<exists>p \<in> set (dry_pods c w). on_node n p \<and> protected_pod options p"
    using assms(3-5) by blast
  have "map (refusal_of options)
      (filter (protected_pod options) (filter (on_node n) (dry_pods c w))) \<noteq> []"
    using assms(3-5) by (auto simp: filter_empty_conv)
  with dry_drain.drain_refused[OF assms(1,2) blocked, of t c] show ?thesis
    by (fastforce simp: patch_effect_def empty_node_patch_def)
qed

lemma dry_drain_refused_cordons_witness:
  "\<exists>bs w' v'. drain dry_clock 25 ''c'' READY_NODE dry_kube default_drain_options fresh =
      Some (Inl (App (DrainBlockedException READY_NODE bs)), w') \<and>
    dry_nodes ''c'' w' READY_NODE = Some v' \<and> node_unschedulable v' = Some True"
proof -
  let ?p = "make_pod ''dry-run-unmanaged'' ''default'' READY_NODE None ''Running'' False False"
  have "?p \<in> set (dry_pods ''c'' fresh)" by code_simp
  moreover have "on_node READY_NODE ?p" by code_simp
  moreover have "protected_pod default_drain_options ?p" by code_simp
  ultimately show ?thesis
    using dry_drain_refused_cordons[OF fresh_inv[of "''c''"] ready_node] by blast
qed

section \<open>Cordon and uncordon\<close>

text \<open>C2: an uncordon goes through only if the read of the node just before showed it Ready, and
  then sends exactly one patch that clears the scheduling mark; Ready means that the first Ready
  condition of the node has the literal status True.\<close>

theorem uncordon_only_ready:
  assumes "uncordon cluster node kube w = (Inr r, w')"
  shows "\<exists>n w1 n' c. read_node kube node w = (Inr n, w1) \<and>
    find (\<lambda>c. cond_type c = ''Ready'') (or_else (node_conditions n) []) = Some c \<and>
    cond_status c = ''True'' \<and>
    patch_node kube node (empty_node_patch\<lparr>np_unschedulable := Some False\<rparr>) w1 = (Inr n', w')"
  using assms by (auto elim!: uncordon_patches simp: node_status_Ready_iff)

lemma uncordon_only_ready_witness:
  "\<exists>w1 w'. read_node dry_kube READY_NODE fresh = (Inr (make_node READY_NODE ''True'' False), w1) \<and>
     (\<exists>n'. patch_node dry_kube READY_NODE
        (empty_node_patch\<lparr>np_unschedulable := Some False\<rparr>) w1 = (Inr n', w'))"
proof -
  have "fst (uncordon ''c'' READY_NODE dry_kube fresh) = Inr (action_data ''c'' READY_NODE ''uncordon'')"
    by code_simp
  note run = uncordon_only_ready[OF run_pair[where m = "uncordon ''c'' READY_NODE dry_kube", OF this]]
  have "fst (read_node dry_kube READY_NODE fresh) = Inr (make_node READY_NODE ''True'' False)"
    by code_simp
  with run show ?thesis by (metis Inr_inject fst_conv)
qed

text \<open>A node that is not Ready is refused with its status, and nothing is patched: the world
  is the one the read left.\<close>

theorem uncordon_refuses_unready:
  assumes "read_node kube node w = (Inr n, w1)" and "node_status n \<noteq> ''Ready''"
  shows "uncordon cluster node kube w = (Inl (App (NodeNotReadyException node (node_status n))), w1) \<and>
    node_status n \<in> {''NotReady'', ''Unknown''}"
  using uncordon_refused[OF assms] node_status_cases[of n] assms(2) by auto

lemma uncordon_refuses_unready_witness:
  "\<exists>w1. uncordon ''c'' UNKNOWN_NODE dry_kube fresh =
     (Inl (App (NodeNotReadyException UNKNOWN_NODE ''Unknown'')), w1)"
proof -
  let ?n = "make_node UNKNOWN_NODE ''Unknown'' False"
  have "fst (read_node dry_kube UNKNOWN_NODE fresh) = Inr ?n" by code_simp
  note read = run_pair[where m = "read_node dry_kube UNKNOWN_NODE", OF this]
  have status: "node_status ?n = ''Unknown''" by code_simp
  have "node_status ?n \<noteq> ''Ready''" unfolding status by simp
  from uncordon_refuses_unready[OF read this] show ?thesis unfolding status by blast
qed

section \<open>Batches\<close>

text \<open>C20: a batch that answers has one result per distinct node, in first-seen order; its
  summary counts them; a node the policy refused carries exactly the policy's denial.\<close>

theorem batch_results_and_counts:
  assumes "batch_set_unschedulable cluster names kube u action denied w = (Inr d, w')"
  shows "map br_node (bd_results d) = unique names \<and>
    bs_total (bd_summary d) = length (unique names) \<and>
    bs_succeeded (bd_summary d) = length (filter (\<lambda>r. br_status r = Success) (bd_results d)) \<and>
    bs_succeeded (bd_summary d) + bs_failed (bd_summary d) = bs_total (bd_summary d) \<and>
    (\<forall>r \<in> set (bd_results d). \<forall>why. dict_get denied (br_node r) = Some why \<longrightarrow>
       r = denied_result (br_node r) why)"
proof -
  obtain statuses w1 rs where
    run: "batch_loop cluster kube u statuses denied (unique names) w1 = (Inr rs, w')"
    and d: "d = batch_data cluster action rs"
    using assms by (rule batch_returns)
  have "map br_node rs = unique names" using run by (rule batch_loop_nodes)
  moreover from this have "length rs = length (unique names)" by (metis length_map)
  ultimately show ?thesis
    using batch_loop_denied[OF run] filter_status_partition[of rs]
    by (auto simp: d batch_data_summary)
qed

text \<open>C3: whatever the cluster answers, a batch lists nodes and patches nodes it was given and
  the policy allows; it makes no other call.\<close>

theorem batch_never_patches_denied:
  "emits (batch_call {n \<in> set names. dict_get denied n = None})
     (batch_set_unschedulable cluster names (observed kube) u action denied)"
  by (rule emits_batch) auto

text \<open>The failure of one node never ends a batch. Once readiness is known, what a batch
  raises is about the cluster (unreachable, bad credentials, no answer) or is not a failure the
  service knows.\<close>

theorem batch_stops_only_for_the_cluster:
  assumes "batch_set_unschedulable cluster names kube u action denied w = (Inl e, w')"
  shows "(\<not> u \<and> (\<exists>w1. node_statuses cluster kube w = (Inl e, w1))) \<or>
    is_cluster_level e \<or> \<not> is_node_failure e"
  using assms unfolding batch_set_unschedulable_def Let_def bind_io_Inl_iff
  by (auto split: if_splits dest: batch_loop_raises)

definition down_kube :: "dry_world core_v1_api" where
  "down_kube = dry_kube\<lparr>patch_node := (\<lambda>n p. raise_io (Urllib3HTTPError ''refused''))\<rparr>"

lemma batch_stops_only_for_the_cluster_witness:
  "is_cluster_level (App (connection_error ''c'' ''refused''))"
proof -
  have "fst (batch_set_unschedulable ''c'' [READY_NODE] down_kube True ''cordon'' [] fresh) =
      Inl (App (connection_error ''c'' ''refused''))"
    by code_simp
  from batch_stops_only_for_the_cluster[OF run_pair[where
      m = "batch_set_unschedulable ''c'' [READY_NODE] down_kube True ''cordon'' []", OF this]]
  show ?thesis by (simp add: connection_error_def kube_api_exception_def)
qed

text \<open>A node a batch uncordon reports as done was allowed by the policy, and showed Ready in
  the one listing the batch is judged by, or did not appear in it.\<close>

theorem batch_uncordon_only_ready:
  assumes "batch_set_unschedulable cluster names kube False action denied w = (Inr d, w')"
    and "r \<in> set (bd_results d)" and "br_status r = Success"
  shows "dict_get denied (br_node r) = None \<and>
    (\<exists>items w1. list_node kube w = (Inr items, w1) \<and>
       (distinct (map node_name items) \<longrightarrow>
        (\<forall>n \<in> set items. node_name n = br_node r \<longrightarrow> node_status n = ''Ready'')))"
proof -
  obtain statuses w1 rs where
    loop: "batch_loop cluster kube False statuses denied (unique names) w1 = (Inr rs, w')"
    and d: "d = batch_data cluster action rs"
    and st: "(if \<not> False \<and> list_ex (\<lambda>n. dict_get denied n = None) (unique names)
          then node_statuses cluster kube else return_io []) w = (Inr statuses, w1)"
    using assms(1) by (rule batch_returns)
  have r: "r \<in> set rs" using assms(2) by (simp add: d batch_data_summary)
  note ok = batch_loop_success[OF loop r assms(3)]
  have "br_node r \<in> set (unique names)"
    using batch_loop_nodes[OF loop] r by (metis image_eqI image_set)
  with ok have "list_ex (\<lambda>n. dict_get denied n = None) (unique names)"
    by (auto simp: list_ex_iff)
  with st have "node_statuses cluster kube w = (Inr statuses, w1)" by simp
  then obtain items where items: "list_node kube w = (Inr items, w1)"
    and get: "distinct (map node_name items) \<longrightarrow>
      (\<forall>n \<in> set items. dict_get statuses (node_name n) = Some (node_status n))"
    by (rule node_statuses_get)
  have "node_status n = ''Ready''"
    if "distinct (map node_name items)" "n \<in> set items" "node_name n = br_node r" for n
    using get that ok by force
  with ok items show ?thesis by blast
qed

text \<open>On the dry-run cluster a batch always answers; it reports success for exactly the
  allowed, existing (and, to uncordon, Ready) nodes, sets their scheduling mark, and changes no
  other node.\<close>

theorem dry_batch_effect:
  assumes "dry_inv c w"
  shows "\<exists>d w'. batch_set_unschedulable c names (dry_run_core_v1_api c) u action denied w = (Inr d, w') \<and>
    map (\<lambda>r. (br_node r, br_status r)) (bd_results d) =
      map (\<lambda>n. (n, if accepted u denied (dry_nodes c w) n then Success else Failed)) (unique names) \<and>
    batch_effect u {n \<in> set names. accepted u denied (dry_nodes c w) n}
      (dry_nodes c w) (dry_nodes c w')"
  using dry_nodes.batch_spec[OF assms, of c names u action denied] by blast

definition both :: "string list" where
  "both = [READY_NODE, NOT_READY_NODE, READY_NODE]"

lemma dry_batch_effect_witness:
  "\<exists>d w'. batch_set_unschedulable ''c'' both dry_kube False ''uncordon'' [] fresh = (Inr d, w') \<and>
     map (\<lambda>r. (br_node r, br_status r)) (bd_results d) =
       [(READY_NODE, Success), (NOT_READY_NODE, Failed)]"
proof -
  have "unique both = [READY_NODE, NOT_READY_NODE]" by code_simp
  moreover have "accepted False [] (dry_nodes ''c'' fresh) READY_NODE"
  proof -
    have "node_status (make_node READY_NODE ''True'' False) = ''Ready''" by code_simp
    then show ?thesis unfolding accepted_def ready_node by simp
  qed
  moreover have "\<not> accepted False [] (dry_nodes ''c'' fresh) NOT_READY_NODE"
  proof -
    have "node_status (make_node NOT_READY_NODE ''False'' False) = ''NotReady''" by code_simp
    then show ?thesis unfolding accepted_def notready_node by simp
  qed
  ultimately show ?thesis
    using dry_batch_effect[OF fresh_inv[of "''c''"], of both False "''uncordon''" "[]"] by auto
qed

lemma both_run: "fst (batch_set_unschedulable ''c'' both dry_kube False ''uncordon''
    [(NOT_READY_NODE, ''no'')] fresh) =
  Inr (batch_data ''c'' ''uncordon''
    [\<lparr>br_node = READY_NODE, br_status = Success, br_error_code = None, br_message = None,
      br_kube_status = None\<rparr>, denied_result NOT_READY_NODE ''no''])"
  by code_simp

lemma batch_results_and_counts_witness:
  "map br_node (bd_results (batch_data ''c'' ''uncordon''
    [\<lparr>br_node = READY_NODE, br_status = Success, br_error_code = None, br_message = None,
      br_kube_status = None\<rparr>, denied_result NOT_READY_NODE ''no''])) = unique both"
  using batch_results_and_counts[OF run_pair[where
    m = "batch_set_unschedulable ''c'' both dry_kube False ''uncordon'' [(NOT_READY_NODE, ''no'')]",
    OF both_run]] by blast

lemma batch_uncordon_only_ready_witness:
  "\<exists>items w1. list_node dry_kube fresh = (Inr items, w1) \<and> (distinct (map node_name items) \<longrightarrow>
     (\<forall>n \<in> set items. node_name n = READY_NODE \<longrightarrow> node_status n = ''Ready''))"
proof -
  let ?r = "\<lparr>br_node = READY_NODE, br_status = Success, br_error_code = None, br_message = None,
      br_kube_status = None\<rparr>"
  from batch_uncordon_only_ready[OF run_pair[where
    m = "batch_set_unschedulable ''c'' both dry_kube False ''uncordon'' [(NOT_READY_NODE, ''no'')]",
    OF both_run], of ?r] show ?thesis by (simp add: batch_data_summary)
qed

section \<open>Labels, annotations and taints\<close>

text \<open>A label edit of a known node of the dry-run cluster sets what is set, deletes what is
  removed (a key in both is removed), keeps every other label, and answers the labels the node
  has afterwards.\<close>

theorem dry_label_edit:
  assumes "dry_inv c w" and "dry_nodes c w n = Some v" and "wf_dict added"
    and "added \<noteq> [] \<or> removed \<noteq> []"
  shows "\<exists>d v' w'. label_node c n (dry_run_core_v1_api c) (Some added) (Some removed) w = (Inr d, w') \<and>
    dry_nodes c w' = (dry_nodes c w)(n \<mapsto> v') \<and>
    label_map v' = edited (label_map v) added removed \<and> dict_get (nl_labels d) = label_map v'"
  using dry_nodes.label_node_spec[OF assms(1,2), of "Some added" "Some removed" c] assms(3,4)
  by auto

lemma dry_label_edit_witness:
  "\<exists>d w'. label_node ''c'' READY_NODE dry_kube (Some [(''team'', ''a'')]) (Some [''dry-run'']) fresh
     = (Inr d, w') \<and> dict_get (nl_labels d) ''team'' = Some ''a'' \<and>
     dict_get (nl_labels d) ''dry-run'' = None"
proof -
  have "wf_dict [(''team'', ''a'')]" by (simp add: wf_dict_def)
  from dry_label_edit[OF fresh_inv[of "''c''"] ready_node this, of "[''dry-run'']"]
  show ?thesis by (auto simp: edited_def)
qed

text \<open>A label or annotation edit that asks for nothing sends nothing, does not even look
  whether the node exists, and answers an empty map rather than the node's labels or
  annotations.\<close>

theorem empty_edit_answers_nothing:
  "label_node cluster node kube (Some []) (Some []) w =
     (Inr \<lparr>nl_status = ''success'', nl_cluster = cluster, nl_node = node, nl_action = ''label'',
        nl_labels = []\<rparr>, w) \<and>
   annotate_node cluster node kube (Some []) (Some []) w =
     (Inr \<lparr>nan_status = ''success'', nan_cluster = cluster, nan_node = node,
        nan_action = ''annotate'', nan_annotations = []\<rparr>, w)"
  by (simp add: label_node_def patch_labels_def annotate_node_def patch_annotations_def
      key_merge_patch_eq_Nil Let_def)

text \<open>A taint edit of a known node of the dry-run cluster: for each key and effect, the last
  setting wins over a removal and over the old taint; no key and effect is left twice; the answer
  is the taints of the node afterwards.\<close>

theorem dry_taint_edit:
  assumes "dry_inv c w" and "dry_nodes c w n = Some v" and "taints_ok v"
    and "added \<noteq> [] \<or> removed \<noteq> []"
  shows "\<exists>d v' w'. taint_node c n (dry_run_core_v1_api c) (Some added) (Some removed) w = (Inr d, w') \<and>
    dry_nodes c w' = (dry_nodes c w)(n \<mapsto> v') \<and>
    taint_map v' = edited_taints (taint_map v) added removed \<and> taints_ok v' \<and>
    map spec_taint (nt_taints d) = or_else (node_taints v') []"
  using dry_nodes.taint_node_spec[OF assms(1,2,3), of "Some added" "Some removed" c] assms(4)
  by auto

lemma dry_taint_edit_witness:
  "\<exists>d v' w'. taint_node ''c'' READY_NODE dry_kube
      (Some [\<lparr>ts_key = ''k'', ts_value = None, ts_effect = NoSchedule\<rparr>])
      (Some [\<lparr>tr_key = ''k'', tr_effect = NoSchedule\<rparr>]) fresh = (Inr d, w') \<and>
    map spec_taint (nt_taints d) = or_else (node_taints v') [] \<and>
    taint_map v' (''k'', ''NoSchedule'') =
      Some \<lparr>taint_key = ''k'', taint_value = None, taint_effect = ''NoSchedule''\<rparr>"
proof -
  have "taints_ok (make_node READY_NODE ''True'' False)"
    by (simp add: taints_ok_def make_node_def)
  from dry_taint_edit[OF fresh_inv[of "''c''"] ready_node this,
      of "[\<lparr>ts_key = ''k'', ts_value = None, ts_effect = NoSchedule\<rparr>]"
        "[\<lparr>tr_key = ''k'', tr_effect = NoSchedule\<rparr>]"]
  show ?thesis by (fastforce simp: edited_taints_def spec_taint_def taint_id_def)
qed

section \<open>Errors\<close>

text \<open>C34: no failure of the Kubernetes SDK leaves the node service: whatever the API answers,
  what an operation raises is an application exception, or an error that is not the SDK's.\<close>

theorem no_sdk_failure_escapes:
  "app_errors_only (list_nodes cluster kube) \<and> app_errors_only (get_node cluster node kube) \<and>
   app_errors_only (list_pods cluster ns kube ns_nodes sts pres) \<and>
   app_errors_only (cordon cluster node kube) \<and> app_errors_only (uncordon cluster node kube) \<and>
   app_errors_only (batch_set_unschedulable cluster names kube u action denied) \<and>
   app_errors_only (label_node cluster node kube s r) \<and>
   app_errors_only (annotate_node cluster node kube s r) \<and>
   app_errors_only (taint_node cluster node kube ts tr) \<and>
   app_errors_only_may (drain clk t cluster node kube options)"
  by (intro conjI app_list_nodes app_get_node app_list_pods app_cordon app_uncordon app_batch
      app_label_node app_annotate_node app_taint_node drain_app_errors)

end
