(* ===== verification/Namespace_Facts.thy ===== *)
theory Namespace_Facts
  imports Namespace_Service Configmap_Service Dry_Run_Facts
begin

text \<open>
  What the namespace and ConfigMap services promise: the reserved names and the provenance prefix
  are out of a caller's reach, the stamps are the service's own, a listing is complete whatever
  the page size, and an edit is one merge patch, of what was asked for and the stamps. \<open>namespace_store\<close> is the contract of
  the namespace calls of the API; the dry-run client keeps it.
\<close>

section \<open>Refusals\<close>

lemma refuse_reserved_Inr [simp]:
  "refuse_reserved name what w = (Inr u, w') \<longleftrightarrow> \<not> is_reserved_namespace_name name \<and> w' = w"
  by (auto simp: refuse_reserved_def)

lemma named_keys_Nil [simp]:
  "named_keys kind pre ks = [] \<longleftrightarrow> (\<forall>k \<in> set ks. \<not> is_under_domain k pre)"
  by (auto simp: named_keys_def keys_under_def filter_empty_conv)

lemma refuse_provenance_keys_Inr [simp]:
  "refuse_provenance_keys pre labels annotations w = (Inr u, w') \<longleftrightarrow>
     (\<forall>k \<in> set labels \<union> set annotations. \<not> is_under_domain k pre) \<and> w' = w"
  by (auto simp: refuse_provenance_keys_def Let_def)

lemma refuse_provenance_keys_world: "snd (refuse_provenance_keys pre labels annotations w) = w"
  by (simp add: refuse_provenance_keys_def Let_def)

lemma refuse_reserved_world: "snd (refuse_reserved name what w) = w"
  by (simp add: refuse_reserved_def)

lemma update_labels_returns:
  assumes "update_labels pre clk c name s r caller kube w = (Inr d, w')"
  obtains ns where "\<not> is_reserved_namespace_name name"
    and "\<forall>k \<in> set (keys s) \<union> set r. \<not> is_under_domain k pre"
    and "patch_namespace kube name
       \<lparr>nsp_labels = Some (key_merge_patch s r),
        nsp_annotations = Some (provenance pre (clk w) ''last-modified'' caller)\<rparr> w = (Inr ns, w')"
    and "d = \<lparr>nsl_cluster = c, nsl_name = name, nsl_labels = or_else (ns_labels ns) []\<rparr>"
  using assms unfolding update_labels_def patch_namespace_checked_def
  by (auto simp: bind_io_Inr_iff)

lemma update_annotations_returns:
  assumes "update_annotations pre clk c name s r caller kube w = (Inr d, w')"
  obtains ns where "\<not> is_reserved_namespace_name name"
    and "\<forall>k \<in> set (keys s) \<union> set r. \<not> is_under_domain k pre"
    and "patch_namespace kube name
       \<lparr>nsp_labels = None,
        nsp_annotations = Some (dict_update (key_merge_patch s r)
          (provenance pre (clk w) ''last-modified'' caller))\<rparr> w = (Inr ns, w')"
    and "d = \<lparr>nsa_cluster = c, nsa_name = name, nsa_annotations = readable_annotations ns\<rparr>"
  using assms unfolding update_annotations_def patch_namespace_checked_def
  by (auto simp: bind_io_Inr_iff)

section \<open>Provenance stamps\<close>

lemma prov_keys_distinct [simp]:
  "pre @ ''/'' @ verb @ ''-by'' \<noteq> pre @ ''/'' @ verb @ ''-at''"
  by simp

definition stamp_by :: "string \<Rightarrow> string \<Rightarrow> string" where
  "stamp_by pre verb = pre @ ''/'' @ verb @ ''-by''"

definition stamp_at :: "string \<Rightarrow> string \<Rightarrow> string" where
  "stamp_at pre verb = pre @ ''/'' @ verb @ ''-at''"

definition stamp_request :: "string \<Rightarrow> string" where
  "stamp_request pre = pre @ ''/last-request-id''"

lemma stamps_distinct:
  "stamp_by pre v \<noteq> stamp_at pre v'" "stamp_by pre v \<noteq> stamp_request pre"
  "stamp_at pre v \<noteq> stamp_request pre"
proof -
  have ends: "last (stamp_by pre v) = CHR ''y''" "last (stamp_at pre v') = CHR ''t''"
      "last (stamp_at pre v) = CHR ''t''" "last (stamp_request pre) = CHR ''d''"
    by (simp_all add: stamp_by_def stamp_at_def stamp_request_def)
  show "stamp_by pre v \<noteq> stamp_at pre v'" "stamp_by pre v \<noteq> stamp_request pre"
    "stamp_at pre v \<noteq> stamp_request pre"
    using ends by auto
qed

lemma provenance_eq:
  "provenance pre t verb caller =
     [(stamp_by pre verb, Some (caller_account caller)),
      (stamp_at pre verb, Some (timestamp t)),
      (stamp_request pre, if caller_request_id caller = [] then None
                          else Some (caller_request_id caller))]"
  using stamps_distinct(1)[of pre verb verb] stamps_distinct(2,3)[of pre verb]
  by (auto simp: provenance_def stamp_by_def stamp_at_def stamp_request_def)

lemma wf_provenance [simp]: "wf_dict (provenance pre t verb caller)"
  unfolding provenance_def by (rule wf_dict_update) simp

text \<open>Every stamp is under the prefix, so no caller key is a stamp.\<close>

lemma stamp_under:
  assumes "pre \<noteq> []" and "CHR ''/'' \<notin> set name"
  shows "is_under_domain (pre @ ''/'' @ name) pre"
  using assms by (simp add: is_under_domain_prefixed)

lemma stamps_under:
  assumes "pre \<noteq> []" and "CHR ''/'' \<notin> set verb"
  shows "is_under_domain (stamp_by pre verb) pre" "is_under_domain (stamp_at pre verb) pre"
    "is_under_domain (stamp_request pre) pre"
  using assms stamp_under[of pre "verb @ ''-by''"] stamp_under[of pre "verb @ ''-at''"]
    stamp_under[of pre "''last-request-id''"]
  by (simp_all add: stamp_by_def stamp_at_def stamp_request_def)

section \<open>The contract of the namespace calls\<close>

definition ns_label_map :: "v1_namespace \<Rightarrow> string \<rightharpoonup> string" where
  "ns_label_map v = dict_get (or_else (ns_labels v) [])"

definition ns_annotation_map :: "v1_namespace \<Rightarrow> string \<rightharpoonup> string" where
  "ns_annotation_map v = dict_get (or_else (ns_annotations v) [])"

definition ns_patch_effect :: "namespace_patch \<Rightarrow> v1_namespace \<Rightarrow> v1_namespace \<Rightarrow> bool" where
  "ns_patch_effect p v v' \<longleftrightarrow>
     ns_name v' = ns_name v \<and> ns_phase v' = ns_phase v \<and>
     ns_label_map v' = merge_spec (ns_label_map v) (or_else (nsp_labels p) []) \<and>
     ns_annotation_map v' = merge_spec (ns_annotation_map v) (or_else (nsp_annotations p) [])"

text \<open>Kubernetes adds a label with the name to what the caller sent.\<close>

definition NAME_LABEL :: string where
  "NAME_LABEL = ''kubernetes.io/metadata.name''"

definition ns_created :: "namespace_body \<Rightarrow> v1_namespace \<Rightarrow> bool" where
  "ns_created b v \<longleftrightarrow>
     ns_name v = nb_name b \<and> phase_of v = ''Active'' \<and>
     ns_label_map v = (dict_get (or_else (nb_labels b) []))(NAME_LABEL \<mapsto> nb_name b) \<and>
     ns_annotation_map v = dict_get (nb_annotations b)"

definition wf_ns_patch :: "namespace_patch \<Rightarrow> bool" where
  "wf_ns_patch p \<longleftrightarrow> wf_dict (or_else (nsp_labels p) []) \<and> wf_dict (or_else (nsp_annotations p) [])"

locale namespace_store =
  fixes kube :: "'w core_v1_api"
    and spaces :: "'w \<Rightarrow> string \<rightharpoonup> v1_namespace"
    and inv :: "'w \<Rightarrow> bool"
  assumes read_law: "inv w \<Longrightarrow> read_namespace kube n w = (rr, w') \<Longrightarrow> inv w' \<and> spaces w' = spaces w \<and>
      (case spaces w n of Some v \<Rightarrow> rr = Inr v
       | None \<Rightarrow> \<exists>why. rr = Inl (ApiException (Some 404) why))"
    and create_law: "inv w \<Longrightarrow> create_namespace kube b w = (rc, w') \<Longrightarrow> inv w' \<and>
      (case spaces w (nb_name b) of
         Some v \<Rightarrow> (\<exists>why. rc = Inl (ApiException (Some 409) why)) \<and> spaces w' = spaces w
       | None \<Rightarrow> \<exists>v. rc = Inr v \<and> ns_created b v \<and> spaces w' = (spaces w)(nb_name b \<mapsto> v))"
    and patch_law: "inv w \<Longrightarrow> wf_ns_patch p \<Longrightarrow> patch_namespace kube n p w = (rp, w') \<Longrightarrow> inv w' \<and>
      (case spaces w n of
         Some v \<Rightarrow> \<exists>v'. rp = Inr v' \<and> ns_patch_effect p v v' \<and> spaces w' = (spaces w)(n \<mapsto> v')
       | None \<Rightarrow> (\<exists>why. rp = Inl (ApiException (Some 404) why)) \<and> spaces w' = spaces w)"
begin

lemma patch_found:
  assumes "inv w" and "wf_ns_patch p" and "spaces w n = Some v"
  obtains v' w' where "patch_namespace kube n p w = (Inr v', w')" and "inv w'"
    and "ns_patch_effect p v v'" and "spaces w' = (spaces w)(n \<mapsto> v')"
proof -
  obtain r w' where run: "patch_namespace kube n p w = (r, w')" by (metis prod.exhaust)
  with patch_law[OF assms(1,2) run] assms(3) show ?thesis by (auto intro: that)
qed

lemma patch_missing:
  assumes "inv w" and "wf_ns_patch p" and "spaces w n = None"
  obtains why w' where "patch_namespace kube n p w = (Inl (ApiException (Some 404) why), w')"
    and "inv w'" and "spaces w' = spaces w"
proof -
  obtain r w' where run: "patch_namespace kube n p w = (r, w')" by (metis prod.exhaust)
  with patch_law[OF assms(1,2) run] assms(3) show ?thesis by (auto intro: that)
qed

text \<open>A label edit: the labels as asked, the stamps written, every other annotation kept.\<close>

lemma update_labels_spec:
  assumes "inv w" and "spaces w name = Some v" and "wf_dict s"
    and "\<not> is_reserved_namespace_name name"
    and "\<forall>k \<in> set (keys s) \<union> set r. \<not> is_under_domain k pre"
  shows "\<exists>d v' w'. update_labels pre clk c name s r caller kube w = (Inr d, w') \<and> inv w' \<and>
    spaces w' = (spaces w)(name \<mapsto> v') \<and> dict_get (nsl_labels d) = ns_label_map v' \<and>
    ns_label_map v' = edited (ns_label_map v) s r \<and>
    ns_annotation_map v' =
      merge_spec (ns_annotation_map v) (provenance pre (clk w) ''last-modified'' caller)"
proof -
  let ?p = "\<lparr>nsp_labels = Some (key_merge_patch s r),
             nsp_annotations = Some (provenance pre (clk w) ''last-modified'' caller)\<rparr>"
  have wf: "wf_ns_patch ?p" by (simp add: wf_ns_patch_def)
  obtain v' w' where p: "patch_namespace kube name ?p w = (Inr v', w')" "inv w'"
      "ns_patch_effect ?p v v'" "spaces w' = (spaces w)(name \<mapsto> v')"
    using patch_found[OF assms(1) wf assms(2)] .
  then have "update_labels pre clk c name s r caller kube w =
      (Inr \<lparr>nsl_cluster = c, nsl_name = name, nsl_labels = or_else (ns_labels v') []\<rparr>, w')"
    using assms(4,5) by (auto simp: update_labels_def patch_namespace_checked_def bind_io_Inr_iff)
  with p assms(3) show ?thesis
    by (auto simp: ns_patch_effect_def ns_label_map_def merge_spec_edited)
qed

lemma update_labels_missing:
  assumes "inv w" and "spaces w name = None" and "\<not> is_reserved_namespace_name name"
    and "\<forall>k \<in> set (keys s) \<union> set r. \<not> is_under_domain k pre"
  shows "\<exists>w'. update_labels pre clk c name s r caller kube w =
      (Inl (App (namespace_not_found c name)), w') \<and> spaces w' = spaces w"
proof -
  let ?p = "\<lparr>nsp_labels = Some (key_merge_patch s r),
             nsp_annotations = Some (provenance pre (clk w) ''last-modified'' caller)\<rparr>"
  have wf: "wf_ns_patch ?p" by (simp add: wf_ns_patch_def)
  obtain why w' where p: "patch_namespace kube name ?p w = (Inl (ApiException (Some 404) why), w')"
      "inv w'" "spaces w' = spaces w"
    using patch_missing[OF assms(1) wf assms(2)] .
  have "refuse_reserved name ''labels'' w = (Inr (), w)"
    and "refuse_provenance_keys pre (keys s @ r) [] w = (Inr (), w)"
    using assms(3,4) by (auto simp: refuse_provenance_keys_Inr)
  then have "update_labels pre clk c name s r caller kube w =
      (Inl (App (namespace_not_found c name)), w')"
    by (auto simp: update_labels_def patch_namespace_checked_def bind_io_Inl_iff translate_Inl p)
  with p show ?thesis by auto
qed

text \<open>A create stamps the namespace; the name being taken is a conflict that names its phase.\<close>

lemma create_spec:
  assumes "inv w" and "spaces w name = None"
    and "\<forall>k \<in> set (keys ls) \<union> set (keys (or_else as [])). \<not> is_under_domain k pre"
  shows "\<exists>d v w'. create_namespace_op pre clk c name ls caller kube as w = (Inr d, w') \<and> inv w' \<and>
    spaces w' = (spaces w)(name \<mapsto> v) \<and> ns_created (create_body pre (clk w) name ls caller as) v \<and>
    to_detail c v = Inr d"
proof -
  let ?b = "create_body pre (clk w) name ls caller as"
  have name: "nb_name ?b = name" by (simp add: create_body_def)
  obtain r w' where run: "create_namespace kube ?b w = (r, w')" by (metis prod.exhaust)
  then obtain v where v: "r = Inr v" "ns_created ?b v" "spaces w' = (spaces w)(name \<mapsto> v)" "inv w'"
    using create_law[OF assms(1) run] assms(2) name by auto
  then have "known_phase (phase_of v)" by (simp add: ns_created_def known_phase_def PHASES_def)
  then obtain d where d: "to_detail c v = Inr d" by (auto simp: to_detail_def)
  have "refuse_provenance_keys pre (keys ls) (keys (or_else as [])) w = (Inr (), w)"
    using assms(3) by (auto simp: refuse_provenance_keys_Inr)
  then have "create_namespace_op pre clk c name ls caller kube as w = (Inr d, w')"
    using run v(1) d
    by (auto simp: create_namespace_op_def bind_io_Inr_iff catch_io_def lift_result_def)
  with v d show ?thesis by blast
qed

lemma create_conflict:
  assumes "inv w" and "spaces w name = Some v"
    and "\<forall>k \<in> set (keys ls) \<union> set (keys (or_else as [])). \<not> is_under_domain k pre"
  shows "\<exists>m w'. create_namespace_op pre clk c name ls caller kube as w =
      (Inl (App (NamespaceAlreadyExistsException m
         (JObj [(''name'', JStr name), (''status'', JStr (phase_of v))]))), w') \<and>
      spaces w' = spaces w"
proof -
  let ?b = "create_body pre (clk w) name ls caller as"
  have name: "nb_name ?b = name" by (simp add: create_body_def)
  obtain r w1 where run: "create_namespace kube ?b w = (r, w1)" by (metis prod.exhaust)
  then obtain why where c409: "r = Inl (ApiException (Some 409) why)" "spaces w1 = spaces w" "inv w1"
    using create_law[OF assms(1) run] assms(2) name by auto
  obtain r2 w2 where run2: "read_namespace kube name w1 = (r2, w2)" by (metis prod.exhaust)
  then have read: "r2 = Inr v" "spaces w2 = spaces w"
    using read_law[OF c409(3) run2] assms(2) c409(2) by auto
  have "\<exists>m. already_exists c name kube w1 = (Inr (NamespaceAlreadyExistsException m
         (JObj [(''name'', JStr name), (''status'', JStr (phase_of v))])), w2)"
    using run2 read(1)
    by (auto simp: already_exists_def bind_io_Inr_iff catch_io_def json_opt_str_def)
  then obtain m where m: "already_exists c name kube w1 = (Inr (NamespaceAlreadyExistsException m
         (JObj [(''name'', JStr name), (''status'', JStr (phase_of v))])), w2)" ..
  have "refuse_provenance_keys pre (keys ls) (keys (or_else as [])) w = (Inr (), w)"
    using assms(3) by (auto simp: refuse_provenance_keys_Inr)
  then have "create_namespace_op pre clk c name ls caller kube as w =
      (Inl (App (NamespaceAlreadyExistsException m
         (JObj [(''name'', JStr name), (''status'', JStr (phase_of v))]))), w2)"
    using run c409(1) m
    by (auto simp: create_namespace_op_def bind_io_Inl_iff translate_Inl catch_io_def)
  with read(2) show ?thesis by blast
qed

end

section \<open>What an edit sends\<close>

text \<open>The three stamps of an edit, and its patch; whatever the cluster answers.\<close>

definition stamps_of :: "string \<Rightarrow> datetime \<Rightarrow> caller \<Rightarrow> merge_patch" where
  "stamps_of pre t caller =
     [(pre @ ''/last-modified-by'', Some (caller_account caller)),
      (pre @ ''/last-modified-at'', Some (timestamp t)),
      (pre @ ''/last-request-id'',
       if caller_request_id caller = [] then None else Some (caller_request_id caller))]"

text \<open>A merge patch that sets and removes what was asked for, removal winning, and writes \<open>extra\<close> over it.\<close>

definition asks_for :: "str_map \<Rightarrow> string list \<Rightarrow> merge_patch \<Rightarrow> merge_patch \<Rightarrow> bool" where
  "asks_for s r extra p \<longleftrightarrow> wf_dict p \<and>
     (\<forall>k. dict_get p k = (case dict_get extra k of
        Some v \<Rightarrow> Some v
      | None \<Rightarrow> if k \<in> set r then Some None else map_option Some (dict_get s k)))"

text \<open>An operation that refuses without a call, or makes exactly one call, the patch of that namespace, and
  answers exactly if the cluster took it.\<close>

definition one_patch ::
  "bool \<Rightarrow> string \<Rightarrow> ('w \<times> kube_call list \<Rightarrow> namespace_patch) \<Rightarrow> 'w core_v1_api \<Rightarrow>
   ('w \<times> kube_call list, 'a) call \<Rightarrow> bool" where
  "one_patch refuse name patch kube operation \<longleftrightarrow>
     (\<forall>w log. case operation (w, log) of (res, w', log') \<Rightarrow>
        if refuse then (w', log') = (w, log) \<and> (\<exists>m. res = Inl (App (ValidationException m)))
        else (let p = patch (w, log)
              in log' = log @ [PatchNamespace name p] \<and> w' = snd (patch_namespace kube name p w) \<and>
                 (isl res \<longleftrightarrow> isl (fst (patch_namespace kube name p w)))))"

lemma provenance_stamps: "provenance pre t ''last-modified'' caller = stamps_of pre t caller"
  unfolding provenance_eq by (simp add: stamps_of_def stamp_by_def stamp_at_def stamp_request_def)

lemma asks_for_labels: "wf_dict s \<Longrightarrow> asks_for s r [] (key_merge_patch s r)"
  by (simp add: asks_for_def key_merge_patch_get)

lemma asks_for_annotations:
  "wf_dict s \<Longrightarrow> asks_for s r (stamps_of pre t caller)
     (dict_update (key_merge_patch s r) (provenance pre t ''last-modified'' caller))"
  unfolding provenance_stamps[symmetric]
  by (auto simp: asks_for_def key_merge_patch_get dict_get_update_gen split: option.split)

lemma patch_checked_observed:
  assumes "patch_namespace kube name (patch (w, log)) w = (r, w')"
  shows "\<exists>res. patch_namespace_checked c what name (observed kube) patch (w, log) =
      (res, (w', log @ [PatchNamespace name (patch (w, log))])) \<and> (isl res \<longleftrightarrow> isl r)"
proof -
  have "patch_namespace (observed kube) name (patch (w, log)) (w, log) =
      (r, (w', log @ [PatchNamespace name (patch (w, log))]))"
    using assms by (simp add: observed_def observe_def)
  then show ?thesis
    unfolding patch_namespace_checked_def translate_kube_errors_def catch_io_def
    by (cases r) simp_all
qed

lemma one_patch_guarded:
  assumes "refuse \<longleftrightarrow> is_reserved_namespace_name name \<or> (\<exists>k \<in> set ls \<union> set as. is_under_domain k pre)"
  shows "one_patch refuse name patch kube
    (bind_io (refuse_reserved name what) (\<lambda>_. bind_io (refuse_provenance_keys pre ls as) (\<lambda>_.
       bind_io (patch_namespace_checked c what name (observed kube) patch) (\<lambda>ns. return_io (f ns)))))"
    (is "one_patch _ _ _ _ ?op")
  unfolding one_patch_def
proof (intro allI)
  fix w log
  obtain r w1 where run: "patch_namespace kube name (patch (w, log)) w = (r, w1)" by (metis prod.exhaust)
  show "case ?op (w, log) of (res, w', log') \<Rightarrow>
        if refuse then (w', log') = (w, log) \<and> (\<exists>m. res = Inl (App (ValidationException m)))
        else (let p = patch (w, log)
              in log' = log @ [PatchNamespace name p] \<and> w' = snd (patch_namespace kube name p w) \<and>
                 (isl res \<longleftrightarrow> isl (fst (patch_namespace kube name p w))))"
  proof (cases refuse)
    case True
    with assms show ?thesis
      by (auto simp: bind_io_def refuse_reserved_def refuse_provenance_keys_def Let_def)
  next
    case False
    with assms have guards: "refuse_reserved name what (w, log) = (Inr (), (w, log))"
      "refuse_provenance_keys pre ls as (w, log) = (Inr (), (w, log))"
      by auto
    obtain res where "patch_namespace_checked c what name (observed kube) patch (w, log) =
        (res, (w1, log @ [PatchNamespace name (patch (w, log))]))" and "isl res \<longleftrightarrow> isl r"
      using patch_checked_observed[of kube name patch w log r w1 c what] run by blast
    with False run show ?thesis
      by (cases res) (auto simp: bind_io_def guards Let_def)
  qed
qed

section \<open>Listings\<close>

lemma namespace_listing_complete:
  assumes "paged_source (fetch_namespaces c kube sel) items at" and "unknown_statuses statuses = []"
  shows "\<exists>w'. items w' = items w \<and> list_namespaces c kube pres statuses sel w =
    Some (case build_all to_summary (filter (namespace_selected pres statuses) (items w)) of
            Inl e \<Rightarrow> Inl e
          | Inr xs \<Rightarrow> Inr \<lparr>nsld_cluster = c, nsld_namespaces = xs\<rparr>, w')"
proof -
  obtain w' where w': "items w' = items w" and run: "collect_pages (fetch_namespaces c kube sel)
      (\<lambda>xs. build_all to_summary (filter (namespace_selected pres statuses) xs)) None [] w =
      Some (build_all to_summary (filter (namespace_selected pres statuses) (items w)), w')"
    using paged_source.collect_all[OF assms(1) splits_pages_build[of to_summary
        "namespace_selected pres statuses"], where w = w] by blast
  show ?thesis
    by (intro exI[of _ w'] conjI w') (simp add: list_namespaces_def run assms(2) split: sum.split)
qed

lemma configmap_listing_complete:
  assumes "paged_source (fetch_configmaps c ns kube) items at"
  shows "\<exists>w'. items w' = items w \<and> list_configmaps c ns kube pres w =
    Some (Inr \<lparr>cml_cluster = c, cml_namespace = ns,
               cml_configmaps = map cm_summary (filter (cm_selected pres) (items w))\<rparr>, w')"
proof -
  obtain w' where w': "items w' = items w" and run: "collect_pages (fetch_configmaps c ns kube)
      (\<lambda>xs. build_all (\<lambda>cm. Inr (cm_summary cm)) (filter (cm_selected pres) xs)) None [] w =
      Some (build_all (\<lambda>cm. Inr (cm_summary cm)) (filter (cm_selected pres) (items w)), w')"
    using paged_source.collect_all[OF assms splits_pages_build[of "\<lambda>cm. Inr (cm_summary cm)"
        "cm_selected pres"], where w = w] by blast
  show ?thesis
    unfolding list_configmaps_def run
    by (intro exI[of _ w'] conjI w') (simp add: build_all_pure)
qed

section \<open>The dry-run cluster\<close>

definition dry_spaces :: "string \<Rightarrow> dry_world \<Rightarrow> string \<rightharpoonup> v1_namespace" where
  "dry_spaces c w = dict_get (ks_namespaces (state_for c w))"

lemma state_inv_namespace:
  assumes "state_inv s" and "ns_name v = n"
  shows "state_inv (s\<lparr>ks_namespaces := dict_set n v (ks_namespaces s)\<rparr>)"
proof -
  have "\<forall>(k, v) \<in> set (dict_set n v (ks_namespaces s)). ns_name v = k"
    by (rule dict_set_entries) (use assms in \<open>auto simp: state_inv_def\<close>)
  with assms(1) show ?thesis by (simp add: state_inv_def)
qed

lemma namespace_entry:
  assumes "state_inv s" and "dict_get (ks_namespaces s) n = Some v"
  shows "ns_name v = n"
proof -
  from assms(2) have "(n, v) \<in> set (ks_namespaces s)" by (rule map_of_SomeD)
  with assms(1) show ?thesis by (auto simp: state_inv_def)
qed

lemma ns_patch_effect_patched:
  "wf_ns_patch p \<Longrightarrow> ns_patch_effect p v (patched_namespace p v)"
  by (simp add: ns_patch_effect_def patched_namespace_def wf_ns_patch_def ns_label_map_def
      ns_annotation_map_def merge_into_get)

lemma ns_created_made:
  "ns_created b (make_namespace (nb_name b) ''Active'' (Some (nb_annotations b)) (nb_labels b))"
  by (auto simp: ns_created_def make_namespace_def phase_of_def str_or_def ns_label_map_def
      ns_annotation_map_def NAME_LABEL_def fun_eq_iff)

interpretation dry_ns: namespace_store "dry_run_core_v1_api c" "dry_spaces c" "dry_inv c" for c
proof (unfold_locales, goal_cases)
  case (1 w n rr w')
  then show ?case
    by (auto simp: dry_run_core_v1_api_def on_state_eq dry_read_namespace_def dry_inv_def
        dry_spaces_def sdk_not_found_def split: option.splits)
next
  case (2 w b rc w')
  show ?case
  proof (cases "dict_get (ks_namespaces (state_for c w)) (nb_name b)")
    case None
    then show ?thesis
      using 2 ns_created_made[of b] state_inv_namespace[of "state_for c w"
          "make_namespace (nb_name b) ''Active'' (Some (nb_annotations b)) (nb_labels b)" "nb_name b"]
      by (auto simp: dry_run_core_v1_api_def on_state_eq dry_create_namespace_def dry_inv_def
          dry_spaces_def Let_def fun_eq_iff ns_created_def)
  next
    case (Some v)
    with 2 show ?thesis
      by (auto simp: dry_run_core_v1_api_def on_state_eq dry_create_namespace_def dry_inv_def
          dry_spaces_def sdk_conflict_def Let_def)
  qed
next
  case (3 w p n rp w')
  show ?case
  proof (cases "dict_get (ks_namespaces (state_for c w)) n")
    case None
    with 3 show ?thesis
      by (auto simp: dry_run_core_v1_api_def on_state_eq dry_patch_namespace_def dry_inv_def
          dry_spaces_def sdk_not_found_def)
  next
    case (Some v)
    have "ns_name (patched_namespace p v) = n"
      using namespace_entry[of "state_for c w" n v] 3(1) Some
      by (simp add: dry_inv_def patched_namespace_def)
    with Some 3 ns_patch_effect_patched[of p v] state_inv_namespace[of "state_for c w"] show ?thesis
      by (auto simp: dry_run_core_v1_api_def on_state_eq dry_patch_namespace_def dry_inv_def
          dry_spaces_def Let_def fun_eq_iff)
  qed
qed

text \<open>Between two worlds, nothing differs but the namespaces of one cluster.\<close>

definition only_namespaces :: "string \<Rightarrow> dry_world \<Rightarrow> dry_world \<Rightarrow> bool" where
  "only_namespaces c w w' \<longleftrightarrow>
     ks_nodes (state_for c w') = ks_nodes (state_for c w) \<and> ks_pods (state_for c w') = ks_pods (state_for c w) \<and>
     (\<forall>c'. c' \<noteq> c \<longrightarrow> state_for c' w' = state_for c' w) \<and> now w' = now w"

lemma patch_only_namespaces:
  "patch_namespace (dry_run_core_v1_api c) n p w = (r, w') \<Longrightarrow> only_namespaces c w w'"
  by (auto simp: dry_run_core_v1_api_def on_state_eq dry_patch_namespace_def only_namespaces_def Let_def
      split: option.splits)

text \<open>The dry-run listings are one page.\<close>

interpretation dry_namespaces: paged_source
  "fetch_namespaces c (dry_run_core_v1_api c) None"
  "\<lambda>w. map snd (ks_namespaces (state_for c w))" "\<lambda>t. 0" for c
  by unfold_locales
    (auto simp: fetch_namespaces_def dry_run_core_v1_api_def on_state_def dry_list_namespace_def
      one_page_def last_page_def translate_kube_errors_def catch_io_def)

interpretation dry_configmaps: paged_source
  "fetch_configmaps c ''*'' (dry_run_core_v1_api c)" "\<lambda>w. default_configmaps" "\<lambda>t. 0" for c
  by unfold_locales
    (auto simp: fetch_configmaps_def dry_run_core_v1_api_def dry_list_config_maps_def
      one_page_def last_page_def translate_kube_errors_def catch_io_def)

end
