(* ===== verification/Namespace_Properties.thy ===== *)
theory Namespace_Properties
  imports Namespace_Facts Routes
begin

text \<open>
  The properties of the namespace and ConfigMap operations: what an edit may send, who writes the
  provenance stamps, creation and its conflict, complete listings, what is never answered, and
  the translation of every SDK failure. They rest on \<open>Namespace_Facts\<close>.
\<close>

section \<open>Concrete inputs\<close>

definition operator :: caller where
  "operator = \<lparr>caller_account = ''op'', caller_request_id = ''r-1''\<rparr>"

definition at_creation :: "dry_world \<Rightarrow> datetime" where
  "at_creation w = CREATED"

lemma fresh_spaces [simp]: "dry_spaces c fresh = dict_get default_namespaces"
  by (simp add: dry_spaces_def state_for_def fresh_def initial_state_def)

section \<open>More facts on edits\<close>

context namespace_store
begin

lemma merge_spec_update:
  "wf_dict e \<Longrightarrow> merge_spec m (dict_update d e) = merge_spec (merge_spec m d) e"
  by (auto simp: merge_spec_def dict_get_update_gen fun_eq_iff split: option.split)

lemma update_annotations_spec:
  assumes "inv w" and "spaces w name = Some v" and "wf_dict s"
    and "\<not> is_reserved_namespace_name name"
    and "\<forall>k \<in> set (keys s) \<union> set r. \<not> is_under_domain k pre"
  shows "\<exists>d v' w'. update_annotations pre clk c name s r caller kube w = (Inr d, w') \<and> inv w' \<and>
    spaces w' = (spaces w)(name \<mapsto> v') \<and> ns_label_map v' = ns_label_map v \<and>
    nsa_annotations d = readable_annotations v' \<and>
    ns_annotation_map v' = merge_spec (edited (ns_annotation_map v) s r)
      (provenance pre (clk w) ''last-modified'' caller)"
proof -
  let ?a = "dict_update (key_merge_patch s r) (provenance pre (clk w) ''last-modified'' caller)"
  let ?p = "\<lparr>nsp_labels = None, nsp_annotations = Some ?a\<rparr>"
  have "wf_dict (key_merge_patch s r)" by simp
  then have wf: "wf_ns_patch ?p" by (simp add: wf_ns_patch_def)
  obtain v' w' where p: "patch_namespace kube name ?p w = (Inr v', w')" "inv w'"
      "ns_patch_effect ?p v v'" "spaces w' = (spaces w)(name \<mapsto> v')"
    using patch_found[OF assms(1) wf assms(2)] .
  then have "update_annotations pre clk c name s r caller kube w =
      (Inr \<lparr>nsa_cluster = c, nsa_name = name, nsa_annotations = readable_annotations v'\<rparr>, w')"
    using assms(4,5) by (auto simp: update_annotations_def patch_namespace_checked_def bind_io_Inr_iff)
  with p show ?thesis
    by (auto simp: ns_patch_effect_def merge_spec_update merge_spec_edited[OF assms(3)])
qed

end

section \<open>Edits\<close>

text \<open>C26: whatever the cluster answers, a label or annotation edit of a namespace is refused as invalid without a
  call when the name is reserved or a key is under the service's prefix, and otherwise makes exactly one
  call, one patch of that namespace, and answers exactly if the cluster took it; the patch sets and removes
  the keys asked for, removal winning, together with the three stamps of this caller, and a label edit
  writes no other annotation.\<close>

theorem namespace_edit_calls:
  fixes kube :: "'w core_v1_api"
  assumes "wf_dict s"
    and "refuse \<longleftrightarrow> is_reserved_namespace_name name \<or> (\<exists>k \<in> set (keys s) \<union> set r. is_under_domain k pre)"
  shows "\<exists>labels annotations.
    asks_for s r [] labels \<and> (\<forall>t. asks_for s r (stamps_of pre t caller) (annotations t)) \<and>
    one_patch refuse name
      (\<lambda>w. \<lparr>nsp_labels = Some labels, nsp_annotations = Some (stamps_of pre (clk w) caller)\<rparr>) kube
      (update_labels pre clk c name s r caller (observed kube)) \<and>
    one_patch refuse name
      (\<lambda>w. \<lparr>nsp_labels = None, nsp_annotations = Some (annotations (clk w))\<rparr>) kube
      (update_annotations pre clk c name s r caller (observed kube))"
proof -
  let ?ls = "key_merge_patch s r"
  let ?as = "\<lambda>t. dict_update ?ls (provenance pre t ''last-modified'' caller)"
  have keys: "refuse \<longleftrightarrow> is_reserved_namespace_name name \<or>
      (\<exists>k \<in> set (keys s @ r) \<union> set []. is_under_domain k pre)"
    "refuse \<longleftrightarrow> is_reserved_namespace_name name \<or> (\<exists>k \<in> set [] \<union> set (keys s @ r). is_under_domain k pre)"
    using assms(2) by simp_all
  have "one_patch refuse name
      (\<lambda>w. \<lparr>nsp_labels = Some ?ls, nsp_annotations = Some (stamps_of pre (clk w) caller)\<rparr>) kube
      (update_labels pre clk c name s r caller (observed kube))"
    unfolding update_labels_def provenance_stamps using keys(1) by (rule one_patch_guarded)
  moreover have "one_patch refuse name (\<lambda>w. \<lparr>nsp_labels = None, nsp_annotations = Some (?as (clk w))\<rparr>) kube
      (update_annotations pre clk c name s r caller (observed kube))"
    unfolding update_annotations_def using keys(2) by (rule one_patch_guarded)
  moreover note asks_for_labels[OF assms(1), of r] asks_for_annotations[OF assms(1), of r pre _ caller]
  ultimately show ?thesis by (intro exI[of _ ?ls] exI[of _ ?as]) simp
qed

lemma namespace_edit_calls_witness:
  "\<exists>labels. dict_get labels ''team'' = Some (Some ''a'') \<and> dict_get labels ''old'' = Some None \<and>
     (case update_labels ''acme.io'' (\<lambda>_. CREATED) ''c'' ''dry-run-apps'' [(''team'', ''a'')] [''old''] operator
        (observed (dry_run_core_v1_api ''c'')) (fresh, []) of
      (res, w', log) \<Rightarrow> log = [PatchNamespace ''dry-run-apps'' \<lparr>nsp_labels = Some labels,
        nsp_annotations = Some (stamps_of ''acme.io'' CREATED operator)\<rparr>])"
proof -
  have "\<not> is_reserved_namespace_name ''dry-run-apps''" by code_simp
  moreover have "\<not> is_under_domain ''team'' ''acme.io'' \<and> \<not> is_under_domain ''old'' ''acme.io''" by code_simp
  ultimately have refuse: "False \<longleftrightarrow> is_reserved_namespace_name ''dry-run-apps'' \<or>
      (\<exists>k \<in> set (keys [(''team'', ''a'')]) \<union> set [''old'']. is_under_domain k ''acme.io'')"
    by (auto simp: keys_def)
  have wf: "wf_dict [(''team'', ''a'')]" by (simp add: wf_dict_def)
  obtain labels where labels: "asks_for [(''team'', ''a'')] [''old''] [] labels"
    and one: "one_patch False ''dry-run-apps''
      (\<lambda>w. \<lparr>nsp_labels = Some labels, nsp_annotations = Some (stamps_of ''acme.io'' CREATED operator)\<rparr>)
      (dry_run_core_v1_api ''c'')
      (update_labels ''acme.io'' (\<lambda>_. CREATED) ''c'' ''dry-run-apps'' [(''team'', ''a'')] [''old''] operator
        (observed (dry_run_core_v1_api ''c'')))"
    using namespace_edit_calls[OF wf refuse, where caller = operator and clk = "\<lambda>_. CREATED" and c = "''c''"
        and kube = "dry_run_core_v1_api ''c''"] by (elim exE conjE) (rule that)
  have "dict_get labels ''team'' = Some (Some ''a'') \<and> dict_get labels ''old'' = Some None"
    using labels by (simp add: asks_for_def)
  with one show ?thesis
    by (intro exI[of _ labels]) (simp add: one_patch_def Let_def split: prod.splits, blast)
qed

text \<open>A label edit of a known namespace of the dry-run cluster sets, deletes (removal wins)
  and keeps labels, answers the labels afterwards, records the caller, the time and the request in
  the three stamps, and keeps every other annotation and every other namespace.\<close>

theorem dry_namespace_label_edit:
  assumes "dry_inv c w" and "dry_spaces c w name = Some v" and "wf_dict s"
    and "\<not> is_reserved_namespace_name name"
    and "\<forall>k \<in> set (keys s) \<union> set r. \<not> is_under_domain k pre"
  shows "\<exists>d v' w'.
    update_labels pre clk c name s r caller (dry_run_core_v1_api c) w = (Inr d, w') \<and>
    dry_spaces c w' = (dry_spaces c w)(name \<mapsto> v') \<and>
    ns_label_map v' = edited (ns_label_map v) s r \<and> dict_get (nsl_labels d) = ns_label_map v' \<and>
    ns_annotation_map v' (stamp_by pre ''last-modified'') = Some (caller_account caller) \<and>
    ns_annotation_map v' (stamp_at pre ''last-modified'') = Some (timestamp (clk w)) \<and>
    ns_annotation_map v' (stamp_request pre) =
      (if caller_request_id caller = [] then None else Some (caller_request_id caller)) \<and>
    (\<forall>k. k \<notin> {stamp_by pre ''last-modified'', stamp_at pre ''last-modified'', stamp_request pre} \<longrightarrow>
       ns_annotation_map v' k = ns_annotation_map v k)"
proof -
  obtain d v' w' where
    run: "update_labels pre clk c name s r caller (dry_run_core_v1_api c) w = (Inr d, w')"
      "dry_spaces c w' = (dry_spaces c w)(name \<mapsto> v')" "dict_get (nsl_labels d) = ns_label_map v'"
      "ns_label_map v' = edited (ns_label_map v) s r"
    and ann: "ns_annotation_map v' =
      merge_spec (ns_annotation_map v) (provenance pre (clk w) ''last-modified'' caller)"
    using dry_ns.update_labels_spec[OF assms] by blast
  show ?thesis
    by (intro exI[of _ d] exI[of _ v'] exI[of _ w'] conjI run)
      (use stamps_distinct[of pre] in
        \<open>auto simp: ann merge_spec_def provenance_eq dest: sym\<close>)
qed

lemma dry_namespace_label_edit_witness:
  "\<exists>d v' w'. update_labels ''acme.io'' at_creation ''c'' ''dry-run-apps'' [(''team'', ''a'')] [''old'']
      operator (dry_run_core_v1_api ''c'') fresh = (Inr d, w') \<and>
    dry_spaces ''c'' w' ''dry-run-apps'' = Some v' \<and>
    ns_annotation_map v' ''acme.io/last-modified-by'' = Some ''op''"
proof -
  have "dict_get default_namespaces ''dry-run-apps'' \<noteq> None" by code_simp
  then obtain v where v: "dry_spaces ''c'' fresh ''dry-run-apps'' = Some v" by auto
  have wf: "wf_dict [(''team'', ''a'')]" by (simp add: wf_dict_def)
  have name: "\<not> is_reserved_namespace_name ''dry-run-apps''" by code_simp
  have "\<not> is_under_domain ''team'' ''acme.io'' \<and> \<not> is_under_domain ''old'' ''acme.io''" by code_simp
  then have keys: "\<forall>k \<in> set (keys [(''team'', ''a'')]) \<union> set [''old'']. \<not> is_under_domain k ''acme.io''"
    by (auto simp: keys_def)
  obtain d v' w' where run: "update_labels ''acme.io'' at_creation ''c'' ''dry-run-apps''
        [(''team'', ''a'')] [''old''] operator (dry_run_core_v1_api ''c'') fresh = (Inr d, w')"
      "dry_spaces ''c'' w' = (dry_spaces ''c'' fresh)(''dry-run-apps'' \<mapsto> v')"
      "ns_annotation_map v' (stamp_by ''acme.io'' ''last-modified'') = Some (caller_account operator)"
    using dry_namespace_label_edit[OF fresh_inv v wf name keys] by blast
  show ?thesis
    by (intro exI[of _ d] exI[of _ v'] exI[of _ w'] conjI run(1))
      (use run(2,3) in \<open>simp_all add: operator_def stamp_by_def\<close>)
qed

text \<open>C25: an annotation edit of the dry-run cluster cannot forge provenance: under the service's prefix it writes
  the three stamps of this caller and leaves everything else as it was; outside the prefix the annotations
  are as asked for, removal winning; and labels, other namespaces, nodes, pods and other clusters are
  untouched.\<close>

theorem annotation_edit_cannot_forge:
  assumes "dry_inv c w" and "dry_spaces c w name = Some v" and "wf_dict s"
    and "update_annotations pre clk c name s r caller (dry_run_core_v1_api c) w = (Inr d, w')"
  shows "\<exists>v'. dry_spaces c w' = (dry_spaces c w)(name \<mapsto> v') \<and> only_namespaces c w w' \<and>
    ns_label_map v' = ns_label_map v \<and>
    ns_annotation_map v' (pre @ ''/last-modified-by'') = Some (caller_account caller) \<and>
    ns_annotation_map v' (pre @ ''/last-modified-at'') = Some (timestamp (clk w)) \<and>
    ns_annotation_map v' (pre @ ''/last-request-id'') =
      (if caller_request_id caller = [] then None else Some (caller_request_id caller)) \<and>
    (\<forall>k. k \<notin> {pre @ ''/last-modified-by'', pre @ ''/last-modified-at'', pre @ ''/last-request-id''} \<longrightarrow>
       ns_annotation_map v' k =
         (if is_under_domain k pre then ns_annotation_map v k
          else if k \<in> set r then None
          else (case dict_get s k of Some x \<Rightarrow> Some x | None \<Rightarrow> ns_annotation_map v k)))"
proof -
  obtain ns where legal: "\<not> is_reserved_namespace_name name"
      "\<forall>k \<in> set (keys s) \<union> set r. \<not> is_under_domain k pre"
    and "patch_namespace (dry_run_core_v1_api c) name
       \<lparr>nsp_labels = None, nsp_annotations = Some (dict_update (key_merge_patch s r)
          (provenance pre (clk w) ''last-modified'' caller))\<rparr> w = (Inr ns, w')"
    using assms(4) by (rule update_annotations_returns)
  then have frame: "only_namespaces c w w'" using patch_only_namespaces by blast
  obtain v' where v': "dry_spaces c w' = (dry_spaces c w)(name \<mapsto> v')" "ns_label_map v' = ns_label_map v"
    and map: "ns_annotation_map v' = merge_spec (edited (ns_annotation_map v) s r)
      (provenance pre (clk w) ''last-modified'' caller)"
    using dry_ns.update_annotations_spec[OF assms(1-3) legal, of clk c caller] assms(4) by auto
  have edited: "edited (ns_annotation_map v) s r k = (if is_under_domain k pre then ns_annotation_map v k
      else if k \<in> set r then None
      else (case dict_get s k of Some x \<Rightarrow> Some x | None \<Rightarrow> ns_annotation_map v k))" for k
  proof -
    have "dict_get s k = None \<and> k \<notin> set r" if "is_under_domain k pre"
      using legal(2) that by (auto simp: keys_def map_of_eq_None_iff)
    then show ?thesis by (auto simp: edited_def)
  qed
  show ?thesis
    by (intro exI[of _ v'] conjI v' frame)
      (use stamps_distinct[of pre] in \<open>auto simp: map merge_spec_def provenance_stamps stamps_of_def edited\<close>)
qed

lemma annotation_edit_cannot_forge_witness:
  "\<exists>w' v'. dry_spaces ''c'' w' ''dry-run-apps'' = Some v' \<and>
     ns_annotation_map v' ''acme.io/last-modified-by'' = Some ''op''"
proof -
  have "dict_get default_namespaces ''dry-run-apps'' \<noteq> None" by code_simp
  then obtain v where v: "dry_spaces ''c'' fresh ''dry-run-apps'' = Some v" by auto
  have wf: "wf_dict [(''note'', ''a'')]" by (simp add: wf_dict_def)
  have "\<not> isl (fst (update_annotations ''acme.io'' at_creation ''c'' ''dry-run-apps'' [(''note'', ''a'')] []
      operator (dry_run_core_v1_api ''c'') fresh))" by code_simp
  then obtain d w' where run: "update_annotations ''acme.io'' at_creation ''c'' ''dry-run-apps''
      [(''note'', ''a'')] [] operator (dry_run_core_v1_api ''c'') fresh = (Inr d, w')"
    by (metis prod.collapse sum.collapse(2))
  obtain v' where "dry_spaces ''c'' w' = (dry_spaces ''c'' fresh)(''dry-run-apps'' \<mapsto> v')"
    and "ns_annotation_map v' (''acme.io'' @ ''/last-modified-by'') = Some (caller_account operator)"
    using annotation_edit_cannot_forge[OF fresh_inv v wf run] by blast
  then show ?thesis by (intro exI[of _ w'] exI[of _ v']) (simp add: operator_def)
qed

section \<open>Creation\<close>

text \<open>Creating a namespace the dry-run cluster does not have adds exactly that namespace:
  Active, with the caller's labels and the name label Kubernetes adds, and with the creation
  stamps of this caller; the answer is what was stored.\<close>

theorem dry_create_namespace_stamps:
  assumes "dry_inv c w" and "dry_spaces c w name = None"
    and "\<forall>k \<in> set (keys ls) \<union> set (keys as). \<not> is_under_domain k pre"
  shows "\<exists>d v w'.
    create_namespace_op pre clk c name ls caller (dry_run_core_v1_api c) (Some as) w = (Inr d, w') \<and>
    dry_spaces c w' = (dry_spaces c w)(name \<mapsto> v) \<and> to_detail c v = Inr d \<and>
    phase_of v = ''Active'' \<and> ns_label_map v = (dict_get ls)(NAME_LABEL \<mapsto> name) \<and>
    ns_annotation_map v (stamp_by pre ''created'') = Some (caller_account caller) \<and>
    ns_annotation_map v (stamp_at pre ''created'') = Some (timestamp (clk w))"
proof -
  let ?b = "create_body pre (clk w) name ls caller (Some as)"
  have fresh_keys: "\<forall>k \<in> set (keys ls) \<union> set (keys (or_else (Some as) [])). \<not> is_under_domain k pre"
    using assms(3) by simp
  obtain d v w' where run: "create_namespace_op pre clk c name ls caller (dry_run_core_v1_api c) (Some as) w =
      (Inr d, w')" "dry_spaces c w' = (dry_spaces c w)(name \<mapsto> v)" "to_detail c v = Inr d"
    and made: "ns_created ?b v"
    using dry_ns.create_spec[OF assms(1,2) fresh_keys] by blast
  have labels: "dict_get (or_else (nb_labels ?b) []) = dict_get ls"
    by (simp add: create_body_def)
  have stamps: "dict_get (nb_annotations ?b) (stamp_by pre ''created'') = Some (caller_account caller)"
    "dict_get (nb_annotations ?b) (stamp_at pre ''created'') = Some (timestamp (clk w))"
  proof -
    let ?n = "not_null (provenance pre (clk w) ''created'' caller)"
    have "wf_dict ?n"
      using stamps_distinct(1)[of pre "''created''" "''created''"] stamps_distinct(2,3)[of pre "''created''"]
      by (auto simp: not_null_def provenance_eq wf_dict_def)
    moreover have "dict_get ?n (stamp_by pre ''created'') = Some (caller_account caller)"
      "dict_get ?n (stamp_at pre ''created'') = Some (timestamp (clk w))"
      using stamps_distinct(1)[of pre "''created''" "''created''"]
      by (auto simp: not_null_def provenance_eq)
    ultimately show "dict_get (nb_annotations ?b) (stamp_by pre ''created'') = Some (caller_account caller)"
      "dict_get (nb_annotations ?b) (stamp_at pre ''created'') = Some (timestamp (clk w))"
      by (simp_all add: create_body_def dict_get_update_gen)
  qed
  have "nb_name ?b = name" by (simp add: create_body_def)
  with made labels stamps run show ?thesis by (auto simp: ns_created_def)
qed

lemma dry_create_namespace_stamps_witness:
  "\<exists>d v w'. create_namespace_op ''acme.io'' at_creation ''c'' ''shop'' [(''team'', ''a'')] operator
      (dry_run_core_v1_api ''c'') (Some []) fresh = (Inr d, w') \<and>
    dry_spaces ''c'' w' ''shop'' = Some v \<and> ns_label_map v ''team'' = Some ''a''"
proof -
  have "dict_get default_namespaces ''shop'' = None" by code_simp
  then have none: "dry_spaces ''c'' fresh ''shop'' = None" by simp
  have "\<not> is_under_domain ''team'' ''acme.io''" by code_simp
  then have "\<forall>k \<in> set (keys [(''team'', ''a'')]) \<union> set (keys ([] :: str_map)). \<not> is_under_domain k ''acme.io''"
    by (simp add: keys_def)
  from dry_create_namespace_stamps[OF fresh_inv none this, of at_creation operator]
  show ?thesis by (fastforce simp: NAME_LABEL_def)
qed

text \<open>Creating a namespace whose name is taken changes nothing and is a conflict that names
  the namespace and the phase it is in.\<close>

theorem dry_create_namespace_conflict:
  assumes "dry_inv c w" and "dry_spaces c w name = Some v"
    and "\<forall>k \<in> set (keys ls) \<union> set (keys as). \<not> is_under_domain k pre"
  shows "\<exists>m w'.
    create_namespace_op pre clk c name ls caller (dry_run_core_v1_api c) (Some as) w =
      (Inl (App (NamespaceAlreadyExistsException m
         (JObj [(''name'', JStr name), (''status'', JStr (phase_of v))]))), w') \<and>
    dry_spaces c w' = dry_spaces c w"
  using dry_ns.create_conflict[OF assms(1,2), of ls "Some as" pre clk c caller] assms(3) by simp

lemma dry_create_namespace_conflict_witness:
  "\<exists>m w'. create_namespace_op ''acme.io'' at_creation ''c'' ''dry-run-terminating'' [] operator
      (dry_run_core_v1_api ''c'') (Some []) fresh =
    (Inl (App (NamespaceAlreadyExistsException m
       (JObj [(''name'', JStr ''dry-run-terminating''), (''status'', JStr ''Terminating'')]))), w')"
proof -
  have "map_option phase_of (dict_get default_namespaces ''dry-run-terminating'') = Some ''Terminating''"
    by code_simp
  then obtain v where v: "dry_spaces ''c'' fresh ''dry-run-terminating'' = Some v" "phase_of v = ''Terminating''"
    by auto
  have "\<forall>k \<in> set (keys ([] :: str_map)) \<union> set (keys ([] :: str_map)). \<not> is_under_domain k ''acme.io''"
    by (simp add: keys_def)
  from dry_create_namespace_conflict[OF fresh_inv v(1) this, of at_creation operator] v(2)
  show ?thesis by auto
qed

section \<open>Listings\<close>

text \<open>A listing cut into pages of a given per: the token is the position of the next page.\<close>

definition position :: "string option \<Rightarrow> nat" where
  "position tok = (case tok of None \<Rightarrow> 0 | Some s \<Rightarrow> nat_of_digits s)"

definition chunk :: "nat \<Rightarrow> 'a list \<Rightarrow> string option \<Rightarrow> 'a page" where
  "chunk per xs tok =
     (let stop = position tok + per
      in \<lparr>page_items = take per (drop (position tok) xs),
          page_continue = (if stop < length xs then Some (str_of_nat stop) else None)\<rparr>)"

lemma str_of_nat_nonempty [simp]: "str_of_nat n \<noteq> []"
  by (subst str_of_nat.simps) simp

lemma chunk_paged:
  assumes "0 < per"
  shows "paged_source (\<lambda>tok (w :: 'w). (Inr (chunk per (xs :: 'a list) tok), w)) (\<lambda>w. xs) position"
proof
  show "position None = 0" by (simp add: position_def)
next
  fix t :: "string option" and w w' :: 'w and r :: "exn + 'a page"
  assume t: "position t \<le> length xs" and "(Inr (chunk per xs t), w) = (r, w')"
  then have r: "r = Inr (chunk per xs t)" by simp
  have pos: "position (Some (str_of_nat n)) = n" for n by (simp add: position_def)
  show "xs = xs \<and> (\<exists>p. r = Inr p \<and>
        page_items p = take (length (page_items p)) (drop (position t) xs) \<and>
        (if last_page p then position t + length (page_items p) = length xs
         else position t < position (page_continue p) \<and>
           position (page_continue p) = position t + length (page_items p) \<and>
           position (page_continue p) \<le> length xs))"
    using t assms by (auto simp: r chunk_def last_page_def pos Let_def)
qed

definition paging_kube :: "v1_namespace list \<Rightarrow> v1_config_map list \<Rightarrow> dry_world core_v1_api" where
  "paging_kube spaces cms = (dry_run_core_v1_api ''c'')\<lparr>
     list_namespace := (\<lambda>sel per tok w. (Inr (chunk per spaces tok), w)),
     list_config_map_for_all_namespaces := (\<lambda>per tok w. (Inr (chunk per cms tok), w))\<rparr>"

lemma paging_kube_paged:
  "paged_source (fetch_namespaces c (paging_kube spaces cms) sel) (\<lambda>w. spaces) position"
  "paged_source (fetch_configmaps c ''*'' (paging_kube spaces cms)) (\<lambda>w. cms) position"
proof -
  have "0 < PAGE_SIZE" by (simp add: PAGE_SIZE_def)
  note pages = chunk_paged[OF this]
  have "fetch_namespaces c (paging_kube spaces cms) sel =
      (\<lambda>tok w. (Inr (chunk PAGE_SIZE spaces tok), w))"
    by (intro ext) (simp add: fetch_namespaces_def paging_kube_def translate_eval)
  with pages[of spaces] show "paged_source (fetch_namespaces c (paging_kube spaces cms) sel)
      (\<lambda>w. spaces) position" by simp
  have "fetch_configmaps c ''*'' (paging_kube spaces cms) =
      (\<lambda>tok w. (Inr (chunk PAGE_SIZE cms tok), w))"
    by (intro ext) (simp add: fetch_configmaps_def paging_kube_def translate_eval)
  with pages[of cms] show "paged_source (fetch_configmaps c ''*'' (paging_kube spaces cms))
      (\<lambda>w. cms) position" by simp
qed

text \<open>C35: a namespace listing ends and is complete: on any API whose pages tile its list, however
  it cuts them, with known status filters and phases the answer is one summary per selected
  namespace, in the order of the API.\<close>

theorem namespace_listing_is_complete:
  assumes "paged_source (fetch_namespaces c kube sel) spaces at" and "unknown_statuses statuses = []"
    and "\<And>v. v \<in> set (spaces w) \<Longrightarrow> phase_of v \<in> {''Active'', ''Terminating''}"
  shows "\<exists>w' xs. list_namespaces c kube pres statuses sel w =
      Some (Inr \<lparr>nsld_cluster = c, nsld_namespaces = xs\<rparr>, w') \<and>
    map nss_name xs = map ns_name (filter (namespace_selected pres statuses) (spaces w)) \<and>
    map nss_status xs = map phase_of (filter (namespace_selected pres statuses) (spaces w))"
proof -
  let ?g = "\<lambda>v. \<lparr>nss_name = ns_name v, nss_status = phase_of v,
                nss_labels = or_else (ns_labels v) [],
                nss_creation_timestamp = ns_creation_timestamp v\<rparr>"
  have "to_summary v = Inr (?g v)" if "v \<in> set (filter (namespace_selected pres statuses) (spaces w))" for v
    using assms(3)[of v] that by (auto simp: to_summary_def known_phase_def PHASES_def)
  then have "build_all to_summary (filter (namespace_selected pres statuses) (spaces w)) =
      Inr (map ?g (filter (namespace_selected pres statuses) (spaces w)))"
    by (rule build_all_Inr)
  then obtain w' where "list_namespaces c kube pres statuses sel w = Some (Inr \<lparr>nsld_cluster = c,
      nsld_namespaces = map ?g (filter (namespace_selected pres statuses) (spaces w))\<rparr>, w')"
    using namespace_listing_complete[OF assms(1,2), of w pres] by auto
  then show ?thesis by (auto simp: comp_def)
qed

lemma namespace_listing_is_complete_witness:
  "\<exists>w' xs. list_namespaces ''c'' (paging_kube (map snd default_namespaces) []) (Some [''dry-run''])
      (Some [''active'']) None fresh =
      Some (Inr \<lparr>nsld_cluster = ''c'', nsld_namespaces = xs\<rparr>, w') \<and>
    map nss_name xs = [''dry-run-apps'']"
proof -
  have "unknown_statuses (Some [''active'']) = []" by code_simp
  moreover have "list_all (\<lambda>v. phase_of v = ''Active'' \<or> phase_of v = ''Terminating'')
      (map snd default_namespaces)" by code_simp
  then have "phase_of v \<in> {''Active'', ''Terminating''}" if "v \<in> set (map snd default_namespaces)" for v
    using that by (auto simp: list_all_iff)
  moreover have "map ns_name (filter (namespace_selected (Some [''dry-run'']) (Some [''active'']))
      (map snd default_namespaces)) = [''dry-run-apps'']" by code_simp
  ultimately show ?thesis
    using namespace_listing_is_complete[where kube = "paging_kube (map snd default_namespaces) []"
        and statuses = "Some [''active'']" and w = fresh and c = "''c''" and sel = None
        and pres = "Some [''dry-run'']", OF paging_kube_paged(1)] by metis
qed

text \<open>A ConfigMap listing ends and is complete in the same way, with the names of the keys
  and never a value.\<close>

theorem configmap_listing_is_complete:
  assumes "paged_source (fetch_configmaps c ns kube) cms at"
  shows "\<exists>w'. list_configmaps c ns kube pres w =
    Some (Inr \<lparr>cml_cluster = c, cml_namespace = ns,
               cml_configmaps = map cm_summary (filter (cm_selected pres) (cms w))\<rparr>, w')"
  using configmap_listing_complete[OF assms, of w pres] by blast

lemma configmap_listing_is_complete_witness:
  "\<exists>w'. list_configmaps ''c'' ''*'' (paging_kube [] default_configmaps) (Some [''dry-run-shared'']) fresh =
    Some (Inr \<lparr>cml_cluster = ''c'', cml_namespace = ''*'', cml_configmaps =
      map cm_summary (filter (cm_selected (Some [''dry-run-shared''])) default_configmaps)\<rparr>, w')"
  using configmap_listing_is_complete[OF paging_kube_paged(2)] .

section \<open>What is never answered\<close>

text \<open>C36: the last-applied configuration, which carries a copy of the whole object, is in no
  answer about a namespace or a ConfigMap, whatever the cluster holds.\<close>

theorem last_applied_is_never_answered:
  "(get_namespace c name kube w = (Inr d, w') \<longrightarrow> NS_LAST_APPLIED \<notin> set (keys (nsd_annotations d))) \<and>
   (create_namespace_op pre clk c name ls caller kube as w = (Inr d, w') \<longrightarrow>
      NS_LAST_APPLIED \<notin> set (keys (nsd_annotations d))) \<and>
   (update_annotations pre clk c name s r caller kube w = (Inr a, w') \<longrightarrow>
      NS_LAST_APPLIED \<notin> set (keys (nsa_annotations a))) \<and>
   (get_configmap c ns name kube w = (Inr m, w') \<longrightarrow>
      CM_LAST_APPLIED \<notin> set (keys (cmd_annotations m)))"
proof -
  have readable: "NS_LAST_APPLIED \<notin> set (keys (readable_annotations v))" for v
    by (auto simp: readable_annotations_def keys_def)
  have detail: "NS_LAST_APPLIED \<notin> set (keys (nsd_annotations d))" if "to_detail c v = Inr d" for v
    using that readable[of v] by (auto simp: to_detail_def split: if_splits)
  have "NS_LAST_APPLIED \<notin> set (keys (nsd_annotations d))"
    if "get_namespace c name kube w = (Inr d, w')"
    using that detail by (auto simp: get_namespace_def lift_result_def bind_io_Inr_iff)
  moreover have "NS_LAST_APPLIED \<notin> set (keys (nsd_annotations d))"
    if "create_namespace_op pre clk c name ls caller kube as w = (Inr d, w')"
    using that detail by (auto simp: create_namespace_op_def lift_result_def bind_io_Inr_iff)
  moreover have "NS_LAST_APPLIED \<notin> set (keys (nsa_annotations a))"
    if "update_annotations pre clk c name s r caller kube w = (Inr a, w')"
    using that readable by (auto elim: update_annotations_returns)
  moreover have "CM_LAST_APPLIED \<notin> set (keys (cmd_annotations m))"
    if "get_configmap c ns name kube w = (Inr m, w')"
    using that by (auto simp: get_configmap_def bind_io_Inr_iff keys_def)
  ultimately show ?thesis by blast
qed

lemma last_applied_is_never_answered_witness:
  "\<exists>d m. fst (get_namespace ''c'' ''dry-run-apps'' (dry_run_core_v1_api ''c'') fresh) = Inr d \<and>
     NS_LAST_APPLIED \<notin> set (keys (nsd_annotations d)) \<and>
     fst (get_configmap ''c'' ''default'' ''dry-run-applied'' (dry_run_core_v1_api ''c'') fresh) = Inr m \<and>
     CM_LAST_APPLIED \<notin> set (keys (cmd_annotations m))"
proof -
  have "\<not> isl (fst (get_namespace ''c'' ''dry-run-apps'' (dry_run_core_v1_api ''c'') fresh))"
    by code_simp
  then obtain d where d: "fst (get_namespace ''c'' ''dry-run-apps'' (dry_run_core_v1_api ''c'') fresh) =
      Inr d" by (metis sum.collapse(2))
  have "\<not> isl (fst (get_configmap ''c'' ''default'' ''dry-run-applied'' (dry_run_core_v1_api ''c'') fresh))"
    by code_simp
  then obtain m where m: "fst (get_configmap ''c'' ''default'' ''dry-run-applied''
      (dry_run_core_v1_api ''c'') fresh) = Inr m" by (metis sum.collapse(2))
  have "get_namespace ''c'' ''dry-run-apps'' (dry_run_core_v1_api ''c'') fresh =
      (Inr d, snd (get_namespace ''c'' ''dry-run-apps'' (dry_run_core_v1_api ''c'') fresh))"
    and "get_configmap ''c'' ''default'' ''dry-run-applied'' (dry_run_core_v1_api ''c'') fresh =
      (Inr m, snd (get_configmap ''c'' ''default'' ''dry-run-applied'' (dry_run_core_v1_api ''c'') fresh))"
    using d m by (metis prod.collapse)+
  with last_applied_is_never_answered[where c = "''c''" and kube = "dry_run_core_v1_api ''c''" and w = fresh]
    d m
  show ?thesis by blast
qed

section \<open>Errors\<close>

lemma app_refuse [app_intros]:
  "app_errors_only (refuse_reserved name what)" "app_errors_only (refuse_provenance_keys pre ls as)"
  by (auto simp: refuse_reserved_def refuse_provenance_keys_def Let_def intro!: app_intros)

lemma app_lift_detail [app_intros]: "app_errors_only (lift_result (to_detail c v))"
  by (simp add: app_errors_only_def lift_result_def to_detail_def)

lemma app_patch_namespace [app_intros]:
  "app_errors_only (patch_namespace_checked c what name kube body)"
  unfolding patch_namespace_checked_def by (rule app_translate)

lemma collect_pages_errors:
  assumes "\<And>tok. app_errors_only (fetch tok)" and "\<And>xs e. keep xs = Inl e \<Longrightarrow> \<not> is_sdk_failure e"
  shows "app_errors_only_may (collect_pages fetch keep tok collected)"
proof -
  have "\<forall>e w'. r = (Inl e, w') \<longrightarrow> \<not> is_sdk_failure e"
    if "collect_pages fetch keep tok collected w = Some r" for w r
  proof -
    have "(\<forall>tok. app_errors_only (fetch tok)) \<and> (\<forall>xs e. keep xs = Inl e \<longrightarrow> \<not> is_sdk_failure e) \<longrightarrow>
        (\<forall>e w'. r = (Inl e, w') \<longrightarrow> \<not> is_sdk_failure e)"
      by (rule collect_pages.raw_induct
          [where P = "\<lambda>fetch keep tok collected w r. (\<forall>tok. app_errors_only (fetch tok)) \<and>
              (\<forall>xs e. keep xs = Inl e \<longrightarrow> \<not> is_sdk_failure e) \<longrightarrow>
              (\<forall>e w'. r = (Inl e, w') \<longrightarrow> \<not> is_sdk_failure e)", OF _ that])
        (auto split: prod.splits sum.splits if_splits dest: app_errors_onlyD)
    with assms show ?thesis by blast
  qed
  then show ?thesis unfolding app_errors_only_may_def by blast
qed

lemma build_all_raises: "build_all f xs = Inl e \<Longrightarrow> \<exists>x \<in> set xs. f x = Inl e"
  by (induction xs) (auto split: sum.splits)

text \<open>No failure of the Kubernetes SDK leaves the namespace and ConfigMap services: what they
  raise is an application exception or an error that is not the SDK's, on every page of a listing
  too.\<close>

theorem no_sdk_failure_escapes_namespaces:
  "app_errors_only_may (list_namespaces c kube pres statuses sel) \<and>
   app_errors_only (get_namespace c name kube) \<and>
   app_errors_only (create_namespace_op pre clk c name ls caller kube as) \<and>
   app_errors_only (update_labels pre clk c name s r caller kube) \<and>
   app_errors_only (update_annotations pre clk c name s r caller kube) \<and>
   app_errors_only_may (list_configmaps c ns kube pres) \<and>
   app_errors_only (get_configmap c ns name kube)"
proof (intro conjI)
  have "app_errors_only_may (collect_pages (fetch_namespaces c kube sel)
      (\<lambda>items. build_all to_summary (filter (namespace_selected pres statuses) items)) None [])"
    by (rule collect_pages_errors)
      (auto simp: fetch_namespaces_def app_translate to_summary_def dest!: build_all_raises
        split: if_splits)
  then show "app_errors_only_may (list_namespaces c kube pres statuses sel)"
    by (auto simp: app_errors_only_may_def list_namespaces_def split: option.splits sum.splits prod.splits)
  have "app_errors_only_may (collect_pages (fetch_configmaps c ns kube)
      (\<lambda>items. build_all (\<lambda>cm. Inr (cm_summary cm)) (filter (cm_selected pres) items)) None [])"
    by (rule collect_pages_errors)
      (auto simp: fetch_configmaps_def app_translate build_all_pure)
  then show "app_errors_only_may (list_configmaps c ns kube pres)"
    by (auto simp: app_errors_only_may_def list_configmaps_def split: option.splits sum.splits prod.splits)
qed (auto simp: get_namespace_def create_namespace_op_def update_labels_def update_annotations_def
    get_configmap_def intro!: app_intros)

end
