(* ===== verification/Log_Viewer.thy ===== *)
theory Log_Viewer
  imports Dry_Run_Command
begin

text \<open>
  The browser script of the log viewer page, \<open>app/core/log_viewer_template.py\<close>: the state of the page,
  what a poll of the trace does to it, the fatal panels, the size banner, the theme switch and the
  rendering of log lines. The fields the server fills in are the record \<open>viewer\<close> of the route.

  A poll ends in a \<open>poll_answer\<close>: a rejected \<open>fetch\<close>, or a status and a body. The body of a good answer is a
  trace as the route's response model allows it; the texts of the browser's own exceptions are carried
  by the answer. The table and the panels are kept as the HTML the script
  inserts, without the indentation of its templates. Numbers are below \<open>2^53\<close>, where JavaScript's are exact.
\<close>

section \<open>Text\<close>

definition element :: "string \<Rightarrow> string \<Rightarrow> string \<Rightarrow> string" where
  "element tag cls inner =
     ''<'' @ tag @ (if cls = [] then [] else '' class='' @ [CHR 0x22] @ cls @ [CHR 0x22]) @ ''>'' @ inner @
     ''</'' @ tag @ ''>''"

text \<open>\<open>x.toFixed(1)\<close> of the quotient \<open>n / d\<close> by a power of two, which JavaScript computes exactly: the nearest
  tenth, the larger of two equally near ones.\<close>

definition to_fixed_1 :: "int \<Rightarrow> int \<Rightarrow> string" where
  "to_fixed_1 n d =
     (let tenths = (20 * n + d) div (2 * d)
      in str_of_int (tenths div 10) @ ''.'' @ str_of_int (tenths mod 10))"

definition format_bytes :: "int \<Rightarrow> string" where
  "format_bytes n =
     (if n \<ge> 1024 * 1024 then to_fixed_1 n (1024 * 1024) @ '' MB''
      else if n \<ge> 1024 then to_fixed_1 n 1024 @ '' KB''
      else str_of_int n @ '' B'')"

text \<open>\<open>escapeHtml\<close>: the five replacements, the ampersand first, one character at a time.\<close>

definition escape_char_js :: "char \<Rightarrow> string" where
  "escape_char_js c =
     (if c = CHR ''&'' then ''&amp;''
      else if c = CHR ''<'' then ''&lt;''
      else if c = CHR ''>'' then ''&gt;''
      else if c = CHR 0x22 then ''&quot;''
      else if c = CHR 0x27 then ''&#39;''
      else [c])"

definition escape_html_js :: "string \<Rightarrow> string" where
  "escape_html_js s = concat (map escape_char_js s)"

text \<open>\<open>encodeURIComponent\<close>: every character but the unreserved ones becomes the escapes of its UTF-8 bytes.\<close>

definition is_unreserved :: "char \<Rightarrow> bool" where
  "is_unreserved c \<longleftrightarrow> is_alnum c \<or> c \<in> set ''-_.!~*()'' \<or> c = CHR 0x27"

definition upper_hex :: "nat \<Rightarrow> char" where
  "upper_hex n = char_of (if n < 10 then 48 + n else 55 + n)"

definition percent_byte :: "char \<Rightarrow> string" where
  "percent_byte c = [CHR ''%'', upper_hex (code_point c div 16), upper_hex (code_point c mod 16)]"

definition encode_uri_component :: "string \<Rightarrow> string" where
  "encode_uri_component s =
     concat (map (\<lambda>c. if is_unreserved c then [c] else concat (map percent_byte (utf8_char c))) s)"

text \<open>\<open>s.replace(/pat/gi, rep)\<close> for a literal \<open>pat\<close>: every occurrence from the left, whatever the case of its
  letters. Only an ASCII letter matches an ASCII letter.\<close>

definition ascii_lower :: "char \<Rightarrow> char" where
  "ascii_lower c = (let n = code_point c in if 65 \<le> n \<and> n \<le> 90 then char_of (n + 32) else c)"

definition matches_ci :: "string \<Rightarrow> string \<Rightarrow> bool" where
  "matches_ci pat s \<longleftrightarrow> prefix (map ascii_lower pat) (map ascii_lower s)"

function replace_ci :: "string \<Rightarrow> string \<Rightarrow> string \<Rightarrow> string" where
  "replace_ci pat rep s =
     (if pat = [] \<or> s = [] then s
      else if matches_ci pat s then rep @ replace_ci pat rep (drop (length pat) s)
      else hd s # replace_ci pat rep (tl s))"
  by pat_completeness auto
termination
  by (relation "measure (\<lambda>(pat, rep, s). length s)") auto

declare replace_ci.simps [simp del]

section \<open>The page\<close>

datatype dot = Pulsing | Dimmed | Red

datatype theme = DarkTheme | LightTheme

record viewer_page =
  pg_byte_offset :: int           \<comment> \<open>\<open>currentByteOffset\<close>\<close>
  pg_line_num :: int              \<comment> \<open>\<open>currentLineNum\<close>\<close>
  pg_timer :: "int option"        \<comment> \<open>\<open>timer\<close>: the delay it was set with, \<open>None\<close> for \<open>null\<close>\<close>
  pg_theme :: theme               \<comment> \<open>\<open>isDarkMode\<close> and the \<open>data-theme\<close> attribute\<close>
  pg_interval :: int              \<comment> \<open>\<open>currentInterval\<close>\<close>
  pg_failures :: nat              \<comment> \<open>\<open>consecutiveFailures\<close>\<close>
  pg_warned :: bool               \<comment> \<open>\<open>sizeWarningShown\<close>\<close>
  pg_job_status :: string
  pg_trace_size :: "string option" \<comment> \<open>\<open>None\<close>: the page's placeholder\<close>
  pg_sync_status :: string
  pg_interval_text :: string
  pg_interval_shown :: bool
  pg_dot :: dot
  pg_banners :: "string list"
  pg_table :: string
  pg_panels :: "string list"
  pg_location :: "string option"  \<comment> \<open>where the page was sent\<close>

definition MAX_INTERVAL :: int where "MAX_INTERVAL = 30000"

definition MAX_FAILURES :: nat where "MAX_FAILURES = 5"

definition TERMINAL_STATUSES :: "string list" where
  "TERMINAL_STATUSES = [''success'', ''failed'', ''killed'']"

definition set_theme :: "theme \<Rightarrow> viewer_page \<Rightarrow> viewer_page" where
  "set_theme t p = p\<lparr>pg_theme := t\<rparr>"

definition toggle_theme :: "viewer_page \<Rightarrow> viewer_page" where
  "toggle_theme p = (if pg_theme p = DarkTheme then set_theme LightTheme p else set_theme DarkTheme p)"

text \<open>The page as loaded, for the theme found in the local storage.\<close>

definition fresh_page :: "string option \<Rightarrow> viewer_page" where
  "fresh_page stored =
     (let p = \<lparr>pg_byte_offset = 0, pg_line_num = 1, pg_timer = Some 0, pg_theme = DarkTheme, pg_interval = 5000,
               pg_failures = 0, pg_warned = False, pg_job_status = ''...'', pg_trace_size = None,
               pg_sync_status = ''Connecting...'', pg_interval_text = ''(5s)'', pg_interval_shown = True,
               pg_dot = Pulsing, pg_banners = [], pg_table = [], pg_panels = [], pg_location = None\<rparr>
      in if stored = Some ''light'' then set_theme LightTheme p else p)"

section \<open>Rendering\<close>

definition hard_colors :: "(string \<times> string) list" where
  "hard_colors =
     [(''color: #000000'', ''color: var(--ansi-black)''), (''color: #aa0000'', ''color: var(--ansi-red)''),
      (''color: #00aa00'', ''color: var(--ansi-green)''), (''color: #aaaa00'', ''color: var(--ansi-yellow)''),
      (''color: #0000aa'', ''color: var(--ansi-blue)''), (''color: #aa00aa'', ''color: var(--ansi-magenta)''),
      (''color: #00aaaa'', ''color: var(--ansi-cyan)''), (''color: #aaaaaa'', ''color: var(--ansi-white)''),
      (''color: #555555'', ''color: var(--ansi-bright-black)'')]"

definition themed :: "string \<Rightarrow> string" where
  "themed content = fold (\<lambda>(pat, rep). replace_ci pat rep) hard_colors content"

definition row_html :: "log_line \<Rightarrow> string" where
  "row_html l = element ''div'' ''log-line''
     (element ''div'' ''cell line-num'' (str_of_int (ll_num l)) @
      element ''div'' ''cell content'' (themed (ll_content_html l)))"

definition render :: "log_line list \<Rightarrow> viewer_page \<Rightarrow> viewer_page" where
  "render lines p = p\<lparr>pg_table := pg_table p @ concat (map row_html lines)\<rparr>"

definition size_banner :: "int \<Rightarrow> string" where
  "size_banner total_size = element ''div'' ''banner-text''
     (element ''strong'' [] (''Log is large ('' @ format_bytes total_size @ '').'') @
      ''Rendering many lines may slow your browser.'')"

definition show_size_warning :: "int \<Rightarrow> viewer_page \<Rightarrow> viewer_page" where
  "show_size_warning total_size p =
     (if pg_warned p then p
      else p\<lparr>pg_warned := True, pg_banners := pg_banners p @ [size_banner total_size]\<rparr>)"

section \<open>Fatal panels\<close>

datatype fatal =
    TooLarge command_trace
  | NotLogged
  | PollFailed string

fun badge :: "fatal \<Rightarrow> string" where
  "badge (TooLarge t) = ''TOO LARGE''"
| "badge NotLogged = ''NOT LOGGED''"
| "badge (PollFailed message) = ''UNAVAILABLE''"

fun panel_heading :: "fatal \<Rightarrow> string" where
  "panel_heading (TooLarge t) = ''Log too large to display''"
| "panel_heading NotLogged = ''Logging not enabled for this command''"
| "panel_heading (PollFailed message) = ''Cannot load logs''"

fun panel_body :: "fatal \<Rightarrow> string" where
  "panel_body (TooLarge t) = ''This log has reached '' @ format_bytes (ct_total_size t) @ '', which exceeds the viewer'' @
     [CHR 0x27] @ ''s hard cap. Rendering it in the browser would make the page unresponsive. You can still read the full log directly on the control node:''"
| "panel_body NotLogged = ''This command was not configured with '' @ element ''code'' [] ''logged: true'' @
     '', so no run log is streamed to the viewer. Its output is returned directly in the command execution API response instead.''"
| "panel_body (PollFailed message) = ''Failed to fetch logs after '' @ str_of_nat MAX_FAILURES @
     '' consecutive attempts. Polling has stopped to avoid further load.''"

definition panel_row :: "string \<Rightarrow> string \<Rightarrow> string" where
  "panel_row name value = element ''div'' [] (element ''span'' ''label'' name @ element ''code'' [] value)"

text \<open>A field that is null or empty, and a port that is null or zero, count as absent.\<close>

definition given :: "string option \<Rightarrow> string option" where
  "given x = (case x of Some s \<Rightarrow> (if s = [] then None else Some s) | None \<Rightarrow> None)"

definition given_port :: "int option \<Rightarrow> int option" where
  "given_port x = (case x of Some n \<Rightarrow> (if n = 0 then None else Some n) | None \<Rightarrow> None)"

definition where_it_lives :: "command_trace \<Rightarrow> string" where
  "where_it_lives t =
     (case given (ct_log_host t) of
        None \<Rightarrow> []
      | Some host \<Rightarrow> panel_row ''Host'' (escape_html_js host @
          (case given_port (ct_log_port t) of None \<Rightarrow> [] | Some n \<Rightarrow> '':'' @ str_of_int n))) @
     (case given (ct_log_file_path t) of
        None \<Rightarrow> []
      | Some path \<Rightarrow> panel_row ''File'' (escape_html_js path)) @
     (case (given (ct_log_host t), given (ct_log_file_path t)) of
        (Some host, Some path) \<Rightarrow> panel_row ''Read it'' (''ssh '' @
          (case given (ct_log_user t) of None \<Rightarrow> [] | Some user \<Rightarrow> escape_html_js user @ ''@'') @
          escape_html_js host @
          (case given_port (ct_log_port t) of None \<Rightarrow> [] | Some n \<Rightarrow> '' -p '' @ str_of_int n) @
          '' tail -f '' @ escape_html_js path)
      | _ \<Rightarrow> [])"

text \<open>\<open>opts.err && opts.err.message ? \<dots>\<close>: the message goes into the panel as it is.\<close>

fun extra_rows :: "fatal \<Rightarrow> string" where
  "extra_rows (TooLarge t) = panel_row ''Trace size'' (format_bytes (ct_total_size t)) @ where_it_lives t"
| "extra_rows NotLogged = []"
| "extra_rows (PollFailed message) =
     panel_row ''Last error'' (if message = [] then ''Unknown error'' else message)"

definition panel_html :: "string \<Rightarrow> fatal \<Rightarrow> string" where
  "panel_html meta_html f =
     element ''h2'' [] (panel_heading f) @ element ''p'' [] (panel_body f) @
     element ''div'' ''error-meta'' (meta_html @ extra_rows f)"

definition show_fatal_error :: "string \<Rightarrow> fatal \<Rightarrow> viewer_page \<Rightarrow> viewer_page" where
  "show_fatal_error meta_html f p =
     p\<lparr>pg_timer := None, pg_dot := Red, pg_sync_status := ''Stopped'', pg_interval_shown := False,
       pg_job_status := badge f, pg_panels := pg_panels p @ [panel_html meta_html f]\<rparr>"

section \<open>A poll\<close>

datatype body =
    Garbled string             \<comment> \<open>no JSON, or null; the browser's message\<close>
  | Lineless                   \<comment> \<open>JSON without \<open>data\<close> or \<open>data.lines\<close>\<close>
  | Served command_trace

datatype poll_answer =
    FetchRejects string        \<comment> \<open>no response; the browser's message\<close>
  | Response int body          \<comment> \<open>a status and a body\<close>

text \<open>What the poll asks for, less the time stamp that defeats caches.\<close>

definition poll_url :: "viewer \<Rightarrow> viewer_page \<Rightarrow> string" where
  "poll_url v p = vw_trace_url v @ (if CHR ''?'' \<in> set (vw_trace_url v) then ''&'' else ''?'') @
     ''byte_offset='' @ str_of_int (pg_byte_offset p) @ ''&line_num='' @ str_of_int (pg_line_num p)"

definition upper_text :: "string \<Rightarrow> string" where
  "upper_text s = map (\<lambda>c. let n = code_point c in if 97 \<le> n \<and> n \<le> 122 then char_of (n - 32) else c) s"

text \<open>The answered part of \<open>refresh\<close>, on a trace. A status is ASCII text here.\<close>

definition mark_status :: "string \<Rightarrow> viewer_page \<Rightarrow> viewer_page" where
  "mark_status status p =
     (if status \<in> set TERMINAL_STATUSES
      then p\<lparr>pg_timer := None, pg_dot := Dimmed, pg_sync_status := ''Finished'', pg_interval_shown := False\<rparr>
      else p\<lparr>pg_sync_status := ''Syncing...'', pg_interval_shown := True\<rparr>)"

definition advance_cursor :: "command_trace \<Rightarrow> viewer_page \<Rightarrow> viewer_page" where
  "advance_cursor t p =
     p\<lparr>pg_byte_offset := ct_next_byte_offset t, pg_line_num := ct_next_line_num t\<rparr>"

definition take_lines :: "log_line list \<Rightarrow> viewer_page \<Rightarrow> viewer_page" where
  "take_lines lines p =
     (if lines = [] then p\<lparr>pg_interval := min (pg_interval p + 5000) MAX_INTERVAL\<rparr>
      else render lines (p\<lparr>pg_interval := 5000\<rparr>))"

definition show_interval :: "viewer_page \<Rightarrow> viewer_page" where
  "show_interval p = p\<lparr>pg_interval_text := ''('' @ str_of_int (pg_interval p div 1000) @ ''s)''\<rparr>"

definition take_trace :: "string \<Rightarrow> command_trace \<Rightarrow> viewer_page \<Rightarrow> viewer_page" where
  "take_trace meta_html t p =
     (let status = (if ct_status t = [] then ''unknown'' else ct_status t);
          p = p\<lparr>pg_failures := 0, pg_job_status := upper_text status,
                pg_trace_size := Some (format_bytes (ct_total_size t))\<rparr>
      in if ct_not_logged t then show_fatal_error meta_html NotLogged p
         else if ct_too_large t then show_fatal_error meta_html (TooLarge t) p
         else (let p = (if ct_size_warning t then show_size_warning (ct_total_size t) p else p)
               in show_interval (take_lines (ct_lines t) (advance_cursor t (mark_status status p)))))"

text \<open>The \<open>try\<close> block: \<open>Inl\<close> the message of what it throws, before it has changed anything. A browser that is
  not logged in is sent to the login page.\<close>

definition is_ok :: "int \<Rightarrow> bool" where
  "is_ok status \<longleftrightarrow> 200 \<le> status \<and> status \<le> 299"

definition go_to_login :: "string \<Rightarrow> viewer_page \<Rightarrow> viewer_page" where
  "go_to_login here p =
     p\<lparr>pg_timer := None, pg_location := Some (''/login?next='' @ encode_uri_component here)\<rparr>"

fun read_body :: "body \<Rightarrow> string + command_trace" where
  "read_body (Garbled message) = Inl message"
| "read_body Lineless = Inl ''Invalid API response''"
| "read_body (Served t) = Inr t"

fun attempt :: "string \<Rightarrow> string \<Rightarrow> poll_answer \<Rightarrow> viewer_page \<Rightarrow> string + viewer_page" where
  "attempt here meta_html (FetchRejects message) p = Inl message"
| "attempt here meta_html (Response n b) p =
     (if n \<in> {401, 403} then Inr (go_to_login here p)
      else if \<not> is_ok n then Inl (''HTTP '' @ str_of_int n)
      else (case read_body b of
              Inl message \<Rightarrow> Inl message
            | Inr t \<Rightarrow> Inr (take_trace meta_html t p)))"

definition poll_failed :: "string \<Rightarrow> string \<Rightarrow> viewer_page \<Rightarrow> viewer_page" where
  "poll_failed meta_html message p =
     (let p = p\<lparr>pg_failures := pg_failures p + 1\<rparr>
      in if pg_failures p \<ge> MAX_FAILURES then show_fatal_error meta_html (PollFailed message) p
         else p\<lparr>pg_sync_status := ''Sync Failed ('' @ str_of_nat (pg_failures p) @ ''/'' @
                  str_of_nat MAX_FAILURES @ '')''\<rparr>)"

definition reschedule :: "viewer_page \<Rightarrow> viewer_page" where
  "reschedule p = (if pg_timer p \<noteq> None then p\<lparr>pg_timer := Some (pg_interval p)\<rparr> else p)"

definition refresh_page :: "string \<Rightarrow> string \<Rightarrow> poll_answer \<Rightarrow> viewer_page \<Rightarrow> viewer_page" where
  "refresh_page here meta_html ans p =
     reschedule (case attempt here meta_html ans p of
       Inr p' \<Rightarrow> p'
     | Inl message \<Rightarrow> poll_failed meta_html message p)"

section \<open>The life of a page\<close>

text \<open>The next poll runs when the timer fires, so only while there is one; the button at any time.\<close>

datatype page_event = Polled poll_answer | Toggled

inductive page_step :: "string \<Rightarrow> string \<Rightarrow> viewer_page \<Rightarrow> page_event \<Rightarrow> viewer_page \<Rightarrow> bool" for here meta_html where
  poll: "pg_timer p = Some d \<Longrightarrow> page_step here meta_html p (Polled ans) (refresh_page here meta_html ans p)"
| toggle: "page_step here meta_html p Toggled (toggle_theme p)"

inductive page_reachable :: "string \<Rightarrow> string \<Rightarrow> viewer_page \<Rightarrow> bool" for here meta_html where
  loaded: "page_reachable here meta_html (fresh_page stored)"
| stepped: "page_reachable here meta_html p \<Longrightarrow> page_step here meta_html p e p' \<Longrightarrow> page_reachable here meta_html p'"

inductive_cases page_stepE: "page_step here meta_html p e p'"

text \<open>The same as a function: a page answered with a list of answers stops asking when its timer is gone.\<close>

fun polls :: "string \<Rightarrow> string \<Rightarrow> poll_answer list \<Rightarrow> viewer_page \<Rightarrow> viewer_page" where
  "polls here meta_html [] p = p"
| "polls here meta_html (ans # answers) p =
     (if pg_timer p = None then p else polls here meta_html answers (refresh_page here meta_html ans p))"

end
