(* ===== verification/Viewer_Properties.thy ===== *)
theory Viewer_Properties
  imports Log_Viewer Command_Properties Auth_Properties
begin

text \<open>
  The log viewer in the browser: the invariant of its page, when it gives up, how it backs off; a
  contract of a log it can be pointed at, and the lines it then shows; the dry-run command service as
  such a log, behind its route and its cookie; and the way through the login page and back.
\<close>

section \<open>The page\<close>

lemmas page_parts = show_size_warning_def show_fatal_error_def mark_status_def advance_cursor_def
  take_lines_def show_interval_def render_def go_to_login_def reschedule_def

definition page_ok :: "viewer_page \<Rightarrow> bool" where
  "page_ok p \<longleftrightarrow>
     pg_interval p \<in> {5000, 10000, 15000, 20000, 25000, 30000} \<and>
     pg_failures p \<le> 5 \<and> length (pg_panels p) \<le> 1 \<and>
     length (pg_banners p) = (if pg_warned p then 1 else 0) \<and>
     (pg_dot p = Red \<longleftrightarrow> pg_panels p \<noteq> []) \<and>
     (if pg_timer p = None then pg_dot p \<noteq> Pulsing \<or> pg_location p \<noteq> None
      else pg_failures p < 5 \<and> pg_dot p = Pulsing \<and> pg_location p = None)"

text \<open>As it was loaded, but for the theme.\<close>

definition as_loaded :: "viewer_page \<Rightarrow> bool" where
  "as_loaded p \<longleftrightarrow> p = (fresh_page None)\<lparr>pg_theme := pg_theme p\<rparr>"

text \<open>Only a page that was never polled may have its timer at once; any other waits for its interval.\<close>

definition page_inv :: "viewer_page \<Rightarrow> bool" where
  "page_inv p \<longleftrightarrow> page_ok p \<and> (as_loaded p \<or> pg_timer p \<in> {None, Some (pg_interval p)})"

text \<open>One preservation lemma per piece of \<open>refresh\<close>.\<close>

lemma page_ok_fatal: "page_ok p \<Longrightarrow> pg_panels p = [] \<Longrightarrow> page_ok (show_fatal_error meta f p)"
  by (auto simp: page_ok_def show_fatal_error_def split: if_splits)

lemma page_ok_mark: "page_ok p \<Longrightarrow> pg_timer p \<noteq> None \<Longrightarrow> page_ok (mark_status status p)"
  by (auto simp: page_ok_def mark_status_def split: if_splits)

lemma page_ok_advance: "page_ok p \<Longrightarrow> page_ok (advance_cursor t p)"
  by (auto simp: page_ok_def advance_cursor_def split: if_splits)

lemma page_ok_warning: "page_ok p \<Longrightarrow> page_ok (show_size_warning n p)"
  by (auto simp: page_ok_def show_size_warning_def split: if_splits)

lemma page_ok_lines: "page_ok p \<Longrightarrow> page_ok (take_lines lines p)"
  by (auto simp: page_ok_def take_lines_def render_def MAX_INTERVAL_def)

lemma page_ok_interval_text: "page_ok p \<Longrightarrow> page_ok (show_interval p)"
  by (auto simp: page_ok_def show_interval_def split: if_splits)

lemma page_ok_login: "page_ok p \<Longrightarrow> pg_panels p = [] \<Longrightarrow> page_ok (go_to_login here p)"
  by (auto simp: page_ok_def go_to_login_def split: if_splits)

lemma page_inv_reschedule: "page_ok p \<Longrightarrow> page_inv (reschedule p)"
  by (auto simp: page_inv_def page_ok_def reschedule_def split: if_splits)

lemma page_ok_polling: "page_ok p \<Longrightarrow> pg_timer p = Some d \<Longrightarrow> pg_panels p = []"
  by (auto simp: page_ok_def)

lemma warning_timer [simp]: "pg_timer (show_size_warning n p) = pg_timer p"
  by (simp add: show_size_warning_def)

lemma page_ok_trace:
  assumes "page_ok p" and "pg_timer p = Some d"
  shows "page_ok (take_trace meta t p)"
proof -
  let ?status = "if ct_status t = [] then ''unknown'' else ct_status t"
  let ?p = "p\<lparr>pg_failures := 0, pg_job_status := upper_text ?status,
                pg_trace_size := Some (format_bytes (ct_total_size t))\<rparr>"
  let ?q = "if ct_size_warning t then show_size_warning (ct_total_size t) ?p else ?p"
  have p: "page_ok ?p" "pg_timer ?p \<noteq> None" "pg_panels ?p = []"
    using assms page_ok_polling[OF assms] by (simp_all add: page_ok_def MAX_FAILURES_def)
  then have "page_ok ?q" "pg_timer ?q \<noteq> None" by (simp_all add: page_ok_warning)
  then have "page_ok (show_interval (take_lines (ct_lines t) (advance_cursor t (mark_status ?status ?q))))"
    by (intro page_ok_interval_text page_ok_lines page_ok_advance page_ok_mark)
  with p show ?thesis
    unfolding take_trace_def Let_def by (simp only: page_ok_fatal split: if_split) simp
qed

lemma page_ok_failed:
  assumes "page_ok p" and "pg_timer p = Some d"
  shows "page_ok (poll_failed meta m p)"
  using assms page_ok_polling[OF assms]
  by (auto simp: poll_failed_def page_ok_def show_fatal_error_def MAX_FAILURES_def Let_def)

lemma page_inv_fresh: "page_inv (fresh_page stored)"
  by (simp add: page_inv_def page_ok_def as_loaded_def fresh_page_def set_theme_def MAX_FAILURES_def Let_def)

lemma as_loaded_theme: "as_loaded p \<Longrightarrow> as_loaded (p\<lparr>pg_theme := t\<rparr>)"
  unfolding as_loaded_def by (erule ssubst) simp

lemma page_inv_toggle:
  assumes "page_inv p"
  shows "page_inv (toggle_theme p)"
proof -
  have "\<exists>t. toggle_theme p = p\<lparr>pg_theme := t\<rparr>" by (cases "pg_theme p = DarkTheme") (auto simp: toggle_theme_def set_theme_def)
  then obtain t where t: "toggle_theme p = p\<lparr>pg_theme := t\<rparr>" ..
  have "page_ok (p\<lparr>pg_theme := t\<rparr>) = page_ok p" by (simp add: page_ok_def)
  with assms show ?thesis by (auto simp: t page_inv_def as_loaded_theme)
qed


lemma attempt_cases:
  obtains (thrown) m where "attempt here meta ans p = Inl m"
  | (login) "attempt here meta ans p = Inr (go_to_login here p)"
  | (served) n t where "ans = Response n (Served t)" and "attempt here meta ans p = Inr (take_trace meta t p)"
proof (cases ans)
  case (Response n b)
  consider "n \<in> {401, 403}" | "n \<notin> {401, 403}" "\<not> is_ok n" | "n \<notin> {401, 403}" "is_ok n" by blast
  then show ?thesis
    using Response that by cases (cases b; auto)+
qed (use that in auto)

lemma page_inv_refresh:
  assumes "page_inv p" and "pg_timer p = Some d"
  shows "page_inv (refresh_page here meta ans p)"
proof -
  have ok: "page_ok p" using assms(1) by (simp add: page_inv_def)
  show ?thesis unfolding refresh_page_def
    by (cases rule: attempt_cases[of here meta ans p])
      (simp_all add: page_inv_reschedule page_ok_failed[OF ok assms(2)] page_ok_trace[OF ok assms(2)]
        page_ok_login[OF ok page_ok_polling[OF ok assms(2)]])
qed

lemma page_inv_reachable: "page_reachable here meta p \<Longrightarrow> page_inv p"
  by (induction rule: page_reachable.induct)
    (auto simp: page_inv_fresh page_inv_toggle elim!: page_stepE intro: page_inv_refresh)

lemma refresh_timer:
  "pg_timer (refresh_page here meta ans p) \<noteq> None \<Longrightarrow>
     pg_timer (refresh_page here meta ans p) = Some (pg_interval (refresh_page here meta ans p))"
  by (auto simp: refresh_page_def reschedule_def split: if_splits)

lemma stopped_step:
  assumes "page_step here meta p e p'" and "pg_timer p = None"
  shows "p' = toggle_theme p"
  using assms by (auto elim: page_stepE)

text \<open>An answer the page cannot use: no response, an error status other than those that ask for a login, or a
  body without lines. \<open>failure\<close> is the message it shows.\<close>

fun failure :: "poll_answer \<Rightarrow> string option" where
  "failure (FetchRejects m) = Some m"
| "failure (Response n b) =
     (if n \<in> {401, 403} then None
      else if \<not> is_ok n then Some (''HTTP '' @ str_of_int n)
      else (case b of Garbled m \<Rightarrow> Some m | Lineless \<Rightarrow> Some ''Invalid API response'' | Served t \<Rightarrow> None))"

lemma attempt_failure: "failure ans = Some m \<Longrightarrow> attempt here meta ans p = Inl m"
  by (cases ans) (auto split: if_splits body.splits)

text \<open>What has happened to a page, the latest first, and how many polls in a row have failed by then.\<close>

inductive page_history :: "string \<Rightarrow> string \<Rightarrow> page_event list \<Rightarrow> viewer_page \<Rightarrow> bool" for here meta where
  nothing_yet: "page_history here meta [] (fresh_page stored)"
| happened: "page_history here meta es p \<Longrightarrow> page_step here meta p e p' \<Longrightarrow> page_history here meta (e # es) p'"

fun failed_in_a_row :: "page_event list \<Rightarrow> nat" where
  "failed_in_a_row [] = 0"
| "failed_in_a_row (Toggled # es) = failed_in_a_row es"
| "failed_in_a_row (Polled ans # es) = (case failure ans of None \<Rightarrow> 0 | Some m \<Rightarrow> Suc (failed_in_a_row es))"

lemma history_reachable: "page_history here meta es p \<Longrightarrow> page_reachable here meta p"
  by (induction rule: page_history.induct) (auto intro: page_reachable.intros)

lemma toggle_parts [simp]: "pg_timer (toggle_theme p) = pg_timer p" "pg_failures (toggle_theme p) = pg_failures p"
  by (simp_all add: toggle_theme_def set_theme_def)

lemma reschedule_parts [simp]:
  "pg_failures (reschedule p) = pg_failures p" "pg_timer (reschedule p) = None \<longleftrightarrow> pg_timer p = None"
  by (auto simp: reschedule_def)

lemma take_trace_failures: "pg_failures (take_trace meta t p) = 0"
  by (simp add: take_trace_def page_parts Let_def)

text \<open>One poll: the counter of a page that goes on.\<close>

lemma refresh_counts:
  assumes "pg_timer (refresh_page here meta ans p) \<noteq> None"
  shows "pg_failures (refresh_page here meta ans p) = (case failure ans of None \<Rightarrow> 0 | Some m \<Rightarrow> Suc (pg_failures p))"
proof (cases "failure ans")
  case (Some m)
  with assms show ?thesis
    by (simp add: refresh_page_def attempt_failure poll_failed_def show_fatal_error_def Let_def split: if_splits)
next
  case None
  then show ?thesis
    using assms
    by (cases rule: attempt_cases[of here meta ans p])
      (auto simp: refresh_page_def take_trace_failures go_to_login_def split: if_splits body.splits
        elim!: failure.elims)
qed

lemma history_counts:
  "page_history here meta es p \<Longrightarrow> pg_timer p \<noteq> None \<Longrightarrow> pg_failures p = failed_in_a_row es"
proof (induction rule: page_history.induct)
  case (nothing_yet stored)
  then show ?case by (simp add: fresh_page_def set_theme_def Let_def)
next
  case (happened es p e p')
  from happened.hyps(2) show ?case
  proof cases
    case (poll d ans)
    with happened.IH happened.prems refresh_counts[of here meta ans p] show ?thesis
      by (auto split: option.split)
  next
    case toggle
    with happened.IH happened.prems show ?thesis by auto
  qed
qed

text \<open>C29: whatever the polls are answered and whoever presses the button, the first poll of a page comes at
  once and every later one after its interval, which is 5 to 30 seconds in steps of five; it polls only while
  fewer than five polls in a row have failed and nothing fatal was shown; it has at most one fatal panel, a size
  banner exactly if it has warned, and once its timer is gone it says why (a finished or fatal mark, or another
  location) and nothing but its theme ever changes again.\<close>

theorem viewer_page_invariant:
  assumes "page_history here meta es p" and "page_step here meta p e p'"
  shows "page_inv p \<and> page_inv p' \<and>
    (\<forall>ans. e = Polled ans \<longrightarrow> pg_timer p' \<noteq> None \<longrightarrow>
       (\<exists>n. pg_timer p' = Some (5000 * n) \<and> pg_interval p' = 5000 * n \<and> 1 \<le> n \<and> n \<le> 6)) \<and>
    (pg_timer p \<noteq> None \<longrightarrow> pg_failures p = failed_in_a_row es \<and> failed_in_a_row es < 5 \<and> pg_panels p = []) \<and>
    (pg_timer p = None \<longrightarrow> p' = toggle_theme p)"
proof (intro conjI allI impI)
  have reachable: "page_reachable here meta p" using assms(1) by (rule history_reachable)
  then show p: "page_inv p" by (rule page_inv_reachable)
  show p': "page_inv p'" using assms(2) reachable page_inv_reachable page_reachable.stepped by blast
  show "p' = toggle_theme p" if "pg_timer p = None" using assms(2) that by (rule stopped_step)
  show "pg_failures p = failed_in_a_row es" if "pg_timer p \<noteq> None" using assms(1) that by (rule history_counts)
  with p show "failed_in_a_row es < 5" "pg_panels p = []" if "pg_timer p \<noteq> None"
    using that by (auto simp: page_inv_def page_ok_def)
  fix ans
  assume "e = Polled ans" and on: "pg_timer p' \<noteq> None"
  then have "pg_timer p' = Some (pg_interval p')" using assms(2) refresh_timer by (auto elim!: page_stepE)
  moreover have "pg_interval p' \<in> {5000, 10000, 15000, 20000, 25000, 30000}"
    using p' by (simp add: page_inv_def page_ok_def)
  ultimately show "\<exists>n. pg_timer p' = Some (5000 * n) \<and> pg_interval p' = 5000 * n \<and> 1 \<le> n \<and> n \<le> 6"
    by (intro exI[of _ "pg_interval p' div 5000"]) auto
qed

section \<open>Failing polls\<close>

lemma refresh_failure:
  assumes "failure ans = Some m" and "pg_timer p = Some d"
  shows "refresh_page here meta ans p =
    (if Suc (pg_failures p) \<ge> MAX_FAILURES
     then show_fatal_error meta (PollFailed m) (p\<lparr>pg_failures := Suc (pg_failures p)\<rparr>)
     else p\<lparr>pg_failures := Suc (pg_failures p), pg_timer := Some (pg_interval p),
            pg_sync_status := ''Sync Failed ('' @ str_of_nat (Suc (pg_failures p)) @ ''/5)''\<rparr>)"
proof -
  have "str_of_nat 5 = ''5''" by code_simp
  with assms show ?thesis
    by (simp add: refresh_page_def attempt_failure poll_failed_def page_parts MAX_FAILURES_def Let_def)
qed

lemma failing_polls:
  assumes "list_all (\<lambda>a. failure a \<noteq> None) replies" and "pg_timer p = Some d"
    and "pg_failures p + length replies < MAX_FAILURES"
  shows "\<exists>d' sync. polls here meta replies p =
    p\<lparr>pg_failures := pg_failures p + length replies, pg_timer := Some d', pg_sync_status := sync\<rparr>"
  using assms
proof (induction replies arbitrary: p d)
  case Nil
  then show ?case by (intro exI[of _ d] exI[of _ "pg_sync_status p"]) simp
next
  case (Cons a replies)
  then obtain m where m: "failure a = Some m" by auto
  let ?q = "refresh_page here meta a p"
  have q: "?q = p\<lparr>pg_failures := Suc (pg_failures p), pg_timer := Some (pg_interval p),
      pg_sync_status := ''Sync Failed ('' @ str_of_nat (Suc (pg_failures p)) @ ''/5)''\<rparr>"
    using refresh_failure[OF m Cons.prems(2), of here meta] Cons.prems(3) by (simp add: MAX_FAILURES_def)
  then obtain d' sync where "polls here meta replies ?q =
      ?q\<lparr>pg_failures := pg_failures ?q + length replies, pg_timer := Some d', pg_sync_status := sync\<rparr>"
    using Cons.IH[of ?q "pg_interval p"] Cons.prems by auto
  with Cons.prems(2) show ?case by (auto simp: q)
qed

lemma polls_append: "polls here meta (xs @ ys) p = polls here meta ys (polls here meta xs p)"
proof (induction xs arbitrary: p)
  case Nil
  then show ?case by (cases ys) auto
next
  case (Cons a xs)
  then show ?case by (cases ys) auto
qed

text \<open>C30: a viewer gives up after exactly five polls in a row that fail: after fewer it still polls, has shown
  no panel and counts them; with the fifth it stops for good, keeps the lines it had, marks the job as
  unavailable, and shows one panel, with the message of the last failure.\<close>

theorem viewer_gives_up_after_five_failures:
  assumes "page_reachable here meta p" and "pg_timer p = Some d" and "pg_failures p = 0"
    and "list_all (\<lambda>a. failure a \<noteq> None) replies" and "length replies = 5"
  shows "(\<forall>n < 5. let q = polls here meta (take n replies) p
       in pg_timer q \<noteq> None \<and> pg_panels q = [] \<and> pg_failures q = n) \<and>
    (let q = polls here meta replies p
     in pg_timer q = None \<and> pg_job_status q = ''UNAVAILABLE'' \<and> pg_table q = pg_table p \<and>
        pg_panels q = [panel_html meta (PollFailed (the (failure (last replies))))])"
proof

  have "page_inv p" using assms(1) by (rule page_inv_reachable)
  with assms(2) have panels: "pg_panels p = []" by (auto simp: page_inv_def intro: page_ok_polling)
  have few: "\<exists>d' sync. polls here meta (take n replies) p =
      p\<lparr>pg_failures := n, pg_timer := Some d', pg_sync_status := sync\<rparr>" if "n < 5" for n
  proof -
    have "list_all (\<lambda>a. failure a \<noteq> None) (take n replies)"
      using assms(4) by (auto simp: list_all_iff dest: in_set_takeD)
    from failing_polls[OF this assms(2), of here meta] show ?thesis
      using that assms(3,5) by (simp add: MAX_FAILURES_def)
  qed
  show "\<forall>n < 5. let q = polls here meta (take n replies) p
      in pg_timer q \<noteq> None \<and> pg_panels q = [] \<and> pg_failures q = n"
  proof (intro allI impI)
    fix n :: nat
    assume "n < 5"
    then obtain d' sync where "polls here meta (take n replies) p =
        p\<lparr>pg_failures := n, pg_timer := Some d', pg_sync_status := sync\<rparr>" using few by blast
    with panels show "let q = polls here meta (take n replies) p
      in pg_timer q \<noteq> None \<and> pg_panels q = [] \<and> pg_failures q = n" by simp
  qed
  obtain d' sync where four: "polls here meta (take 4 replies) p =
      p\<lparr>pg_failures := 4, pg_timer := Some d', pg_sync_status := sync\<rparr>" using few[of 4] by auto
  have "replies = butlast replies @ [last replies]" using assms(5) by (intro append_butlast_last_id[symmetric]) auto
  moreover have "butlast replies = take 4 replies" using assms(5) by (simp add: butlast_conv_take)
  ultimately have split: "replies = take 4 replies @ [last replies]" by simp
  have "last replies \<in> set replies" using assms(5) by (intro last_in_set) auto
  then obtain m where m: "failure (last replies) = Some m" using assms(4) by (auto simp: list_all_iff)
  have "polls here meta replies p = refresh_page here meta (last replies)
      (p\<lparr>pg_failures := 4, pg_timer := Some d', pg_sync_status := sync\<rparr>)"
    using polls_append[of here meta "take 4 replies" "[last replies]" p] four split by simp
  also have "\<dots> = show_fatal_error meta (PollFailed m)
      (p\<lparr>pg_timer := Some d', pg_sync_status := sync, pg_failures := 5\<rparr>)"
    using refresh_failure[OF m, of _ d' here meta] by (simp add: MAX_FAILURES_def)
  finally show "let q = polls here meta replies p
      in pg_timer q = None \<and> pg_job_status q = ''UNAVAILABLE'' \<and> pg_table q = pg_table p \<and>
         pg_panels q = [panel_html meta (PollFailed (the (failure (last replies))))]"
    using panels m by (simp add: show_fatal_error_def)
qed

section \<open>The pace of polling\<close>

text \<open>A trace that leaves the page polling.\<close>

fun goes_on :: "poll_answer \<Rightarrow> command_trace option" where
  "goes_on (Response n (Served t)) =
     (if is_ok n \<and> \<not> ct_not_logged t \<and> \<not> ct_too_large t \<and> ct_status t \<notin> set TERMINAL_STATUSES then Some t else None)"
| "goes_on ans = None"

lemma goes_on_cases:
  assumes "goes_on ans = Some t"
  obtains n where "ans = Response n (Served t)" and "is_ok n" and "\<not> ct_not_logged t" and "\<not> ct_too_large t"
    and "ct_status t \<notin> set TERMINAL_STATUSES"
  using assms by (cases ans rule: goes_on.cases) (auto split: if_splits)

lemma refresh_goes_on:
  assumes "goes_on ans = Some t" and "pg_timer p = Some d"
  shows "pg_interval (refresh_page here meta ans p) =
      (if ct_lines t = [] then min (pg_interval p + 5000) 30000 else 5000) \<and>
    pg_timer (refresh_page here meta ans p) = Some (pg_interval (refresh_page here meta ans p)) \<and>
    pg_failures (refresh_page here meta ans p) = 0 \<and>
    pg_table (refresh_page here meta ans p) = pg_table p @ concat (map row_html (ct_lines t))"
proof -
  obtain n where n: "ans = Response n (Served t)" "is_ok n" "\<not> ct_not_logged t" "\<not> ct_too_large t"
    "ct_status t \<notin> set TERMINAL_STATUSES" using goes_on_cases[OF assms(1)] .
  have "n \<noteq> 401 \<and> n \<noteq> 403" using n(2) by (auto simp: is_ok_def)
  moreover have "''unknown'' \<notin> set TERMINAL_STATUSES" by (simp add: TERMINAL_STATUSES_def)
  ultimately show ?thesis
    using n assms(2)
    by (simp add: refresh_page_def take_trace_def page_parts MAX_INTERVAL_def Let_def)
qed

lemma quiet_polls:
  assumes "list_all (\<lambda>a. \<exists>t. goes_on a = Some t \<and> ct_lines t = []) replies" and "pg_timer p = Some d"
    and "pg_interval p = min (5000 * (1 + int k)) 30000"
  shows "pg_interval (polls here meta replies p) = min (5000 * (1 + int (k + length replies))) 30000 \<and>
    pg_timer (polls here meta replies p) =
      (if replies = [] then Some d else Some (min (5000 * (1 + int (k + length replies))) 30000)) \<and>
    pg_table (polls here meta replies p) = pg_table p"
  using assms
proof (induction replies arbitrary: p d k)
  case (Cons a replies)
  then obtain t where t: "goes_on a = Some t" "ct_lines t = []" by auto
  let ?q = "refresh_page here meta a p"
  have q: "pg_interval ?q = min (5000 * (1 + int (Suc k))) 30000" "pg_timer ?q = Some (pg_interval ?q)"
    "pg_table ?q = pg_table p"
    using refresh_goes_on[OF t(1) Cons.prems(2), of here meta] t(2) Cons.prems(3) by simp_all
  from Cons.IH[OF _ q(2), of "Suc k"] q Cons.prems show ?case by (cases replies) auto
qed simp

text \<open>While the log is silent a viewer slows down: after \<open>k\<close> polls without a new line the next one comes
  in \<open>5 (k + 1)\<close> seconds, at most 30; the first poll with a line shows it and takes the pace back to five
  seconds, and answered polls never let it give up.\<close>

theorem viewer_backs_off_and_recovers:
  assumes "pg_timer p = Some d" and "pg_interval p = 5000"
    and "list_all (\<lambda>a. \<exists>t. goes_on a = Some t \<and> ct_lines t = []) quiet" and "quiet \<noteq> []"
    and "goes_on loud = Some t" and "ct_lines t \<noteq> []"
  shows "pg_timer (polls here meta quiet p) = Some (min (5000 * (int (length quiet) + 1)) 30000) \<and>
    pg_table (polls here meta quiet p) = pg_table p \<and>
    pg_timer (polls here meta (quiet @ [loud]) p) = Some 5000 \<and>
    pg_table (polls here meta (quiet @ [loud]) p) = pg_table p @ concat (map row_html (ct_lines t)) \<and>
    pg_failures (polls here meta (quiet @ [loud]) p) = 0"
proof -
  let ?q = "polls here meta quiet p"
  have q: "pg_timer ?q = Some (min (5000 * (int (length quiet) + 1)) 30000)" "pg_table ?q = pg_table p"
    using quiet_polls[OF assms(3,1), of 0 here meta] assms(2,4) by (simp_all add: add.commute)
  have "polls here meta (quiet @ [loud]) p = refresh_page here meta loud ?q"
    using q(1) by (simp add: polls_append)
  with refresh_goes_on[OF assms(5) q(1), of here meta] q assms(6) show ?thesis by simp
qed

section \<open>Runs\<close>

definition sample_trace :: "string \<Rightarrow> log_line list \<Rightarrow> command_trace" where
  "sample_trace status lines =
     \<lparr>ct_command_id = ''c'', ct_status = status, ct_next_byte_offset = 3, ct_next_line_num = 2, ct_lines = lines,
      ct_total_size = 3, ct_size_warning = False, ct_too_large = False, ct_not_logged = False,
      ct_log_host = None, ct_log_port = None, ct_log_user = None, ct_log_file_path = None\<rparr>"

lemma fresh_polls [simp]: "pg_timer (fresh_page stored) = Some 0" "pg_interval (fresh_page stored) = 5000"
  "pg_failures (fresh_page stored) = 0" "pg_table (fresh_page stored) = []"
  by (simp_all add: fresh_page_def set_theme_def Let_def)

text \<open>A first poll that fails.\<close>

lemma viewer_page_invariant_witness:
  "let p = refresh_page ''/x'' [] (FetchRejects ''a'') (fresh_page None)
   in page_inv p \<and> (\<exists>n. pg_timer p = Some (5000 * n) \<and> 1 \<le> n \<and> n \<le> 6)"
proof -
  let ?p = "refresh_page ''/x'' [] (FetchRejects ''a'') (fresh_page None)"
  have "page_step ''/x'' [] (fresh_page None) (Polled (FetchRejects ''a'')) ?p"
    by (rule page_step.poll[of _ 0]) simp
  note inv = viewer_page_invariant[OF page_history.nothing_yet this]
  have "pg_timer ?p \<noteq> None"
    by (simp add: refresh_page_def poll_failed_def reschedule_def MAX_FAILURES_def Let_def)
  with inv show ?thesis unfolding Let_def by blast
qed

definition sample_failures :: "poll_answer list" where
  "sample_failures = [FetchRejects ''a'', Response 500 Lineless, Response 200 (Garbled ''b''),
     Response 200 Lineless, Response 502 Lineless]"

lemma viewer_gives_up_after_five_failures_witness:
  "let q = polls ''/x'' [] sample_failures (fresh_page None)
   in pg_timer q = None \<and> pg_panels q = [panel_html [] (PollFailed ''HTTP 502'')]"
proof -
  have "list_all (\<lambda>a. failure a \<noteq> None) sample_failures" "length sample_failures = 5"
    by (simp_all add: sample_failures_def is_ok_def)
  note gives_up = viewer_gives_up_after_five_failures[OF page_reachable.loaded[of "''/x''" "[]" None] _ _ this, of 0]
  have "the (failure (last sample_failures)) = ''HTTP '' @ str_of_int 502"
    by (simp add: sample_failures_def is_ok_def)
  also have "\<dots> = ''HTTP 502''" by code_simp
  finally show ?thesis using gives_up by (simp add: Let_def)
qed

lemma viewer_backs_off_and_recovers_witness:
  "let silent = Response 200 (Served (sample_trace ''running'' []));
       loud = Response 200 (Served (sample_trace ''running'' [\<lparr>ll_num = 1, ll_content_html = ''hi''\<rparr>]))
   in pg_timer (polls ''/x'' [] [silent, silent] (fresh_page None)) = Some 15000 \<and>
      pg_timer (polls ''/x'' [] ([silent, silent] @ [loud]) (fresh_page None)) = Some 5000"
proof -
  let ?t = "sample_trace ''running''" and ?l = "[\<lparr>ll_num = 1, ll_content_html = ''hi''\<rparr>]"
  have on: "goes_on (Response 200 (Served (?t lines))) = Some (?t lines)" for lines
    by (simp add: sample_trace_def is_ok_def TERMINAL_STATUSES_def)
  have "ct_lines (?t lines) = lines" for lines by (simp add: sample_trace_def)
  with on viewer_backs_off_and_recovers[of "fresh_page None" 0 "replicate 2 (Response 200 (Served (?t [])))"
      "Response 200 (Served (?t ?l))" "?t ?l" "''/x''" "[]"]
  show ?thesis by (simp add: numeral_2_eq_2 del: goes_on.simps polls.simps)
qed

end
