(* ===== verification/Viewer_Runs.thy ===== *)
theory Viewer_Runs
  imports Viewer_Properties
begin

text \<open>
  The viewer against the service it polls. \<open>log_source\<close> is what a viewer needs of a log to show it right;
  \<open>browser_ask\<close> is the trace route as a browser with a cookie sees it, and the dry-run command service behind
  that route keeps the contract, whatever else is done to it between two polls.
\<close>

section \<open>Watching a log\<close>

text \<open>What can happen while a page is open: a poll that is answered, a poll whose answer is lost on the way
  back, a poll that never arrives, something else done to the service, and the button.\<close>

datatype ('e, 'o) watch_event =
    Ask 'e
  | Answer_Lost 'e string
  | Request_Lost string
  | Elsewhere 'o
  | Button

fun watch_step ::
  "string \<Rightarrow> string \<Rightarrow> ('e \<Rightarrow> int \<Rightarrow> int \<Rightarrow> 'w \<Rightarrow> poll_answer \<times> 'w) \<Rightarrow> ('o \<Rightarrow> 'w \<Rightarrow> 'w) \<Rightarrow>
   ('e, 'o) watch_event \<Rightarrow> viewer_page \<times> 'w \<Rightarrow> viewer_page \<times> 'w" where
  "watch_step here meta_html ask others (Ask e) (p, w) =
     (if pg_timer p = None then (p, w)
      else (case ask e (pg_byte_offset p) (pg_line_num p) w of
              (ans, w') \<Rightarrow> (refresh_page here meta_html ans p, w')))"
| "watch_step here meta_html ask others (Answer_Lost e m) (p, w) =
     (if pg_timer p = None then (p, w)
      else (refresh_page here meta_html (FetchRejects m) p, snd (ask e (pg_byte_offset p) (pg_line_num p) w)))"
| "watch_step here meta_html ask others (Request_Lost m) (p, w) =
     (if pg_timer p = None then (p, w) else (refresh_page here meta_html (FetchRejects m) p, w))"
| "watch_step here meta_html ask others (Elsewhere x) (p, w) = (p, others x w)"
| "watch_step here meta_html ask others Button (p, w) = (toggle_theme p, w)"

definition watch where
  "watch here meta_html ask others events s = fold (watch_step here meta_html ask others) events s"

text \<open>\<open>handed_out w offset num ls\<close>: a reader whose cursor is at \<open>offset\<close> and \<open>num\<close> has been given \<open>ls\<close>.\<close>

locale log_source =
  fixes ask :: "'e \<Rightarrow> int \<Rightarrow> int \<Rightarrow> 'w \<Rightarrow> poll_answer \<times> 'w"
    and others :: "'o \<Rightarrow> 'w \<Rightarrow> 'w"
    and allowed :: "'o \<Rightarrow> bool"
    and handed_out :: "'w \<Rightarrow> int \<Rightarrow> int \<Rightarrow> log_line list \<Rightarrow> bool"
  assumes start_law: "handed_out w 0 1 []"
    and ask_law: "ask e offset num w = (Response n (Served t), w') \<Longrightarrow> handed_out w offset num ls \<Longrightarrow>
      handed_out w' (ct_next_byte_offset t) (ct_next_line_num t) (ls @ ct_lines t)"
    and ask_keeps: "handed_out w offset num ls \<Longrightarrow> handed_out (snd (ask e o' n' w)) offset num ls"
    and others_keep: "allowed x \<Longrightarrow> handed_out w offset num ls \<Longrightarrow> handed_out (others x w) offset num ls"
begin

text \<open>The table is the rows of the lines handed out so far.\<close>

definition shows_log :: "viewer_page \<times> 'w \<Rightarrow> log_line list \<Rightarrow> bool" where
  "shows_log s ls \<longleftrightarrow> pg_table (fst s) = concat (map row_html ls) \<and>
     handed_out (snd s) (pg_byte_offset (fst s)) (pg_line_num (fst s)) ls"

lemma shows_log_fresh: "shows_log (fresh_page stored, w) []"
  using start_law by (simp add: shows_log_def fresh_page_def set_theme_def Let_def)

lemma cursor_only_with_lines:
  obtains (kept) "pg_table (refresh_page here meta ans p) = pg_table p"
      and "pg_byte_offset (refresh_page here meta ans p) = pg_byte_offset p"
      and "pg_line_num (refresh_page here meta ans p) = pg_line_num p"
  | (moved) n t where "ans = Response n (Served t)"
      and "pg_table (refresh_page here meta ans p) = pg_table p @ concat (map row_html (ct_lines t))"
      and "pg_byte_offset (refresh_page here meta ans p) = ct_next_byte_offset t"
      and "pg_line_num (refresh_page here meta ans p) = ct_next_line_num t"
proof (cases rule: attempt_cases[of here meta ans p])
  case (thrown m)
  then show ?thesis
    by (intro kept) (simp_all add: refresh_page_def poll_failed_def page_parts Let_def)
next
  case login
  then show ?thesis by (intro kept) (simp_all add: refresh_page_def page_parts)
next
  case (served n t)
  show ?thesis
  proof (cases "ct_not_logged t \<or> ct_too_large t")
    case True
    with served show ?thesis
      by (intro kept) (auto simp: refresh_page_def take_trace_def page_parts Let_def)
  next
    case False
    with False served show ?thesis
      by (intro moved[OF served(1)])
        (simp_all add: refresh_page_def take_trace_def reschedule_def take_lines_def advance_cursor_def
          show_interval_def render_def mark_status_def show_size_warning_def Let_def)
  qed
qed

lemma shows_log_step:
  assumes "shows_log s ls" and "\<forall>x. event = Elsewhere x \<longrightarrow> allowed x"
  shows "\<exists>ls'. shows_log (watch_step here meta ask others event s) (ls @ ls')"
proof -
  obtain p w where s: "s = (p, w)" by (cases s)
  have refreshed: "\<exists>ls'. shows_log (refresh_page here meta ans p, w') (ls @ ls')"
    if "handed_out w' (pg_byte_offset p) (pg_line_num p) ls"
      and "\<And>n t. ans = Response n (Served t) \<Longrightarrow>
        handed_out w' (ct_next_byte_offset t) (ct_next_line_num t) (ls @ ct_lines t)" for ans w'
    by (cases rule: cursor_only_with_lines[of here meta ans p])
      (use that assms(1) s in \<open>auto simp: shows_log_def intro: exI[of _ "[]"]\<close>)
  show ?thesis
  proof (cases event)
    case (Ask e)
    obtain ans w' where ans: "ask e (pg_byte_offset p) (pg_line_num p) w = (ans, w')" by fastforce
    have "handed_out w' (pg_byte_offset p) (pg_line_num p) ls"
      using ask_keeps[of w "pg_byte_offset p" "pg_line_num p" ls e "pg_byte_offset p" "pg_line_num p"]
        assms(1) ans by (simp add: shows_log_def s)
    moreover have "handed_out w' (ct_next_byte_offset t) (ct_next_line_num t) (ls @ ct_lines t)"
      if "ans = Response n (Served t)" for n t
      using ask_law[OF ans[unfolded that]] assms(1) by (simp add: shows_log_def s)
    ultimately show ?thesis
      using refreshed[of w' ans] assms(1) ans Ask by (auto simp: s intro: exI[of _ "[]"])
  next
    case (Answer_Lost e m)
    with refreshed[of _ "FetchRejects m"] ask_keeps assms(1) show ?thesis
      by (auto simp: s shows_log_def intro: exI[of _ "[]"])
  next
    case (Request_Lost m)
    with refreshed[of _ "FetchRejects m"] assms(1) show ?thesis
      by (auto simp: s shows_log_def intro: exI[of _ "[]"])
  qed (use assms others_keep in \<open>auto simp: s shows_log_def toggle_theme_def set_theme_def intro!: exI[of _ "[]"]\<close>)
qed

lemma shows_log_watch:
  assumes "shows_log s ls" and "\<forall>x. Elsewhere x \<in> set events \<longrightarrow> allowed x"
  shows "\<exists>ls'. shows_log (watch here meta ask others events s) (ls @ ls')"
  using assms
proof (induction events arbitrary: s ls)
  case Nil
  then show ?case by (intro exI[of _ "[]"]) (simp add: watch_def)
next
  case (Cons event events)
  obtain ls' where "shows_log (watch_step here meta ask others event s) (ls @ ls')"
    using shows_log_step[OF Cons.prems(1), of event here meta] Cons.prems(2) by auto
  from Cons.IH[OF this] Cons.prems(2) obtain ls'' where
    "shows_log (watch here meta ask others events (watch_step here meta ask others event s)) ((ls @ ls') @ ls'')"
    by auto
  then show ?case by (intro exI[of _ "ls' @ ls''"]) (simp add: watch_def)
qed

end

section \<open>The trace route, for a browser\<close>

text \<open>The response to a result of the trace route; an error body has no \<open>data\<close>.\<close>

definition answer_of_route :: "string \<Rightarrow> exn + command_trace api_response \<Rightarrow> poll_answer" where
  "answer_of_route request_id r =
     (case r of
        Inl e \<Rightarrow> Response (rsp_status (handle_exception request_id e)) Lineless
      | Inr body \<Rightarrow> Response 200 (Served (ar_data body)))"

text \<open>The route behind the cookie \<open>cookie\<close>, at a time and with a request id. The bounds of the two query
  parameters are checked by the framework, after the dependencies have run.\<close>

definition browser_ask ::
  "crypto \<Rightarrow> settings \<Rightarrow> 'w command_client \<Rightarrow> string option \<Rightarrow> string \<Rightarrow> int \<times> string \<Rightarrow> int \<Rightarrow> int \<Rightarrow> 'w \<Rightarrow>
   poll_answer \<times> 'w" where
  "browser_ask cr st c cookie command_id at offset num w =
     (case at of (time, request_id) \<Rightarrow>
        (if offset \<ge> 0 \<and> num \<ge> 1
         then (case command_trace_route cr time None cookie st c request_id command_id offset num w of
                 (r, w') \<Rightarrow> (answer_of_route request_id r, w'))
         else (case get_current_user_cookie_or_header cr time [''command_api''] None cookie of
                 Inl e \<Rightarrow> (answer_of_route request_id (Inl e), w)
               | Inr u \<Rightarrow> (Response 422 Lineless, w))))"

lemma browser_ask_cases:
  obtains (refused) e where "get_current_user_cookie_or_header cr time [''command_api''] None cookie = Inl e"
      and "browser_ask cr st c cookie i (time, rid) offset num w = (answer_of_route rid (Inl e), w)"
  | (bounds) u where "get_current_user_cookie_or_header cr time [''command_api''] None cookie = Inr u"
      and "\<not> (offset \<ge> 0 \<and> num \<ge> 1)"
      and "browser_ask cr st c cookie i (time, rid) offset num w = (Response 422 Lineless, w)"
  | (traced) u where "get_current_user_cookie_or_header cr time [''command_api''] None cookie = Inr u"
      and "offset \<ge> 0" and "num \<ge> 1"
      and "browser_ask cr st c cookie i (time, rid) offset num w =
        (case cm_get_command_trace c i offset num w of
           (Inl e, w') \<Rightarrow> (answer_of_route rid (Inl e), w')
         | (Inr t, w') \<Rightarrow> (Response 200 (Served t), w'))"
proof (cases "get_current_user_cookie_or_header cr time [''command_api''] None cookie")
  case (Inl e)
  then show ?thesis
    by (intro refused[of e])
      (simp_all add: browser_ask_def command_trace_route_def bind_io_def lift_io_def)
next
  case (Inr u)
  show ?thesis
  proof (cases "offset \<ge> 0 \<and> num \<ge> 1")
    case True
    with Inr show ?thesis
      by (intro traced[of u])
        (auto simp: browser_ask_def command_trace_route_def bind_io_def lift_io_def enveloped_def
          return_io_def make_response_def answer_of_route_def split: prod.split sum.split)
  qed (use Inr in \<open>intro bounds[of u]; auto simp: browser_ask_def\<close>)
qed

section \<open>The dry-run command service as a log\<close>

text \<open>Every operation on the service keeps an ended execution, unless it starts one under the same id.\<close>

definition dry_others ::
  "(string \<Rightarrow> string) \<Rightarrow> (string \<Rightarrow> string + json) \<Rightarrow> command_op \<Rightarrow> executions \<Rightarrow> executions" where
  "dry_others decode json_loads op w = perform_command decode json_loads op w"

definition whole_log :: "(string \<Rightarrow> string) \<Rightarrow> execution \<Rightarrow> log_line list" where
  "whole_log decode x =
     map (\<lambda>(k, line). \<lparr>ll_num = 1 + int k, ll_content_html = html_escape True line\<rparr>)
       (enumerate 0 (splitlines (decode (log_bytes x))))"

lemma log_slice_whole: "log_slice decode x 0 1 = whole_log decode x"
  by (simp add: log_slice_def whole_log_def from_index_def)

definition dry_handed_out ::
  "(string \<Rightarrow> string) \<Rightarrow> string \<Rightarrow> executions \<Rightarrow> int \<Rightarrow> int \<Rightarrow> log_line list \<Rightarrow> bool" where
  "dry_handed_out decode i w offset num ls \<longleftrightarrow>
     (ascii_transparent decode \<longrightarrow>
        offset = 0 \<and> num = 1 \<and> ls = [] \<or>
        (\<exists>x. dict_get w i = Some x \<and> status_of x \<noteq> ''running'' \<and> offset = int (length (log_bytes x)) \<and>
           num = 1 + int (length ls) \<and> ls = whole_log decode x))"

lemma handed_out_settled:
  assumes "dry_handed_out decode i w offset num ls"
    and "\<And>x. dict_get w i = Some x \<Longrightarrow> status_of x \<noteq> ''running'' \<Longrightarrow> dict_get w' i = Some x"
  shows "dry_handed_out decode i w' offset num ls"
  using assms unfolding dry_handed_out_def by blast

lemma settled_perform:
  assumes "dict_get w i = Some x" and "status_of x \<noteq> ''running''" and "\<not> starts op i"
  shows "dict_get (perform_command decode json_loads op w) i = Some x"
  using perform_keeps[OF assms(1,3), of decode json_loads] assms(2) by auto

lemma settled_trace:
  assumes "dict_get w i = Some x" and "status_of x \<noteq> ''running''"
  shows "dict_get (snd (dry_get_command_trace decode j offset num w)) i = Some x"
  using settled_perform[OF assms, of "Trace j offset num" decode] by (simp add: starts_def)

abbreviation dry_ask where
  "dry_ask cr st decode json_loads cookie i \<equiv>
     browser_ask cr st (dry_run_command_client decode json_loads []) cookie i"

lemma dry_ask_keeps:
  assumes "dict_get w i = Some x" and "status_of x \<noteq> ''running''"
  shows "dict_get (snd (dry_ask cr st decode json_loads cookie i at offset num w)) i = Some x"
proof -
  obtain time rid where at: "at = (time, rid)" by fastforce
  have "cm_get_command_trace (dry_run_command_client decode json_loads []) = dry_get_command_trace decode"
    by (simp add: dry_run_command_client_def)
  then show ?thesis
    using assms settled_trace[OF assms, of decode i offset num]
    by (cases rule: browser_ask_cases[of cr time cookie st "dry_run_command_client decode json_loads []" i rid offset num w])
      (auto simp: at split: prod.splits sum.splits)
qed

lemma dry_ask_served:
  assumes "dry_ask cr st decode json_loads cookie i at offset num w = (Response n (Served t), w')"
  obtains x where "dict_get w i = Some x" and "t = trace_of decode i (complete x) offset num"
    and "w' = dict_set i (complete x) w"
proof -
  obtain time rid where at: "at = (time, rid)" by fastforce
  have c: "cm_get_command_trace (dry_run_command_client decode json_loads []) = dry_get_command_trace decode"
    by (simp add: dry_run_command_client_def)
  have got: "dry_get_command_trace decode i offset num w = (Inr t, w')"
    using assms
    by (cases rule: browser_ask_cases[of cr time cookie st "dry_run_command_client decode json_loads []" i rid offset num w])
      (auto simp: at c answer_of_route_def split: prod.splits sum.splits)
  then obtain x where x: "dict_get w i = Some x"
    by (auto simp: dry_get_command_trace_def observe_execution_def bind_io_def get_execution_def split: option.splits)
  from got observed_trace[OF x, of decode offset num] show ?thesis by (intro that[OF x]) simp_all
qed

lemma dry_ask_law:
  assumes "dry_ask cr st decode json_loads cookie i at offset num w = (Response n (Served t), w')"
    and "dry_handed_out decode i w offset num ls"
  shows "dry_handed_out decode i w' (ct_next_byte_offset t) (ct_next_line_num t) (ls @ ct_lines t)"
proof -
  from assms(1) obtain x where x: "dict_get w i = Some x" and t: "t = trace_of decode i (complete x) offset num"
    and w': "w' = dict_set i (complete x) w" by (rule dry_ask_served)
  have kept: "dry_handed_out decode i w' offset num ls"
    by (rule handed_out_settled[OF assms(2)]) (use x in \<open>auto simp: w'\<close>)
  show ?thesis
  proof (cases "cc_logged (xn_config x)")
    case False
    then have "\<not> cc_logged (xn_config (complete x))" by (simp add: complete_def)
    with kept show ?thesis by (simp add: t trace_of_def Let_def)
  next
    case True
    then have logged: "cc_logged (xn_config (complete x))" by (simp add: complete_def)
    show ?thesis unfolding dry_handed_out_def
    proof
      assume plain: "ascii_transparent decode"
      consider "offset = 0" "num = 1" "ls = []"
        | "status_of x \<noteq> ''running''" "offset = int (length (log_bytes x))" "num = 1 + int (length ls)"
          "ls = whole_log decode x"
        using assms(2) x plain by (auto simp: dry_handed_out_def)
      then show "ct_next_byte_offset t = 0 \<and> ct_next_line_num t = 1 \<and> ls @ ct_lines t = [] \<or>
        (\<exists>x. dict_get w' i = Some x \<and> status_of x \<noteq> ''running'' \<and>
           ct_next_byte_offset t = int (length (log_bytes x)) \<and>
           ct_next_line_num t = 1 + int (length (ls @ ct_lines t)) \<and> ls @ ct_lines t = whole_log decode x)"
      proof cases
        case 1
        with logged show ?thesis
          by (intro disjI2 exI[of _ "complete x"]) (simp add: t w' trace_of_def log_slice_whole Let_def)
      next
        case 2
        have "decode [] = []" using plain by (simp add: ascii_transparent_def)
        then have "log_slice decode x (int (length (log_bytes x))) num = []" by (simp add: log_slice_def)
        with 2 True show ?thesis
          by (intro disjI2 exI[of _ x]) (simp add: t w' trace_of_def Let_def)
      qed
    qed
  qed
qed

interpretation dry_log: log_source "dry_ask cr st decode json_loads cookie i" "dry_others decode json_loads"
    "\<lambda>op. \<not> starts op i" "dry_handed_out decode i"
  for cr st decode json_loads cookie i
proof unfold_locales
  show "dry_handed_out decode i w 0 1 []" for w by (simp add: dry_handed_out_def)
next
  fix e :: "int \<times> string" and offset num n t w w' ls
  assume "dry_ask cr st decode json_loads cookie i e offset num w = (Response n (Served t), w')"
    and "dry_handed_out decode i w offset num ls"
  then show "dry_handed_out decode i w' (ct_next_byte_offset t) (ct_next_line_num t) (ls @ ct_lines t)"
    by (rule dry_ask_law)
next
  fix w offset num ls and e :: "int \<times> string" and o' n'
  assume "dry_handed_out decode i w offset num ls"
  then show "dry_handed_out decode i (snd (dry_ask cr st decode json_loads cookie i e o' n' w)) offset num ls"
    by (rule handed_out_settled) (rule dry_ask_keeps)
next
  fix x w offset num ls
  assume "\<not> starts x i" and "dry_handed_out decode i w offset num ls"
  then show "dry_handed_out decode i (dry_others decode json_loads x w) offset num ls"
    by (auto simp: dry_others_def intro: handed_out_settled settled_perform)
qed

section \<open>What a viewer of a dry-run command shows\<close>

text \<open>All that a watch does to the executions are operations that do not start this one.\<close>

lemma dry_ask_is_operation:
  "snd (dry_ask cr st decode json_loads cookie i at offset num w) \<in>
     {w, perform_command decode json_loads (Trace i offset num) w}"
proof -
  obtain time rid where at: "at = (time, rid)" by fastforce
  have "cm_get_command_trace (dry_run_command_client decode json_loads []) = dry_get_command_trace decode"
    by (simp add: dry_run_command_client_def)
  then show ?thesis
    by (cases rule: browser_ask_cases[of cr time cookie st "dry_run_command_client decode json_loads []" i rid offset num w])
      (auto simp: at split: prod.splits sum.splits)
qed

lemma watch_keeps:
  assumes keeps: "\<And>op v. \<not> starts op i \<Longrightarrow> P v \<Longrightarrow> P (perform_command decode json_loads op v)"
    and "P (snd s)" and "\<forall>op. Elsewhere op \<in> set events \<longrightarrow> \<not> starts op i"
  shows "P (snd (watch here meta (dry_ask cr st decode json_loads cookie i) (dry_others decode json_loads) events s))"
  using assms(2,3)
proof (induction events arbitrary: s)
  case (Cons event events)
  obtain p w where s: "s = (p, w)" by (cases s)
  have asked: "P (snd (dry_ask cr st decode json_loads cookie i at offset num w))" for at offset num
    using dry_ask_is_operation[of cr st decode json_loads cookie i at offset num w]
      keeps[of "Trace i offset num" w] Cons.prems(1) s by (auto simp: starts_def)
  have "P (snd (watch_step here meta (dry_ask cr st decode json_loads cookie i) (dry_others decode json_loads) event s))"
  proof (cases event)
    case (Ask e)
    with asked[of e "pg_byte_offset p" "pg_line_num p"] Cons.prems(1) s show ?thesis
      by (simp add: case_prod_beta)
  next
    case (Elsewhere op)
    with keeps[of op w] Cons.prems s show ?thesis by (simp add: dry_others_def)
  qed (use asked Cons.prems(1) s in simp_all)
  from Cons.IH[OF this] Cons.prems(2) show ?case by (simp add: watch_def)
qed (simp add: watch_def)

text \<open>What stays of an execution: its command, and the three states.\<close>

definition stays_of :: "string \<Rightarrow> command_config \<Rightarrow> executions \<Rightarrow> bool" where
  "stays_of i config w \<longleftrightarrow> executions_ok w \<and> (\<exists>x. dict_get w i = Some x \<and> xn_config x = config)"

lemma stays_of_perform:
  assumes "\<not> starts op i" and "stays_of i config w"
  shows "stays_of i config (perform_command decode json_loads op w)"
proof -
  obtain x where x: "dict_get w i = Some x" "xn_config x = config" using assms(2) by (auto simp: stays_of_def)
  have "executions_ok (run_commands decode json_loads [op] w)"
    using assms(2) by (intro executions_ok_run) (simp add: stays_of_def)
  then have "executions_ok (perform_command decode json_loads op w)" by (simp add: run_commands_def)
  moreover have "xn_config (complete x) = config" "xn_config (kill_execution forced x) = config" for forced
    using x(2) by (simp_all add: complete_def kill_execution_def)
  ultimately show ?thesis
    using perform_keeps[OF x(1) assms(1), of decode json_loads] x(2) by (auto simp: stays_of_def)
qed

lemma refresh_terminal:
  assumes "ct_status t \<in> set TERMINAL_STATUSES" and "\<not> ct_not_logged t" and "\<not> ct_too_large t"
  shows "pg_timer (refresh_page here meta (Response 200 (Served t)) p) = None \<and>
    pg_sync_status (refresh_page here meta (Response 200 (Served t)) p) = ''Finished'' \<and>
    pg_panels (refresh_page here meta (Response 200 (Served t)) p) = pg_panels p \<and>
    pg_byte_offset (refresh_page here meta (Response 200 (Served t)) p) = ct_next_byte_offset t"
proof -
  have "ct_status t \<noteq> []" using assms(1) by (auto simp: TERMINAL_STATUSES_def)
  moreover have "attempt here meta (Response 200 (Served t)) p = Inr (take_trace meta t p)" by (simp add: is_ok_def)
  ultimately show ?thesis
    using assms by (simp add: refresh_page_def take_trace_def page_parts Let_def)
qed

text \<open>A poll that is let through, of a logged command, serves the rest of the log and ends the watch.\<close>

lemma accepted_ask_finishes:
  assumes "stays_of i config w" and "cc_logged config"
    and "get_current_user_cookie_or_header cr time [''command_api''] None cookie = Inr u"
    and "pg_byte_offset p \<ge> 0" and "pg_line_num p \<ge> 1" and "pg_timer p = Some d"
  shows "\<exists>q w' x. watch_step here meta (dry_ask cr st decode json_loads cookie i) others (Ask (time, rid)) (p, w) = (q, w') \<and>
    pg_timer q = None \<and> pg_sync_status q = ''Finished'' \<and> pg_panels q = pg_panels p \<and>
    dict_get w' i = Some x \<and> status_of x \<in> {''success'', ''killed''} \<and>
    pg_byte_offset q = int (length (log_bytes x))"
proof -
  let ?c = "dry_run_command_client decode json_loads []"
  obtain x where x: "dict_get w i = Some x" "xn_config x = config" using assms(1) by (auto simp: stays_of_def)
  let ?t = "trace_of decode i (complete x) (pg_byte_offset p) (pg_line_num p)" and ?w = "dict_set i (complete x) w"
  have c: "cm_get_command_trace ?c = dry_get_command_trace decode" by (simp add: dry_run_command_client_def)
  have "dry_ask cr st decode json_loads cookie i (time, rid) (pg_byte_offset p) (pg_line_num p) w =
      (Response 200 (Served ?t), ?w)"
    using assms(3-5) observed_trace[OF x(1), of decode "pg_byte_offset p" "pg_line_num p"]
    by (cases rule: browser_ask_cases[of cr time cookie st ?c i rid "pg_byte_offset p" "pg_line_num p" w])
      (auto simp: c)
  then have step: "watch_step here meta (dry_ask cr st decode json_loads cookie i) others (Ask (time, rid)) (p, w) =
      (refresh_page here meta (Response 200 (Served ?t)) p, ?w)"
    using assms(6) by simp
  have logged: "cc_logged (xn_config (complete x))" using x(2) assms(2) by (simp add: complete_def)
  have "status_of x \<in> {''running'', ''success'', ''killed''}"
    using assms(1) x(1) unfolding stays_of_def executions_ok_def by blast
  then have final: "status_of (complete x) \<in> {''success'', ''killed''}" by (auto simp: complete_def)
  then have "pg_timer (refresh_page here meta (Response 200 (Served ?t)) p) = None \<and>
      pg_sync_status (refresh_page here meta (Response 200 (Served ?t)) p) = ''Finished'' \<and>
      pg_panels (refresh_page here meta (Response 200 (Served ?t)) p) = pg_panels p \<and>
      pg_byte_offset (refresh_page here meta (Response 200 (Served ?t)) p) = int (length (log_bytes (complete x)))"
    using logged refresh_terminal[of ?t here meta p]
    by (auto simp: trace_of_def TERMINAL_STATUSES_def Let_def)
  with step final show ?thesis by auto
qed

text \<open>C28: a viewer of a logged dry-run command shows each line of its log exactly once and in order: whatever
  polls were answered, lost or refused and whatever else was done to the service, the page shows either
  nothing or the whole log, escaped and numbered from one, of the command as it ended; and while it is
  still polling, the next poll that carries an accepted cookie shows it all and ends the watch.\<close>

theorem viewer_shows_each_line_once:
  assumes plain: "ascii_transparent decode" and ok: "executions_ok w" and x: "dict_get w i = Some x"
    and logged: "cc_logged (xn_config x)" and other: "\<forall>op. Elsewhere op \<in> set events \<longrightarrow> \<not> starts op i"
    and run: "watch here meta (dry_ask cr st decode json_loads cookie i) (dry_others decode json_loads) events
      (fresh_page stored, w) = (p, w')"
    and user: "get_current_user_cookie_or_header cr time [''command_api''] None cookie = Inr u"
  shows "(pg_table p = [] \<or> (\<exists>y. dict_get w' i = Some y \<and> status_of y \<noteq> ''running'' \<and>
       pg_table p = concat (map row_html (whole_log decode y)))) \<and>
    (pg_timer p \<noteq> None \<longrightarrow>
       (\<exists>q w'' y. watch_step here meta (dry_ask cr st decode json_loads cookie i) (dry_others decode json_loads)
           (Ask (time, rid)) (p, w') = (q, w'') \<and>
         pg_timer q = None \<and> pg_sync_status q = ''Finished'' \<and> dict_get w'' i = Some y \<and>
         status_of y \<in> {''success'', ''killed''} \<and> pg_table q = concat (map row_html (whole_log decode y))))"
proof -
  let ?step = "watch_step here meta (dry_ask cr st decode json_loads cookie i) (dry_others decode json_loads)"
  have no_lines: "whole_log decode y = []" if "log_bytes y = []" for y
    using that plain by (simp add: whole_log_def ascii_transparent_def)
  obtain ls where shows_ls: "dry_log.shows_log decode i (p, w') ls"
    using dry_log.shows_log_watch[OF dry_log.shows_log_fresh[of decode i stored w], of events here meta cr st json_loads cookie]
      other run by auto
  then have ls: "pg_table p = concat (map row_html ls)"
    "dry_handed_out decode i w' (pg_byte_offset p) (pg_line_num p) ls"
    by (simp_all add: dry_log.shows_log_def)
  have shown: "pg_table p = [] \<or> (\<exists>y. dict_get w' i = Some y \<and> status_of y \<noteq> ''running'' \<and>
      pg_table p = concat (map row_html (whole_log decode y)))"
    and cursor: "pg_byte_offset p \<ge> 0" "pg_line_num p \<ge> 1"
    using ls plain by (auto simp: dry_handed_out_def)
  have "stays_of i (xn_config x) w" using ok x by (auto simp: stays_of_def)
  then have "stays_of i (xn_config x) w'"
    using watch_keeps[of i "stays_of i (xn_config x)" decode json_loads "(fresh_page stored, w)" events here meta cr st cookie]
      stays_of_perform other run by auto
  note ask = accepted_ask_finishes[OF this logged user cursor,
      of _ here meta st decode json_loads "dry_others decode json_loads" rid]
  have "\<exists>q w'' y. ?step (Ask (time, rid)) (p, w') = (q, w'') \<and> pg_timer q = None \<and>
      pg_sync_status q = ''Finished'' \<and> dict_get w'' i = Some y \<and> status_of y \<in> {''success'', ''killed''} \<and>
      pg_table q = concat (map row_html (whole_log decode y))" if polling: "pg_timer p = Some d" for d
  proof -
    from ask[OF polling] obtain q w'' y where q: "?step (Ask (time, rid)) (p, w') = (q, w'')" "pg_timer q = None"
      "pg_sync_status q = ''Finished''" "dict_get w'' i = Some y" "status_of y \<in> {''success'', ''killed''}"
      "pg_byte_offset q = int (length (log_bytes y))" by blast
    obtain ls' where "dry_log.shows_log decode i (q, w'') (ls @ ls')"
      using dry_log.shows_log_step[OF shows_ls, of "Ask (time, rid)" here meta cr st json_loads cookie] q(1) by auto
    then have "pg_table q = concat (map row_html (ls @ ls'))"
      "dry_handed_out decode i w'' (int (length (log_bytes y))) (pg_line_num q) (ls @ ls')"
      using q(6) by (simp_all only: dry_log.shows_log_def fst_conv snd_conv)
    moreover from this(2) have "ls @ ls' = whole_log decode y"
      using plain q(4) by (auto simp: dry_handed_out_def no_lines)
    ultimately have "pg_table q = concat (map row_html (whole_log decode y))" by simp
    with q show ?thesis by blast
  qed
  with shown show ?thesis by blast
qed

section \<open>A run\<close>

text \<open>A signing library that knows one token.\<close>

definition viewer_crypto :: crypto where
  "viewer_crypto = \<lparr>checkpw = (\<lambda>plain hash. Inr True), hashpw = (\<lambda>plain salt. Inr sample_hash),
     jwt_encode = (\<lambda>p. ''token''),
     jwt_decode = (\<lambda>time t. Inr (issued_payload sample_settings 0 ''ops'' [''command_api'']))\<rparr>"

lemma id_transparent: "ascii_transparent id"
  by (simp add: ascii_transparent_def)

text \<open>A poll that never arrives, then the command is killed, then a poll.\<close>

lemma viewer_shows_each_line_once_witness:
  "\<exists>q w y. watch ''/x'' [] (dry_ask viewer_crypto sample_settings id (\<lambda>_. Inl []) (Some ''token'') ''dry-run-a'')
      (dry_others id (\<lambda>_. Inl [])) [Request_Lost ''offline'', Elsewhere (Kill ''dry-run-a'' True), Ask (60, ''r'')]
      (fresh_page None, [(''dry-run-a'', new_execution ''dry-run-a'' ping_config sample_execution)]) = (q, w) \<and>
    pg_timer q = None \<and> dict_get w ''dry-run-a'' = Some y \<and> pg_table q = concat (map row_html (whole_log id y))"
proof -
  let ?x = "new_execution ''dry-run-a'' ping_config sample_execution" and ?lost = "Request_Lost ''offline''"
  let ?ask = "dry_ask viewer_crypto sample_settings id (\<lambda>_. Inl []) (Some ''token'') ''dry-run-a''"
  let ?others = "dry_others id (\<lambda>_. Inl [])" and ?w = "[(''dry-run-a'', ?x)]"
  let ?events = "[?lost, Elsewhere (Kill ''dry-run-a'' True)]"
  have ok: "executions_ok ?w" by (auto simp: executions_ok_def new_execution_def Let_def split: if_splits)
  have x: "dict_get ?w ''dry-run-a'' = Some ?x" by simp
  have logged: "cc_logged (xn_config ?x)" by (simp add: new_execution_def ping_config_def Let_def)
  have other: "\<forall>op. Elsewhere op \<in> set ?events \<longrightarrow> \<not> starts op ''dry-run-a''" by (auto simp: starts_def)
  have user: "get_current_user_cookie_or_header viewer_crypto 60 [''command_api''] None (Some ''token'') =
      Inr \<lparr>u_account = ''ops'', u_scopes = [''command_api'']\<rparr>"
    using user_of_issued[of "''ops''" "[''command_api'']" sample_settings 0 "[''command_api'']"]
    by (simp add: get_current_user_cookie_or_header_def decode_access_token_def viewer_crypto_def)
  obtain p w' where run: "watch ''/x'' [] ?ask ?others ?events (fresh_page None, ?w) = (p, w')" by fastforce
  then have "p = refresh_page ''/x'' [] (FetchRejects ''offline'') (fresh_page None)"
    by (simp add: watch_def)
  then have "pg_timer p \<noteq> None"
    using refresh_failure[of "FetchRejects ''offline''" "''offline''" "fresh_page None" 0] by (simp add: MAX_FAILURES_def)
  with viewer_shows_each_line_once[OF id_transparent ok x logged other run user, of "''r''"]
  obtain q w'' y where q: "watch_step ''/x'' [] ?ask ?others (Ask (60, ''r'')) (p, w') = (q, w'')" "pg_timer q = None"
    "dict_get w'' ''dry-run-a'' = Some y" "pg_table q = concat (map row_html (whole_log id y))" by blast
  have "watch ''/x'' [] ?ask ?others (?events @ [Ask (60, ''r'')]) (fresh_page None, ?w) = (q, w'')"
    using run q(1) by (simp only: watch_def fold_append comp_def fold_simps)
  with q show ?thesis by auto
qed

section \<open>What a viewer shows that the log does not say\<close>

text \<open>The colours of the renderer are replaced in the text of a line too: a log line that reads
  \<open>color: #0000AA\<close> is shown as another text.\<close>

lemma viewer_rewrites_log_text:
  "row_html \<lparr>ll_num = 1, ll_content_html = html_escape True ''color: #0000AA''\<rparr> =
     element ''div'' ''log-line'' (element ''div'' ''cell line-num'' ''1'' @
       element ''div'' ''cell content'' ''color: var(--ansi-blue)'')"
proof -
  have "themed (html_escape True ''color: #0000AA'') = ''color: var(--ansi-blue)''" by code_simp
  moreover have "str_of_int 1 = ''1''" by code_simp
  ultimately show ?thesis by (simp add: row_html_def)
qed

text \<open>Every field of the fatal panel is escaped but the message of the last error.\<close>

lemma last_error_is_not_escaped:
  "extra_rows (PollFailed ''<b>'') = panel_row ''Last error'' ''<b>'' \<and> escape_html_js ''<b>'' = ''&lt;b&gt;''"
  by (simp add: escape_html_js_def escape_char_js_def)

text \<open>A line without a number sign is shown as it was served.\<close>

lemma replace_ci_absent:
  assumes "c \<in> set pat" and "ascii_lower c \<notin> ascii_lower ` set s"
  shows "replace_ci pat rep s = s"
  using assms
proof (induction pat rep s rule: replace_ci.induct)
  case (1 pat rep s)
  have "\<not> matches_ci pat s"
    using 1(3,4) by (auto simp: matches_ci_def prefix_def dest!: arg_cong[where f = set])
  with 1 show ?case by (cases s) (simp_all add: replace_ci.simps)
qed

lemma themed_plain:
  assumes "CHR ''#'' \<notin> set s"
  shows "themed s = s"
proof -
  have only: "ascii_lower c = CHR ''#'' \<Longrightarrow> c = CHR ''#''" for c
  proof -
    assume "ascii_lower c = CHR ''#''"
    then have "code_point (ascii_lower c) = 35" by (simp add: code_point_def)
    then have "\<not> (65 \<le> code_point c \<and> code_point c \<le> 90)"
      by (auto simp: ascii_lower_def Let_def code_point_def)
    with \<open>ascii_lower c = _\<close> show "c = CHR ''#''" by (simp add: ascii_lower_def Let_def split: if_splits)
  qed
  have "ascii_lower (CHR ''#'') = CHR ''#''" by (simp add: ascii_lower_def code_point_def)
  moreover have "CHR ''#'' \<notin> ascii_lower ` set s"
  proof
    assume "CHR ''#'' \<in> ascii_lower ` set s"
    then obtain c where "c \<in> set s" "ascii_lower c = CHR ''#''" by auto
    with only[of c] assms show False by simp
  qed
  ultimately have "ascii_lower (CHR ''#'') \<notin> ascii_lower ` set s" by simp
  then have "replace_ci pat rep s = s" if "CHR ''#'' \<in> set pat" for pat rep
    using replace_ci_absent[OF that] by blast
  then show ?thesis by (simp add: themed_def hard_colors_def)
qed

end
