(* ===== verification/Viewer_Login.thy ===== *)
theory Viewer_Login
  imports Viewer_Runs
begin

text \<open>
  The viewer and the login page: the path a refused page carries to the login, what the framework reads
  of it, where a good login leads and what its cookie is worth to the page it leads to.
\<close>

section \<open>The login form\<close>

text \<open>The form of \<open>app/core/login_template.py\<close> with its two filled-in fields, and the value a browser reads out of
  the hidden one: up to the next quote.\<close>

definition quoted_attribute :: "string \<Rightarrow> string \<Rightarrow> string" where
  "quoted_attribute name value = '' '' @ name @ ''='' @ [CHR 0x22] @ value @ [CHR 0x22]"

definition hidden_next :: "string \<Rightarrow> string" where
  "hidden_next next_html = ''<input'' @ quoted_attribute ''type'' ''hidden'' @ quoted_attribute ''name'' ''next'' @
     quoted_attribute ''value'' next_html @ ''>''"

definition login_form :: "string \<Rightarrow> string \<Rightarrow> string" where
  "login_form next_html error_html =
     error_html @ ''<form'' @ quoted_attribute ''method'' ''post'' @ quoted_attribute ''action'' ''/login'' @ ''>'' @
     hidden_next next_html @
     ''<input'' @ quoted_attribute ''type'' ''text'' @ quoted_attribute ''name'' ''username'' @ ''>'' @
     ''<input'' @ quoted_attribute ''type'' ''password'' @ quoted_attribute ''name'' ''password'' @ ''></form>''"

definition attribute_value :: "string \<Rightarrow> string \<Rightarrow> string" where
  "attribute_value name tag_text =
     (case str_partition (name @ ''='' @ [CHR 0x22]) tag_text of
        (before, found, rest) \<Rightarrow> takeWhile (\<lambda>c. c \<noteq> CHR 0x22) rest)"

text \<open>The hidden field gives back what was put into it, if that has no quote; the login page escapes them.\<close>

lemma hidden_next_value: "CHR 0x22 \<notin> set next_html \<Longrightarrow> attribute_value ''value'' (hidden_next next_html) = next_html"
proof -
  assume "CHR 0x22 \<notin> set next_html"
  then have "takeWhile (\<lambda>c. c \<noteq> CHR 0x22) (next_html @ CHR 0x22 # ''>'') = next_html"
    by (subst takeWhile_append2) auto
  then show ?thesis by (simp add: attribute_value_def hidden_next_def quoted_attribute_def)
qed

section \<open>Through the login page and back\<close>

text \<open>A query value as the framework reads it: a plus is a space, then the escapes are decoded.\<close>

definition query_value :: "(string \<Rightarrow> string) \<Rightarrow> string \<Rightarrow> string" where
  "query_value decode s = unquote decode (map (\<lambda>c. if c = CHR ''+'' then CHR '' '' else c) s)"

lemma hex_value_upper: "n < 16 \<Longrightarrow> hex_value (upper_hex n) = Some n"
  by (auto simp: hex_value_def upper_hex_def code_point_def Let_def)

lemma code_point_less: "code_point c < 256"
proof -
  have "code_point c mod 256 = code_point c" unfolding code_point_def by (rule of_char_mod_256)
  then show ?thesis by (metis mod_less_divisor zero_less_numeral)
qed

lemma unquote_percent_byte: "unquote_to_bytes (percent_byte c @ s) = c # unquote_to_bytes s"
proof -
  have "char_of (16 * (code_point c div 16) + code_point c mod 16) = c"
    by (simp add: code_point_def)
  moreover have "code_point c div 16 < 16" "code_point c mod 16 < 16"
    using code_point_less[of c] by simp_all
  ultimately show ?thesis by (simp add: percent_byte_def hex_value_upper)
qed

lemma unquote_percent_bytes: "unquote_to_bytes (concat (map percent_byte bs) @ s) = bs @ unquote_to_bytes s"
  by (induction bs) (simp_all add: unquote_percent_byte)

lemma unreserved_ascii: "is_unreserved c \<Longrightarrow> code_point c < 128 \<and> c \<noteq> CHR ''%'' \<and> c \<noteq> CHR ''+''"
  by (auto simp: is_unreserved_def is_alnum_def is_lower_alnum_def code_point_def Let_def)

lemma unquote_encoded: "unquote_to_bytes (encode_uri_component s) = utf8_encode s"
proof (induction s)
  case (Cons c s)
  show ?case
  proof (cases "is_unreserved c")
    case True
    with Cons unreserved_ascii[OF True] show ?thesis
      by (simp add: encode_uri_component_def utf8_encode_def utf8_char_def Let_def)
  next
    case False
    with Cons unquote_percent_bytes[of "utf8_char c"] show ?thesis
      by (simp add: encode_uri_component_def utf8_encode_def)
  qed
qed (simp_all add: encode_uri_component_def utf8_encode_def)

lemma percent_byte_ascii: "x \<in> set (percent_byte c) \<Longrightarrow> is_ascii x \<and> x \<noteq> CHR ''+''"
proof -
  have "code_point (upper_hex n) < 128 \<and> upper_hex n \<noteq> CHR ''+''" if "n < 16" for n
  proof -
    have "code_point (upper_hex n) = (if n < 10 then 48 + n else 55 + n)"
      using that by (simp add: upper_hex_def code_point_def)
    with that have "code_point (upper_hex n) < 128" "code_point (upper_hex n) \<noteq> code_point (CHR ''+'')"
      by (auto simp: code_point_def)
    then show ?thesis by auto
  qed
  moreover have "code_point c div 16 < 16" "code_point c mod 16 < 16" using code_point_less[of c] by simp_all
  ultimately show "x \<in> set (percent_byte c) \<Longrightarrow> is_ascii x \<and> x \<noteq> CHR ''+''"
    by (auto simp: percent_byte_def is_ascii_def code_point_def)
qed

lemma encoded_ascii: "x \<in> set (encode_uri_component s) \<Longrightarrow> is_ascii x \<and> x \<noteq> CHR ''+''"
  by (auto simp: encode_uri_component_def is_ascii_def dest!: unreserved_ascii percent_byte_ascii split: if_splits)

lemma utf8_ascii: "\<forall>c \<in> set s. is_ascii c \<Longrightarrow> utf8_encode s = s"
  by (induction s) (simp_all add: utf8_encode_def utf8_char_def is_ascii_def Let_def)

text \<open>What the browser encodes is what the framework reads.\<close>

lemma query_value_encoded:
  assumes "ascii_transparent decode" and "\<forall>c \<in> set s. is_ascii c"
  shows "query_value decode (encode_uri_component s) = s"
proof -
  let ?e = "encode_uri_component s"
  have "map (\<lambda>c. if c = CHR ''+'' then CHR '' '' else c) ?e = ?e"
    by (rule map_idI) (use encoded_ascii in auto)
  moreover have "unquote decode ?e = decode (unquote_to_bytes ?e)"
  proof (cases ?e)
    case Nil
    with assms(1) show ?thesis by (simp add: ascii_transparent_def)
  next
    case (Cons a r)
    then have "\<forall>x \<in> set (a # r). is_ascii x" using encoded_ascii[of _ s] by auto
    then have "is_ascii a" "takeWhile is_ascii (a # r) = a # r" "dropWhile is_ascii r = []"
      by (auto simp: takeWhile_eq_all_conv)
    then have "unquote decode (a # r) = decode (unquote_to_bytes (a # r))"
      by (simp only: unquote.simps if_True append_Nil2)
    with Cons show ?thesis by (simp only:)
  qed
  ultimately show ?thesis
    using assms by (simp add: query_value_def unquote_encoded utf8_ascii decode_ascii)
qed

lemma ask_for_login:
  assumes "n \<in> {401, 403}"
  shows "refresh_page here meta (Response n b) p = go_to_login here p"
  using assms by (simp add: refresh_page_def page_parts)

text \<open>The path of a viewer page; nothing in it needs decoding.\<close>

abbreviation view_path :: "string \<Rightarrow> string" where
  "view_path i \<equiv> execution_path i ''/view''"

lemma view_path_plain:
  assumes "is_command_id i"
  shows "\<forall>c \<in> set (view_path i). is_ascii c" and "CHR ''%'' \<notin> set (view_path i)" and "local_path (view_path i)"
proof -
  have "is_ascii c \<and> c \<noteq> CHR ''%''" if "plain_id_char c" for c
    using that by (auto simp: plain_id_char_def is_ascii_def is_alnum_def is_lower_alnum_def code_point_def Let_def)
  moreover have "\<forall>c \<in> set i. plain_id_char c" using assms by (simp add: is_command_id_iff)
  moreover have "\<forall>c \<in> set (''/api/v1/command/execution/'' @ ''/view''). is_ascii c \<and> c \<noteq> CHR ''%''"
    by (simp add: is_ascii_def code_point_def)
  ultimately have "\<forall>c \<in> set (view_path i). is_ascii c \<and> c \<noteq> CHR ''%''"
    by (auto simp: execution_path_def)
  then show "\<forall>c \<in> set (view_path i). is_ascii c" and "CHR ''%'' \<notin> set (view_path i)" by auto
  show "local_path (view_path i)" by (simp add: execution_path_def local_path_def)
qed

lemma safe_view_path:
  assumes "ascii_transparent decode" and "is_command_id i"
  shows "safe_next_path decode (Some (view_path i)) ''/docs'' = view_path i"
  using unquote_plain[OF assms(1) view_path_plain(2)[OF assms(2)]] view_path_plain(3)[OF assms(2)]
  by (auto simp: safe_next_path_def guard_refuses_iff local_path_def Let_def)

lemma escape_view_path:
  assumes "is_command_id i"
  shows "html_escape True (view_path i) = view_path i" and "CHR 0x22 \<notin> set (view_path i)"
proof -
  have "html_escape True s = s" if "\<forall>c \<in> set s. escape_char True c = [c]" for s
    using that by (induction s) (simp_all add: html_escape_def)
  moreover have "\<forall>c \<in> set (view_path i). escape_char True c = [c] \<and> c \<noteq> CHR 0x22"
    using assms by (auto simp: execution_path_def is_command_id_iff escape_plain_id escape_char_def plain_id_char_def
        is_alnum_def is_lower_alnum_def code_point_def)
  ultimately show "html_escape True (view_path i) = view_path i" and "CHR 0x22 \<notin> set (view_path i)" by auto
qed

text \<open>A good login from a viewer page, and what its cookie then gets from the trace route.\<close>

lemma login_cookie:
  assumes "ascii_transparent decode" and "is_command_id i"
    and "cache_inv eng (uw_path w) (uw_cache w)" and "answer eng (uw_path w) = Inr doc"
    and "entry_of doc account = Some u" and "checkpw cr password (ue_hashed_password u) = Inr True"
    and "jwt_decode cr later (jwt_encode cr (issued_payload st issued account (ue_scopes u))) =
      Inr (issued_payload st issued account (ue_scopes u))"
    and "jwt_encode cr (issued_payload st issued account (ue_scopes u)) \<noteq> []"
  shows "\<exists>ck w'. login_submit decode cr st (json_get_by_account eng) issued account password (view_path i) w =
      (Inr (SeeOther (view_path i) ck), w') \<and>
    get_current_user_cookie_or_header cr later needed None (Some (ck_value ck)) =
      (if set needed \<subseteq> set (ue_scopes u) then Inr \<lparr>u_account = account, u_scopes = ue_scopes u\<rparr>
       else Inl (forbidden needed (filter (\<lambda>s. s \<notin> set (ue_scopes u)) needed)))"
proof -
  note u = entry_sound[OF assms(4,5)]
  let ?data = "generate_token cr st issued \<lparr>u_account = account, u_scopes = ue_scopes u\<rparr>"
  let ?ck = "access_cookie (td_access_token ?data) (td_expires_in ?data)"
  obtain w' where "json_get_by_account eng account w = (Inr (Some
      \<lparr>ud_account = account, ud_hashed_password = ue_hashed_password u, ud_scopes = ue_scopes u\<rparr>), w')"
    using file_account[OF assms(3,4), of account] assms(5) u(1) by auto
  then have "login_submit decode cr st (json_get_by_account eng) issued account password (view_path i) w =
      (Inr (SeeOther (view_path i) ?ck), w')"
    using assms(6) safe_view_path[OF assms(1,2)]
    by (simp add: login_submit_def authenticate_def bind_io_def Let_def)
  moreover have "ck_value ?ck = jwt_encode cr (issued_payload st issued account (ue_scopes u))"
    by (simp add: access_cookie_def generate_token_issued)
  then have "get_current_user_cookie_or_header cr later needed None (Some (ck_value ?ck)) =
      user_of_payload needed (issued_payload st issued account (ue_scopes u))"
    using assms(7,8) by (simp add: get_current_user_cookie_or_header_def decode_access_token_def Let_def)
  ultimately show ?thesis using user_of_issued[OF u(2), of needed st issued "ue_scopes u"] by auto
qed

text \<open>C31: a viewer that is not logged in comes back: the poll that is refused stops the page and sends it to
  the login page with its own path, which the login page reads back as it was; a good login there leads
  to exactly that page, with a cookie that, for an account with the scope, the trace route lets through.\<close>

theorem viewer_returns_after_login:
  assumes "ascii_transparent decode" and "is_command_id i" and "n \<in> {401, 403}"
    and "cache_inv eng (uw_path w) (uw_cache w)" and "answer eng (uw_path w) = Inr doc"
    and "entry_of doc account = Some u" and "checkpw cr password (ue_hashed_password u) = Inr True"
    and "jwt_decode cr later (jwt_encode cr (issued_payload st issued account (ue_scopes u))) =
      Inr (issued_payload st issued account (ue_scopes u))"
    and "jwt_encode cr (issued_payload st issued account (ue_scopes u)) \<noteq> []" and "''command_api'' \<in> set (ue_scopes u)"
  shows "\<exists>next_value ck w'. refresh_page (view_path i) meta (Response n b) p =
      p\<lparr>pg_timer := None, pg_location := Some (''/login?next='' @ next_value)\<rparr> \<and>
    login_page decode (query_value decode next_value) [] = LoginPage (view_path i) [] \<and>
    attribute_value ''value'' (hidden_next (view_path i)) = view_path i \<and>
    login_submit decode cr st (json_get_by_account eng) issued account password (query_value decode next_value) w =
      (Inr (SeeOther (view_path i) ck), w') \<and>
    browser_ask cr st c (Some (ck_value ck)) i (later, rid) 0 1 v =
      (case cm_get_command_trace c i 0 1 v of
         (Inl e, v') \<Rightarrow> (answer_of_route rid (Inl e), v')
       | (Inr t, v') \<Rightarrow> (Response 200 (Served t), v'))"
proof -
  let ?next = "encode_uri_component (view_path i)"
  have returned: "query_value decode ?next = view_path i"
    by (rule query_value_encoded[OF assms(1) view_path_plain(1)[OF assms(2)]])
  obtain ck w' where login: "login_submit decode cr st (json_get_by_account eng) issued account password (view_path i) w =
      (Inr (SeeOther (view_path i) ck), w')"
    and user: "get_current_user_cookie_or_header cr later [''command_api''] None (Some (ck_value ck)) =
      Inr \<lparr>u_account = account, u_scopes = ue_scopes u\<rparr>"
    using login_cookie[OF assms(1,2,4-9), of "[''command_api'']"] assms(10) by auto
  have "browser_ask cr st c (Some (ck_value ck)) i (later, rid) 0 1 v =
      (case cm_get_command_trace c i 0 1 v of
         (Inl e, v') \<Rightarrow> (answer_of_route rid (Inl e), v')
       | (Inr t, v') \<Rightarrow> (Response 200 (Served t), v'))"
    using user
    by (cases rule: browser_ask_cases[of cr later "Some (ck_value ck)" st c i rid 0 1 v]) simp_all
  with login show ?thesis
    using ask_for_login[OF assms(3), of "view_path i" meta b p] safe_view_path[OF assms(1,2)]
    by (intro exI[of _ ?next] exI[of _ ck] exI[of _ w'])
      (simp add: returned go_to_login_def login_page_def escape_view_path[OF assms(2)] hidden_next_value)
qed

text \<open>A login that cannot help: the account lacks the scope, the trace is refused with 403, and the page sends
  the browser to the login page again, where the same login leads back to the page.\<close>

lemma viewer_bounces_without_scope:
  assumes "ascii_transparent decode" and "is_command_id i"
    and "cache_inv eng (uw_path w) (uw_cache w)" and "answer eng (uw_path w) = Inr doc"
    and "entry_of doc account = Some u" and "checkpw cr password (ue_hashed_password u) = Inr True"
    and "jwt_decode cr later (jwt_encode cr (issued_payload st issued account (ue_scopes u))) =
      Inr (issued_payload st issued account (ue_scopes u))"
    and "jwt_encode cr (issued_payload st issued account (ue_scopes u)) \<noteq> []" and "''command_api'' \<notin> set (ue_scopes u)"
  shows "\<exists>ck w'. login_submit decode cr st (json_get_by_account eng) issued account password (view_path i) w =
      (Inr (SeeOther (view_path i) ck), w') \<and>
    browser_ask cr st c (Some (ck_value ck)) i (later, rid) 0 1 v = (Response 403 Lineless, v) \<and>
    pg_location (refresh_page (view_path i) meta (Response 403 Lineless) (fresh_page stored)) =
      Some (''/login?next='' @ encode_uri_component (view_path i))"
proof -
  obtain ck w' where login: "login_submit decode cr st (json_get_by_account eng) issued account password (view_path i) w =
      (Inr (SeeOther (view_path i) ck), w')"
    and user: "get_current_user_cookie_or_header cr later [''command_api''] None (Some (ck_value ck)) =
      Inl (forbidden [''command_api''] [''command_api''])"
    using login_cookie[OF assms(1-8), of "[''command_api'']"] assms(9) by auto
  have "browser_ask cr st c (Some (ck_value ck)) i (later, rid) 0 1 v = (Response 403 Lineless, v)"
    using user
    by (cases rule: browser_ask_cases[of cr later "Some (ck_value ck)" st c i rid 0 1 v])
      (simp_all add: answer_of_route_def forbidden_def handle_exception_def app_exception_handler_def)
  with login show ?thesis
    using ask_for_login[of 403 "view_path i" meta Lineless "fresh_page stored"] by (auto simp: go_to_login_def)
qed

section \<open>Runs\<close>

text \<open>A users file with one account, which has the scope.\<close>

definition viewer_account :: user_entry where
  "viewer_account = \<lparr>ue_account = ''ops'', ue_hashed_password = sample_hash, ue_scopes = [''command_api''],
     ue_policies = []\<rparr>"

definition viewer_engines :: engines where
  "viewer_engines =
     \<lparr>loads = (\<lambda>text. Inr (JObj [(''users'', JList
        [JObj [(''account'', JStr ''ops''), (''hashed_password'', JStr sample_hash),
               (''scopes'', JList [JStr ''command_api''])]])])),
      compile_regex = (\<lambda>regex. Inr (\<lambda>v. v = regex))\<rparr>"

lemma viewer_file: "answer viewer_engines (stamped 1 (Text [])) = Inr \<lparr>doc_policies = [], doc_users = [viewer_account]\<rparr>"
proof -
  note eval = defaulted_def required_def at_loc_def both_checked_def map_checked_def list_field_def
    nonempty_list_def nonempty_str_def str_field_def opt_str_field_def refuse_extra_def comment_key_def
    nonempty_str_dict_def effect_field_def hash_field_def object_of_def keys_def
  have user: "user_entry_of (\<lambda>regex. Inr (\<lambda>v. v = regex))
      (JObj [(''account'', JStr ''ops''), (''hashed_password'', JStr sample_hash),
             (''scopes'', JList [JStr ''command_api''])]) = Inr viewer_account"
    by (simp add: user_entry_of_def sample_hash_ok viewer_account_def eval)
  have "parse_users_document (compile_regex viewer_engines) (JObj [(''users'', JList
        [JObj [(''account'', JStr ''ops''), (''hashed_password'', JStr sample_hash),
               (''scopes'', JList [JStr ''command_api''])]])]) = Inr \<lparr>doc_policies = [], doc_users = [viewer_account]\<rparr>"
    by (simp add: parse_users_document_def users_document_of_def user eval viewer_engines_def
        duplicates_def entries_def dupes_def viewer_account_def)
  then have "read_users_document viewer_engines (stamped 1 (Text [])) = Inr \<lparr>doc_policies = [], doc_users = [viewer_account]\<rparr>"
    by (simp add: read_users_document_def read_text_def stamped_def viewer_engines_def)
  then show ?thesis by (simp add: answer_def parse_file_def stamped_def stat_users_file_def)
qed

definition viewer_world :: users_world where
  "viewer_world = \<lparr>uw_path = stamped 1 (Text []), uw_cache = empty_cache\<rparr>"

lemma viewer_world_ok:
  "cache_inv viewer_engines (uw_path viewer_world) (uw_cache viewer_world)"
  "answer viewer_engines (uw_path viewer_world) = Inr \<lparr>doc_policies = [], doc_users = [viewer_account]\<rparr>"
  using viewer_file by (simp_all add: viewer_world_def cache_inv_def empty_cache_def)

lemma viewer_returns_after_login_witness:
  "\<exists>next_value ck w'. login_submit id viewer_crypto sample_settings (json_get_by_account viewer_engines) 0
      ''ops'' ''secret'' (query_value id next_value) viewer_world = (Inr (SeeOther (view_path ''a-1'') ck), w') \<and>
    browser_ask viewer_crypto sample_settings (dry_run_command_client id (\<lambda>_. Inl []) []) (Some (ck_value ck)) ''a-1''
      (60, ''r'') 0 1 [] = (Response 502 Lineless, [])"
proof -
  let ?c = "dry_run_command_client id (\<lambda>_. Inl []) []"
  have i: "is_command_id ''a-1''" by code_simp
  have u: "entry_of \<lparr>doc_policies = [], doc_users = [viewer_account]\<rparr> ''ops'' = Some viewer_account"
    by (simp add: entry_of_def viewer_account_def)
  have pw: "checkpw viewer_crypto ''secret'' (ue_hashed_password viewer_account) = Inr True"
    and signed: "jwt_decode viewer_crypto 60 (jwt_encode viewer_crypto
        (issued_payload sample_settings 0 ''ops'' (ue_scopes viewer_account))) =
      Inr (issued_payload sample_settings 0 ''ops'' (ue_scopes viewer_account))"
    and token: "jwt_encode viewer_crypto (issued_payload sample_settings 0 ''ops'' (ue_scopes viewer_account)) \<noteq> []"
    and scope: "''command_api'' \<in> set (ue_scopes viewer_account)"
    by (simp_all add: viewer_crypto_def viewer_account_def)
  have gone: "dry_get_command_trace id ''a-1'' 0 1 [] =
      (Inl (dry_error 404 ''NOT_FOUND'' (''command '' @ ''a-1'' @ '' not found'') JNull), [])"
    by (simp add: dry_get_command_trace_def bind_io_def observe_execution_gone)
  obtain d where e: "dry_error 404 ''NOT_FOUND'' (''command '' @ ''a-1'' @ '' not found'') JNull = App (DeployServiceError d)"
    using dry_error_deploy by blast
  have "(case cm_get_command_trace ?c ''a-1'' 0 1 [] of
      (Inl e, v') \<Rightarrow> (answer_of_route ''r'' (Inl e), v') | (Inr t, v') \<Rightarrow> (Response 200 (Served t), v')) =
      (Response 502 Lineless, [])"
    using gone e
    by (simp add: dry_run_command_client_def answer_of_route_def handle_exception_def app_exception_handler_def)
  with viewer_returns_after_login[OF id_transparent i, of 401 viewer_engines viewer_world _ "''ops''" viewer_account
      viewer_crypto "''secret''" 60 sample_settings 0 "[]" Lineless "fresh_page None" ?c "''r''" "[]"]
    viewer_world_ok u pw signed token scope
  show ?thesis by auto
qed

end
