(* ===== verification/Token_Machine.thy ===== *)
theory Token_Machine
  imports Upstream
begin

text \<open>
  The token manager under concurrent requests. \<open>get_token\<close> holds the lock while it awaits a login; the
  \<open>refresh\<close> of a request that was refused does not take it. A task is a request of a client between two
  awaits, and a step is what it does from one await to the next; what the login endpoint and the
  upstream answer, and when, is open. The machine keeps, in order, what the logins that were stored had
  answered, each with the time; no step reads that list.

  A retry carries a token stored after the refusal it answers: the index of its login is at least the
  number of logins stored when the 401 came.
\<close>

section \<open>Tasks and steps\<close>

datatype task =
    Outside
  | Waiting bool nat          \<comment> \<open>for the lock; is it the retry, and the logins stored when its 401 came\<close>
  | Logging_In bool nat       \<comment> \<open>in \<open>get_token\<close>, holding the lock\<close>
  | Sending bool nat json     \<comment> \<open>the request is out, with this token\<close>
  | Renewing nat              \<comment> \<open>in \<open>refresh\<close> after a 401, without the lock\<close>

record token_machine =
  tm_token :: json
  tm_expire_at :: int
  tm_lock :: "nat option"
  tm_now :: int
  tm_logins :: "(json \<times> json \<times> int) list"   \<comment> \<open>token, \<open>expires_in\<close>, and the time it was stored\<close>
  tm_tasks :: "nat \<Rightarrow> task"

definition token_start :: "settings \<Rightarrow> int \<Rightarrow> token_machine" where
  "token_start st time = \<lparr>tm_token = JStr (DEPLOY_SERVICE_TOKEN st), tm_expire_at = 0, tm_lock = None,
     tm_now = time, tm_logins = [], tm_tasks = (\<lambda>_. Outside)\<rparr>"

text \<open>The end of \<open>refresh\<close>: what a login answered is stored; an expiry that is no number raises after the
  token has been stored. The result says whether the caller goes on.\<close>

definition store_login :: "json \<times> json \<Rightarrow> token_machine \<Rightarrow> bool \<times> token_machine" where
  "store_login answer_pair m =
     (case answer_pair of (token, expires_in) \<Rightarrow>
        (let m = m\<lparr>tm_token := token, tm_logins := tm_logins m @ [(token, expires_in, tm_now m)]\<rparr>
         in case as_number expires_in of
              Inl e \<Rightarrow> (False, m)
            | Inr n \<Rightarrow> (True, m\<lparr>tm_expire_at := tm_now m + n - 30\<rparr>)))"

definition usable :: "token_machine \<Rightarrow> bool" where
  "usable m \<longleftrightarrow> truthy (tm_token m) \<and> tm_now m < tm_expire_at m"

definition set_task :: "nat \<Rightarrow> task \<Rightarrow> token_machine \<Rightarrow> token_machine" where
  "set_task t phase m = m\<lparr>tm_tasks := (tm_tasks m)(t := phase)\<rparr>"

inductive token_step :: "token_machine \<Rightarrow> token_machine \<Rightarrow> bool" where
  enter: "tm_tasks m t = Outside \<Longrightarrow> token_step m (set_task t (Waiting False 0) m)"
| take_held: "tm_tasks m t = Waiting r k \<Longrightarrow> tm_lock m = None \<Longrightarrow> usable m \<Longrightarrow>
    token_step m (set_task t (Sending r k (tm_token m)) m)"
| log_in: "tm_tasks m t = Waiting r k \<Longrightarrow> tm_lock m = None \<Longrightarrow> \<not> usable m \<Longrightarrow>
    token_step m (set_task t (Logging_In r k) (m\<lparr>tm_lock := Some t\<rparr>))"
| logged_in: "tm_tasks m t = Logging_In r k \<Longrightarrow> store_login a m = (ok, m') \<Longrightarrow>
    token_step m (set_task t (if ok then Sending r k (tm_token m') else Outside) (m'\<lparr>tm_lock := None\<rparr>))"
| login_fails: "tm_tasks m t = Logging_In r k \<Longrightarrow> token_step m (set_task t Outside (m\<lparr>tm_lock := None\<rparr>))"
| refused: "tm_tasks m t = Sending False k tok \<Longrightarrow>
    token_step m (set_task t (Renewing (length (tm_logins m))) m)"
| answered: "tm_tasks m t = Sending r k tok \<Longrightarrow> token_step m (set_task t Outside m)"
| renewed: "tm_tasks m t = Renewing k \<Longrightarrow> store_login a m = (ok, m') \<Longrightarrow>
    token_step m (set_task t (if ok then Waiting True k else Outside) m')"
| renewal_fails: "tm_tasks m t = Renewing k \<Longrightarrow> token_step m (set_task t Outside m)"
| tick: "0 \<le> d \<Longrightarrow> token_step m (m\<lparr>tm_now := tm_now m + d\<rparr>)"

inductive token_reachable :: "settings \<Rightarrow> int \<Rightarrow> token_machine \<Rightarrow> bool" for st time where
  started: "token_reachable st time (token_start st time)"
| later: "token_reachable st time m \<Longrightarrow> token_step m m' \<Longrightarrow> token_reachable st time m'"

inductive_cases token_stepE: "token_step m m'"

section \<open>The sequential manager is the machine with nobody else\<close>

text \<open>\<open>refresh\<close> is a login and \<open>store_login\<close>; \<open>usable\<close> is the test of \<open>get_token\<close>.\<close>

definition as_machine :: "int \<Rightarrow> 'x client_world \<Rightarrow> token_machine" where
  "as_machine time w = \<lparr>tm_token = cw_token w, tm_expire_at = cw_expire_at w, tm_lock = None, tm_now = time,
     tm_logins = [], tm_tasks = (\<lambda>_. Outside)\<rparr>"

lemma refresh_is_login_and_store:
  assumes "fetch_new_token up mg w = (Inr a, w')" and "refresh up mg w = (r, w'')"
    and "store_login a (as_machine (up_now up (cw_rest w')) w') = (ok, m)"
  shows "(ok \<longleftrightarrow> r = Inr ()) \<and> cw_token w'' = tm_token m \<and> cw_expire_at w'' = tm_expire_at m"
  using assms
  by (cases a) (auto simp: refresh_def bind_io_def store_login_def as_machine_def Let_def split: sum.splits)

lemma get_token_refreshes_unusable:
  "get_token up mg w = (if usable (as_machine (up_now up (cw_rest w)) w) then (Inr (cw_token w), w)
     else bind_io (refresh up mg) (\<lambda>_ w'. (Inr (cw_token w'), w')) w)"
  by (auto simp: get_token_def is_expired_def usable_def as_machine_def)

section \<open>The invariant\<close>

definition lock_inv :: "token_machine \<Rightarrow> bool" where
  "lock_inv m \<longleftrightarrow> (\<forall>t. tm_lock m = Some t \<longleftrightarrow> (\<exists>r k. tm_tasks m t = Logging_In r k))"

text \<open>The expiry a login announces, thirty seconds early, when its \<open>expires_in\<close> is a number (a JSON truth value
  counts as one); and the expiry a history of logins leaves: that of the last login that announced one, the
  epoch without any.\<close>

fun announced :: "json \<times> json \<times> int \<Rightarrow> int option" where
  "announced (token, JNum n, at) = Some (at + n - 30)"
| "announced (token, JBool b, at) = Some (at + (if b then 1 else 0) - 30)"
| "announced (token, _, at) = None"

definition last_announced :: "(json \<times> json \<times> int) list \<Rightarrow> int" where
  "last_announced logins = last (0 # List.map_filter announced logins)"

lemma last_announced_simps [simp]:
  "last_announced [] = 0"
  "last_announced (logins @ [l]) = (case announced l of None \<Rightarrow> last_announced logins | Some e \<Rightarrow> e)"
  by (simp_all add: last_announced_def List.map_filter_def split: option.split)

definition held_inv :: "settings \<Rightarrow> token_machine \<Rightarrow> bool" where
  "held_inv st m \<longleftrightarrow>
     tm_token m = (if tm_logins m = [] then JStr (DEPLOY_SERVICE_TOKEN st) else fst (last (tm_logins m))) \<and>
     tm_expire_at m = last_announced (tm_logins m)"

text \<open>What a task may be holding, given the logins stored so far.\<close>

fun task_inv :: "(json \<times> json \<times> int) list \<Rightarrow> task \<Rightarrow> bool" where
  "task_inv logins Outside \<longleftrightarrow> True"
| "task_inv logins (Waiting r k) \<longleftrightarrow> (r \<longrightarrow> k < length logins)"
| "task_inv logins (Logging_In r k) \<longleftrightarrow> (r \<longrightarrow> k < length logins)"
| "task_inv logins (Sending r k tok) \<longleftrightarrow> (r \<longrightarrow> (\<exists>j \<ge> k. j < length logins \<and> tok = fst (logins ! j)))"
| "task_inv logins (Renewing k) \<longleftrightarrow> k \<le> length logins"

definition token_inv :: "settings \<Rightarrow> token_machine \<Rightarrow> bool" where
  "token_inv st m \<longleftrightarrow> lock_inv m \<and> held_inv st m \<and> (\<forall>t. task_inv (tm_logins m) (tm_tasks m t))"

lemma task_inv_mono: "task_inv logins phase \<Longrightarrow> task_inv (logins @ newer) phase"
proof (cases phase)
  case (Sending r k tok)
  assume "task_inv logins phase"
  then show ?thesis
    using Sending by (auto simp: nth_append intro: exI[of _ j for j] less_imp_le)
qed auto

lemma store_login_parts:
  assumes "store_login a m = (ok, m')"
  shows "tm_token m' = fst a" and "tm_logins m' = tm_logins m @ [(fst a, snd a, tm_now m)]"
    and "tm_expire_at m' = (case announced (fst a, snd a, tm_now m) of None \<Rightarrow> tm_expire_at m | Some e \<Rightarrow> e)"
    and "tm_lock m' = tm_lock m" and "tm_tasks m' = tm_tasks m" and "tm_now m' = tm_now m"
  using assms
  by (auto simp: store_login_def as_number_def Let_def split: prod.splits sum.splits json.splits)

lemma token_inv_start: "token_inv st (token_start st time)"
  by (simp add: token_inv_def token_start_def lock_inv_def held_inv_def)

text \<open>A task changes phase, with the logins as they are or after a login has been stored.\<close>

lemma token_inv_phase:
  assumes "token_inv st m" and "task_inv (tm_logins m) phase"
    and "(\<exists>r k. phase = Logging_In r k) \<longleftrightarrow> (\<exists>r k. tm_tasks m t = Logging_In r k)"
  shows "token_inv st (set_task t phase m)"
  using assms by (auto simp: token_inv_def lock_inv_def held_inv_def set_task_def)

lemma token_inv_stored:
  assumes "token_inv st m" and "store_login a m = (ok, m')"
  shows "token_inv st m'"
  using assms(1) store_login_parts[OF assms(2)]
  by (auto simp: token_inv_def lock_inv_def held_inv_def intro: task_inv_mono split: option.split)

lemma token_inv_unlock:
  assumes "token_inv st m" and "tm_tasks m t = Logging_In r k" and "task_inv (tm_logins m) phase"
    and "\<And>r k. phase \<noteq> Logging_In r k"
  shows "token_inv st (set_task t phase (m\<lparr>tm_lock := None\<rparr>))"
proof -
  have "tm_lock m = Some t" using assms(1,2) by (auto simp: token_inv_def lock_inv_def)
  then have "\<exists>r k. tm_tasks m u = Logging_In r k \<Longrightarrow> u = t" for u
    using assms(1) unfolding token_inv_def lock_inv_def by (metis option.inject)
  then show ?thesis
    using assms by (auto simp: token_inv_def lock_inv_def held_inv_def set_task_def)
qed

lemma token_inv_step:
  assumes "token_inv st m" and "token_step m m'"
  shows "token_inv st m'"
  using assms(2)
proof cases
  case (take_held t r k)
  have "task_inv (tm_logins m) (Sending r k (tm_token m))"
  proof (cases "tm_logins m = []")
    case False
    then have "tm_token m = fst (tm_logins m ! (length (tm_logins m) - 1))"
      using assms(1) by (simp add: token_inv_def held_inv_def last_conv_nth prod_eq_iff)
    moreover have "task_inv (tm_logins m) (Waiting r k)"
      using assms(1) take_held(2) by (metis token_inv_def)
    ultimately show ?thesis using False by (auto intro: exI[of _ "length (tm_logins m) - 1"])
  qed (use assms(1) take_held(2) in \<open>auto simp: token_inv_def dest!: spec[of _ t]\<close>)
  then show ?thesis using take_held assms(1) by (simp add: token_inv_phase)
next
  case (log_in t r k)
  have "task_inv (tm_logins m) (Waiting r k)" using assms(1) log_in(2) by (metis token_inv_def)
  then show ?thesis
    using log_in assms(1) by (auto simp: token_inv_def lock_inv_def held_inv_def set_task_def)
next
  case (logged_in t r k a ok m1)
  note parts = store_login_parts[OF logged_in(3)]
  have inv: "token_inv st m1" by (rule token_inv_stored[OF assms(1) logged_in(3)])
  have "task_inv (tm_logins m) (Logging_In r k)" using assms(1) logged_in(2) by (metis token_inv_def)
  then have "task_inv (tm_logins m1) (Sending r k (tm_token m1))"
    by (auto simp: parts intro!: exI[of _ "length (tm_logins m)"])
  then show ?thesis
    using logged_in token_inv_unlock[OF inv, of t r k] by (auto simp: parts)
next
  case (renewed t k a ok m1)
  note parts = store_login_parts[OF renewed(3)]
  have "task_inv (tm_logins m) (Renewing k)" using assms(1) renewed(2) by (metis token_inv_def)
  then have "task_inv (tm_logins m1) (Waiting True k)" by (simp add: parts(2))
  then show ?thesis
    using renewed token_inv_phase[OF token_inv_stored[OF assms(1) renewed(3)]] by (auto simp: parts)
next
  case (tick d)
  with assms(1) show ?thesis by (simp add: token_inv_def lock_inv_def held_inv_def)
next
  case (login_fails t r k)
  with assms(1) show ?thesis by (simp add: token_inv_unlock)
qed (use assms(1) in \<open>simp_all add: token_inv_phase\<close>)

lemma token_inv_reachable: "token_reachable st time m \<Longrightarrow> token_inv st m"
  by (induction rule: token_reachable.induct) (auto intro: token_inv_start token_inv_step)

text \<open>C11: however requests interleave with each other and with the logins, the token is always that of the
  login stored last, or the configured one before any; the expiry is what that same login announced, or,
  when its \<open>expires_in\<close> was no number, what the latest login before it announced that gave one; at most one
  request is inside the login of \<open>get_token\<close>; and the retry of a request that was refused never goes out with
  what the manager held then: it carries the token of a login that was stored after the refusal.\<close>

theorem retry_carries_a_newer_token:
  assumes "token_reachable st time m"
  shows "tm_token m = (if tm_logins m = [] then JStr (DEPLOY_SERVICE_TOKEN st) else fst (last (tm_logins m))) \<and>
    (tm_logins m \<noteq> [] \<and> announced (last (tm_logins m)) = Some e \<longrightarrow> tm_expire_at m = e) \<and>
    tm_expire_at m = last_announced (tm_logins m) \<and>
    (tm_tasks m t = Logging_In r k \<and> tm_tasks m u = Logging_In r' k' \<longrightarrow> t = u) \<and>
    (tm_tasks m v = Sending True refused_at tok \<longrightarrow>
       (\<exists>j \<ge> refused_at. j < length (tm_logins m) \<and> tok = fst (tm_logins m ! j)))"
proof -
  have inv: "token_inv st m" using assms by (rule token_inv_reachable)
  then have "\<forall>t. tm_lock m = Some t \<longleftrightarrow> (\<exists>r k. tm_tasks m t = Logging_In r k)"
    by (simp add: token_inv_def lock_inv_def)
  then have "tm_tasks m t = Logging_In r k \<and> tm_tasks m u = Logging_In r' k' \<longrightarrow> t = u"
    by (metis option.inject)
  moreover have "task_inv (tm_logins m) (tm_tasks m v)" using inv by (simp add: token_inv_def)
  then have "tm_tasks m v = Sending True refused_at tok \<longrightarrow>
      (\<exists>j \<ge> refused_at. j < length (tm_logins m) \<and> tok = fst (tm_logins m ! j))" by auto
  moreover have "last_announced (tm_logins m) = e"
    if "tm_logins m \<noteq> []" and "announced (last (tm_logins m)) = Some e"
    using that by (cases "tm_logins m" rule: rev_cases) simp_all
  ultimately show ?thesis using inv by (auto simp: token_inv_def held_inv_def)
qed

section \<open>Runs\<close>

text \<open>Two requests with the same token, both refused.\<close>

definition both_sending :: "settings \<Rightarrow> token_machine" where
  "both_sending st =
     \<lparr>tm_token = JStr ''t'', tm_expire_at = 3570, tm_lock = None, tm_now = 0, tm_logins = [(JStr ''t'', JNum 3600, 0)],
      tm_tasks = (\<lambda>_. Outside)(0 := Sending False 0 (JStr ''t''), 1 := Sending False 0 (JStr ''t''))\<rparr>"

lemma both_sending_reachable: "token_reachable st 0 (both_sending st)"
proof -
  let ?m0 = "token_start st 0"
  let ?m1 = "set_task 0 (Waiting False 0) ?m0"
  let ?m2 = "set_task 0 (Logging_In False 0) (?m1\<lparr>tm_lock := Some 0\<rparr>)"
  let ?s = "?m2\<lparr>tm_token := JStr ''t'', tm_expire_at := 3570, tm_logins := [(JStr ''t'', JNum 3600, 0)]\<rparr>"
  let ?m3 = "set_task 0 (Sending False 0 (JStr ''t'')) (?s\<lparr>tm_lock := None\<rparr>)"
  let ?m4 = "set_task 1 (Waiting False 0) ?m3"
  let ?m5 = "set_task 1 (Sending False 0 (tm_token ?m4)) ?m4"
  have m1: "token_reachable st 0 ?m1"
    by (rule token_reachable.later[OF token_reachable.started]) (rule token_step.enter, simp add: token_start_def)
  have m2: "token_reachable st 0 ?m2"
    by (rule token_reachable.later[OF m1]) (rule token_step.log_in, simp_all add: token_start_def set_task_def usable_def)
  have "store_login (JStr ''t'', JNum 3600) ?m2 = (True, ?s)"
    by (simp add: store_login_def as_number_def token_start_def set_task_def Let_def)
  then have "token_step ?m2 (set_task 0 (if True then Sending False 0 (tm_token ?s) else Outside) (?s\<lparr>tm_lock := None\<rparr>))"
    by (intro token_step.logged_in) (simp_all add: set_task_def)
  then have "token_reachable st 0 ?m3" using token_reachable.later[OF m2] by (simp add: set_task_def)
  then have m4: "token_reachable st 0 ?m4"
    by (rule token_reachable.later) (rule token_step.enter, simp add: set_task_def token_start_def)
  have "token_reachable st 0 ?m5"
    by (rule token_reachable.later[OF m4]) (rule token_step.take_held, simp_all add: set_task_def usable_def truthy_def token_start_def)
  moreover have "?m5 = both_sending st"
    by (simp add: both_sending_def set_task_def token_start_def fun_upd_def fun_eq_iff)
  ultimately show ?thesis by simp
qed

text \<open>The comment of \<open>refresh\<close> says the lock is checked there; it is not: two refused requests log in at once.\<close>

lemma renewals_overlap:
  "\<exists>m. token_reachable st 0 m \<and> tm_tasks m 0 = Renewing 1 \<and> tm_tasks m 1 = Renewing 1 \<and> tm_lock m = None"
proof -
  let ?m1 = "set_task 0 (Renewing (length (tm_logins (both_sending st)))) (both_sending st)"
  let ?m2 = "set_task 1 (Renewing (length (tm_logins ?m1))) ?m1"
  have "token_reachable st 0 ?m1"
    by (rule token_reachable.later[OF both_sending_reachable])
      (rule token_step.refused[of _ _ 0 "JStr ''t''"], simp add: both_sending_def)
  then have "token_reachable st 0 ?m2"
    by (rule token_reachable.later)
      (rule token_step.refused[of _ _ 0 "JStr ''t''"], simp add: both_sending_def set_task_def)
  then show ?thesis by (intro exI[of _ ?m2]) (simp add: both_sending_def set_task_def)
qed

text \<open>\<open>refresh\<close> stores the token before it computes the expiry, so a login whose \<open>expires_in\<close> is no number fails
  the request and yet leaves its token, to be used until the expiry of an earlier login.\<close>

lemma failed_login_leaves_its_token:
  "\<exists>m. token_reachable st 0 m \<and> tm_tasks m 0 = Outside \<and> tm_token m = JStr ''u'' \<and> tm_expire_at m = 3570 \<and>
     usable m \<and> tm_logins m = [(JStr ''t'', JNum 3600, 0), (JStr ''u'', JStr ''soon'', 0)]"
proof -
  let ?m1 = "set_task 0 (Renewing (length (tm_logins (both_sending st)))) (both_sending st)"
  let ?s = "?m1\<lparr>tm_token := JStr ''u'', tm_logins := tm_logins ?m1 @ [(JStr ''u'', JStr ''soon'', 0)]\<rparr>"
  have m1: "token_reachable st 0 ?m1"
    by (rule token_reachable.later[OF both_sending_reachable])
      (rule token_step.refused[of _ _ 0 "JStr ''t''"], simp add: both_sending_def)
  have "store_login (JStr ''u'', JStr ''soon'') ?m1 = (False, ?s)"
    by (simp add: store_login_def as_number_def both_sending_def set_task_def Let_def)
  then have "token_step ?m1 (set_task 0 (if False then Waiting True 1 else Outside) ?s)"
    by (intro token_step.renewed) (simp_all add: set_task_def both_sending_def)
  from token_reachable.later[OF m1 this] show ?thesis
    by (intro exI[of _ "set_task 0 Outside ?s"]) (simp add: set_task_def both_sending_def usable_def truthy_def)
qed

text \<open>One of them is refused, logs in, and sends again.\<close>

lemma retry_carries_a_newer_token_witness:
  "\<forall>st. \<exists>m. token_reachable st 0 m \<and> tm_tasks m 0 = Sending True 1 (JStr ''u'') \<and>
     (\<exists>j \<ge> 1. j < length (tm_logins m) \<and> JStr ''u'' = fst (tm_logins m ! j))"
proof
  fix st
  let ?m0 = "both_sending st"
  let ?m1 = "set_task 0 (Renewing (length (tm_logins ?m0))) ?m0"
  let ?s = "?m1\<lparr>tm_token := JStr ''u'', tm_expire_at := 3570, tm_logins := tm_logins ?m1 @ [(JStr ''u'', JNum 3600, 0)]\<rparr>"
  let ?m2 = "set_task 0 (Waiting True 1) ?s"
  let ?m3 = "set_task 0 (Sending True 1 (tm_token ?m2)) ?m2"
  have m1: "token_reachable st 0 ?m1"
    by (rule token_reachable.later[OF both_sending_reachable])
      (rule token_step.refused[of _ _ 0 "JStr ''t''"], simp add: both_sending_def)
  have "store_login (JStr ''u'', JNum 3600) ?m1 = (True, ?s)"
    by (simp add: store_login_def as_number_def both_sending_def set_task_def Let_def)
  then have "token_step ?m1 (set_task 0 (if True then Waiting True 1 else Outside) ?s)"
    by (intro token_step.renewed) (simp_all add: set_task_def both_sending_def)
  then have m2: "token_reachable st 0 ?m2" using token_reachable.later[OF m1] by simp
  have m3: "token_reachable st 0 ?m3"
    by (rule token_reachable.later[OF m2])
      (rule token_step.take_held, simp_all add: set_task_def usable_def truthy_def both_sending_def)
  have sent: "tm_tasks ?m3 0 = Sending True 1 (JStr ''u'')" by (simp add: set_task_def)
  with m3 retry_carries_a_newer_token[OF m3]
  show "\<exists>m. token_reachable st 0 m \<and> tm_tasks m 0 = Sending True 1 (JStr ''u'') \<and>
     (\<exists>j \<ge> 1. j < length (tm_logins m) \<and> JStr ''u'' = fst (tm_logins m ! j))" by blast
qed

end
