(* ===== verification/Upstream_Models.thy ===== *)
theory Upstream_Models
  imports Command_Properties "HOL-Library.Monad_Syntax"
begin

text \<open>
  What the clients make of the answers of deploy-service: the constructors of the pydantic models of
  \<open>app/domain/pipeline_models.py\<close>, \<open>app/domain/inventory_models.py\<close> and \<open>app/domain/command_models.py\<close>, with their
  defaults and validators, and the request bodies the two POST routes validate.

  pydantic's conversion of a JSON value to an integer, a flag or a point in time, and its texts for
  times, are the record \<open>conversions\<close>; strings, lists, mappings, enumerations and optional fields are read
  here. A model that refuses its input raises a \<open>ValidationError\<close>; \<open>Model(**v)\<close> on something that is no
  mapping raises a \<open>TypeError\<close>.
\<close>

record conversions =
  to_int :: "json \<Rightarrow> int option"
  to_flag :: "json \<Rightarrow> bool option"
  to_time :: "json \<Rightarrow> datetime option"
  show_time :: "datetime \<Rightarrow> json"

definition conversions_ok :: "conversions \<Rightarrow> bool" where
  "conversions_ok cv \<longleftrightarrow> (\<forall>n. to_int cv (JNum n) = Some n) \<and> (\<forall>b. to_flag cv (JBool b) = Some b) \<and>
     (\<forall>t. to_time cv (show_time cv t) = Some t \<and> show_time cv t \<noteq> JNull)"

section \<open>Reading fields\<close>

type_synonym fields = "(string, json) dict"

definition field :: "fields \<Rightarrow> string \<Rightarrow> (json \<Rightarrow> 'a option) \<Rightarrow> 'a option" where
  "field d key read = Option.bind (dict_get d key) read"

definition field_or :: "fields \<Rightarrow> string \<Rightarrow> 'a \<Rightarrow> (json \<Rightarrow> 'a option) \<Rightarrow> 'a option" where
  "field_or d key default_value read =
     (case dict_get d key of None \<Rightarrow> Some default_value | Some v \<Rightarrow> read v)"

fun as_str :: "json \<Rightarrow> string option" where
  "as_str (JStr s) = Some s"
| "as_str _ = None"

definition as_optional :: "(json \<Rightarrow> 'a option) \<Rightarrow> json \<Rightarrow> 'a option option" where
  "as_optional read v = (if v = JNull then Some None else map_option Some (read v))"

fun all_some :: "'a option list \<Rightarrow> 'a list option" where
  "all_some [] = Some []"
| "all_some (None # xs) = None"
| "all_some (Some x # xs) = map_option (Cons x) (all_some xs)"

fun as_list :: "(json \<Rightarrow> 'a option) \<Rightarrow> json \<Rightarrow> 'a list option" where
  "as_list read (JList vs) = all_some (map read vs)"
| "as_list read _ = None"

fun as_mapping :: "(json \<Rightarrow> 'a option) \<Rightarrow> json \<Rightarrow> (string, 'a) dict option" where
  "as_mapping read (JObj d) = all_some (map (\<lambda>(k, v). map_option (Pair k) (read v)) d)"
| "as_mapping read _ = None"

fun as_model :: "(fields \<Rightarrow> 'a option) \<Rightarrow> json \<Rightarrow> 'a option" where
  "as_model read (JObj d) = read d"
| "as_model read _ = None"

text \<open>\<open>Model(**v)\<close>.\<close>

definition construct :: "(fields \<Rightarrow> 'a option) \<Rightarrow> json \<Rightarrow> exn + 'a" where
  "construct read v =
     (case v of
        JObj d \<Rightarrow> (case read d of None \<Rightarrow> Inl (PyError ''ValidationError'') | Some x \<Rightarrow> Inr x)
      | _ \<Rightarrow> Inl (PyError ''TypeError''))"

section \<open>Pipelines\<close>

definition read_variable :: "fields \<Rightarrow> pipeline_variable option" where
  "read_variable d = do {
     k \<leftarrow> field d ''key'' as_str;
     v \<leftarrow> field d ''value'' (\<lambda>v. Some (stringify v));
     Some \<lparr>pv_key = k, pv_value = v\<rparr> }"

definition read_trigger_request :: "fields \<Rightarrow> pipeline_variable list option" where
  "read_trigger_request d = field_or d ''variables'' [] (as_list (as_model read_variable))"

definition read_job :: "conversions \<Rightarrow> fields \<Rightarrow> job_data option" where
  "read_job cv d = do {
     i \<leftarrow> field d ''id'' (to_int cv);
     n \<leftarrow> field d ''name'' as_str;
     s \<leftarrow> field d ''status'' as_str;
     Some \<lparr>jd_id = i, jd_name = n, jd_status = s\<rparr> }"

definition read_downstream :: "conversions \<Rightarrow> fields \<Rightarrow> downstream_ref option" where
  "read_downstream cv d = do {
     i \<leftarrow> field d ''id'' (to_int cv);
     s \<leftarrow> field d ''status'' as_str;
     p \<leftarrow> field d ''project_id'' (to_int cv);
     u \<leftarrow> field_or d ''web_url'' [] as_str;
     b \<leftarrow> field_or d ''bridge_name'' [] as_str;
     Some \<lparr>dr_id = i, dr_status = s, dr_project_id = p, dr_web_url = u, dr_bridge_name = b\<rparr> }"

definition read_pipeline :: "conversions \<Rightarrow> fields \<Rightarrow> pipeline_data option" where
  "read_pipeline cv d = do {
     i \<leftarrow> field d ''id'' (to_int cv);
     s \<leftarrow> field d ''status'' as_str;
     created \<leftarrow> field_or d ''created_at'' None (as_optional (to_time cv));
     updated \<leftarrow> field_or d ''updated_at'' None (as_optional (to_time cv));
     started \<leftarrow> field_or d ''started_at'' None (as_optional (to_time cv));
     finished \<leftarrow> field_or d ''finished_at'' None (as_optional (to_time cv));
     tags \<leftarrow> field_or d ''tag_list'' [] (as_list as_str);
     vs \<leftarrow> field_or d ''variables'' [] (as_list (as_model read_variable));
     js \<leftarrow> field_or d ''jobs'' [] (as_list (as_model (read_job cv)));
     ds \<leftarrow> field_or d ''downstream_pipelines'' [] (as_list (as_model (read_downstream cv)));
     r \<leftarrow> field_or d ''ref_name'' [] as_str;
     u \<leftarrow> field_or d ''web_url'' [] as_str;
     Some \<lparr>pl_id = i, pl_status = s, pl_created_at = created, pl_updated_at = updated, pl_started_at = started,
           pl_finished_at = finished, pl_tag_list = tags, pl_variables = vs, pl_jobs = js, pl_downstream = ds,
           pl_ref_name = r, pl_web_url = u\<rparr> }"

definition read_running :: "conversions \<Rightarrow> fields \<Rightarrow> running_pipelines option" where
  "read_running cv d = do {
     h \<leftarrow> field d ''has_running'' (to_flag cv);
     n \<leftarrow> field d ''count'' (to_int cv);
     ps \<leftarrow> field d ''pipelines'' (as_list (as_model (read_pipeline cv)));
     Some \<lparr>rp_has_running = h, rp_count = n, rp_pipelines = ps\<rparr> }"

section \<open>Inventory\<close>

text \<open>The two validators that turn a null into the empty value.\<close>

definition null_as :: "json \<Rightarrow> json \<Rightarrow> json" where
  "null_as empty_value v = (if v = JNull then empty_value else v)"

definition read_cluster_ref :: "fields \<Rightarrow> cluster_ref option" where
  "read_cluster_ref d = do {
     i \<leftarrow> field d ''id'' as_str;
     n \<leftarrow> field d ''name'' as_str;
     c \<leftarrow> field_or d ''context'' [] (\<lambda>v. as_str (null_as (JStr []) v));
     Some \<lparr>cr_id = i, cr_name = n, cr_context = c\<rparr> }"

definition read_node_info :: "fields \<Rightarrow> inventory_node option" where
  "read_node_info d = do {
     i \<leftarrow> field d ''id'' as_str;
     n \<leftarrow> field d ''name'' as_str;
     ls \<leftarrow> field_or d ''labels'' [] (\<lambda>v. as_mapping as_str (null_as (JObj []) v));
     Some \<lparr>in_id = i, in_name = n, in_labels = ls\<rparr> }"

definition read_cluster_node :: "fields \<Rightarrow> cluster_node_info option" where
  "read_cluster_node d = do {
     t \<leftarrow> field d ''node_type'' as_str;
     n \<leftarrow> field d ''node'' (as_model read_node_info);
     c \<leftarrow> field d ''cluster'' (as_model read_cluster_ref);
     Some \<lparr>cni_node_type = t, cni_node = n, cni_cluster = c\<rparr> }"

definition read_mapping :: "fields \<Rightarrow> bastion_mapping option" where
  "read_mapping d = do {
     ps \<leftarrow> field d ''patterns'' (as_list as_str);
     r \<leftarrow> field d ''runner'' as_str;
     b \<leftarrow> field d ''bastion'' as_str;
     i \<leftarrow> field d ''bastion_ip'' as_str;
     Some \<lparr>bm_patterns = ps, bm_runner = r, bm_bastion = b, bm_bastion_ip = i\<rparr> }"

definition bastion_sources :: "string list" where
  "bastion_sources = [''config'', ''query_param'']"

definition read_node_bastion :: "fields \<Rightarrow> node_bastion_resolution option" where
  "read_node_bastion d = do {
     t \<leftarrow> field d ''node_type'' as_str;
     n \<leftarrow> field d ''node'' (as_model read_node_info);
     c \<leftarrow> field d ''cluster'' (as_model read_cluster_ref);
     b \<leftarrow> field d ''bastion_type'' as_str;
     s \<leftarrow> field d ''bastion_type_source'' as_str;
     m \<leftarrow> field d ''matched_mapping'' (as_model read_mapping);
     p \<leftarrow> field d ''matched_pattern'' as_str;
     if s \<in> set bastion_sources
     then Some \<lparr>nbr_node_type = t, nbr_node = n, nbr_cluster = c, nbr_bastion_type = b, nbr_source = s,
                nbr_mapping = m, nbr_pattern = p\<rparr>
     else None }"

definition read_cluster_bastion :: "conversions \<Rightarrow> fields \<Rightarrow> cluster_bastion_resolution option" where
  "read_cluster_bastion cv d = do {
     c \<leftarrow> field d ''cluster_name'' as_str;
     h \<leftarrow> field d ''has_slash'' (to_flag cv);
     b \<leftarrow> field d ''bastion_type'' as_str;
     m \<leftarrow> field d ''matched_mapping'' (as_model read_mapping);
     p \<leftarrow> field d ''matched_pattern'' as_str;
     Some \<lparr>cbr_cluster_name = c, cbr_has_slash = h, cbr_bastion_type = b, cbr_mapping = m, cbr_pattern = p\<rparr> }"

section \<open>Commands\<close>

definition as_host_type :: "json \<Rightarrow> host_type option" where
  "as_host_type v = find (\<lambda>t. v = JStr (host_type_str t)) [Ip, Bastion, Hostname, Cluster]"

fun command_output_str :: "command_output_format \<Rightarrow> string" where
  "command_output_str TextOutput = ''text''"
| "command_output_str JsonOutput = ''json''"

definition as_command_output :: "json \<Rightarrow> command_output_format option" where
  "as_command_output v = find (\<lambda>t. v = JStr (command_output_str t)) [TextOutput, JsonOutput]"

fun json_error_str :: "output_json_error \<Rightarrow> string" where
  "json_error_str ParseFailed = ''parse_failed''"
| "json_error_str OutputUnavailable = ''output_unavailable''"
| "json_error_str NotApplicable = ''not_applicable''"

definition as_json_error :: "json \<Rightarrow> output_json_error option" where
  "as_json_error v = find (\<lambda>t. v = JStr (json_error_str t)) [ParseFailed, OutputUnavailable, NotApplicable]"

definition read_argument :: "conversions \<Rightarrow> fields \<Rightarrow> argument_config option" where
  "read_argument cv d = do {
     n \<leftarrow> field d ''name'' as_str;
     t \<leftarrow> field d ''type'' as_str;
     x \<leftarrow> field_or d ''validation_regex'' [] as_str;
     r \<leftarrow> field_or d ''required'' True (to_flag cv);
     e \<leftarrow> field_or d ''description'' [] as_str;
     Some \<lparr>ac_name = n, ac_type = t, ac_validation_regex = x, ac_required = r, ac_description = e\<rparr> }"

definition read_step :: "fields \<Rightarrow> string list option" where
  "read_step d = field d ''command'' (as_list as_str)"

definition read_command_config :: "conversions \<Rightarrow> fields \<Rightarrow> command_config option" where
  "read_command_config cv d = do {
     n \<leftarrow> field d ''command_name'' as_str;
     e \<leftarrow> field_or d ''description'' [] as_str;
     s \<leftarrow> field_or d ''disconnects_ssh'' False (to_flag cv);
     k \<leftarrow> field_or d ''killable'' False (to_flag cv);
     l \<leftarrow> field_or d ''logged'' False (to_flag cv);
     c \<leftarrow> field_or d ''checks_script_version'' False (to_flag cv);
     v \<leftarrow> field_or d ''min_script_version'' None (as_optional as_str);
     f \<leftarrow> field_or d ''output_format'' TextOutput as_command_output;
     p \<leftarrow> field d ''pipeline'' (as_list (as_model read_step));
     a \<leftarrow> field_or d ''arguments'' [] (as_list (as_model (read_argument cv)));
     Some \<lparr>cc_command_name = n, cc_description = e, cc_disconnects_ssh = s, cc_killable = k, cc_logged = l,
           cc_checks_script_version = c, cc_min_script_version = v, cc_output_format = f, cc_pipeline = p,
           cc_arguments = a\<rparr> }"

definition read_whitelist :: "conversions \<Rightarrow> fields \<Rightarrow> command_whitelist option" where
  "read_whitelist cv d = do {
     n \<leftarrow> field_or d ''name'' ''cluster_proxy'' as_str;
     a \<leftarrow> field_or d ''allow_hosts'' [''.*''] (as_list as_str);
     r \<leftarrow> field_or d ''deny_hosts'' [] (as_list as_str);
     c \<leftarrow> field d ''allow_commands'' (as_list (as_model (read_command_config cv)));
     Some \<lparr>cw_name = n, cw_allow_hosts = a, cw_deny_hosts = r, cw_allow_commands = c\<rparr> }"

definition read_option :: "conversions \<Rightarrow> fields \<Rightarrow> command_option option" where
  "read_option cv d = do {
     t \<leftarrow> field_or d ''timeout_seconds'' 30 (to_int cv);
     b \<leftarrow> field_or d ''bastion_type'' None (as_optional as_str);
     l \<leftarrow> field_or d ''ip_label'' None (as_optional as_str);
     Some \<lparr>co_timeout_seconds = t, co_bastion_type = b, co_ip_label = l\<rparr> }"

definition default_option :: command_option where
  "default_option = \<lparr>co_timeout_seconds = 30, co_bastion_type = None, co_ip_label = None\<rparr>"

definition read_execution_request :: "conversions \<Rightarrow> fields \<Rightarrow> execution_request option" where
  "read_execution_request cv d = do {
     n \<leftarrow> field d ''command_name'' as_str;
     h \<leftarrow> field d ''host'' as_str;
     t \<leftarrow> field_or d ''host_type'' Ip as_host_type;
     p \<leftarrow> field_or d ''port'' 22 (to_int cv);
     u \<leftarrow> field d ''username'' as_str;
     s \<leftarrow> field_or d ''ssh_config'' ''default'' as_str;
     r \<leftarrow> field_or d ''option'' (Some default_option) (as_optional (as_model (read_option cv)));
     a \<leftarrow> field_or d ''arguments'' [] (as_mapping Some);
     v \<leftarrow> field_or d ''min_script_version'' None (as_optional as_str);
     Some \<lparr>er_command_name = n, er_host = h, er_host_type = t, er_port = p, er_username = u, er_ssh_config = s,
           er_option = r, er_arguments = a, er_min_script_version = v\<rparr> }"

definition read_execution_response :: "conversions \<Rightarrow> fields \<Rightarrow> execution_response option" where
  "read_execution_response cv d = do {
     i \<leftarrow> field_or d ''command_id'' None (as_optional as_str);
     s \<leftarrow> field d ''status'' as_str;
     m \<leftarrow> field_or d ''message'' [] as_str;
     x \<leftarrow> field_or d ''exit_status'' None (as_optional (to_int cv));
     t \<leftarrow> field_or d ''output'' None (as_optional as_str);
     c \<leftarrow> field_or d ''exec_command'' None (as_optional as_str);
     h \<leftarrow> field_or d ''host_type'' None (as_optional as_host_type);
     r \<leftarrow> field_or d ''resolved_ip'' None (as_optional as_str);
     g \<leftarrow> field_or d ''pgids'' [] (as_list (to_int cv));
     j \<leftarrow> field_or d ''output_json'' JNull Some;
     e \<leftarrow> field_or d ''output_json_error'' None (as_optional as_json_error);
     Some \<lparr>ex_command_id = i, ex_status = s, ex_message = m, ex_exit_status = x, ex_output = t,
           ex_exec_command = c, ex_host_type = h, ex_resolved_ip = r, ex_pgids = g, ex_output_json = j,
           ex_output_json_error = e\<rparr> }"

definition read_log_line :: "conversions \<Rightarrow> fields \<Rightarrow> log_line option" where
  "read_log_line cv d = do {
     n \<leftarrow> field d ''num'' (to_int cv);
     c \<leftarrow> field d ''content_html'' as_str;
     Some \<lparr>ll_num = n, ll_content_html = c\<rparr> }"

definition read_trace :: "conversions \<Rightarrow> fields \<Rightarrow> command_trace option" where
  "read_trace cv d = do {
     i \<leftarrow> field d ''command_id'' as_str;
     s \<leftarrow> field d ''status'' as_str;
     b \<leftarrow> field d ''next_byte_offset'' (to_int cv);
     n \<leftarrow> field d ''next_line_num'' (to_int cv);
     ls \<leftarrow> field d ''lines'' (as_list (as_model (read_log_line cv)));
     t \<leftarrow> field_or d ''total_size'' 0 (to_int cv);
     w \<leftarrow> field_or d ''size_warning'' False (to_flag cv);
     l \<leftarrow> field_or d ''too_large'' False (to_flag cv);
     g \<leftarrow> field_or d ''not_logged'' False (to_flag cv);
     h \<leftarrow> field_or d ''log_host'' None (as_optional as_str);
     p \<leftarrow> field_or d ''log_port'' None (as_optional (to_int cv));
     u \<leftarrow> field_or d ''log_user'' None (as_optional as_str);
     f \<leftarrow> field_or d ''log_file_path'' None (as_optional as_str);
     Some \<lparr>ct_command_id = i, ct_status = s, ct_next_byte_offset = b, ct_next_line_num = n, ct_lines = ls,
           ct_total_size = t, ct_size_warning = w, ct_too_large = l, ct_not_logged = g, ct_log_host = h,
           ct_log_port = p, ct_log_user = u, ct_log_file_path = f\<rparr> }"

end
