(* ===== verification/Model_Round_Trips.thy ===== *)
theory Model_Round_Trips
  imports Upstream_Models
begin

text \<open>
  How a model is sent (every field under its name), and that reading it back gives the model again. The live
  clients with the constructors of \<open>Upstream_Models\<close> then hand on what the upstream sent, unchanged.
\<close>

section \<open>Sending\<close>

definition opt_json :: "('a \<Rightarrow> json) \<Rightarrow> 'a option \<Rightarrow> json" where
  "opt_json f x = (case x of None \<Rightarrow> JNull | Some v \<Rightarrow> f v)"

text \<open>The members of the enumerations, by their values.\<close>

fun dump_host_type :: "host_type \<Rightarrow> json" where
  "dump_host_type Ip = JStr ''ip''"
| "dump_host_type Bastion = JStr ''bastion''"
| "dump_host_type Hostname = JStr ''hostname''"
| "dump_host_type Cluster = JStr ''cluster''"

fun dump_output_format :: "command_output_format \<Rightarrow> json" where
  "dump_output_format TextOutput = JStr ''text''"
| "dump_output_format JsonOutput = JStr ''json''"

fun dump_json_error :: "output_json_error \<Rightarrow> json" where
  "dump_json_error ParseFailed = JStr ''parse_failed''"
| "dump_json_error OutputUnavailable = JStr ''output_unavailable''"
| "dump_json_error NotApplicable = JStr ''not_applicable''"

definition dump_job :: "job_data \<Rightarrow> json" where
  "dump_job j = JObj [(''id'', JNum (jd_id j)), (''name'', JStr (jd_name j)), (''status'', JStr (jd_status j))]"

definition dump_variable :: "pipeline_variable \<Rightarrow> json" where
  "dump_variable v = JObj [(''key'', JStr (pv_key v)), (''value'', JStr (pv_value v))]"

definition dump_downstream :: "downstream_ref \<Rightarrow> json" where
  "dump_downstream r = JObj [(''id'', JNum (dr_id r)), (''status'', JStr (dr_status r)),
     (''project_id'', JNum (dr_project_id r)), (''web_url'', JStr (dr_web_url r)),
     (''bridge_name'', JStr (dr_bridge_name r))]"

definition dump_pipeline :: "conversions \<Rightarrow> pipeline_data \<Rightarrow> json" where
  "dump_pipeline cv p = JObj
     [(''id'', JNum (pl_id p)), (''status'', JStr (pl_status p)),
      (''created_at'', opt_json (show_time cv) (pl_created_at p)),
      (''updated_at'', opt_json (show_time cv) (pl_updated_at p)),
      (''started_at'', opt_json (show_time cv) (pl_started_at p)),
      (''finished_at'', opt_json (show_time cv) (pl_finished_at p)),
      (''tag_list'', json_strs (pl_tag_list p)), (''variables'', JList (map dump_variable (pl_variables p))),
      (''jobs'', JList (map dump_job (pl_jobs p))),
      (''downstream_pipelines'', JList (map dump_downstream (pl_downstream p))),
      (''ref_name'', JStr (pl_ref_name p)), (''web_url'', JStr (pl_web_url p))]"

definition dump_running :: "conversions \<Rightarrow> running_pipelines \<Rightarrow> json" where
  "dump_running cv r = JObj [(''has_running'', JBool (rp_has_running r)), (''count'', JNum (rp_count r)),
     (''pipelines'', JList (map (dump_pipeline cv) (rp_pipelines r)))]"

definition dump_cluster_ref :: "cluster_ref \<Rightarrow> json" where
  "dump_cluster_ref c = JObj [(''id'', JStr (cr_id c)), (''name'', JStr (cr_name c)), (''context'', JStr (cr_context c))]"

definition dump_node_info :: "inventory_node \<Rightarrow> json" where
  "dump_node_info n = JObj [(''id'', JStr (in_id n)), (''name'', JStr (in_name n)),
     (''labels'', JObj (map (\<lambda>(k, v). (k, JStr v)) (in_labels n)))]"

definition dump_cluster_node :: "cluster_node_info \<Rightarrow> json" where
  "dump_cluster_node c = JObj [(''node_type'', JStr (cni_node_type c)), (''node'', dump_node_info (cni_node c)),
     (''cluster'', dump_cluster_ref (cni_cluster c))]"

definition dump_mapping :: "bastion_mapping \<Rightarrow> json" where
  "dump_mapping m = JObj [(''patterns'', json_strs (bm_patterns m)), (''runner'', JStr (bm_runner m)),
     (''bastion'', JStr (bm_bastion m)), (''bastion_ip'', JStr (bm_bastion_ip m))]"

definition dump_node_bastion :: "node_bastion_resolution \<Rightarrow> json" where
  "dump_node_bastion r = JObj [(''node_type'', JStr (nbr_node_type r)), (''node'', dump_node_info (nbr_node r)),
     (''cluster'', dump_cluster_ref (nbr_cluster r)), (''bastion_type'', JStr (nbr_bastion_type r)),
     (''bastion_type_source'', JStr (nbr_source r)), (''matched_mapping'', dump_mapping (nbr_mapping r)),
     (''matched_pattern'', JStr (nbr_pattern r))]"

definition dump_cluster_bastion :: "cluster_bastion_resolution \<Rightarrow> json" where
  "dump_cluster_bastion r = JObj [(''cluster_name'', JStr (cbr_cluster_name r)),
     (''has_slash'', JBool (cbr_has_slash r)), (''bastion_type'', JStr (cbr_bastion_type r)),
     (''matched_mapping'', dump_mapping (cbr_mapping r)), (''matched_pattern'', JStr (cbr_pattern r))]"

definition dump_argument :: "argument_config \<Rightarrow> json" where
  "dump_argument a = JObj [(''name'', JStr (ac_name a)), (''type'', JStr (ac_type a)),
     (''validation_regex'', JStr (ac_validation_regex a)), (''required'', JBool (ac_required a)),
     (''description'', JStr (ac_description a))]"

definition dump_command_config :: "command_config \<Rightarrow> json" where
  "dump_command_config c = JObj
     [(''command_name'', JStr (cc_command_name c)), (''description'', JStr (cc_description c)),
      (''disconnects_ssh'', JBool (cc_disconnects_ssh c)), (''killable'', JBool (cc_killable c)),
      (''logged'', JBool (cc_logged c)), (''checks_script_version'', JBool (cc_checks_script_version c)),
      (''min_script_version'', json_opt_str (cc_min_script_version c)),
      (''output_format'', dump_output_format (cc_output_format c)),
      (''pipeline'', JList (map (\<lambda>s. JObj [(''command'', json_strs s)]) (cc_pipeline c))),
      (''arguments'', JList (map dump_argument (cc_arguments c)))]"

definition dump_whitelist :: "command_whitelist \<Rightarrow> json" where
  "dump_whitelist w = JObj [(''name'', JStr (cw_name w)), (''allow_hosts'', json_strs (cw_allow_hosts w)),
     (''deny_hosts'', json_strs (cw_deny_hosts w)),
     (''allow_commands'', JList (map dump_command_config (cw_allow_commands w)))]"

definition dump_option :: "command_option \<Rightarrow> json" where
  "dump_option r = JObj [(''timeout_seconds'', JNum (co_timeout_seconds r)),
     (''bastion_type'', json_opt_str (co_bastion_type r)), (''ip_label'', json_opt_str (co_ip_label r))]"

text \<open>\<open>body.model_dump(mode="json")\<close> of the request.\<close>

definition dump_execution_request :: "execution_request \<Rightarrow> json" where
  "dump_execution_request r = JObj
     [(''command_name'', JStr (er_command_name r)), (''host'', JStr (er_host r)),
      (''host_type'', dump_host_type (er_host_type r)), (''port'', JNum (er_port r)),
      (''username'', JStr (er_username r)), (''ssh_config'', JStr (er_ssh_config r)),
      (''option'', opt_json dump_option (er_option r)), (''arguments'', JObj (er_arguments r)),
      (''min_script_version'', json_opt_str (er_min_script_version r))]"

definition dump_execution_response :: "execution_response \<Rightarrow> json" where
  "dump_execution_response r = JObj
     [(''command_id'', json_opt_str (ex_command_id r)), (''status'', JStr (ex_status r)),
      (''message'', JStr (ex_message r)), (''exit_status'', opt_json JNum (ex_exit_status r)),
      (''output'', json_opt_str (ex_output r)), (''exec_command'', json_opt_str (ex_exec_command r)),
      (''host_type'', opt_json dump_host_type (ex_host_type r)),
      (''resolved_ip'', json_opt_str (ex_resolved_ip r)), (''pgids'', JList (map JNum (ex_pgids r))),
      (''output_json'', ex_output_json r),
      (''output_json_error'', opt_json dump_json_error (ex_output_json_error r))]"

definition dump_log_line :: "log_line \<Rightarrow> json" where
  "dump_log_line l = JObj [(''num'', JNum (ll_num l)), (''content_html'', JStr (ll_content_html l))]"

definition dump_trace :: "command_trace \<Rightarrow> json" where
  "dump_trace t = JObj
     [(''command_id'', JStr (ct_command_id t)), (''status'', JStr (ct_status t)),
      (''next_byte_offset'', JNum (ct_next_byte_offset t)), (''next_line_num'', JNum (ct_next_line_num t)),
      (''lines'', JList (map dump_log_line (ct_lines t))), (''total_size'', JNum (ct_total_size t)),
      (''size_warning'', JBool (ct_size_warning t)), (''too_large'', JBool (ct_too_large t)),
      (''not_logged'', JBool (ct_not_logged t)), (''log_host'', json_opt_str (ct_log_host t)),
      (''log_port'', opt_json JNum (ct_log_port t)), (''log_user'', json_opt_str (ct_log_user t)),
      (''log_file_path'', json_opt_str (ct_log_file_path t))]"

section \<open>Reading back\<close>

text \<open>\<open>reads read v x\<close>: the reader gives \<open>x\<close> for the value \<open>v\<close>.\<close>

named_theorems reads_back

lemma field_simps [simp]:
  "dict_get d k = Some v \<Longrightarrow> field d k read = read v"
  "dict_get d k = Some v \<Longrightarrow> field_or d k x read = read v"
  "dict_get d k = None \<Longrightarrow> field d k read = None"
  "dict_get d k = None \<Longrightarrow> field_or d k x read = Some x"
  by (simp_all add: field_def field_or_def)

lemma all_some_map: "(\<And>x. x \<in> set xs \<Longrightarrow> f x = Some (g x)) \<Longrightarrow> all_some (map f xs) = Some (map g xs)"
  by (induction xs) auto

lemma list_back [reads_back]:
  "(\<And>x. read (dump x) = Some x) \<Longrightarrow> as_list read (JList (map dump xs)) = Some xs"
  using all_some_map[of xs "\<lambda>x. read (dump x)" id] by (simp add: comp_def)

lemma strs_back [reads_back]: "as_list as_str (json_strs xs) = Some xs"
  unfolding json_strs_def by (rule list_back) simp

lemma optional_back [reads_back]:
  "(\<And>x. read (dump x) = Some x \<and> dump x \<noteq> JNull) \<Longrightarrow> as_optional read (opt_json dump v) = Some v"
  by (cases v) (simp_all add: as_optional_def opt_json_def)

lemma opt_str_back [reads_back]: "as_optional as_str (json_opt_str v) = Some v"
  by (cases v) (simp_all add: as_optional_def json_opt_str_def)

lemma mapping_back [reads_back]:
  "as_mapping as_str (JObj (map (\<lambda>(k, v). (k, JStr v)) d)) = Some d"
  using all_some_map[of d "\<lambda>(k, v). map_option (Pair k) (as_str (JStr v))" id]
  by (simp add: comp_def case_prod_beta split_def)

lemma any_mapping_back [reads_back]: "as_mapping Some (JObj d) = Some d"
  using all_some_map[of d "\<lambda>(k, v). map_option (Pair k) (Some v)" id] by (simp add: split_def)

declare as_list.simps [simp del] as_mapping.simps [simp del]

lemma host_type_back [reads_back]: "as_host_type (dump_host_type t) = Some t"
  by (cases t) (simp_all add: as_host_type_def)

lemma command_output_back [reads_back]: "as_command_output (dump_output_format t) = Some t"
  by (cases t) (simp_all add: as_command_output_def)

lemma json_error_back [reads_back]: "as_json_error (dump_json_error t) = Some t"
  by (cases t) (simp_all add: as_json_error_def)

lemma variable_back [reads_back]: "as_model read_variable (dump_variable v) = Some v"
  by (simp add: dump_variable_def read_variable_def stringify_def)

lemma mapping_model_back [reads_back]: "as_model read_mapping (dump_mapping m) = Some m"
  by (simp add: dump_mapping_def read_mapping_def reads_back)

lemma cluster_ref_back [reads_back]: "as_model read_cluster_ref (dump_cluster_ref c) = Some c"
  by (simp add: dump_cluster_ref_def read_cluster_ref_def null_as_def)

lemma node_info_back [reads_back]: "as_model read_node_info (dump_node_info n) = Some n"
  by (simp add: dump_node_info_def read_node_info_def null_as_def reads_back)

lemma step_back [reads_back]: "as_model read_step (JObj [(''command'', json_strs s)]) = Some s"
  by (simp add: read_step_def reads_back)

lemma conversions_back:
  assumes "conversions_ok cv"
  shows "to_int cv (JNum n) = Some n" and "to_flag cv (JBool b) = Some b"
    and "as_optional (to_time cv) (opt_json (show_time cv) t) = Some t"
    and "as_optional (to_int cv) (opt_json JNum i) = Some i" and "as_list (to_int cv) (JList (map JNum ns)) = Some ns"
proof -
  show n: "to_int cv (JNum n) = Some n" for n using assms by (simp add: conversions_ok_def)
  show "to_flag cv (JBool b) = Some b" using assms by (simp add: conversions_ok_def)
  show "as_optional (to_time cv) (opt_json (show_time cv) t) = Some t"
    by (rule optional_back) (use assms in \<open>simp add: conversions_ok_def\<close>)
  show "as_optional (to_int cv) (opt_json JNum i) = Some i" by (rule optional_back) (simp add: n)
  show "as_list (to_int cv) (JList (map JNum ns)) = Some ns" by (rule list_back) (rule n)
qed

lemma pipeline_back:
  assumes "conversions_ok cv"
  shows "as_model (read_pipeline cv) (dump_pipeline cv p) = Some p"
proof -
  note cv = conversions_back[OF assms]
  have jobs: "as_list (as_model (read_job cv)) (JList (map dump_job js)) = Some js" for js
    by (rule list_back) (simp add: dump_job_def read_job_def cv)
  have downstream: "as_list (as_model (read_downstream cv)) (JList (map dump_downstream ds)) = Some ds" for ds
    by (rule list_back) (simp add: dump_downstream_def read_downstream_def cv)
  have variables: "as_list (as_model read_variable) (JList (map dump_variable vs)) = Some vs" for vs
    by (rule list_back) (rule variable_back)
  show ?thesis
    by (simp add: dump_pipeline_def read_pipeline_def cv jobs downstream variables strs_back)
qed

lemma running_back:
  assumes "conversions_ok cv"
  shows "as_model (read_running cv) (dump_running cv r) = Some r"
proof -
  have "as_list (as_model (read_pipeline cv)) (JList (map (dump_pipeline cv) ps)) = Some ps" for ps
    by (rule list_back) (rule pipeline_back[OF assms])
  then show ?thesis by (simp add: dump_running_def read_running_def conversions_back[OF assms])
qed

lemma cluster_node_back: "as_model read_cluster_node (dump_cluster_node c) = Some c"
  by (simp add: dump_cluster_node_def read_cluster_node_def reads_back)

lemma node_bastion_back:
  "nbr_source r \<in> set bastion_sources \<Longrightarrow> as_model read_node_bastion (dump_node_bastion r) = Some r"
  by (simp add: dump_node_bastion_def read_node_bastion_def reads_back)

lemma cluster_bastion_back:
  "conversions_ok cv \<Longrightarrow> as_model (read_cluster_bastion cv) (dump_cluster_bastion r) = Some r"
  by (simp add: dump_cluster_bastion_def read_cluster_bastion_def reads_back conversions_back)

lemma command_config_back:
  assumes "conversions_ok cv"
  shows "as_model (read_command_config cv) (dump_command_config c) = Some c"
proof -
  have arguments: "as_list (as_model (read_argument cv)) (JList (map dump_argument xs)) = Some xs" for xs
    by (rule list_back) (simp add: dump_argument_def read_argument_def conversions_back[OF assms])
  have steps: "as_list (as_model read_step) (JList (map (\<lambda>s. JObj [(''command'', json_strs s)]) ss)) = Some ss" for ss
    by (rule list_back) (rule step_back)
  show ?thesis
    by (simp add: dump_command_config_def read_command_config_def conversions_back[OF assms] arguments steps
        opt_str_back command_output_back)
qed

lemma whitelist_back:
  assumes "conversions_ok cv"
  shows "as_model (read_whitelist cv) (dump_whitelist w) = Some w"
proof -
  have "as_list (as_model (read_command_config cv)) (JList (map dump_command_config cs)) = Some cs" for cs
    by (rule list_back) (rule command_config_back[OF assms])
  then show ?thesis by (simp add: dump_whitelist_def read_whitelist_def strs_back)
qed

lemma execution_request_back:
  assumes "conversions_ok cv"
  shows "as_model (read_execution_request cv) (dump_execution_request r) = Some r"
proof -
  have "as_optional (as_model (read_option cv)) (opt_json dump_option x) = Some x" for x
    by (rule optional_back) (simp add: dump_option_def read_option_def conversions_back[OF assms] opt_str_back)
  then show ?thesis
    by (simp add: dump_execution_request_def read_execution_request_def conversions_back[OF assms] host_type_back
        any_mapping_back opt_str_back)
qed

lemma execution_response_back:
  assumes "conversions_ok cv"
  shows "as_model (read_execution_response cv) (dump_execution_response r) = Some r"
proof -
  have "dump_host_type t \<noteq> JNull" for t by (cases t) simp_all
  then have hosts: "as_optional as_host_type (opt_json dump_host_type x) = Some x" for x
    by (intro optional_back) (simp add: host_type_back)
  have "dump_json_error t \<noteq> JNull" for t by (cases t) simp_all
  then have errors: "as_optional as_json_error (opt_json dump_json_error x) = Some x" for x
    by (intro optional_back) (simp add: json_error_back)
  show ?thesis
    by (simp add: dump_execution_response_def read_execution_response_def conversions_back[OF assms] hosts errors
        opt_str_back)
qed

lemma trace_back:
  assumes "conversions_ok cv"
  shows "as_model (read_trace cv) (dump_trace t) = Some t"
proof -
  have "as_list (as_model (read_log_line cv)) (JList (map dump_log_line ls)) = Some ls" for ls
    by (rule list_back) (simp add: dump_log_line_def read_log_line_def conversions_back[OF assms])
  then show ?thesis
    by (simp add: dump_trace_def read_trace_def conversions_back[OF assms] opt_str_back)
qed

end
