(* ===== verification/Live_Proxy.thy ===== *)
theory Live_Proxy
  imports Model_Round_Trips Upstream_Properties
begin

text \<open>
  The live proxy with its models: the two clients built on the constructors of \<open>Upstream_Models\<close>, the POST
  routes from the body as it arrives, and what goes through unchanged in both directions.
\<close>

section \<open>The clients with their constructors\<close>

definition deploy_models_of :: "conversions \<Rightarrow> deploy_models" where
  "deploy_models_of cv =
     \<lparr>dm_pipeline = construct (read_pipeline cv), dm_running = construct (read_running cv),
      dm_node = construct read_cluster_node, dm_mapping = construct read_mapping,
      dm_node_bastion = construct read_node_bastion, dm_cluster_bastion = construct (read_cluster_bastion cv)\<rparr>"

definition command_models_of :: "conversions \<Rightarrow> command_models" where
  "command_models_of cv =
     \<lparr>mm_whitelist = construct (read_whitelist cv), mm_config = construct (read_command_config cv),
      mm_response = construct (read_execution_response cv), mm_trace = construct (read_trace cv),
      mm_dump = dump_execution_request\<rparr>"

abbreviation deploy_of :: "'x client \<Rightarrow> conversions \<Rightarrow> 'x client_world deploy_client" where
  "deploy_of c cv \<equiv> live_deploy_client c (deploy_models_of cv)"

abbreviation commands_of :: "'x client \<Rightarrow> conversions \<Rightarrow> 'x client_world command_client" where
  "commands_of c cv \<equiv> live_command_client c (command_models_of cv)"

section \<open>Request bodies\<close>

text \<open>The framework validates the body after the dependencies have run; a POST without a body of the pipeline
  routes is an empty request.\<close>

definition validated :: "(fields \<Rightarrow> 'b option) \<Rightarrow> json \<Rightarrow> ('b \<Rightarrow> ('w, 'a) call) \<Rightarrow> ('w, 'a) call" where
  "validated read body handler =
     (case as_model read body of
        None \<Rightarrow> raise_io (PyError ''RequestValidationError'')
      | Some x \<Rightarrow> handler x)"

definition trigger_pipeline_post where
  "trigger_pipeline_post cd st c request_id action ref body =
     as_user cd [''deploy_api''] (\<lambda>_. validated read_trigger_request (or_else body (JObj []))
       (\<lambda>variables. trigger_pipeline_route cd st c request_id action ref variables))"

definition check_running_post where
  "check_running_post cd st c request_id action ref body =
     as_user cd [''deploy_api''] (\<lambda>_. validated read_trigger_request (or_else body (JObj []))
       (\<lambda>variables. check_running_route cd st c request_id action ref variables))"

definition execute_command_post where
  "execute_command_post cd st c cv request_id body =
     as_user cd [''command_api''] (\<lambda>_. validated (read_execution_request cv) body
       (\<lambda>request_body. execute_command_route cd st c request_id request_body))"

section \<open>What goes through\<close>

text \<open>deploy-service answers the request of that method, path, parameters and body well, whatever token it came
  with and after a retry if need be, with \<open>v\<close> under \<open>data\<close>, among whatever else the answer says.\<close>

definition answers_data where
  "answers_data c http_method path params body w v w' \<longleftrightarrow>
     (\<exists>d. request_with_retry (cl_up c) (cl_manager c) (cl_base_url c)
         (\<lambda>token. \<lparr>rq_method = http_method, rq_path = path, rq_params = params, rq_body = body, rq_bearer = token\<rparr>) w =
       (Inr (JObj d), w') \<and> dict_get d ''data'' = Some v)"

text \<open>\<open>hands_on\<close>: an operation hands on the model in the answer to that request.\<close>

definition hands_on where
  "hands_on c http_method path params body dump operation \<longleftrightarrow>
     (\<forall>x w w'. answers_data c http_method path params body w (dump x) w' \<longrightarrow> operation w = (Inr x, w'))"

lemma hands_onD:
  "hands_on c m path params body dump operation \<Longrightarrow> answers_data c m path params body w (dump x) w' \<Longrightarrow>
     operation w = (Inr x, w')"
  by (simp add: hands_on_def)

lemma call_hands_on:
  assumes "\<And>x. model (dump x) = Inr x"
  shows "hands_on c m path params body dump (call_upstream c m path params body model)"
  using assms
  by (auto simp: hands_on_def answers_data_def call_upstream_def bind_io_def lift_io_def subscript_def)

lemma construct_back:
  "as_model read v = Some x \<Longrightarrow> construct read v = Inr x"
  by (cases v) (simp_all add: construct_def)

lemma list_of_back: "(\<And>x. construct read (dump x) = Inr x) \<Longrightarrow> list_of (construct read) (JList (map dump xs)) = Inr xs"
  by (induction xs) (simp_all add: list_of_def)

text \<open>The one model with a restricted field: the source of a bastion type is \<open>config\<close> or \<open>query_param\<close>.\<close>

lemma node_bastion_hands_on:
  assumes "answers_data c m path params body w (dump_node_bastion nb) w'"
  shows "call_upstream c m path params body (construct read_node_bastion) w =
    (if nbr_source nb \<in> {''config'', ''query_param''} then Inr nb else Inl (PyError ''ValidationError''), w')"
proof -
  have "construct read_node_bastion (dump_node_bastion nb) =
      (if nbr_source nb \<in> {''config'', ''query_param''} then Inr nb else Inl (PyError ''ValidationError''))"
    by (simp add: construct_def dump_node_bastion_def read_node_bastion_def reads_back bastion_sources_def)
  with assms show ?thesis
    by (auto simp: answers_data_def call_upstream_def bind_io_def lift_io_def subscript_def)
qed

lemmas live_operations = live_deploy_client_def live_command_client_def deploy_models_of_def command_models_of_def
  client_trigger_pipeline_def client_get_pipeline_def client_cancel_pipeline_def client_retry_pipeline_def
  client_check_running_def client_get_node_def client_list_mappings_def client_resolve_cluster_bastion_def
  client_resolve_node_bastion_def client_get_all_commands_info_def client_get_command_info_def
  client_execute_command_def client_get_command_result_def client_kill_command_def client_get_command_trace_def
  stage_path_def stage_params_def execution_path_def variables_body_def

text \<open>C32: the live proxy hands on what deploy-service sends, as it is: for every operation of the two clients,
  the request it sends and the model it returns, which is exactly the one under \<open>data\<close> of the answer to that
  request; only a bastion resolution whose source is neither \<open>config\<close> nor \<open>query_param\<close> is a validation error.\<close>

theorem proxied_answers_pass_through:
  assumes "conversions_ok cv"
  shows "hands_on c ''POST'' ''/api/v1/deploy/stage'' [(''action'', JStr action), (''ref_name'', JStr ref)]
      (Some (JObj [(''variables'', JList (map dump_variable vs))])) (dump_pipeline cv)
      (dc_trigger_pipeline (deploy_of c cv) action ref vs) \<and>
    hands_on c ''GET'' (''/api/v1/deploy/stage/'' @ str_of_int i) [] None (dump_pipeline cv)
      (dc_get_pipeline (deploy_of c cv) i) \<and>
    hands_on c ''POST'' (''/api/v1/deploy/stage/'' @ str_of_int i @ ''/cancel'') [] None (dump_pipeline cv)
      (dc_cancel_pipeline (deploy_of c cv) i) \<and>
    hands_on c ''POST'' (''/api/v1/deploy/stage/'' @ str_of_int i @ ''/retry'') [] None (dump_pipeline cv)
      (dc_retry_pipeline (deploy_of c cv) i) \<and>
    hands_on c ''POST'' ''/api/v1/deploy/stage/check-running'' [(''action'', JStr action), (''ref_name'', JStr ref)]
      (Some (JObj [(''variables'', JList (map dump_variable vs))])) (dump_running cv)
      (dc_check_running (deploy_of c cv) action ref vs) \<and>
    hands_on c ''GET'' (''/api/v1/inventory/nodes/'' @ name) [] None dump_cluster_node
      (dc_get_node (deploy_of c cv) name) \<and>
    hands_on c ''GET'' ''/api/v1/inventory/mappings'' [(''type'', JStr name)] None (\<lambda>ms. JList (map dump_mapping ms))
      (dc_list_mappings (deploy_of c cv) name) \<and>
    (\<forall>nb w w'. answers_data c ''GET'' (''/api/v1/inventory/nodes/'' @ name @ ''/bastion-resolution'')
        (case bt of None \<Rightarrow> [] | Some t \<Rightarrow> [(''bastion_type'', JStr t)]) None w (dump_node_bastion nb) w' \<longrightarrow>
      dc_resolve_node_bastion (deploy_of c cv) name bt w =
        (if nbr_source nb \<in> {''config'', ''query_param''} then Inr nb else Inl (PyError ''ValidationError''), w')) \<and>
    hands_on c ''GET'' ''/api/v1/inventory/cluster/bastion-resolution'' [(''cluster_name'', JStr name)] None
      dump_cluster_bastion (dc_resolve_cluster_bastion (deploy_of c cv) name) \<and>
    hands_on c ''GET'' ''/api/v1/command/info'' [] None dump_whitelist
      (cm_get_all_commands_info (commands_of c cv)) \<and>
    hands_on c ''GET'' (''/api/v1/command/'' @ name @ ''/info'') [] None dump_command_config
      (cm_get_command_info (commands_of c cv) name) \<and>
    hands_on c ''POST'' ''/api/v1/command/execution'' [] (Some (dump_execution_request request_body))
      dump_execution_response (cm_execute_command (commands_of c cv) request_body) \<and>
    hands_on c ''GET'' (''/api/v1/command/execution/'' @ name) 
      [(''format'', JStr (case fmt of Raw \<Rightarrow> ''raw'' | AsJson \<Rightarrow> ''json''))] None dump_execution_response
      (cm_get_command_result (commands_of c cv) name fmt) \<and>
    hands_on c ''POST'' (''/api/v1/command/execution/'' @ name @ ''/kill'')
      [(''force'', JBool forced)] None dump_execution_response
      (cm_kill_command (commands_of c cv) name forced) \<and>
    hands_on c ''GET'' (''/api/v1/command/execution/'' @ name @ ''/trace/ui'')
      [(''byte_offset'', JNum offset), (''line_num'', JNum num)] None
      dump_trace (cm_get_command_trace (commands_of c cv) name offset num)"
proof -
  note back_facts = pipeline_back[OF assms(1)] running_back[OF assms(1)] cluster_node_back
    cluster_bastion_back[OF assms(1)] whitelist_back[OF assms(1)] command_config_back[OF assms(1)]
    execution_response_back[OF assms(1)] trace_back[OF assms(1)]
  have mappings: "list_of (construct read_mapping) (JList (map dump_mapping ms)) = Inr ms" for ms
    by (rule list_of_back) (rule construct_back, rule mapping_model_back)
  have vs: "map (\<lambda>v. JObj [(''key'', JStr (pv_key v)), (''value'', JStr (pv_value v))]) vs = map dump_variable vs"
    by (simp add: dump_variable_def)
  have fmt: "output_format_str fmt = (case fmt of Raw \<Rightarrow> ''raw'' | AsJson \<Rightarrow> ''json'')" by (cases fmt) simp_all
  show ?thesis
    by (intro conjI allI impI)
      (simp_all add: live_operations vs fmt call_hands_on node_bastion_hands_on mappings construct_back[OF back_facts(1)]
        construct_back[OF back_facts(2)] construct_back[OF back_facts(3)] construct_back[OF back_facts(4)]
        construct_back[OF back_facts(5)] construct_back[OF back_facts(6)] construct_back[OF back_facts(7)]
        construct_back[OF back_facts(8)])
qed

text \<open>A request body goes out as it was validated: what the client sends of a command or of pipeline
  variables reads back as the same request, and a body the models refuse is a 422 that reaches nobody.\<close>

theorem request_bodies_go_out_as_validated:
  assumes "conversions_ok cv"
  shows "as_model (read_execution_request cv) (mm_dump (command_models_of cv) request_body) = Some request_body \<and>
    as_model read_trigger_request (variables_body vs) = Some vs \<and>
    (get_current_user (cd_crypto cd) (cd_now cd) [''command_api''] (cd_token cd) = Inr u \<longrightarrow>
       execute_command_post cd st cc cv request_id body w =
         (case as_model (read_execution_request cv) body of
            None \<Rightarrow> (Inl (PyError ''RequestValidationError''), w)
          | Some b \<Rightarrow> execute_command_route cd st cc request_id b w))"
proof -
  have "as_list (as_model read_variable) (JList (map dump_variable vs)) = Some vs"
    by (rule list_back) (rule variable_back)
  then have "as_model read_trigger_request (variables_body vs) = Some vs"
    by (simp add: read_trigger_request_def variables_body_def dump_variable_def[abs_def])
  then show ?thesis
    by (simp add: command_models_of_def execution_request_back[OF assms] execute_command_post_def as_user_def
        validated_def bind_io_def lift_io_def split: option.split)
qed

section \<open>A run\<close>

text \<open>Conversions that accept the plain JSON values, and an upstream that answers every request with one trace.\<close>

definition plain_conversions :: conversions where
  "plain_conversions =
     \<lparr>to_int = (\<lambda>v. case v of JNum n \<Rightarrow> Some n | _ \<Rightarrow> None), to_flag = (\<lambda>v. case v of JBool b \<Rightarrow> Some b | _ \<Rightarrow> None),
      to_time = (\<lambda>v. case v of JList [JNum a, JNum b, JNum c, JNum d, JNum e, JNum f] \<Rightarrow>
          Some \<lparr>dt_year = nat a, dt_month = nat b, dt_day = nat c, dt_hour = nat d, dt_minute = nat e, dt_second = nat f\<rparr>
        | _ \<Rightarrow> None),
      show_time = (\<lambda>t. JList (map (\<lambda>n. JNum (int n))
        [dt_year t, dt_month t, dt_day t, dt_hour t, dt_minute t, dt_second t]))\<rparr>"

lemma plain_conversions_ok: "conversions_ok plain_conversions"
  by (simp add: conversions_ok_def plain_conversions_def)

definition one_line_trace :: command_trace where
  "one_line_trace =
     \<lparr>ct_command_id = ''c'', ct_status = ''running'', ct_next_byte_offset = 3, ct_next_line_num = 2,
      ct_lines = [\<lparr>ll_num = 1, ll_content_html = ''hi''\<rparr>], ct_total_size = 3, ct_size_warning = False,
      ct_too_large = False, ct_not_logged = False, ct_log_host = Some ''h'', ct_log_port = Some 22,
      ct_log_user = None, ct_log_file_path = None\<rparr>"

definition tracing_client :: "unit client" where
  "tracing_client =
     \<lparr>cl_up = \<lparr>up_now = (\<lambda>_. 0), up_login = (\<lambda>url name pw x. (Inl (PyError ''ConnectError''), x)),
       up_send = (\<lambda>url q x. (Inr \<lparr>hr_status = 200, hr_json = Some (JObj [(''data'', dump_trace one_line_trace)])\<rparr>, x))\<rparr>,
      cl_manager = \<lparr>mg_base_url = [], mg_username = [], mg_password = []\<rparr>, cl_base_url = []\<rparr>"

definition tracing_world :: "unit client_world" where
  "tracing_world = \<lparr>cw_token = JStr ''t'', cw_expire_at = 60, cw_rest = ()\<rparr>"

lemma proxied_answers_pass_through_witness:
  "cm_get_command_trace (live_command_client tracing_client (command_models_of plain_conversions)) ''c'' 0 1 tracing_world =
     (Inr one_line_trace, tracing_world)"
proof -
  have "answers_data tracing_client ''GET'' (''/api/v1/command/execution/'' @ ''c'' @ ''/trace/ui'')
      [(''byte_offset'', JNum 0), (''line_num'', JNum 1)] None tracing_world (dump_trace one_line_trace) tracing_world"
    by (simp add: answers_data_def tracing_client_def tracing_world_def upstream_eval truthy_def)
  moreover have "hands_on tracing_client ''GET'' (''/api/v1/command/execution/'' @ ''c'' @ ''/trace/ui'')
      [(''byte_offset'', JNum 0), (''line_num'', JNum 1)] None dump_trace
      (cm_get_command_trace (live_command_client tracing_client (command_models_of plain_conversions)) ''c'' 0 1)"
    using proxied_answers_pass_through[OF plain_conversions_ok, of tracing_client] by blast
  ultimately show ?thesis by (intro hands_onD) simp_all
qed

lemma request_bodies_go_out_as_validated_witness:
  "as_model (read_execution_request plain_conversions)
     (mm_dump (command_models_of plain_conversions) sample_execution) = Some sample_execution"
  by (rule request_bodies_go_out_as_validated[OF plain_conversions_ok, THEN conjunct1])

end
