(* ===== verification/Request_Log.thy ===== *)
theory Request_Log
  imports Application
begin

text \<open>
  The log of \<open>app/core/logging.py\<close>: what the filters put into a record, and the request id a line carries
  when requests run side by side. The id is kept in one attribute of the filter class, so a request that
  arrives replaces it for everyone; \<open>call_next\<close> is awaited, so other requests arrive in between.
\<close>

section \<open>Trace and span\<close>

fun hex_of_nat :: "nat \<Rightarrow> string" where
  "hex_of_nat n = (if n < 16 then [hex_digit n] else hex_of_nat (n div 16) @ [hex_digit (n mod 16)])"

declare hex_of_nat.simps [simp del]

text \<open>\<open>format(n, "032x")\<close> and \<open>"016x"\<close>.\<close>

definition padded_hex :: "nat \<Rightarrow> nat \<Rightarrow> string" where
  "padded_hex width n = replicate (width - length (hex_of_nat n)) CHR ''0'' @ hex_of_nat n"

record log_record =
  lr_request_id :: string
  lr_trace_id :: string
  lr_span_id :: string

text \<open>\<open>OtelCorrelationFilter\<close>: the ids of the current span, if it is valid.\<close>

definition otel_ids :: "(nat \<times> nat) option \<Rightarrow> string \<times> string" where
  "otel_ids span =
     (case span of
        Some (trace_id, span_id) \<Rightarrow> (padded_hex 32 trace_id, padded_hex 16 span_id)
      | None \<Rightarrow> (''-'', ''-''))"

definition filtered :: "string \<Rightarrow> (nat \<times> nat) option \<Rightarrow> log_record" where
  "filtered current_request_id span =
     \<lparr>lr_request_id = current_request_id, lr_trace_id = fst (otel_ids span), lr_span_id = snd (otel_ids span)\<rparr>"

lemma hex_of_nat_length: "n < 16 ^ Suc k \<Longrightarrow> length (hex_of_nat n) \<le> Suc k"
proof (induction k arbitrary: n)
  case 0
  then show ?case by (simp add: hex_of_nat.simps)
next
  case (Suc k)
  show ?case
  proof (cases "n < 16")
    case False
    have "n div 16 < 16 ^ Suc k" using Suc.prems by (simp add: less_mult_imp_div_less mult.commute)
    with Suc.IH have "length (hex_of_nat (n div 16)) \<le> Suc k" by blast
    with False show ?thesis by (subst hex_of_nat.simps) simp
  qed (simp add: hex_of_nat.simps)
qed

text \<open>A 128-bit trace id and a 64-bit span id take exactly 32 and 16 digits.\<close>

lemma otel_ids_width:
  assumes "trace_id < 2 ^ 128" and "span_id < 2 ^ 64"
  shows "length (fst (otel_ids (Some (trace_id, span_id)))) = 32 \<and> length (snd (otel_ids (Some (trace_id, span_id)))) = 16"
proof -
  have "trace_id < 16 ^ Suc 31" "span_id < 16 ^ Suc 15" using assms by simp_all
  then show ?thesis
    using hex_of_nat_length[of trace_id 31] hex_of_nat_length[of span_id 15] by (simp add: otel_ids_def padded_hex_def)
qed

section \<open>Requests side by side\<close>

datatype log_event =
    Arrives nat "string option" string   \<comment> \<open>request, its coordination header, the generated id\<close>
  | Logs nat "(nat \<times> nat) option"
  | Leaves nat

record log_world =
  lw_current :: string                   \<comment> \<open>\<open>RequestIdFilter._current_request_id\<close>\<close>
  lw_running :: "nat \<Rightarrow> string option"   \<comment> \<open>\<open>request.state.request_id\<close> of the requests in flight\<close>
  lw_lines :: "(nat \<times> log_record) list"

definition quiet_log :: log_world where
  "quiet_log = \<lparr>lw_current = ''N/A'', lw_running = (\<lambda>_. None), lw_lines = []\<rparr>"

fun log_step :: "log_event \<Rightarrow> log_world \<Rightarrow> log_world" where
  "log_step (Arrives t header uuid) w =
     (let request_id = tr_request_id (dispatch_request_id header uuid)
      in w\<lparr>lw_current := request_id, lw_running := (lw_running w)(t \<mapsto> request_id)\<rparr>)"
| "log_step (Logs t span) w = w\<lparr>lw_lines := lw_lines w @ [(t, filtered (lw_current w) span)]\<rparr>"
| "log_step (Leaves t) w = w\<lparr>lw_running := (lw_running w)(t := None)\<rparr>"

definition log_run :: "log_event list \<Rightarrow> log_world" where
  "log_run events = fold log_step events quiet_log"

text \<open>The id of the request that arrived last.\<close>

fun latest_id :: "string \<Rightarrow> log_event list \<Rightarrow> string" where
  "latest_id i [] = i"
| "latest_id i (Arrives t header uuid # events) = latest_id (tr_request_id (dispatch_request_id header uuid)) events"
| "latest_id i (event # events) = latest_id i events"

lemma log_run_current: "lw_current (fold log_step events w) = latest_id (lw_current w) events"
proof (induction events arbitrary: w)
  case (Cons e events)
  then show ?case by (cases e) (simp_all add: Let_def)
qed simp

lemma latest_id_append:
  "latest_id i (events @ Arrives t header uuid # later) = latest_id (tr_request_id (dispatch_request_id header uuid)) later"
proof (induction events arbitrary: i)
  case (Cons e events)
  then show ?case by (cases e) simp_all
qed simp

lemma latest_id_quiet: "list_all (\<lambda>e. case e of Arrives _ _ _ \<Rightarrow> False | _ \<Rightarrow> True) events \<Longrightarrow> latest_id i events = i"
proof (induction events)
  case (Cons e events)
  then show ?case by (cases e) simp_all
qed simp

text \<open>The request id of a log line is that of the request that arrived last, whichever request writes the
  line; so it is its own as long as nobody has arrived since.\<close>

lemma log_line_carries_the_latest_id:
  "lw_lines (log_run (before @ Arrives t header uuid # during @ [Logs u span])) =
     lw_lines (log_run (before @ Arrives t header uuid # during)) @
       [(u, filtered (latest_id (tr_request_id (dispatch_request_id header uuid)) during) span)] \<and>
   (list_all (\<lambda>e. case e of Arrives _ _ _ \<Rightarrow> False | _ \<Rightarrow> True) during \<longrightarrow>
      latest_id (tr_request_id (dispatch_request_id header uuid)) during =
        tr_request_id (dispatch_request_id header uuid))"
proof -
  let ?w = "log_run (before @ Arrives t header uuid # during)"
  have "log_run (before @ Arrives t header uuid # during @ [Logs u span]) = log_step (Logs u span) ?w"
    by (simp add: log_run_def)
  moreover have "lw_current ?w = latest_id (tr_request_id (dispatch_request_id header uuid)) during"
    unfolding log_run_def log_run_current latest_id_append by (rule refl)
  ultimately show ?thesis by (auto simp: latest_id_quiet)
qed

text \<open>A request that writes a line while another has arrived writes it under the other's id.\<close>

lemma log_line_of_another_request:
  "\<exists>line. lw_lines (log_run [Arrives 1 (Some ''a'') ''x'', Arrives 2 (Some ''b'') ''y'', Logs 1 None]) = [(1, line)] \<and>
     lr_request_id line = ''b'' \<and>
     lw_running (log_run [Arrives 1 (Some ''a'') ''x'', Arrives 2 (Some ''b'') ''y'', Logs 1 None]) 1 = Some ''a''"
  by (simp add: log_run_def quiet_log_def dispatch_request_id_def filtered_def Let_def)

end
