(* ===== verification/Settings_Loading.thy ===== *)
theory Settings_Loading
  imports Application
begin

text \<open>
  \<open>app/core/config.py\<close> in full: the fields of \<open>Settings\<close> with their defaults, and what an environment must hold
  for them. An environment is the variables as the settings library merges them, by exact name; the
  library's conversion of a text to a flag and to a number are arguments. A process that starts from
  an environment starts from the settings read here.
\<close>

record full_settings = app_settings +
  APP_NAME :: string
  APP_VERSION :: string
  LOG_LEVEL :: string
  SECRET_KEY :: string
  ALGORITHM :: string

record text_conversions =
  text_flag :: "string \<Rightarrow> bool option"
  text_number :: "string \<Rightarrow> int option"

type_synonym environment = "string \<Rightarrow> string option"

text \<open>A field: the name and either what it is or nothing when the variable is missing or cannot be read.\<close>

definition with_default :: "environment \<Rightarrow> string \<Rightarrow> 'a \<Rightarrow> (string \<Rightarrow> 'a option) \<Rightarrow> 'a option" where
  "with_default env name d read = (case env name of None \<Rightarrow> Some d | Some text \<Rightarrow> read text)"

definition mandatory :: "environment \<Rightarrow> string \<Rightarrow> (string \<Rightarrow> 'a option) \<Rightarrow> 'a option" where
  "mandatory env name read = Option.bind (env name) read"

definition APP_ENVS :: "string list" where
  "APP_ENVS = [''dev'', ''prod'', ''test'']"

definition read_app_env :: "string \<Rightarrow> string option" where
  "read_app_env s = (if s \<in> set APP_ENVS then Some s else None)"

definition read_prefix :: "string \<Rightarrow> string option" where
  "read_prefix s = (case usable_prefix s of Inl message \<Rightarrow> None | Inr value \<Rightarrow> Some value)"

text \<open>The names of the fields that are refused, in the order of the class.\<close>

definition settings_problems :: "text_conversions \<Rightarrow> environment \<Rightarrow> string list" where
  "settings_problems tc env =
     (let flag = (\<lambda>name. (name, with_default env name False (text_flag tc) = None));
          number = (\<lambda>name. (name, with_default env name 0 (text_number tc) = None))
      in map fst (filter snd
        [(''APP_ENV'', with_default env ''APP_ENV'' ''dev'' read_app_env = None),
         flag ''DEBUG'',
         (''SECRET_KEY'', mandatory env ''SECRET_KEY'' Some = None),
         number ''ACCESS_TOKEN_EXPIRE_MINUTES'', number ''DRAIN_DEFAULT_TIMEOUT_SECONDS'', flag ''DRY_RUN_MODE'',
         (''PROVENANCE_ANNOTATION_PREFIX'', mandatory env ''PROVENANCE_ANNOTATION_PREFIX'' read_prefix = None)]))"

definition setting_or :: "'a option \<Rightarrow> 'a \<Rightarrow> 'a" where
  "setting_or x d = (case x of None \<Rightarrow> d | Some v \<Rightarrow> v)"

definition make_settings :: "text_conversions \<Rightarrow> environment \<Rightarrow> string list + full_settings" where
  "make_settings tc env =
     (let problems = settings_problems tc env;
          text = (\<lambda>name d. setting_or (env name) d);
          flag = (\<lambda>name. setting_or (with_default env name False (text_flag tc)) False);
          number = (\<lambda>name d. setting_or (with_default env name d (text_number tc)) d)
      in if problems \<noteq> [] then Inl problems
         else Inr \<lparr>DRY_RUN_MODE = flag ''DRY_RUN_MODE'',
                   KUBECONFIG_BASE_PATH = text ''KUBECONFIG_BASE_PATH'' ''data/kubeconfigs'',
                   USERS_JSON_PATH = text ''USERS_JSON_PATH'' ''data/users.json'',
                   ACCESS_TOKEN_EXPIRE_MINUTES = number ''ACCESS_TOKEN_EXPIRE_MINUTES'' 60,
                   DRAIN_DEFAULT_TIMEOUT_SECONDS = number ''DRAIN_DEFAULT_TIMEOUT_SECONDS'' 25,
                   PROVENANCE_ANNOTATION_PREFIX = text ''PROVENANCE_ANNOTATION_PREFIX'' [],
                   DEPLOY_SERVICE_URL = text ''DEPLOY_SERVICE_URL'' ''http://localhost:8001'',
                   DEPLOY_SERVICE_USERNAME = text ''DEPLOY_SERVICE_USERNAME'' ''cluster-service'',
                   DEPLOY_SERVICE_PASSWORD = text ''DEPLOY_SERVICE_PASSWORD'' [],
                   DEPLOY_SERVICE_TOKEN = text ''DEPLOY_SERVICE_TOKEN'' [],
                   APP_ENV = text ''APP_ENV'' ''dev'', DEBUG = flag ''DEBUG'',
                   APP_NAME = text ''APP_NAME'' ''Cluster Service'', APP_VERSION = text ''APP_VERSION'' ''0.2.0'',
                   LOG_LEVEL = text ''LOG_LEVEL'' ''INFO'', SECRET_KEY = text ''SECRET_KEY'' [],
                   ALGORITHM = text ''ALGORITHM'' ''HS256''\<rparr>)"

text \<open>A process from its environment to its first request.\<close>

definition start_process ::
  "text_conversions \<Rightarrow> environment \<Rightarrow> engines \<Rightarrow> (users_world, full_settings \<times> page list) call" where
  "start_process tc env eng =
     (case make_settings tc env of
        Inl problems \<Rightarrow> raise_io (PyError ''ValidationError'')
      | Inr st \<Rightarrow> bind_io (start_service eng (app_settings.truncate st)) (\<lambda>pages. return_io (st, pages)))"

section \<open>Properties\<close>

lemma make_settings_Inr:
  assumes "make_settings tc env = Inr st"
  shows "settings_problems tc env = []" and "APP_ENV st = setting_or (env ''APP_ENV'') ''dev''"
    and "PROVENANCE_ANNOTATION_PREFIX st = setting_or (env ''PROVENANCE_ANNOTATION_PREFIX'') []"
    and "SECRET_KEY st = setting_or (env ''SECRET_KEY'') []"
    and "DRY_RUN_MODE st = setting_or (with_default env ''DRY_RUN_MODE'' False (text_flag tc)) False"
  using assms by (auto simp: make_settings_def Let_def split: if_splits)

lemma usable_prefix_Inr: "usable_prefix s = Inr v \<longleftrightarrow> v = s \<and> is_dns_subdomain s \<and> \<not> is_reserved_domain s"
  by (auto simp: usable_prefix_def)

lemma settings_problems_fields:
  assumes "settings_problems tc env = []"
  shows "with_default env ''APP_ENV'' ''dev'' read_app_env \<noteq> None" and "mandatory env ''SECRET_KEY'' Some \<noteq> None"
    and "mandatory env ''PROVENANCE_ANNOTATION_PREFIX'' read_prefix \<noteq> None"
proof -
  have "filter snd problems = [] \<Longrightarrow> (name, True) \<notin> set problems" for problems :: "(string \<times> bool) list" and name
    by (auto simp: filter_empty_conv)
  note no_problem = this
  show "with_default env ''APP_ENV'' ''dev'' read_app_env \<noteq> None"
    using no_problem[of _ "''APP_ENV''"] assms unfolding settings_problems_def Let_def map_is_Nil_conv by fastforce
  show "mandatory env ''SECRET_KEY'' Some \<noteq> None"
    using no_problem[of _ "''SECRET_KEY''"] assms unfolding settings_problems_def Let_def map_is_Nil_conv by fastforce
  show "mandatory env ''PROVENANCE_ANNOTATION_PREFIX'' read_prefix \<noteq> None"
    using no_problem[of _ "''PROVENANCE_ANNOTATION_PREFIX''"] assms
    unfolding settings_problems_def Let_def map_is_Nil_conv by fastforce
qed

lemma settings_problems_Nil:
  assumes "settings_problems tc env = []"
  shows "setting_or (env ''APP_ENV'') ''dev'' \<in> set APP_ENVS"
    and "env ''SECRET_KEY'' \<noteq> None"
    and "\<exists>s. env ''PROVENANCE_ANNOTATION_PREFIX'' = Some s \<and> is_dns_subdomain s \<and> \<not> is_reserved_domain s"
proof -
  note fields = settings_problems_fields[OF assms]
  show "setting_or (env ''APP_ENV'') ''dev'' \<in> set APP_ENVS"
    using fields(1)
    by (cases "env ''APP_ENV''") (auto simp: with_default_def read_app_env_def setting_or_def APP_ENVS_def split: if_splits)
  show "env ''SECRET_KEY'' \<noteq> None" using fields(2) by (auto simp: mandatory_def)
  obtain s where "env ''PROVENANCE_ANNOTATION_PREFIX'' = Some s" "read_prefix s \<noteq> None"
    using fields(3) by (cases "env ''PROVENANCE_ANNOTATION_PREFIX''") (auto simp: mandatory_def)
  then show "\<exists>s. env ''PROVENANCE_ANNOTATION_PREFIX'' = Some s \<and> is_dns_subdomain s \<and> \<not> is_reserved_domain s"
    by (auto simp: read_prefix_def usable_prefix_Inr split: sum.splits)
qed

text \<open>C33: a process that comes up from its environment runs under one of the three environment names, exactly
  as written, with a secret that was given and a provenance prefix that is an unreserved DNS subdomain; in
  dry-run mode its environment is not production, so no spelling of the variables serves dry-run
  answers as production ones; and the users file it read was valid.\<close>

theorem started_process_is_configured:
  assumes "cache_inv eng (uw_path w) (uw_cache w)" and "start_process tc env eng w = (Inr (st, pages), w')"
  shows "APP_ENV st \<in> {''dev'', ''prod'', ''test''} \<and> env ''SECRET_KEY'' = Some (SECRET_KEY st) \<and>
    is_dns_subdomain (PROVENANCE_ANNOTATION_PREFIX st) \<and> \<not> is_reserved_domain (PROVENANCE_ANNOTATION_PREFIX st) \<and>
    (DRY_RUN_MODE st \<longrightarrow> APP_ENV st \<in> {''dev'', ''test''}) \<and>
    (\<exists>doc. answer eng (uw_path w) = Inr doc)"
proof -
  from assms(2) have st: "make_settings tc env = Inr st"
    and run: "start_service eng (app_settings.truncate st) w = (Inr pages, w')"
    by (auto simp: start_process_def bind_io_def raise_io_def return_io_def split: sum.splits prod.splits)
  note problems = settings_problems_Nil[OF make_settings_Inr(1)[OF st]]
  have "load_call eng w = (answer eng (uw_path w), snd (load_call eng w))"
    using load_call_eq[OF assms(1)] by (metis snd_conv)
  with run have valid: "\<exists>doc. answer eng (uw_path w) = Inr doc"
    and guarded: "guard_dry_run (app_settings.truncate st) = Inr ()"
    by (auto simp: start_service_def create_app_def bind_io_def lift_io_def return_io_def raise_io_def
        split: sum.splits prod.splits)
  from guarded have "DRY_RUN_MODE st \<longrightarrow> APP_ENV st \<noteq> ''prod''"
    by (auto simp: guard_dry_run_def app_settings.defs split: if_splits)
  moreover have "APP_ENV st \<in> {''dev'', ''prod'', ''test''}"
    using problems(1) make_settings_Inr(2)[OF st] by (auto simp: APP_ENVS_def)
  moreover obtain key where "env ''SECRET_KEY'' = Some key" using problems(2) by blast
  moreover obtain prefix_text where "env ''PROVENANCE_ANNOTATION_PREFIX'' = Some prefix_text"
    "is_dns_subdomain prefix_text" "\<not> is_reserved_domain prefix_text" using problems(3) by blast
  ultimately show ?thesis
    using valid make_settings_Inr(3,4)[OF st] by (auto simp: setting_or_def)
qed

text \<open>A login without a \<open>next\<close> leads to the docs page, which a process without \<open>DEBUG\<close> does not have.\<close>

lemma default_login_target_is_missing:
  assumes "ascii_transparent decode" and "create_app st = Inr pages" and "\<not> DEBUG st"
  shows "safe_next_path decode (Some ''/docs'') ''/docs'' = ''/docs'' \<and> Docs \<notin> set pages"
proof -
  have "unquote decode ''/docs'' = ''/docs''" by (rule unquote_plain[OF assms(1)]) simp
  with assms(2,3) show ?thesis
    by (auto simp: create_app_def safe_next_path_def guard_refuses_iff local_path_def Let_def split: sum.splits)
qed

definition smallest_environment :: environment where
  "smallest_environment = [''SECRET_KEY'' \<mapsto> ''s'', ''PROVENANCE_ANNOTATION_PREFIX'' \<mapsto> ''a.io'']"

definition plain_texts :: text_conversions where
  "plain_texts = \<lparr>text_flag = (\<lambda>s. if s = ''true'' then Some True else None), text_number = (\<lambda>s. None)\<rparr>"

lemma smallest_environment_suffices: "\<exists>st. make_settings plain_texts smallest_environment = Inr st \<and> \<not> DRY_RUN_MODE st"
proof -
  have "usable_prefix ''a.io'' = Inr ''a.io''" by code_simp
  then have "settings_problems plain_texts smallest_environment = []"
    by (simp add: settings_problems_def with_default_def mandatory_def smallest_environment_def read_prefix_def
        read_app_env_def APP_ENVS_def Let_def)
  then show ?thesis
    by (simp add: make_settings_def with_default_def smallest_environment_def setting_or_def Let_def)
qed

lemma started_process_is_configured_witness:
  "\<exists>st pages w'. start_process plain_texts smallest_environment sample_engines sample_world = (Inr (st, pages), w') \<and>
     APP_ENV st \<in> {''dev'', ''prod'', ''test''} \<and> is_dns_subdomain (PROVENANCE_ANNOTATION_PREFIX st)"
proof -
  obtain st where st: "make_settings plain_texts smallest_environment = Inr st" "\<not> DRY_RUN_MODE st"
    using smallest_environment_suffices by blast
  obtain v where "load_call sample_engines sample_world = (answer sample_engines (uw_path sample_world), v)"
    using load_call_eq[OF sample_world_ok(1)] .
  then obtain pages where "start_process plain_texts smallest_environment sample_engines sample_world = (Inr (st, pages), v)"
    using st sample_world_ok(2)
    by (simp add: start_process_def start_service_def bind_io_def lift_io_def create_app_def guard_dry_run_def
        app_settings.defs return_io_def)
  with started_process_is_configured[OF sample_world_ok(1) this] show ?thesis by blast
qed

end
