(* ===== verification/Findings.thy ===== *)
theory Findings
  imports Application Upstream_Properties End_To_End Node_Properties Namespace_Properties Viewer_Login Token_Machine
    Live_Proxy Request_Log Settings_Loading
begin

text \<open>
  Behaviour of the code that its comments, its documentation or its own intent do not promise, each as
  a lemma on the model. Others are properties or lemmas of the theories they concern:
  \<open>dry_drain_refused_cordons\<close>, \<open>empty_edit_answers_nothing\<close>, \<open>inert_rule_is_accepted\<close>,
  \<open>duplicate_trigger_is_refused\<close>, \<open>unreadable_error_escapes\<close>, \<open>configured_token_is_never_sent\<close>,
  \<open>empty_header_is_echoed\<close>, \<open>viewer_bounces_without_scope\<close>, \<open>viewer_rewrites_log_text\<close>,
  \<open>last_error_is_not_escaped\<close>, \<open>renewals_overlap\<close>, \<open>failed_login_leaves_its_token\<close>, \<open>log_line_of_another_request\<close>,
  \<open>default_login_target_is_missing\<close>, \<open>documented_trigger_is_no_route\<close>, \<open>second_lead_is_dropped\<close>.
\<close>

text \<open>The patterns are anchored with \<open>$\<close>, which also matches before a final newline: a key whose prefix is
  a reserved domain and a newline is neither malformed nor reserved.\<close>

lemma newline_key_passes: "check_label_keys [''kubernetes.io'' @ [newline] @ ''/x''] = Inr ()"
  by code_simp

text \<open>A users file that is not UTF-8 raises something else than the \<open>UsersDocumentError\<close> promised for any
  problem, so the startup check and the command-line check end in a traceback.\<close>

lemma undecodable_file_escapes:
  "read_users_document eng (File s NotUtf8) = Inl (OtherError (PyError ''UnicodeDecodeError''))"
  "check_users_lines eng path (File s NotUtf8) = Inl (PyError ''UnicodeDecodeError'')"
  by (simp_all add: read_users_document_def read_text_def check_users_lines_def)

end
