(* ===== verification/Live_Kube.thy ===== *)
theory Live_Kube
  imports Kube_Client
begin

text \<open>
  \<open>call_kube\<close> against real clusters: a repository, the factory building a client from the configuration it finds
  (\<open>get_core_v1\<close>), the operation, and \<open>KubeClientFactory.release\<close>. The world keeps what a call may leave behind: the CA
  files, and for every \<open>ApiClient\<close> that was built whether its pool was cleared and whether it was closed. The rest of
  the world belongs to the SDK, which is the record \<open>kube_sdk\<close>: the operations of a client, loading a
  kubeconfig, clearing and closing, which may raise.
\<close>

record 'w live_world =
  lw_cas :: ca_state
  lw_built :: "api_client list"     \<comment> \<open>a client is its index here\<close>
  lw_cleared :: "nat list"
  lw_closed :: "nat list"
  lw_rest :: 'w

record 'w kube_sdk =
  sdk_load_kubeconfig :: "'w \<Rightarrow> string \<Rightarrow> string option"
  sdk_core_v1 :: "api_client \<Rightarrow> 'w core_v1_api"
  sdk_clear_pool :: "api_client \<Rightarrow> ('w, unit) call"
  sdk_close :: "api_client \<Rightarrow> ('w, unit) call"

definition on_rest :: "('w, 'a) call \<Rightarrow> ('w live_world, 'a) call" where
  "on_rest m w = (case m (lw_rest w) of (r, v) \<Rightarrow> (r, w\<lparr>lw_rest := v\<rparr>))"

definition on_rest_may :: "('w, 'a) may_call \<Rightarrow> ('w live_world, 'a) may_call" where
  "on_rest_may m w = (case m (lw_rest w) of None \<Rightarrow> None | Some (r, v) \<Rightarrow> Some (r, w\<lparr>lw_rest := v\<rparr>))"

text \<open>A client: what it was built from, and the handle of its pool; the stand-in has no \<open>api_client\<close>.\<close>

datatype kube_client = StandInClient string | LiveClient nat api_client

definition live_core_v1 ::
  "'w kube_sdk \<Rightarrow> (string \<Rightarrow> string) \<Rightarrow> (string \<Rightarrow> exn + string) \<Rightarrow> settings \<Rightarrow> kube_client_config \<Rightarrow>
   ('w live_world, kube_client) call" where
  "live_core_v1 sdk sha256 b64decode st cfg w =
     (if DRY_RUN_MODE st then (Inr (StandInClient (kcc_cluster_name cfg)), w)
      else (case make_api_client (sdk_load_kubeconfig sdk (lw_rest w)) sha256 b64decode cfg (lw_cas w) of
              (Inl e, s) \<Rightarrow> (Inl e, w\<lparr>lw_cas := s\<rparr>)
            | (Inr c, s) \<Rightarrow> (Inr (LiveClient (length (lw_built w)) c), w\<lparr>lw_cas := s, lw_built := lw_built w @ [c]\<rparr>)))"

definition release_pool :: "'w kube_sdk \<Rightarrow> nat \<Rightarrow> api_client \<Rightarrow> ('w live_world, unit) call" where
  "release_pool sdk h c =
     bind_io (\<lambda>w. on_rest (sdk_clear_pool sdk c) (w\<lparr>lw_cleared := lw_cleared w @ [h]\<rparr>)) (\<lambda>_.
       (\<lambda>w. on_rest (sdk_close sdk c) (w\<lparr>lw_closed := lw_closed w @ [h]\<rparr>)))"

text \<open>\<open>release\<close>: an error of the pool is logged and forgotten.\<close>

definition release_client :: "'w kube_sdk \<Rightarrow> kube_client \<Rightarrow> 'w live_world \<Rightarrow> 'w live_world" where
  "release_client sdk kube w =
     (case kube of StandInClient _ \<Rightarrow> w | LiveClient h c \<Rightarrow> snd (release_pool sdk h c w))"

definition live_access ::
  "'w kube_sdk \<Rightarrow> (string \<Rightarrow> string) \<Rightarrow> (string \<Rightarrow> exn + string) \<Rightarrow> settings \<Rightarrow>
   ('w \<Rightarrow> string \<Rightarrow> exn + kube_client_config) \<Rightarrow> ('w live_world, kube_client) kube_access" where
  "live_access sdk sha256 b64decode st repo =
     \<lparr>get_kube_client_config = (\<lambda>cluster. on_rest (\<lambda>v. (repo v cluster, v))),
      get_core_v1 = live_core_v1 sdk sha256 b64decode st,
      release = release_client sdk\<rparr>"

text \<open>An operation of a service, run on a client of either kind.\<close>

definition run_op ::
  "'w kube_sdk \<Rightarrow> (string \<Rightarrow> 'w core_v1_api) \<Rightarrow> ('w core_v1_api \<Rightarrow> ('w, 'a) may_call) \<Rightarrow> kube_client \<Rightarrow>
   ('w live_world, 'a) may_call" where
  "run_op sdk stand_in op kube =
     on_rest_may (op (case kube of StandInClient cluster \<Rightarrow> stand_in cluster | LiveClient h c \<Rightarrow> sdk_core_v1 sdk c))"

section \<open>What a call leaves behind\<close>

lemma release_pool_effect:
  "lw_cas (snd (release_pool sdk h c w)) = lw_cas w \<and> lw_built (snd (release_pool sdk h c w)) = lw_built w \<and>
   lw_cleared (snd (release_pool sdk h c w)) = lw_cleared w @ [h] \<and>
   (fst (sdk_clear_pool sdk c (lw_rest w)) = Inr () \<longrightarrow> lw_closed (snd (release_pool sdk h c w)) = lw_closed w @ [h])"
  by (auto simp: release_pool_def bind_io_def on_rest_def split: prod.splits sum.splits)

lemma on_rest_may_keeps:
  "on_rest_may m w = Some (r, w') \<Longrightarrow> lw_cas w' = lw_cas w \<and> lw_built w' = lw_built w \<and>
     lw_cleared w' = lw_cleared w \<and> lw_closed w' = lw_closed w \<and> m (lw_rest w) = Some (r, lw_rest w')"
  by (auto simp: on_rest_may_def split: option.splits)

lemma make_api_client_ca:
  assumes "ca_inv sha256 s" and "make_api_client load sha256 b64decode cfg s = (r, s')"
  shows "ca_inv sha256 s'" and "r = Inr (FromToken server token (Some path)) \<Longrightarrow>
    \<exists>ca contents. b64decode (or_else (kcc_ca_data cfg) []) = Inr ca \<and> dict_get (on_disk s') path = Some contents \<and>
      sha256 contents = sha256 ca"
proof -
  have cached: "ca_inv sha256 t" "\<exists>contents. dict_get (on_disk t) p = Some contents \<and> sha256 contents = sha256 ca"
    if "ca_file sha256 ca s = (p, t)" for ca p t
    using ca_file_spec(1,2)[OF assms(1) that] by blast+
  show "ca_inv sha256 s'"
    using assms cached by (auto simp: make_api_client_def from_token_def Let_def split: if_splits sum.splits prod.splits)
  show "\<exists>ca contents. b64decode (or_else (kcc_ca_data cfg) []) = Inr ca \<and> dict_get (on_disk s') path = Some contents \<and>
      sha256 contents = sha256 ca" if "r = Inr (FromToken server token (Some path))"
    using assms(2) that cached
    by (auto simp: make_api_client_def from_token_def from_yaml_def Let_def split: if_splits sum.splits prod.splits option.splits)
qed

text \<open>C14: every client that a call builds is released when the call is over, once, whether its operation answered or
  raised, and after everything the operation did; nothing that goes wrong in the release changes the answer. The CA
  file a client was built with was on disk and held a CA with the configured one's hash, and the cache of CA files
  stays in order.\<close>

theorem client_is_released:
  assumes "call_kube (live_access sdk sha256 b64decode st repo) cluster (run_op sdk stand_in op) w = Some (r, w')"
    and "ca_inv sha256 (lw_cas w)"
  shows "ca_inv sha256 (lw_cas w') \<and>
    ((lw_built w' = lw_built w \<and> lw_cleared w' = lw_cleared w \<and> lw_closed w' = lw_closed w \<and>
      (DRY_RUN_MODE st \<or> (\<exists>e. r = Inl e) \<and> lw_rest w' = lw_rest w)) \<or>
     (\<exists>c v. lw_built w' = lw_built w @ [c] \<and> lw_cleared w' = lw_cleared w @ [length (lw_built w)] \<and>
        \<not> DRY_RUN_MODE st \<and> op (sdk_core_v1 sdk c) (lw_rest w) = Some (r, v) \<and>
        (fst (sdk_clear_pool sdk c v) = Inr () \<longrightarrow> lw_closed w' = lw_closed w @ [length (lw_built w)]) \<and>
        (\<forall>server token path. c = FromToken server token (Some path) \<longrightarrow>
           (\<exists>cfg ca contents. repo (lw_rest w) cluster = Inr cfg \<and> b64decode (or_else (kcc_ca_data cfg) []) = Inr ca \<and>
              dict_get (on_disk (lw_cas w')) path = Some contents \<and> sha256 contents = sha256 ca))))"
proof (cases "repo (lw_rest w) cluster")
  case (Inl e)
  then have "(r, w') = (Inl e, w)"
    using assms(1) by (simp add: call_kube_unknown[of _ _ _ e w] live_access_def on_rest_def)
  with assms(2) show ?thesis by simp
next
  case (Inr cfg)
  have cfg: "get_kube_client_config (live_access sdk sha256 b64decode st repo) cluster w = (Inr cfg, w)"
    using Inr by (simp add: live_access_def on_rest_def)
  show ?thesis
  proof (cases "DRY_RUN_MODE st")
    case True
    then have "get_core_v1 (live_access sdk sha256 b64decode st repo) cfg w = (Inr (StandInClient (kcc_cluster_name cfg)), w)"
      by (simp add: live_access_def live_core_v1_def)
    from call_kube_runs[OF cfg this, of "run_op sdk stand_in op"] assms(1) obtain w1 where
      "run_op sdk stand_in op (StandInClient (kcc_cluster_name cfg)) w = Some (r, w1)" "w' = w1"
      by (auto simp: live_access_def release_client_def split: option.splits)
    then show ?thesis using assms(2) True on_rest_may_keeps[of _ w r w1] by (simp add: run_op_def)
  next
    case False
    obtain b s where make: "make_api_client (sdk_load_kubeconfig sdk (lw_rest w)) sha256 b64decode cfg (lw_cas w) = (b, s)"
      by fastforce
    note cas = make_api_client_ca[OF assms(2) make]
    show ?thesis
    proof (cases b)
      case (Inl e)
      then have "get_core_v1 (live_access sdk sha256 b64decode st repo) cfg w = (Inl e, w\<lparr>lw_cas := s\<rparr>)"
        using False make by (simp add: live_access_def live_core_v1_def)
      then have "(r, w') = (Inl e, w\<lparr>lw_cas := s\<rparr>)"
        using assms(1) cfg by (simp add: call_kube_def bind_may_first)
      with cas(1) show ?thesis by simp
    next
      case (Inr c)
      let ?w = "w\<lparr>lw_cas := s, lw_built := lw_built w @ [c]\<rparr>" and ?h = "length (lw_built w)"
      have "get_core_v1 (live_access sdk sha256 b64decode st repo) cfg w = (Inr (LiveClient ?h c), ?w)"
        using False make Inr by (simp add: live_access_def live_core_v1_def)
      from call_kube_runs[OF cfg this, of "run_op sdk stand_in op"] assms(1) obtain w1 where
        ran: "run_op sdk stand_in op (LiveClient ?h c) ?w = Some (r, w1)"
        and w': "w' = snd (release_pool sdk ?h c w1)"
        by (auto simp: live_access_def release_client_def split: option.splits)
      have w1: "lw_cas w1 = s" "lw_built w1 = lw_built w @ [c]" "lw_cleared w1 = lw_cleared w" "lw_closed w1 = lw_closed w"
        "op (sdk_core_v1 sdk c) (lw_rest w) = Some (r, lw_rest w1)"
        using on_rest_may_keeps[of _ ?w r w1] ran by (simp_all add: run_op_def)
      have "\<exists>ca contents. b64decode (or_else (kcc_ca_data cfg) []) = Inr ca \<and> dict_get (on_disk s) path = Some contents \<and>
          sha256 contents = sha256 ca" if "c = FromToken server token (Some path)" for server token path
        using cas(2)[of server token path] Inr that by simp
      with w1 release_pool_effect[of sdk ?h c w1] cas(1) False \<open>repo (lw_rest w) cluster = Inr cfg\<close> show ?thesis unfolding w'
        by (intro conjI disjI2 exI[of _ c] exI[of _ "lw_rest w1"]) auto
    qed
  qed
qed

definition plain_sdk :: "dry_world kube_sdk" where
  "plain_sdk = \<lparr>sdk_load_kubeconfig = (\<lambda>v path. None), sdk_core_v1 = (\<lambda>c. dry_run_core_v1_api ''c''),
     sdk_clear_pool = (\<lambda>c. raise_io (PyError ''OSError'')), sdk_close = (\<lambda>c. return_io ())\<rparr>"

definition token_repo :: "dry_world \<Rightarrow> string \<Rightarrow> exn + kube_client_config" where
  "token_repo v cluster = Inr \<lparr>kcc_cluster_name = cluster, kcc_source = Json, kcc_kubeconfig_path = None,
     kcc_server = Some ''https://k'', kcc_ca_data = Some ''Q0E='', kcc_token = Some ''t''\<rparr>"

definition live_settings :: settings where
  "live_settings = \<lparr>DRY_RUN_MODE = False, KUBECONFIG_BASE_PATH = [], USERS_JSON_PATH = [],
     ACCESS_TOKEN_EXPIRE_MINUTES = 0, DRAIN_DEFAULT_TIMEOUT_SECONDS = 0, PROVENANCE_ANNOTATION_PREFIX = [],
     DEPLOY_SERVICE_URL = [], DEPLOY_SERVICE_USERNAME = [], DEPLOY_SERVICE_PASSWORD = [], DEPLOY_SERVICE_TOKEN = []\<rparr>"

text \<open>An operation on a client with a CA, whose pool cannot be cleared.\<close>

lemma client_is_released_witness:
  "\<forall>v. \<exists>w'. call_kube (live_access plain_sdk id Inr live_settings token_repo) ''c''
      (run_op plain_sdk dry_run_core_v1_api (\<lambda>_. always (return_io ())))
      \<lparr>lw_cas = \<lparr>ca_files = [], on_disk = [], next_tmp = 0\<rparr>, lw_built = [], lw_cleared = [], lw_closed = [], lw_rest = v\<rparr> =
      Some (Inr (), w') \<and> lw_cleared w' = [0]"
proof
  fix v :: dry_world
  let ?w = "\<lparr>lw_cas = \<lparr>ca_files = [], on_disk = [], next_tmp = 0\<rparr>, lw_built = [], lw_cleared = [], lw_closed = [], lw_rest = v\<rparr>"
  let ?op = "\<lambda>_ :: dry_world core_v1_api. always (return_io ()) :: (dry_world, unit) may_call"
  let ?access = "live_access plain_sdk id Inr live_settings token_repo"
  have "\<exists>w'. call_kube ?access ''c'' (run_op plain_sdk dry_run_core_v1_api ?op) ?w = Some (Inr (), w')"
    by (simp add: call_kube_def bind_may_first live_access_def on_rest_def token_repo_def live_core_v1_def live_settings_def
        make_api_client_def from_token_def ca_file_def or_else_def Let_def finally_may_def run_op_def on_rest_may_def
        always_def return_io_def)
  then obtain w' where run: "call_kube ?access ''c'' (run_op plain_sdk dry_run_core_v1_api ?op) ?w =
      Some (Inr (), w')" ..
  have "ca_inv id (lw_cas ?w)" by (simp add: ca_inv_def)
  from client_is_released[OF run this] have "lw_cleared w' = [0]" by (auto simp: live_settings_def)
  with run show "\<exists>w'. call_kube ?access ''c'' (run_op plain_sdk dry_run_core_v1_api ?op) ?w =
      Some (Inr (), w') \<and> lw_cleared w' = [0]" by blast
qed

end
