(* ===== verification/Routing.thy ===== *)
theory Routing
  imports End_To_End Application
begin

text \<open>
  Which request reaches which endpoint: \<open>app/api/router.py\<close> with the decorators of the nine routers it mounts, and
  the endpoints of \<open>app/main.py\<close> before and after them. A route is a method, a template and an endpoint; the scopes
  are those of the endpoint's token dependency.

  The framework documents that routes are tried in the order they were added and that a parameter takes one
  non-empty segment of the path; \<open>routes_in_order\<close> says this of its \<open>dispatch\<close>, and \<open>first_route\<close> does it.
\<close>

section \<open>The table\<close>

datatype http_method = GET | POST | PATCH

datatype segment = Lit string | Param string

datatype endpoint =
    HealthCheck | DocsPage | RedocPage | TokenEndpoint | LoginPageEndpoint | LoginSubmitEndpoint | MetricsEndpoint
  | Verify | HashPassword | MyScopes
  | TriggerPipeline | CheckRunning | GetPipeline | CancelPipeline | RetryPipeline
  | ListClusters | ListNodes
  | GetNode | CordonNodeRoute | UncordonNodeRoute | CordonNodes | UncordonNodes | DrainNodeRoute
  | NodeLabels | NodeAnnotations | NodeTaints
  | ListPods | ListConfigmaps | GetConfigmap
  | ListNamespaces | GetNamespace | CreateNamespace | NamespaceLabels | NamespaceAnnotations
  | AllCommandsInfo | CommandInfo | ExecuteCommand | CommandStatus | CommandTraceUi | ViewCommand | KillCommand
  | InventoryNode | InventoryMappings | NodeBastion | ClusterBastion

record route =
  rt_method :: http_method
  rt_template :: "segment list"
  rt_endpoint :: endpoint

definition route_at :: "http_method \<Rightarrow> segment list \<Rightarrow> endpoint \<Rightarrow> route" where
  "route_at m t e = \<lparr>rt_method = m, rt_template = t, rt_endpoint = e\<rparr>"

text \<open>\<open>APIRouter(prefix=\<dots>)\<close> and \<open>include_router\<close>.\<close>

definition mounted :: "segment list \<Rightarrow> route list \<Rightarrow> route list" where
  "mounted base routes = map (\<lambda>r. r\<lparr>rt_template := base @ rt_template r\<rparr>) routes"

definition at_verify :: route where
  "at_verify = route_at GET [Lit ''verify''] Verify"

definition at_hash_password :: route where
  "at_hash_password = route_at POST [Lit ''hash-password''] HashPassword"

definition at_my_scopes :: route where
  "at_my_scopes = route_at GET [Lit ''my-scopes''] MyScopes"

definition auth_router :: "route list" where
  "auth_router = mounted [Lit ''auth'']
     [at_verify, at_hash_password, at_my_scopes]"

definition at_trigger_pipeline :: route where
  "at_trigger_pipeline = route_at POST [] TriggerPipeline"

definition at_check_running :: route where
  "at_check_running = route_at POST [Lit ''check-running''] CheckRunning"

definition at_get_pipeline :: route where
  "at_get_pipeline = route_at GET [Param ''pipeline_id''] GetPipeline"

definition at_cancel_pipeline :: route where
  "at_cancel_pipeline = route_at POST [Param ''pipeline_id'', Lit ''cancel''] CancelPipeline"

definition at_retry_pipeline :: route where
  "at_retry_pipeline = route_at POST [Param ''pipeline_id'', Lit ''retry''] RetryPipeline"

definition deploy_router :: "route list" where
  "deploy_router = mounted [Lit ''deploy'']
     [at_trigger_pipeline, at_check_running, at_get_pipeline, at_cancel_pipeline, at_retry_pipeline]"

definition at_list_clusters :: route where
  "at_list_clusters = route_at GET [] ListClusters"

definition at_list_nodes :: route where
  "at_list_nodes = route_at GET [Param ''cluster'', Lit ''nodes''] ListNodes"

definition clusters_router :: "route list" where
  "clusters_router = mounted [Lit ''clusters'']
     [at_list_clusters, at_list_nodes]"

definition at_get_node :: route where
  "at_get_node = route_at GET [Param ''cluster'', Lit ''nodes'', Param ''node''] GetNode"

definition at_cordon_node_route :: route where
  "at_cordon_node_route = route_at POST [Param ''cluster'', Lit ''nodes'', Param ''node'', Lit ''cordon''] CordonNodeRoute"

definition at_uncordon_node_route :: route where
  "at_uncordon_node_route = route_at POST [Param ''cluster'', Lit ''nodes'', Param ''node'', Lit ''uncordon''] UncordonNodeRoute"

definition at_cordon_nodes :: route where
  "at_cordon_nodes = route_at POST [Param ''cluster'', Lit ''nodes:cordon''] CordonNodes"

definition at_uncordon_nodes :: route where
  "at_uncordon_nodes = route_at POST [Param ''cluster'', Lit ''nodes:uncordon''] UncordonNodes"

definition at_drain_node_route :: route where
  "at_drain_node_route = route_at POST [Param ''cluster'', Lit ''nodes'', Param ''node'', Lit ''drain''] DrainNodeRoute"

definition at_node_labels :: route where
  "at_node_labels = route_at PATCH [Param ''cluster'', Lit ''nodes'', Param ''node'', Lit ''labels''] NodeLabels"

definition at_node_annotations :: route where
  "at_node_annotations = route_at PATCH [Param ''cluster'', Lit ''nodes'', Param ''node'', Lit ''annotations''] NodeAnnotations"

definition at_node_taints :: route where
  "at_node_taints = route_at PATCH [Param ''cluster'', Lit ''nodes'', Param ''node'', Lit ''taints''] NodeTaints"

definition nodes_router :: "route list" where
  "nodes_router = mounted [Lit ''clusters'']
     [at_get_node, at_cordon_node_route, at_uncordon_node_route, at_cordon_nodes, at_uncordon_nodes,
      at_drain_node_route, at_node_labels, at_node_annotations, at_node_taints]"

definition at_list_pods :: route where
  "at_list_pods = route_at GET [Param ''cluster'', Lit ''pods''] ListPods"

definition pods_router :: "route list" where
  "pods_router = mounted [Lit ''clusters'']
     [at_list_pods]"

definition at_list_configmaps :: route where
  "at_list_configmaps = route_at GET [Param ''cluster'', Lit ''configmaps''] ListConfigmaps"

definition at_get_configmap :: route where
  "at_get_configmap = route_at GET [Param ''cluster'', Lit ''namespaces'', Param ''namespace'', Lit ''configmaps'', Param ''name''] GetConfigmap"

definition configmaps_router :: "route list" where
  "configmaps_router = mounted [Lit ''clusters'']
     [at_list_configmaps, at_get_configmap]"

definition at_list_namespaces :: route where
  "at_list_namespaces = route_at GET [Param ''cluster'', Lit ''namespaces''] ListNamespaces"

definition at_get_namespace :: route where
  "at_get_namespace = route_at GET [Param ''cluster'', Lit ''namespaces'', Param ''name''] GetNamespace"

definition at_create_namespace :: route where
  "at_create_namespace = route_at POST [Param ''cluster'', Lit ''namespaces''] CreateNamespace"

definition at_namespace_labels :: route where
  "at_namespace_labels = route_at PATCH [Param ''cluster'', Lit ''namespaces'', Param ''name'', Lit ''labels''] NamespaceLabels"

definition at_namespace_annotations :: route where
  "at_namespace_annotations = route_at PATCH [Param ''cluster'', Lit ''namespaces'', Param ''name'', Lit ''annotations''] NamespaceAnnotations"

definition namespaces_router :: "route list" where
  "namespaces_router = mounted [Lit ''clusters'']
     [at_list_namespaces, at_get_namespace, at_create_namespace, at_namespace_labels, at_namespace_annotations]"

definition at_all_commands_info :: route where
  "at_all_commands_info = route_at GET [Lit ''info''] AllCommandsInfo"

definition at_command_info :: route where
  "at_command_info = route_at GET [Param ''command_name'', Lit ''info''] CommandInfo"

definition at_execute_command :: route where
  "at_execute_command = route_at POST [Lit ''execution''] ExecuteCommand"

definition at_command_status :: route where
  "at_command_status = route_at GET [Lit ''execution'', Param ''command_id''] CommandStatus"

definition at_command_trace_ui :: route where
  "at_command_trace_ui = route_at GET [Lit ''execution'', Param ''command_id'', Lit ''trace'', Lit ''ui''] CommandTraceUi"

definition at_view_command :: route where
  "at_view_command = route_at GET [Lit ''execution'', Param ''command_id'', Lit ''view''] ViewCommand"

definition at_kill_command :: route where
  "at_kill_command = route_at POST [Lit ''execution'', Param ''command_id'', Lit ''kill''] KillCommand"

definition command_router :: "route list" where
  "command_router = mounted [Lit ''command'']
     [at_all_commands_info, at_command_info, at_execute_command, at_command_status, at_command_trace_ui,
      at_view_command, at_kill_command]"

definition at_inventory_node :: route where
  "at_inventory_node = route_at GET [Lit ''nodes'', Param ''node_name''] InventoryNode"

definition at_inventory_mappings :: route where
  "at_inventory_mappings = route_at GET [Lit ''mappings''] InventoryMappings"

definition at_node_bastion :: route where
  "at_node_bastion = route_at GET [Lit ''nodes'', Param ''node_name'', Lit ''bastion-resolution''] NodeBastion"

definition at_cluster_bastion :: route where
  "at_cluster_bastion = route_at GET [Lit ''cluster'', Lit ''bastion-resolution''] ClusterBastion"

definition inventory_router :: "route list" where
  "inventory_router = mounted [Lit ''inventory'']
     [at_inventory_node, at_inventory_mappings, at_node_bastion, at_cluster_bastion]"

definition v1_router :: "route list" where
  "v1_router = mounted [Lit ''api'', Lit ''v1'']
     (auth_router @ deploy_router @ clusters_router @ nodes_router @ pods_router @ configmaps_router
      @ namespaces_router @ command_router @ inventory_router)"

text \<open>The routes of the application, as \<open>create_app\<close> adds them.\<close>

definition docs_routes :: "route list" where
  "docs_routes = [route_at GET [Lit ''docs''] DocsPage, route_at GET [Lit ''redoc''] RedocPage]"

definition app_routes :: "app_settings \<Rightarrow> route list" where
  "app_routes st =
     [route_at GET [Lit ''health''] HealthCheck]
     @ (if DEBUG st then docs_routes else [])
     @ [route_at POST [Lit ''token''] TokenEndpoint, route_at GET [Lit ''login''] LoginPageEndpoint,
        route_at POST [Lit ''login''] LoginSubmitEndpoint]
     @ v1_router @ [route_at GET [Lit ''metrics''] MetricsEndpoint]"

section \<open>Finding a route\<close>

fun match_template :: "segment list \<Rightarrow> string list \<Rightarrow> string list option" where
  "match_template [] [] = Some []"
| "match_template (Lit a # t) (s # p) = (if a = s then match_template t p else None)"
| "match_template (Param x # t) (s # p) = (if s = [] then None else map_option ((#) s) (match_template t p))"
| "match_template _ _ = None"

text \<open>The segments of a path that starts with a slash.\<close>

definition segments :: "string \<Rightarrow> string list option" where
  "segments path = (case split_on CHR ''/'' path of [] # p \<Rightarrow> Some p | _ \<Rightarrow> None)"

fun first_route :: "route list \<Rightarrow> http_method \<Rightarrow> string \<Rightarrow> (endpoint \<times> string list) option" where
  "first_route [] m path = None"
| "first_route (r # rs) m path =
     (case Option.bind (segments path) (match_template (rt_template r)) of
        Some args \<Rightarrow> (if rt_method r = m then Some (rt_endpoint r, args) else first_route rs m path)
      | None \<Rightarrow> first_route rs m path)"

definition routes_in_order ::
  "(http_method \<Rightarrow> string \<Rightarrow> (endpoint \<times> string list) option) \<Rightarrow> route list \<Rightarrow> bool" where
  "routes_in_order dispatch routes \<longleftrightarrow> (\<forall>m path. dispatch m path = first_route routes m path)"

text \<open>The address of a route with its parameters filled in.\<close>

fun fill :: "segment list \<Rightarrow> string list \<Rightarrow> string list" where
  "fill [] args = []"
| "fill (Lit a # t) args = a # fill t args"
| "fill (Param x # t) (s # args) = s # fill t args"
| "fill (Param x # t) [] = fill t []"

definition address :: "segment list \<Rightarrow> string list \<Rightarrow> string" where
  "address t args = concat (map (\<lambda>s. CHR ''/'' # s) (fill t args))"

fun param_count :: "segment list \<Rightarrow> nat" where
  "param_count [] = 0"
| "param_count (Lit a # t) = param_count t"
| "param_count (Param x # t) = param_count t + 1"

definition segment_ok :: "string \<Rightarrow> bool" where
  "segment_ok s \<longleftrightarrow> s \<noteq> [] \<and> CHR ''/'' \<notin> set s"

section \<open>Two routes, one path\<close>

fun overlap :: "segment list \<Rightarrow> segment list \<Rightarrow> bool" where
  "overlap [] [] = True"
| "overlap (Lit a # t) (Lit b # u) = (a = b \<and> overlap t u)"
| "overlap (_ # t) (_ # u) = overlap t u"
| "overlap _ _ = False"

lemma match_Nil: "match_template [] p = Some a \<Longrightarrow> p = []"
  by (cases p) simp_all

lemma match_Cons:
  assumes "match_template (x # t) p = Some a"
  obtains s p' a' where "p = s # p'" and "match_template t p' = Some a'" and "\<forall>c. x = Lit c \<longrightarrow> c = s"
proof (cases p)
  case Nil
  with assms show ?thesis by (cases x) simp_all
next
  case (Cons s p')
  with assms obtain a' where "match_template t p' = Some a'" "\<forall>c. x = Lit c \<longrightarrow> c = s"
    by (cases x) (auto split: if_splits)
  with that[OF Cons] show ?thesis .
qed

lemma matches_overlap:
  "match_template t p = Some a \<Longrightarrow> match_template u p = Some b \<Longrightarrow> overlap t u"
proof (induction t arbitrary: u p a b)
  case Nil
  then show ?case by (cases u) (auto dest!: match_Nil elim: match_Cons)
next
  case (Cons x t)
  from Cons.prems(1) obtain s p' a' where p: "p = s # p'" "match_template t p' = Some a'" "\<forall>c. x = Lit c \<longrightarrow> c = s"
    by (rule match_Cons)
  show ?case
  proof (cases u)
    case Nil
    with Cons.prems(2) p(1) show ?thesis by simp
  next
    case (Cons y u')
    then obtain s' q b' where q: "p = s' # q" "match_template u' q = Some b'" "\<forall>c. y = Lit c \<longrightarrow> c = s'"
      using Cons.prems(2) match_Cons[of y u' p b] by metis
    then have "overlap t u'" using Cons.IH p(1,2) by auto
    with p q Cons show ?thesis by (cases x; cases y) auto
  qed
qed

definition lit_ok :: "segment \<Rightarrow> bool" where
  "lit_ok s = (case s of Lit a \<Rightarrow> CHR ''/'' \<notin> set a | Param _ \<Rightarrow> True)"

lemma fill_matches:
  "length args = param_count t \<Longrightarrow> list_all segment_ok args \<Longrightarrow> match_template t (fill t args) = Some args"
  by (induction t args rule: fill.induct) (auto simp: segment_ok_def)

lemma fill_segments:
  "length args = param_count t \<Longrightarrow> list_all segment_ok args \<Longrightarrow> list_all lit_ok t \<Longrightarrow>
   list_all (\<lambda>s. CHR ''/'' \<notin> set s) (fill t args)"
  by (induction t args rule: fill.induct) (auto simp: segment_ok_def lit_ok_def)

lemma split_slashes:
  "list_all (\<lambda>s. CHR ''/'' \<notin> set s) p \<Longrightarrow>
   split_on CHR ''/'' (concat (map (\<lambda>s. CHR ''/'' # s) p)) = [] # p"
proof (induction p)
  case (Cons s p)
  show ?case
  proof (cases p)
    case Nil
    with Cons.prems show ?thesis by (simp add: split_on_no_sep)
  next
    case (Cons s' p')
    have "split_on CHR ''/'' (s @ concat (map (\<lambda>s. CHR ''/'' # s) p)) = s # p"
      using Cons.IH Cons.prems \<open>p = _\<close> by (simp add: split_on_append)
    then show ?thesis by simp
  qed
qed simp

lemma segments_address:
  "length args = param_count t \<Longrightarrow> list_all segment_ok args \<Longrightarrow> list_all lit_ok t \<Longrightarrow>
   segments (address t args) = Some (fill t args)"
  using split_slashes[OF fill_segments] by (simp add: segments_def address_def)


section \<open>The table is unambiguous\<close>

definition clash :: "route \<Rightarrow> route \<Rightarrow> bool" where
  "clash r s \<longleftrightarrow> rt_method r = rt_method s \<and> overlap (rt_template r) (rt_template s)"

text \<open>No route takes a request from a later one, but for one pair.\<close>

definition may_shadow :: "endpoint \<Rightarrow> endpoint \<Rightarrow> bool" where
  "may_shadow e f \<longleftrightarrow> e = CommandInfo \<and> f = CommandStatus"

fun in_good_order :: "route list \<Rightarrow> bool" where
  "in_good_order [] = True"
| "in_good_order (r # rs) =
     (list_all (\<lambda>s. clash r s \<longrightarrow> may_shadow (rt_endpoint r) (rt_endpoint s)) rs \<and> in_good_order rs)"

definition template_ok :: "route \<Rightarrow> bool" where
  "template_ok r \<longleftrightarrow> list_all lit_ok (rt_template r) \<and>
     (rt_endpoint r = CommandInfo \<longrightarrow> rt_template r =
       [Lit ''api'', Lit ''v1'', Lit ''command'', Param ''command_name'', Lit ''info'']) \<and>
     (rt_endpoint r = CommandStatus \<longrightarrow> rt_template r =
       [Lit ''api'', Lit ''v1'', Lit ''command'', Lit ''execution'', Param ''command_id''])"

text \<open>The two tables, with and without the documentation pages.\<close>

definition table :: "bool \<Rightarrow> route list" where
  "table debug = [route_at GET [Lit ''health''] HealthCheck] @ (if debug then docs_routes else [])
     @ [route_at POST [Lit ''token''] TokenEndpoint, route_at GET [Lit ''login''] LoginPageEndpoint,
        route_at POST [Lit ''login''] LoginSubmitEndpoint]
     @ v1_router @ [route_at GET [Lit ''metrics''] MetricsEndpoint]"

lemma app_routes_table: "app_routes st = table (DEBUG st)"
  by (simp add: app_routes_def table_def)

lemma tables_ordered: "in_good_order (table debug)"
proof -
  have "in_good_order (table True)" and "in_good_order (table False)" by code_simp+
  then show ?thesis by (cases debug) simp_all
qed

lemma table_templates: "list_all template_ok (table debug)"
proof -
  have "list_all template_ok (table True)" and "list_all template_ok (table False)" by code_simp+
  then show ?thesis by (cases debug) simp_all
qed

lemma first_route_finds:
  assumes "r \<in> set routes" and "segments path = Some p" and "match_template (rt_template r) p = Some args"
    and "in_good_order routes"
    and "\<And>s b. may_shadow (rt_endpoint s) (rt_endpoint r) \<Longrightarrow> s \<in> set routes \<Longrightarrow>
      match_template (rt_template s) p \<noteq> Some b"
  shows "first_route routes (rt_method r) path = Some (rt_endpoint r, args)"
  using assms
proof (induction routes)
  case (Cons s rs)
  show ?case
  proof (cases "s = r")
    case True
    with Cons.prems(2,3) show ?thesis by simp
  next
    case False
    with Cons.prems(1) have r: "r \<in> set rs" by simp
    have rest: "first_route rs (rt_method r) path = Some (rt_endpoint r, args)"
      using Cons.prems(2-5) by (intro Cons.IH[OF r]) auto
    have "match_template (rt_template s) p = Some b \<Longrightarrow> rt_method s \<noteq> rt_method r" for b
    proof
      assume match: "match_template (rt_template s) p = Some b" and "rt_method s = rt_method r"
      then have "clash s r" using matches_overlap[OF match Cons.prems(3)] by (simp add: clash_def)
      with r Cons.prems(4) have "may_shadow (rt_endpoint s) (rt_endpoint r)" by (auto simp: list_all_iff)
      with Cons.prems(5)[of s b] match show False by simp
    qed
    with rest Cons.prems(2) show ?thesis by (auto split: option.split)
  qed
qed simp

text \<open>C6: a request to the address of a route, its parameters filled in with single segments, reaches that route and
  none that was added before it, and the route gets exactly those parameters; with one exception, the
  status of an execution with the id \<open>info\<close>.\<close>

theorem requests_reach_their_route:
  assumes "routes_in_order dispatch (app_routes st)" and "r \<in> set (app_routes st)"
    and "length args = param_count (rt_template r)" and "list_all segment_ok args"
    and "\<not> (rt_endpoint r = CommandStatus \<and> args = [''info''])"
  shows "dispatch (rt_method r) (address (rt_template r) args) = Some (rt_endpoint r, args)"
proof -
  let ?p = "fill (rt_template r) args"
  have templates: "\<forall>s \<in> set (app_routes st). template_ok s"
    using table_templates[of "DEBUG st"] by (simp add: app_routes_table list_all_iff)
  then have t: "list_all lit_ok (rt_template r)" using assms(2) by (auto simp: template_ok_def)
  have "first_route (app_routes st) (rt_method r) (address (rt_template r) args) = Some (rt_endpoint r, args)"
  proof (rule first_route_finds[OF assms(2) segments_address[OF assms(3,4) t] fill_matches[OF assms(3,4)]])
    show "in_good_order (app_routes st)" by (simp add: app_routes_table tables_ordered)
    fix s b
    assume "may_shadow (rt_endpoint s) (rt_endpoint r)" and s: "s \<in> set (app_routes st)"
    then have e: "rt_endpoint s = CommandInfo" "rt_endpoint r = CommandStatus" by (simp_all add: may_shadow_def)
    then have rt: "rt_template s = [Lit ''api'', Lit ''v1'', Lit ''command'', Param ''command_name'', Lit ''info'']"
      "rt_template r = [Lit ''api'', Lit ''v1'', Lit ''command'', Lit ''execution'', Param ''command_id'']"
      using templates s assms(2) by (auto simp: template_ok_def)
    moreover obtain a where "args = [a]" using assms(3) rt(2) by (auto simp: length_Suc_conv)
    ultimately show "match_template (rt_template s) ?p \<noteq> Some b" using e(2) assms(5) by auto
  qed
  with assms(1) show ?thesis by (simp add: routes_in_order_def)
qed

lemma requests_reach_their_route_witness:
  "first_route (app_routes sample_app) POST ''/api/v1/clusters/c/nodes/n1/drain'' = Some (DrainNodeRoute, [''c'', ''n1'']) \<and>
   first_route (app_routes sample_app) GET ''/api/v1/command/execution/info'' = Some (CommandInfo, [''execution''])"
proof -
  let ?r = "route_at POST ([Lit ''api'', Lit ''v1''] @ [Lit ''clusters''] @
    [Param ''cluster'', Lit ''nodes'', Param ''node'', Lit ''drain'']) DrainNodeRoute"
  have "routes_in_order (first_route (app_routes sample_app)) (app_routes sample_app)" by (simp add: routes_in_order_def)
  moreover have "?r \<in> set (app_routes sample_app)"
    by (simp add: app_routes_def v1_router_def nodes_router_def at_drain_node_route_def mounted_def route_at_def)
  moreover have "length [''c'', ''n1''] = param_count (rt_template ?r)" "list_all segment_ok [''c'', ''n1'']"
    by (simp_all add: route_at_def segment_ok_def)
  ultimately have "first_route (app_routes sample_app) (rt_method ?r) (address (rt_template ?r) [''c'', ''n1'']) =
      Some (rt_endpoint ?r, [''c'', ''n1''])"
    by (rule requests_reach_their_route) (simp add: route_at_def)
  moreover have "address (rt_template ?r) [''c'', ''n1''] = ''/api/v1/clusters/c/nodes/n1/drain''" by code_simp
  moreover have "first_route (app_routes sample_app) GET ''/api/v1/command/execution/info'' = Some (CommandInfo, [''execution''])"
    by code_simp
  ultimately show ?thesis by (simp add: route_at_def)
qed

text \<open>The pipeline endpoints are not where the comments of \<open>router.py\<close> and the requests of \<open>rest_client/deploy.http\<close>
  have them.\<close>

lemma documented_trigger_is_no_route: "first_route (app_routes st) POST ''/api/v1/deploy/stage'' = None"
proof -
  have "first_route (table True) POST ''/api/v1/deploy/stage'' = None"
    and "first_route (table False) POST ''/api/v1/deploy/stage'' = None" by code_simp+
  then show ?thesis by (cases "DEBUG st") (simp_all add: app_routes_table)
qed

end
