(* ===== verification/Base64_Js.thy ===== *)
theory Base64_Js
  imports Prelude "HOL-Library.Word" "HOL-Library.Char_ord"
begin

unbundle bit_operations_syntax

text \<open>
  The Base64 module of \<open>app/static/docs-assets/swagger-ui-bundle.js\<close>, the script behind the
  self-hosted \<open>/docs\<close> page (webpack module 67526, the first of the bundle): \<open>byteLength\<close>,
  \<open>toByteArray\<close> and \<open>fromByteArray\<close> with their two helpers. The bundle is minified onto one line,
  so every definition here translates one function of that line.

  A JavaScript number under a bit operator is a 32-bit integer; the code stays below \<open>2 ^ 24\<close>, so
  \<open>>>\<close> is \<open>drop_bit\<close>. Reading past an array gives \<open>undefined\<close>, which a bit operator takes as 0.
  A byte array is a list of \<open>8 word\<close>, writes into a \<open>Uint8Array\<close> keep the low eight bits, and a
  write past its end is dropped. Strings are of characters below 256.
\<close>

section \<open>The tables\<close>

definition alphabet :: string where
  "alphabet = ''ABCDEFGHIJKLMNOPQRSTUVWXYZabcdefghijklmnopqrstuvwxyz0123456789+/''"

text \<open>\<open>i[x]\<close> for the code of \<open>x\<close>, and \<open>a[c]\<close> for the value of a character, where the URL-safe
  variants are accepted too.\<close>

definition code_of :: "32 word \<Rightarrow> char" where
  "code_of x = alphabet ! unat x"

definition value_of :: "char \<Rightarrow> 32 word" where
  "value_of c =
     (if c = CHR ''-'' then 62 else if c = CHR ''_'' then 63
      else (case map_of (zip alphabet [0..<64]) c of None \<Rightarrow> 0 | Some n \<Rightarrow> of_nat n))"

section \<open>Encoding\<close>

definition byte_at :: "8 word list \<Rightarrow> nat \<Rightarrow> 32 word" where
  "byte_at s x = (if x < length s then ucast (s ! x) else 0)"

definition tuple :: "32 word \<Rightarrow> string" where
  "tuple u = [code_of (drop_bit 18 u AND 63), code_of (drop_bit 12 u AND 63),
     code_of (drop_bit 6 u AND 63), code_of (63 AND u)]"

definition triplet :: "8 word list \<Rightarrow> nat \<Rightarrow> 32 word" where
  "triplet s x = (push_bit 16 (byte_at s x) AND 16711680)
     + (push_bit 8 (byte_at s (x + 1)) AND 65280) + (255 AND byte_at s (x + 2))"

function encode_chunk :: "8 word list \<Rightarrow> nat \<Rightarrow> nat \<Rightarrow> string" where
  "encode_chunk s x stop =
     (if x < stop then tuple (triplet s x) @ encode_chunk s (x + 3) stop else [])"
  by pat_completeness auto
termination
  by (relation "measure (\<lambda>(s, x, stop). stop - x)") auto

declare encode_chunk.simps [simp del]

definition MAX_CHUNK :: nat where
  "MAX_CHUNK = 16383"

function encode_chunks :: "8 word list \<Rightarrow> nat \<Rightarrow> nat \<Rightarrow> string" where
  "encode_chunks s x stop =
     (if x < stop
      then encode_chunk s x (if stop < x + MAX_CHUNK then stop else x + MAX_CHUNK)
           @ encode_chunks s (x + MAX_CHUNK) stop
      else [])"
  by pat_completeness auto
termination
  by (relation "measure (\<lambda>(s, x, stop). stop - x)") (auto simp: MAX_CHUNK_def)

declare encode_chunks.simps [simp del]

definition from_byte_array :: "8 word list \<Rightarrow> string" where
  "from_byte_array s =
     (let a = length s; u = a mod 3; chunks = encode_chunks s 0 (a - u)
      in if u = 1
         then (let b = byte_at s (a - 1)
               in chunks @ [code_of (drop_bit 2 b), code_of (push_bit 4 b AND 63)] @ ''=='')
         else if u = 2
         then (let b = push_bit 8 (byte_at s (a - 2)) + byte_at s (a - 1)
               in chunks @ [code_of (drop_bit 10 b), code_of (drop_bit 4 b AND 63),
                            code_of (push_bit 2 b AND 63)] @ ''='')
         else chunks)"

section \<open>Decoding\<close>

datatype js_error = JsError string | RangeError string

text \<open>\<open>getLens\<close>: what precedes the first \<open>=\<close>, and the number of place holders.\<close>

definition get_lens :: "string \<Rightarrow> js_error + nat \<times> nat" where
  "get_lens s =
     (let len = length s
      in if 0 < len mod 4
         then Inl (JsError ''Invalid string. Length must be a multiple of 4'')
         else (let valid = length (takeWhile (\<lambda>c. c \<noteq> CHR ''='') s)
               in Inr (valid, if valid = len then 0 else 4 - valid mod 4)))"

definition byte_length_of :: "nat \<Rightarrow> nat \<Rightarrow> int" where
  "byte_length_of valid holders = 3 * (int valid + int holders) div 4 - int holders"

definition byte_length :: "string \<Rightarrow> js_error + int" where
  "byte_length s =
     (case get_lens s of
        Inl e \<Rightarrow> Inl e | Inr (valid, holders) \<Rightarrow> Inr (byte_length_of valid holders))"

definition value_at :: "string \<Rightarrow> nat \<Rightarrow> 32 word" where
  "value_at s i = (if i < length s then value_of (s ! i) else 0)"

definition quad :: "string \<Rightarrow> nat \<Rightarrow> 32 word" where
  "quad s i = push_bit 18 (value_at s i) OR push_bit 12 (value_at s (i + 1))
     OR push_bit 6 (value_at s (i + 2)) OR value_at s (i + 3)"

definition low_byte :: "32 word \<Rightarrow> 8 word" where
  "low_byte w = ucast (w AND 255)"

text \<open>The loop of \<open>toByteArray\<close>: the bytes it writes, and where \<open>i\<close> stands after it.\<close>

function decode_loop :: "string \<Rightarrow> nat \<Rightarrow> int \<Rightarrow> 8 word list \<times> nat" where
  "decode_loop s i stop =
     (if int i < stop
      then (let w = quad s i; (bytes, j) = decode_loop s (i + 4) stop
            in (low_byte (drop_bit 16 w) # low_byte (drop_bit 8 w) # low_byte w # bytes, j))
      else ([], i))"
  by pat_completeness auto
termination
  by (relation "measure (\<lambda>(s, i, stop). nat (stop - int i))") auto

declare decode_loop.simps [simp del]

definition written_into :: "nat \<Rightarrow> 8 word list \<Rightarrow> 8 word list" where
  "written_into n bytes = take n (bytes @ replicate n 0)"

definition to_byte_array :: "string \<Rightarrow> js_error + 8 word list" where
  "to_byte_array s =
     (case get_lens s of
        Inl e \<Rightarrow> Inl e
      | Inr (valid, holders) \<Rightarrow>
          (let n = byte_length_of valid holders;
               stop = (if 0 < holders then int valid - 4 else int valid);
               (bytes, i) = decode_loop s 0 stop;
               two = (push_bit 2 (value_at s i) OR drop_bit 4 (value_at s (i + 1)));
               one = (push_bit 10 (value_at s i) OR push_bit 4 (value_at s (i + 1))
                      OR drop_bit 2 (value_at s (i + 2)));
               rest = (if holders = 2 then [low_byte two]
                       else if holders = 1 then [low_byte (drop_bit 8 one), low_byte one] else [])
           in if n < 0 then Inl (RangeError ''Invalid typed array length'')
              else Inr (written_into (nat n) (bytes @ rest))))"

section \<open>Encoding without chunks\<close>

text \<open>In one pass, from the words the encoder uses.\<close>

definition group_of :: "8 word \<Rightarrow> 8 word \<Rightarrow> 8 word \<Rightarrow> 32 word" where
  "group_of a b c = push_bit 16 (ucast a) OR push_bit 8 (ucast b) OR ucast c"

definition pair_of :: "8 word \<Rightarrow> 8 word \<Rightarrow> 32 word" where
  "pair_of a b = push_bit 8 (ucast a) OR ucast b"

fun encode_ref :: "8 word list \<Rightarrow> string" where
  "encode_ref [] = []"
| "encode_ref [a] = [code_of (drop_bit 2 (ucast a)), code_of (push_bit 4 (ucast a) AND 63)] @ ''==''"
| "encode_ref [a, b] =
     [code_of (drop_bit 10 (pair_of a b)), code_of (drop_bit 4 (pair_of a b) AND 63),
      code_of (push_bit 2 (pair_of a b) AND 63)] @ ''=''"
| "encode_ref (a # b # c # bs) = tuple (group_of a b c) @ encode_ref bs"

lemma masks:
  "(63 :: 32 word) = mask 6" "(255 :: 32 word) = mask 8" "(65280 :: 32 word) = push_bit 8 (mask 8)"
  "(16711680 :: 32 word) = push_bit 16 (mask 8)"
  by (simp_all add: mask_eq_exp_minus_1 push_bit_eq_mult)

lemma triplet_group:
  assumes "x + 2 < length s"
  shows "triplet s x = group_of (s ! x) (s ! (x + 1)) (s ! (x + 2))"
proof -
  let ?a = "push_bit 16 (ucast (s ! x)) AND 16711680 :: 32 word"
  let ?b = "push_bit 8 (ucast (s ! (x + 1))) AND 65280 :: 32 word"
  let ?c = "255 AND ucast (s ! (x + 2)) :: 32 word"
  have "?a + ?b = ?a OR ?b" by (rule disjunctive_add) (auto simp: masks bit_simps)
  moreover have "(?a OR ?b) + ?c = ?a OR ?b OR ?c"
    by (subst disjunctive_add) (auto simp: masks bit_simps or.assoc)
  moreover have "?a OR ?b OR ?c = group_of (s ! x) (s ! (x + 1)) (s ! (x + 2))"
    unfolding group_of_def
    by (rule bit_word_eqI) (auto simp: masks bit_simps dest: bit_imp_le_length)
  ultimately show ?thesis using assms by (simp add: triplet_def byte_at_def)
qed

lemma pair_sum: "push_bit 8 (ucast a) + ucast b = pair_of a b"
  unfolding pair_of_def
  by (rule disjunctive_add) (auto simp: bit_simps dest: bit_imp_le_length)

lemma encode_chunk_step:
  "x < stop \<Longrightarrow> encode_chunk s x stop = tuple (triplet s x) @ encode_chunk s (x + 3) stop"
  by (subst encode_chunk.simps) simp

lemma encode_chunk_nil: "stop \<le> x \<Longrightarrow> encode_chunk s x stop = []"
  by (subst encode_chunk.simps) simp

lemma encode_chunks_step:
  "x < stop \<Longrightarrow> encode_chunks s x stop =
     encode_chunk s x (min stop (x + MAX_CHUNK)) @ encode_chunks s (x + MAX_CHUNK) stop"
  by (subst encode_chunks.simps) (simp add: min_def)

lemma encode_chunks_nil: "stop \<le> x \<Longrightarrow> encode_chunks s x stop = []"
  by (subst encode_chunks.simps) simp

lemma encode_chunk_split:
  assumes "x \<le> m" and "m \<le> stop" and "3 dvd m - x"
  shows "encode_chunk s x stop = encode_chunk s x m @ encode_chunk s m stop"
  using assms
proof (induction s x m rule: encode_chunk.induct)
  case (1 s x m)
  show ?case
  proof (cases "x < m")
    case True
    then have "3 \<le> m - x" using 1(4) by (auto dest: dvd_imp_le)
    then have le: "x + 3 \<le> m" using True by linarith
    have "m - (x + 3) = m - x - 3" by simp
    moreover have "3 dvd m - x - 3" using 1(4) by (rule dvd_diff_nat) simp
    ultimately have "3 dvd m - (x + 3)" by simp
    with le 1(1)[OF True] 1(3) have
      "encode_chunk s (x + 3) stop = encode_chunk s (x + 3) m @ encode_chunk s m stop" by blast
    with True 1(3) show ?thesis by (simp add: encode_chunk_step[of x])
  next
    case False
    with 1(2) have "x = m" by simp
    then show ?thesis by (simp add: encode_chunk_nil)
  qed
qed

lemma encode_chunks_eq:
  "3 dvd stop - x \<Longrightarrow> encode_chunks s x stop = encode_chunk s x stop"
proof (induction s x stop rule: encode_chunks.induct)
  case (1 s x stop)
  consider (none) "stop \<le> x" | (last) "x < stop" "stop \<le> x + MAX_CHUNK" | (more) "x + MAX_CHUNK < stop"
    by linarith
  then show ?case
  proof cases
    case none
    then show ?thesis by (simp add: encode_chunks_nil encode_chunk_nil)
  next
    case last
    then show ?thesis by (simp add: encode_chunks_step encode_chunks_nil min_def)
  next
    case more
    have three: "(3 :: nat) dvd MAX_CHUNK" by (simp add: MAX_CHUNK_def)
    have "stop - (x + MAX_CHUNK) = stop - x - MAX_CHUNK" by simp
    moreover have "3 dvd stop - x - MAX_CHUNK" using 1(2) three by (rule dvd_diff_nat)
    ultimately have "3 dvd stop - (x + MAX_CHUNK)" by simp
    then have "encode_chunks s (x + MAX_CHUNK) stop = encode_chunk s (x + MAX_CHUNK) stop"
      using 1(1) more by (auto intro: less_trans[of x])
    moreover have "encode_chunk s x stop =
        encode_chunk s x (x + MAX_CHUNK) @ encode_chunk s (x + MAX_CHUNK) stop"
      using more three by (intro encode_chunk_split) simp_all
    ultimately show ?thesis using more by (simp add: encode_chunks_step[of x])
  qed
qed

definition encode_tail :: "8 word list \<Rightarrow> string" where
  "encode_tail s = encode_ref (drop (length s - length s mod 3) s)"

lemma drop_three: "x + 2 < length s \<Longrightarrow> drop x s = s ! x # s ! (x + 1) # s ! (x + 2) # drop (x + 3) s"
  by (simp add: Cons_nth_drop_Suc numeral_2_eq_2 numeral_3_eq_3)

lemma encode_chunk_ref:
  assumes "3 dvd x" and "x \<le> length s - length s mod 3"
  shows "encode_chunk s x (length s - length s mod 3) @ encode_tail s = encode_ref (drop x s)"
  using assms
proof (induction "length s - length s mod 3 - x" arbitrary: x rule: less_induct)
  case less
  let ?stop = "length s - length s mod 3"
  have three: "3 dvd ?stop" by (simp add: minus_mod_eq_mult_div)
  show ?case
  proof (cases "x < ?stop")
    case True
    then have "3 \<le> ?stop - x" using three less(2) by (metis dvd_diff_nat dvd_imp_le zero_less_diff)
    then have len: "x + 2 < length s" "x + 3 \<le> ?stop" using True by linarith+
    have "encode_chunk s (x + 3) ?stop @ encode_tail s = encode_ref (drop (x + 3) s)"
      using len less(2) True by (intro less(1)) auto
    with len True show ?thesis
      by (simp add: encode_chunk_step triplet_group drop_three)
  next
    case False
    with less(3) have "x = ?stop" by simp
    then show ?thesis by (simp add: encode_chunk_nil encode_tail_def)
  qed
qed

lemma from_byte_array_ref: "from_byte_array s = encode_ref s"
proof -
  let ?stop = "length s - length s mod 3"
  have "3 dvd ?stop" by (simp add: minus_mod_eq_mult_div)
  then have chunks: "encode_chunks s 0 ?stop @ encode_tail s = encode_ref s"
    using encode_chunk_ref[of 0 s] by (simp add: encode_chunks_eq)
  have "length s mod 3 < 3" by simp
  then consider "length s mod 3 = 0" | "length s mod 3 = 1" | "length s mod 3 = 2" by linarith
  then have "from_byte_array s = encode_chunks s 0 ?stop @ encode_tail s"
  proof cases
    case 1
    then show ?thesis by (simp add: from_byte_array_def encode_tail_def)
  next
    case 2
    then have "s \<noteq> []" by auto
    then have "drop ?stop s = [s ! (length s - 1)]"
      using 2 Cons_nth_drop_Suc[of "length s - 1" s] by simp
    with 2 \<open>s \<noteq> []\<close> show ?thesis
      by (simp add: from_byte_array_def encode_tail_def byte_at_def Let_def)
  next
    case 3
    then have "2 \<le> length s" using mod_less_eq_dividend[of "length s" 3] by simp
    then have "drop ?stop s = [s ! (length s - 2), s ! (length s - 1)]"
      using 3 Cons_nth_drop_Suc[of "length s - 2" s] Cons_nth_drop_Suc[of "length s - 1" s]
      by (simp add: Suc_diff_Suc numeral_2_eq_2)
    with 3 \<open>2 \<le> length s\<close> show ?thesis
      by (simp add: from_byte_array_def encode_tail_def byte_at_def pair_sum Let_def)
  qed
  with chunks show ?thesis by simp
qed

section \<open>Plain Base64\<close>

text \<open>The reference, from RFC 4648 alone: bytes are numbers, three of them are written as four digits of six bits,
  and what is left over at the end is padded.\<close>

definition digit :: "nat \<Rightarrow> char" where
  "digit n =
     (if n < 26 then char_of (of_char CHR ''A'' + n)
      else if n < 52 then char_of (of_char CHR ''a'' + (n - 26))
      else if n < 62 then char_of (of_char CHR ''0'' + (n - 52))
      else if n = 62 then CHR ''+'' else CHR ''/'')"

fun base64 :: "nat list \<Rightarrow> string" where
  "base64 [] = []"
| "base64 [a] = [digit (a div 4), digit (a mod 4 * 16), CHR ''='', CHR ''='']"
| "base64 [a, b] =
     [digit (a div 4), digit (a mod 4 * 16 + b div 16), digit (b mod 16 * 4), CHR ''='']"
| "base64 (a # b # c # bs) =
     digit (a div 4) # digit (a mod 4 * 16 + b div 16) # digit (b mod 16 * 4 + c div 64)
     # digit (c mod 64) # base64 bs"

lemma code_of_digit:
  assumes "unat x < 64"
  shows "code_of x = digit (unat x)"
proof -
  have "list_all (\<lambda>n. alphabet ! n = digit n) [0..<64]" by code_simp
  then show ?thesis using assms by (auto simp: list_all_iff code_of_def)
qed

lemma unat_and_63: "unat (x AND 63 :: 32 word) = unat x mod 64" "unat (63 AND x :: 32 word) = unat x mod 64"
proof -
  have "unat (take_bit 6 x) = take_bit 6 (unat x)" by (rule unsigned_take_bit_eq)
  also have "\<dots> = unat x mod 64" by (simp add: take_bit_eq_mod)
  finally have "unat (take_bit 6 x) = unat x mod 64" .
  moreover have "x AND 63 = take_bit 6 x" "63 AND x = take_bit 6 x"
    by (simp_all only: masks take_bit_eq_mask and.commute)
  ultimately show "unat (x AND 63) = unat x mod 64" "unat (63 AND x) = unat x mod 64" by metis+
qed

lemma code_of_sextet:
  "code_of (x AND 63) = digit (unat x mod 64)" "code_of (63 AND x) = digit (unat x mod 64)"
  by (simp_all add: code_of_digit unat_and_63)

lemma unat_byte_less: "unat (a :: 8 word) < 256"
  using unsigned_less[of a] by simp

lemma unat_ucast_byte [simp]: "unat (ucast (a :: 8 word) :: 32 word) = unat a"
  by (simp add: unsigned_ucast_eq take_bit_nat_eq_self less_trans[OF unat_byte_less])

lemma unat_drop: "unat (drop_bit n (x :: 32 word)) = unat x div 2 ^ n"
  by (subst unat_drop_bit_eq) (simp only: drop_bit_eq_div)

lemma unat_push:
  assumes "unat (x :: 32 word) * 2 ^ n < 2 ^ 32"
  shows "unat (push_bit n x) = unat x * 2 ^ n"
proof -
  have "unat (push_bit n x) = take_bit 32 (push_bit n (unat x))"
    unfolding unsigned_push_bit_eq by simp
  also have "\<dots> = unat x * 2 ^ n"
    using assms by (simp only: push_bit_eq_mult take_bit_nat_eq_self)
  finally show ?thesis .
qed

lemma unat_plus_word: "unat x + unat y < 2 ^ 32 \<Longrightarrow> unat (x + y) = unat x + unat (y :: 32 word)"
  by (simp add: unat_plus_if')

lemma unat_pair_of: "unat (pair_of a b) = unat a * 256 + unat b"
proof -
  have "unat (push_bit 8 (ucast a :: 32 word)) = unat a * 256"
    using unat_push[of "ucast a" 8] unat_byte_less[of a] by simp
  then show ?thesis
    unfolding pair_sum[symmetric] using unat_byte_less[of a] unat_byte_less[of b]
    by (subst unat_plus_word; simp)
qed

lemma unat_group_of: "unat (group_of a b c) = unat a * 65536 + unat (pair_of b c)"
proof -
  have "unat (push_bit 16 (ucast a :: 32 word)) = unat a * 65536"
    using unat_push[of "ucast a" 16] unat_byte_less[of a] by simp
  moreover have "group_of a b c = push_bit 16 (ucast a) + pair_of b c"
    unfolding group_of_def pair_of_def
    by (subst disjunctive_add) (auto simp: bit_simps or.assoc dest: bit_imp_le_length)
  ultimately show ?thesis
    using unat_byte_less[of a] unat_byte_less[of b] unat_byte_less[of c]
    by (simp only:) (subst unat_plus_word; simp add: unat_pair_of)
qed

text \<open>The sextets of a number that is written in base 64.\<close>

lemma base_64:
  fixes u :: nat
  assumes "u = ((s1 * 64 + s2) * 64 + s3) * 64 + s4" and "s1 < 64" and "s2 < 64" and "s3 < 64" and "s4 < 64"
  shows "u div 262144 mod 64 = s1" "u div 4096 mod 64 = s2" "u div 64 mod 64 = s3" "u mod 64 = s4"
proof -
  have one: "u div 64 = (s1 * 64 + s2) * 64 + s3" using assms by simp
  then have two: "u div 64 div 64 = s1 * 64 + s2" using assms by simp
  then have three: "u div 64 div 64 div 64 = s1" using assms by simp
  have "u div 4096 = u div 64 div 64" "u div 262144 = u div 64 div 64 div 64"
    by (simp_all add: div_mult2_eq[symmetric])
  with three assms(2) show "u div 262144 mod 64 = s1" by simp
  show "u div 4096 mod 64 = s2"
    using two assms(3) \<open>u div 4096 = u div 64 div 64\<close> by (simp only: mod_mult_self3 mod_less)
  show "u div 64 mod 64 = s3" using assms(4) by (simp only: one mod_mult_self3 mod_less)
  show "u mod 64 = s4" using assms(5) by (simp only: assms(1) mod_mult_self3 mod_less)
qed

text \<open>The words of the encoder are the plain encoding.\<close>

lemma encode_ref_base64: "encode_ref s = base64 (map unat s)"
proof (induction s rule: encode_ref.induct)
  case (2 a)
  have "unat a div 4 < 64" using unat_byte_less[of a] by linarith
  moreover have "unat (push_bit 4 (ucast a :: 32 word)) = unat a * 16"
    using unat_push[of "ucast a" 4] unat_byte_less[of a] by simp
  moreover have "unat a * 16 mod 64 = unat a mod 4 * 16" by (simp add: mult_mod_left)
  ultimately show ?case by (simp add: code_of_sextet code_of_digit unat_drop)
next
  case (3 a b)
  let ?u = "unat (pair_of a b)"
  have parts: "x = 4 * p + q \<Longrightarrow> y = 16 * r + t \<Longrightarrow>
      (x * 256 + y) * 4 = ((0 * 64 + p) * 64 + (q * 16 + r)) * 64 + t * 4" for x y p q r t :: nat
    by simp
  have u: "?u * 4 = ((0 * 64 + unat a div 4) * 64 + (unat a mod 4 * 16 + unat b div 16)) * 64 + unat b mod 16 * 4"
    unfolding unat_pair_of by (rule parts) simp_all
  have "unat a div 4 < 64" "unat a mod 4 * 16 + unat b div 16 < 64" "unat b mod 16 * 4 < 64"
    using unat_byte_less[of a] unat_byte_less[of b] by linarith+
  note sextets = base_64[OF u _ this]
  have "?u div 1024 = ?u * 4 div 4096" "?u div 16 = ?u * 4 div 64" by linarith+
  moreover have "unat (push_bit 2 (pair_of a b)) = ?u * 4"
    using unat_push[of "pair_of a b" 2] unat_byte_less[of a] unat_byte_less[of b]
    by (simp add: unat_pair_of)
  moreover have "?u div 1024 < 64"
    using unat_byte_less[of a] unat_byte_less[of b] by (simp add: unat_pair_of) 
  ultimately show ?case using sextets by (simp add: code_of_sextet code_of_digit unat_drop)
next
  case (4 a b c bs)
  have parts: "x = 4 * p + q \<Longrightarrow> y = 16 * r + t \<Longrightarrow> z = 64 * v + w \<Longrightarrow>
      x * 65536 + (y * 256 + z) = ((p * 64 + (q * 16 + r)) * 64 + (t * 4 + v)) * 64 + w" for x y z p q r t v w :: nat
    by simp
  have u: "unat (group_of a b c) = ((unat a div 4 * 64 + (unat a mod 4 * 16 + unat b div 16)) * 64
      + (unat b mod 16 * 4 + unat c div 64)) * 64 + unat c mod 64"
    unfolding unat_group_of unat_pair_of by (rule parts) simp_all
  have "unat a div 4 < 64" "unat a mod 4 * 16 + unat b div 16 < 64" "unat b mod 16 * 4 + unat c div 64 < 64"
    "unat c mod 64 < 64"
    using unat_byte_less[of a] unat_byte_less[of b] unat_byte_less[of c] by linarith+
  note sextets = base_64[OF u this]
  with 4 show ?case by (simp add: tuple_def code_of_sextet unat_drop)
qed simp

section \<open>Decoding what was encoded\<close>

lemma value_of_code_of:
  assumes "unat x < 64"
  shows "value_of (code_of x) = x" and "code_of x \<noteq> CHR ''=''"
proof -
  have "list_all (\<lambda>n. value_of (alphabet ! n) = of_nat n \<and> alphabet ! n \<noteq> CHR ''='') [0..<64]"
    by code_simp
  then have "value_of (alphabet ! unat x) = of_nat (unat x) \<and> alphabet ! unat x \<noteq> CHR ''=''"
    using assms by (auto simp: list_all_iff)
  then show "value_of (code_of x) = x" "code_of x \<noteq> CHR ''=''" by (simp_all add: code_of_def)
qed

lemma unat_sextet: "unat (x AND 63 :: 32 word) < 64" "unat (63 AND x :: 32 word) < 64"
proof -
  have "x AND 63 = take_bit 6 x" "63 AND x = take_bit 6 x"
    by (simp_all add: masks take_bit_eq_mask and.commute)
  moreover have "unat (take_bit 6 x) < 2 ^ 6"
    by (simp add: unsigned_take_bit_eq del: numeral_less_iff power_numeral)
  ultimately show "unat (x AND 63) < 64" "unat (63 AND x) < 64" by simp_all
qed

lemma code_and [simp]:
  "value_of (code_of (x AND 63)) = x AND 63" "code_of (x AND 63) \<noteq> CHR ''=''"
  "value_of (code_of (63 AND x)) = 63 AND x" "code_of (63 AND x) \<noteq> CHR ''=''"
  by (simp_all add: value_of_code_of unat_sextet)

lemma high_bits_masked:
  "drop_bit 2 (ucast (a :: 8 word)) = (drop_bit 2 (ucast a) AND 63 :: 32 word)"
  "drop_bit 10 (pair_of a b) = drop_bit 10 (pair_of a b) AND 63"
  unfolding pair_of_def
  by (rule bit_word_eqI; auto simp: masks bit_simps dest: bit_imp_le_length)+

lemma code_high [simp]:
  "value_of (code_of (drop_bit 2 (ucast (a :: 8 word)))) = drop_bit 2 (ucast a)"
  "code_of (drop_bit 2 (ucast (a :: 8 word))) \<noteq> CHR ''=''"
  "value_of (code_of (drop_bit 10 (pair_of a b))) = drop_bit 10 (pair_of a b)"
  "code_of (drop_bit 10 (pair_of a b)) \<noteq> CHR ''=''"
  using code_and(1,2)[of "drop_bit 2 (ucast a)"] code_and(1,2)[of "drop_bit 10 (pair_of a b)"]
  by (simp_all flip: high_bits_masked)

lemma sextets:
  fixes u :: "32 word"
  assumes "take_bit 24 u = u"
  shows "push_bit 18 (drop_bit 18 u AND 63) OR push_bit 12 (drop_bit 12 u AND 63)
    OR push_bit 6 (drop_bit 6 u AND 63) OR (63 AND u) = u"
    (is "?l = u")
proof (rule bit_word_eqI)
  fix n :: nat
  assume n: "n < LENGTH(32)"
  have hi: "24 \<le> n \<Longrightarrow> \<not> bit u n" using assms by (metis bit_take_bit_iff leD)
  consider "n < 6" | "6 \<le> n" "n < 12" | "12 \<le> n" "n < 18" | "18 \<le> n" "n < 24" | "24 \<le> n"
    by linarith
  then show "bit ?l n = bit u n"
    by cases (use n hi in \<open>auto simp: masks bit_simps\<close>)
qed

lemma group_bytes:
  "low_byte (drop_bit 16 (group_of a b c)) = a" "low_byte (drop_bit 8 (group_of a b c)) = b"
  "low_byte (group_of a b c) = c" "take_bit 24 (group_of a b c) = group_of a b c"
  unfolding group_of_def low_byte_def
  by (rule bit_word_eqI; auto simp: masks bit_simps dest: bit_imp_le_length)+

lemma one_byte:
  "low_byte (push_bit 2 (drop_bit 2 (ucast a)) OR drop_bit 4 (push_bit 4 (ucast a) AND 63)) = a"
  unfolding low_byte_def
  by (rule bit_word_eqI)
    (auto simp: masks bit_simps simp del: add_2_eq_Suc add_2_eq_Suc' dest: bit_imp_le_length)

lemma two_bytes:
  defines "v u \<equiv> push_bit 10 (drop_bit 10 u) OR push_bit 4 (drop_bit 4 u AND 63)
    OR drop_bit 2 (push_bit 2 u AND 63)"
  shows "low_byte (drop_bit 8 (v (pair_of a b))) = a" and "low_byte (v (pair_of a b)) = b"
proof -
  have "v u = u" for u
  proof (rule bit_word_eqI)
    fix n :: nat
    assume n: "n < LENGTH(32)"
    consider "n < 4" | "4 \<le> n" "n < 10" | "10 \<le> n" by linarith
    then show "bit (v u) n = bit u n"
      unfolding v_def by cases (use n in \<open>auto simp: masks bit_simps\<close>)
  qed
  moreover have "low_byte (drop_bit 8 (pair_of a b)) = a" "low_byte (pair_of a b) = b"
    unfolding pair_of_def low_byte_def
    by (rule bit_word_eqI; auto simp: masks bit_simps dest: bit_imp_le_length)+
  ultimately show "low_byte (drop_bit 8 (v (pair_of a b))) = a" and "low_byte (v (pair_of a b)) = b"
    by simp_all
qed

lemma value_at_append:
  "i < length t \<Longrightarrow> value_at (p @ t @ q) (length p + i) = value_of (t ! i)"
  by (simp add: value_at_def nth_append)

lemma length_tuple [simp]: "length (tuple u) = 4"
  by (simp add: tuple_def)

lemma quad_tuple: "quad (p @ tuple (group_of a b c) @ q) (length p) = group_of a b c"
proof -
  let ?t = "tuple (group_of a b c)"
  have at: "value_at (p @ ?t @ q) (length p + i) = value_of (?t ! i)" if "i < 4" for i
    using that by (simp add: value_at_append)
  show ?thesis
    using at[of 0] at[of 1] at[of 2] at[of 3] sextets[OF group_bytes(4)[of a b c]]
    by (simp add: quad_def tuple_def numeral_2_eq_2 numeral_3_eq_3)
qed

lemma decode_loop_step:
  "int i < stop \<Longrightarrow> decode_loop s i stop =
     (let w = quad s i; (bytes, j) = decode_loop s (i + 4) stop
      in (low_byte (drop_bit 16 w) # low_byte (drop_bit 8 w) # low_byte w # bytes, j))"
  by (subst decode_loop.simps) simp

lemma decode_loop_ref:
  "4 * int (length s div 3) - 4 < stop \<Longrightarrow> stop \<le> 4 * int (length s div 3) \<Longrightarrow>
   decode_loop (p @ encode_ref s) (length p) (int (length p) + stop) =
     (take (3 * (length s div 3)) s, length p + 4 * (length s div 3))"
proof (induction s arbitrary: p stop rule: encode_ref.induct)
  case (4 a b c bs)
  have third: "length (a # b # c # bs) div 3 = Suc (length bs div 3)" by simp
  have "decode_loop ((p @ tuple (group_of a b c)) @ encode_ref bs) (length (p @ tuple (group_of a b c)))
      (int (length (p @ tuple (group_of a b c))) + (stop - 4)) =
      (take (3 * (length bs div 3)) bs, length (p @ tuple (group_of a b c)) + 4 * (length bs div 3))"
    using 4(2,3) unfolding third by (intro 4(1)) simp_all
  then have "decode_loop (p @ encode_ref (a # b # c # bs)) (length p + 4) (int (length p) + stop) =
      (take (3 * (length bs div 3)) bs, length p + 4 + 4 * (length bs div 3))"
    by simp
  moreover have "int (length p) < int (length p) + stop" using 4(2) unfolding third by simp
  ultimately have "decode_loop (p @ encode_ref (a # b # c # bs)) (length p) (int (length p) + stop) =
      (a # b # c # take (3 * (length bs div 3)) bs, length p + 4 + 4 * (length bs div 3))"
    by (simp add: decode_loop_step quad_tuple group_bytes Let_def)
  moreover have "take (3 * Suc m) (a # b # c # bs) = a # b # c # take (3 * m) bs"
    and "4 * Suc m = 4 + 4 * m" for m
    by (simp_all add: numeral_3_eq_3)
  ultimately show ?case by (simp only: third add.assoc)
qed (subst decode_loop.simps, simp)+

lemma length_encode_ref: "length (encode_ref s) = 4 * ((length s + 2) div 3)"
proof (induction s rule: encode_ref.induct)
  case (4 a b c bs)
  have "(length (a # b # c # bs) + 2) div 3 = Suc ((length bs + 2) div 3)" by simp
  with 4 show ?case by simp
qed simp_all

lemma valid_encode_ref:
  "length (takeWhile (\<lambda>c. c \<noteq> CHR ''='') (encode_ref s)) =
     4 * (length s div 3) + (if length s mod 3 = 0 then 0 else length s mod 3 + 1)"
  by (induction s rule: encode_ref.induct) (auto simp: tuple_def div_add_self1)

lemma thirds:
  fixes n :: nat
  obtains (zero) q where "n = 3 * q" | (one) q where "n = 3 * q + 1" | (two) q where "n = 3 * q + 2"
proof -
  have "n mod 3 < 3" by simp
  then consider "n mod 3 = 0" | "n mod 3 = 1" | "n mod 3 = 2" by linarith
  then show thesis
    by cases (use that mod_mult_div_eq[of n 3] in \<open>metis add.commute add_0\<close>)+
qed

lemma get_lens_ref:
  "get_lens (encode_ref s) = Inr (4 * (length s div 3) + (if length s mod 3 = 0 then 0 else length s mod 3 + 1),
     if length s mod 3 = 0 then 0 else 3 - length s mod 3)"
proof (cases rule: thirds[of "length s"])
  case (zero q)
  then have "(length s + 2) div 3 = q" "length s div 3 = q" "length s mod 3 = 0" by simp_all
  then show ?thesis by (simp add: get_lens_def length_encode_ref valid_encode_ref)
next
  case (one q)
  then have "(length s + 2) div 3 = Suc q" "length s div 3 = q" "length s mod 3 = 1" by simp_all
  then show ?thesis by (simp add: get_lens_def length_encode_ref valid_encode_ref mod_Suc)
next
  case (two q)
  then have "(length s + 2) div 3 = Suc q" "length s div 3 = q" "length s mod 3 = 2"
    by (simp, simp, presburger)
  then show ?thesis by (simp add: get_lens_def length_encode_ref valid_encode_ref)
qed

lemma drop_three_Suc: "drop (3 * Suc m) (a # b # c # bs) = drop (3 * m) bs"
  by (simp add: numeral_3_eq_3)

lemma decode_tail:
  assumes "holders = 3 - length s mod 3" and "0 < length s mod 3"
    and "i = 4 * (length s div 3)" and "e = encode_ref s"
  shows "(if holders = 2 then [low_byte (push_bit 2 (value_at e i) OR drop_bit 4 (value_at e (i + 1)))]
     else [low_byte (drop_bit 8 (push_bit 10 (value_at e i) OR push_bit 4 (value_at e (i + 1))
             OR drop_bit 2 (value_at e (i + 2)))),
           low_byte (push_bit 10 (value_at e i) OR push_bit 4 (value_at e (i + 1))
             OR drop_bit 2 (value_at e (i + 2)))]) = drop (3 * (length s div 3)) s"
  using assms
proof (induction s arbitrary: i e rule: encode_ref.induct)
  case (2 a)
  then show ?case using one_byte[of a] by (simp add: value_at_def)
next
  case (3 a b)
  then show ?case using two_bytes[of a b] by (simp add: value_at_def)
next
  case (4 a b c bs)
  have third: "length (a # b # c # bs) div 3 = Suc (length bs div 3)" by simp
  have shift: "value_at (tuple u @ q) (4 + j) = value_at q j" for u q j
    by (simp add: value_at_def nth_append)
  have e: "e = tuple (group_of a b c) @ encode_ref bs" and i: "i = 4 + 4 * (length bs div 3)"
    using 4(4,5) unfolding third by simp_all
  have vals: "value_at e i = value_at (encode_ref bs) (4 * (length bs div 3))"
    "value_at e (i + 1) = value_at (encode_ref bs) (4 * (length bs div 3) + 1)"
    "value_at e (i + 2) = value_at (encode_ref bs) (4 * (length bs div 3) + 2)"
    unfolding e i by (simp_all only: shift add.assoc)
  have rest: "drop (3 * (length (a # b # c # bs) div 3)) (a # b # c # bs) = drop (3 * (length bs div 3)) bs"
    unfolding third by (rule drop_three_Suc)
  have "holders = 3 - length bs mod 3" "0 < length bs mod 3" using 4(2,3) by simp_all
  from 4(1)[OF this refl refl] show ?case by (simp only: vals rest)
qed simp

lemma written_into_exact [simp]: "length bs = n \<Longrightarrow> written_into n bs = bs"
  by (simp add: written_into_def)

lemma to_byte_array_ref: "to_byte_array (encode_ref s) = Inr s"
proof (cases "length s mod 3 = 0")
  case True
  then have len: "length s = 3 * (length s div 3)" by presburger
  have "decode_loop (encode_ref s) 0 (4 * int (length s div 3)) = (s, 4 * (length s div 3))"
    using decode_loop_ref[of s "4 * int (length s div 3)" "[]"] take_all[of s "3 * (length s div 3)"]
    by (simp flip: len)
  moreover have "byte_length_of (4 * (length s div 3)) 0 = int (length s)"
    using len by (simp add: byte_length_of_def)
  ultimately show ?thesis
    using True by (simp add: to_byte_array_def get_lens_ref Let_def)
next
  case False
  let ?q = "length s div 3" and ?r = "length s mod 3"
  have r: "?r = 1 \<or> ?r = 2" using False by linarith
  have len: "length s = 3 * ?q + ?r" by simp
  let ?valid = "4 * ?q + (?r + 1)"
  have loop: "decode_loop (encode_ref s) 0 (int ?valid - 4) = (take (3 * ?q) s, 4 * ?q)"
    using decode_loop_ref[of s "int ?valid - 4" "[]"] r by auto
  have "byte_length_of ?valid (3 - ?r) = int (length s)"
    using r by (auto simp: byte_length_of_def) (use len in presburger)+
  moreover note decode_tail[OF refl _ refl refl, of s]
  ultimately show ?thesis
    using False r loop
    by (auto simp: to_byte_array_def get_lens_ref Let_def)
qed

section \<open>Properties\<close>

text \<open>C15: decoding what was encoded gives the bytes back, for every byte array: every length
  modulo three, the empty one included, and across the chunk boundaries of the encoder.\<close>

theorem base64_roundtrip: "to_byte_array (from_byte_array s) = Inr s"
  by (simp add: from_byte_array_ref to_byte_array_ref)

text \<open>C40: encoding in chunks of 16383 bytes with the table and the shifts of the bundle, and its own treatment of
  the last one or two bytes, is the Base64 of RFC 4648: three bytes to four digits of its alphabet from the
  left, padded at the end.\<close>

theorem base64_chunked_encoding: "from_byte_array s = base64 (map unat s)"
  by (simp add: from_byte_array_ref encode_ref_base64)

text \<open>An encoding has four characters per started group of three bytes, and \<open>byteLength\<close> reads the
  number of bytes off it.\<close>

theorem base64_lengths:
  "length (from_byte_array s) = 4 * ((length s + 2) div 3) \<and>
   byte_length (from_byte_array s) = Inr (int (length s))"
proof (cases rule: thirds[of "length s"])
  case (zero q)
  then show ?thesis
    by (simp add: from_byte_array_ref length_encode_ref byte_length_def get_lens_ref byte_length_of_def)
next
  case (one q)
  then have "length s div 3 = q" "length s mod 3 = 1" by simp_all
  with one show ?thesis
    by (simp add: from_byte_array_ref length_encode_ref byte_length_def get_lens_ref byte_length_of_def)
next
  case (two q)
  then have "length s div 3 = q" "length s mod 3 = 2" by (simp, presburger)
  with two show ?thesis
    by (simp add: from_byte_array_ref length_encode_ref byte_length_def get_lens_ref byte_length_of_def)
qed

text \<open>Decoding any text either fails because its length is not a multiple of four, fails because
  \<open>byteLength\<close> of it is negative, or answers exactly \<open>byteLength\<close> bytes; it never fails for its
  characters.\<close>

theorem base64_decoding_outcomes:
  "case to_byte_array s of
     Inl (JsError m) \<Rightarrow> length s mod 4 \<noteq> 0
   | Inl (RangeError m) \<Rightarrow> (\<exists>n. byte_length s = Inr n \<and> n < 0)
   | Inr bytes \<Rightarrow> length s mod 4 = 0 \<and> byte_length s = Inr (int (length bytes))"
proof (cases "length s mod 4 = 0")
  case True
  then obtain valid holders where "get_lens s = Inr (valid, holders)"
    by (simp add: get_lens_def Let_def)
  with True show ?thesis
    by (auto simp: to_byte_array_def byte_length_def written_into_def Let_def min_def
        split: prod.split)
next
  case False
  then show ?thesis by (simp add: to_byte_array_def get_lens_def)
qed

end
