(* ===== verification/Buffer_Js.thy ===== *)
theory Buffer_Js
  imports Base64_Js
begin

unbundle bit_operations_syntax

text \<open>
  The strings and bytes of the \<open>Buffer\<close> module inside \<open>app/static/docs-assets/swagger-ui-bundle.js\<close> (webpack
  module 48287, the user of the Base64 module): what \<open>Buffer.from(string, encoding)\<close> writes and what
  \<open>toString(encoding)\<close> reads for UTF-8, Base64, UTF-16, Latin-1 and ASCII. The documentation page makes its
  \<open>Basic\<close> headers with it.

  A JavaScript string is a list of UTF-16 code units, \<open>16 word\<close>; a number under a bit operator is a
  \<open>32 word\<close>, and stays below \<open>2 ^ 22\<close> here, so comparing and shifting words is comparing and shifting numbers.
  A store into a \<open>Uint8Array\<close> keeps the low eight bits.
\<close>

type_synonym js_string = "16 word list"

section \<open>UTF-8\<close>

text \<open>The room left: \<open>None\<close> is \<open>Infinity\<close>.\<close>

definition spend :: "int \<Rightarrow> int option \<Rightarrow> int option" where
  "spend n room = map_option (\<lambda>k. k - n) room"

definition room_left :: "int option \<Rightarrow> bool" where
  "room_left room = (case room of None \<Rightarrow> True | Some k \<Rightarrow> 0 \<le> k)"

definition replacement :: "8 word list" where
  "replacement = [239, 191, 189]"

text \<open>The end of the loop body for a code point \<open>i\<close>: how many bytes, and which.\<close>

definition utf8_width :: "32 word \<Rightarrow> int" where
  "utf8_width i = (if i < 128 then 1 else if i < 2048 then 2 else if i < 65536 then 3 else 4)"

definition utf8_bytes :: "32 word \<Rightarrow> 8 word list" where
  "utf8_bytes i = map ucast
     (if i < 128 then [i]
      else if i < 2048 then [drop_bit 6 i OR 192, 63 AND i OR 128]
      else if i < 65536 then [drop_bit 12 i OR 224, drop_bit 6 i AND 63 OR 128, 63 AND i OR 128]
      else [drop_bit 18 i OR 240, drop_bit 12 i AND 63 OR 128, drop_bit 6 i AND 63 OR 128, 63 AND i OR 128])"

definition pair_point :: "32 word \<Rightarrow> 32 word \<Rightarrow> 32 word" where
  "pair_point lead i = 65536 + (push_bit 10 (lead - 55296) OR (i - 56320))"

text \<open>The loop of \<open>utf8ToBytes\<close>: the code units left, the lead surrogate \<open>u\<close> that waits for its other half, and
  the room. Two surrogates make a point below \<open>1114112\<close>, so the \<open>throw\<close> is never reached
  (\<open>pair_point_bound\<close>).\<close>

fun utf8_loop :: "js_string \<Rightarrow> 32 word option \<Rightarrow> int option \<Rightarrow> 8 word list" where
  "utf8_loop [] lead room = []"
| "utf8_loop (c # cs) lead room =
     (let i = ucast c;
          spent = spend 3 room;
          bad = (if room_left spent then replacement else []);
          emit = (\<lambda>before p room.
            let room = spend (utf8_width p) room
            in if room_left room then before @ utf8_bytes p @ utf8_loop cs None room else before)
      in if 55295 < i \<and> i < 57344
         then (case lead of
                 None \<Rightarrow>
                   (if 56319 < i \<or> cs = [] then bad @ utf8_loop cs None spent
                    else utf8_loop cs (Some i) room)
               | Some u \<Rightarrow>
                   (if i < 56320 then bad @ utf8_loop cs (Some i) spent
                    else emit [] (pair_point u i) room))
         else (case lead of
                 None \<Rightarrow> emit [] i room
               | Some _ \<Rightarrow> emit bad i spent))"

text \<open>\<open>o = o || 1/0\<close>: no limit and the limit 0 are no limit.\<close>

definition utf8_to_bytes :: "js_string \<Rightarrow> int option \<Rightarrow> 8 word list" where
  "utf8_to_bytes s limit = utf8_loop s None (if limit = Some 0 then None else limit)"

text \<open>\<open>utf8Slice\<close>: one code point at the front of the bytes that are left. \<open>None\<close> is the \<open>null\<close> of the code: the
  byte is replaced and one byte is consumed.\<close>

definition sequence_length :: "32 word \<Rightarrow> nat" where
  "sequence_length b = (if 239 < b then 4 else if 223 < b then 3 else if 191 < b then 2 else 1)"

definition continues :: "32 word \<Rightarrow> bool" where
  "continues b \<longleftrightarrow> 192 AND b = 128"

definition point_of_2 :: "32 word \<Rightarrow> 32 word \<Rightarrow> 32 word" where
  "point_of_2 b i = push_bit 6 (31 AND b) OR 63 AND i"

definition point_of_3 :: "32 word \<Rightarrow> 32 word \<Rightarrow> 32 word \<Rightarrow> 32 word" where
  "point_of_3 b i a = push_bit 12 (15 AND b) OR push_bit 6 (63 AND i) OR 63 AND a"

definition point_of_4 :: "32 word \<Rightarrow> 32 word \<Rightarrow> 32 word \<Rightarrow> 32 word \<Rightarrow> 32 word" where
  "point_of_4 b i a x = push_bit 18 (15 AND b) OR push_bit 12 (63 AND i) OR push_bit 6 (63 AND a) OR 63 AND x"

definition read_point :: "8 word list \<Rightarrow> 32 word option" where
  "read_point bs =
     (let w = sequence_length (byte_at bs 0);
          b = byte_at bs 0; i = byte_at bs 1; a = byte_at bs 2; x = byte_at bs 3
      in if length bs < w then None
         else if w = 1 then (if b < 128 then Some b else None)
         else if w = 2
         then (let p = point_of_2 b i
               in if continues i \<and> 127 < p then Some p else None)
         else if w = 3
         then (let p = point_of_3 b i a
               in if continues i \<and> continues a \<and> 2047 < p \<and> (p < 55296 \<or> 57343 < p) then Some p else None)
         else (let p = point_of_4 b i a x
               in if continues i \<and> continues a \<and> continues x \<and> 65535 < p \<and> p < 1114112 then Some p else None))"

definition utf16_units :: "32 word \<Rightarrow> js_string" where
  "utf16_units p =
     (if 65535 < p
      then (let q = p - 65536 in [ucast (drop_bit 10 q AND 1023 OR 55296), ucast (56320 OR 1023 AND q)])
      else [ucast p])"

function utf8_units :: "8 word list \<Rightarrow> js_string" where
  "utf8_units bs =
     (if bs = [] then []
      else (case read_point bs of
              None \<Rightarrow> 65533 # utf8_units (drop 1 bs)
            | Some p \<Rightarrow> utf16_units p @ utf8_units (drop (sequence_length (byte_at bs 0)) bs)))"
  by pat_completeness auto
termination
  by (relation "measure length") (auto simp: sequence_length_def)

declare utf8_units.simps [simp del]

text \<open>\<open>decodeCodePointsArray\<close>: the units in chunks of \<open>x = 4096\<close>.\<close>

definition MAX_ARGUMENTS_LENGTH :: nat where
  "MAX_ARGUMENTS_LENGTH = 4096"

function from_chunks :: "js_string \<Rightarrow> nat \<Rightarrow> js_string" where
  "from_chunks units a =
     (if a < length units
      then take MAX_ARGUMENTS_LENGTH (drop a units) @ from_chunks units (a + MAX_ARGUMENTS_LENGTH)
      else [])"
  by pat_completeness auto
termination
  by (relation "measure (\<lambda>(units, a). length units - a)") (auto simp: MAX_ARGUMENTS_LENGTH_def)

declare from_chunks.simps [simp del]

definition decode_code_points_array :: "js_string \<Rightarrow> js_string" where
  "decode_code_points_array units =
     (if length units \<le> MAX_ARGUMENTS_LENGTH then units else from_chunks units 0)"

definition array_slice :: "nat \<Rightarrow> nat \<Rightarrow> 'a list \<Rightarrow> 'a list" where
  "array_slice start stop s = take (stop - start) (drop start s)"

definition utf8_slice :: "8 word list \<Rightarrow> nat \<Rightarrow> nat \<Rightarrow> js_string" where
  "utf8_slice s start stop = decode_code_points_array (utf8_units (array_slice start (min (length s) stop) s))"

section \<open>The other encodings\<close>

definition ascii_to_bytes :: "js_string \<Rightarrow> 8 word list" where
  "ascii_to_bytes s = map (\<lambda>c. ucast (255 AND c)) s"

definition ascii_slice :: "8 word list \<Rightarrow> nat \<Rightarrow> nat \<Rightarrow> js_string" where
  "ascii_slice s start stop = map (\<lambda>b. ucast (127 AND b)) (array_slice start (min (length s) stop) s)"

definition latin1_slice :: "8 word list \<Rightarrow> nat \<Rightarrow> nat \<Rightarrow> js_string" where
  "latin1_slice s start stop = map ucast (array_slice start (min (length s) stop) s)"

fun utf16le_to_bytes :: "js_string \<Rightarrow> int \<Rightarrow> 8 word list" where
  "utf16le_to_bytes [] room = []"
| "utf16le_to_bytes (c # cs) room =
     (if room - 2 < 0 then []
      else ucast (take_bit 8 c) # ucast (drop_bit 8 c) # utf16le_to_bytes cs (room - 2))"

fun utf16le_units :: "8 word list \<Rightarrow> js_string" where
  "utf16le_units (a # b # bs) = (ucast a + 256 * ucast b) # utf16le_units bs"
| "utf16le_units _ = []"

definition utf16le_slice :: "8 word list \<Rightarrow> nat \<Rightarrow> nat \<Rightarrow> js_string" where
  "utf16le_slice s start stop = utf16le_units (array_slice start stop s)"

text \<open>Base64 text is of characters below 256; as a JavaScript string each is its code.\<close>

definition js_of :: "string \<Rightarrow> js_string" where
  "js_of s = map of_char s"

definition base64_slice :: "8 word list \<Rightarrow> nat \<Rightarrow> nat \<Rightarrow> js_string" where
  "base64_slice s start stop =
     js_of (if start = 0 \<and> stop = length s then from_byte_array s else from_byte_array (array_slice start stop s))"

text \<open>\<open>base64clean\<close>: up to the first \<open>=\<close>, trimmed, without what is not in the alphabet, filled up.\<close>

definition js_space :: "16 word \<Rightarrow> bool" where
  "js_space c \<longleftrightarrow> (9 \<le> c \<and> c \<le> 13) \<or> (0x2000 \<le> c \<and> c \<le> 0x200A) \<or>
     c \<in> {0x20, 0xA0, 0x1680, 0x2028, 0x2029, 0x202F, 0x205F, 0x3000, 0xFEFF}"

definition js_trim :: "js_string \<Rightarrow> js_string" where
  "js_trim s = rev (dropWhile js_space (rev (dropWhile js_space s)))"

definition base64_unit :: "16 word \<Rightarrow> bool" where
  "base64_unit c \<longleftrightarrow> c \<in> set (js_of (alphabet @ ''-_''))"

definition base64clean :: "js_string \<Rightarrow> string" where
  "base64clean s =
     (let t = filter base64_unit (js_trim (takeWhile (\<lambda>c. c \<noteq> of_char CHR ''='') s))
      in if length t < 2 then []
         else map (\<lambda>c. char_of (unat c)) t @ replicate ((4 - length t mod 4) mod 4) CHR ''='')"

definition base64_to_bytes :: "js_string \<Rightarrow> js_error + 8 word list" where
  "base64_to_bytes s = to_byte_array (base64clean s)"

section \<open>\<open>Buffer.from\<close> and \<open>toString\<close>\<close>

datatype encoding = Utf8 | Ascii | Latin1 | Base64 | Utf16le

text \<open>\<open>blitBuffer\<close> into a fresh buffer, and how much of it was written.\<close>

definition blit :: "8 word list \<Rightarrow> nat \<Rightarrow> 8 word list \<times> nat" where
  "blit src room = (take room src @ replicate (room - length src) 0, min room (length src))"

definition byte_length_for :: "js_string \<Rightarrow> encoding \<Rightarrow> js_error + nat" where
  "byte_length_for s enc =
     (case enc of
        Utf8 \<Rightarrow> Inr (length (utf8_to_bytes s None))
      | Ascii \<Rightarrow> Inr (length s)
      | Latin1 \<Rightarrow> Inr (length s)
      | Utf16le \<Rightarrow> Inr (2 * length s)
      | Base64 \<Rightarrow> map_sum id length (base64_to_bytes s))"

definition bytes_for :: "js_string \<Rightarrow> encoding \<Rightarrow> nat \<Rightarrow> js_error + 8 word list" where
  "bytes_for s enc room =
     (case enc of
        Utf8 \<Rightarrow> Inr (utf8_to_bytes s (Some (int room)))
      | Ascii \<Rightarrow> Inr (ascii_to_bytes s)
      | Latin1 \<Rightarrow> Inr (ascii_to_bytes s)
      | Utf16le \<Rightarrow> Inr (utf16le_to_bytes s (int room))
      | Base64 \<Rightarrow> base64_to_bytes s)"

definition kMaxLength :: int where
  "kMaxLength = 2147483647"

definition from_string :: "js_string \<Rightarrow> encoding \<Rightarrow> js_error + 8 word list" where
  "from_string s enc =
     (case byte_length_for s enc of
        Inl e \<Rightarrow> Inl e
      | Inr room \<Rightarrow>
          (if kMaxLength < int room then Inl (RangeError ''The value is invalid for option size'')
           else (case bytes_for s enc room of
                   Inl e \<Rightarrow> Inl e
                 | Inr src \<Rightarrow>
                     (case blit src room of
                        (buf, written) \<Rightarrow> Inr (if written \<noteq> room then array_slice 0 written buf else buf)))))"

definition to_string :: "8 word list \<Rightarrow> encoding \<Rightarrow> js_string" where
  "to_string buf enc =
     (if buf = [] then []
      else (case enc of
              Utf8 \<Rightarrow> utf8_slice buf 0 (length buf)
            | Ascii \<Rightarrow> ascii_slice buf 0 (length buf)
            | Latin1 \<Rightarrow> latin1_slice buf 0 (length buf)
            | Base64 \<Rightarrow> base64_slice buf 0 (length buf)
            | Utf16le \<Rightarrow> utf16le_slice buf 0 (length buf)))"

end
