(* ===== verification/Swagger_Auth.thy ===== *)
theory Swagger_Auth
  imports Buffer_Js Viewer_Login
begin

text \<open>
  The Authorize dialog of the documentation page: the code of Swagger UI inside
  \<open>app/static/docs-assets/swagger-ui-bundle.js\<close> that \<open>/docs\<close> runs for the service's one security scheme, OAuth2 with the
  password flow. In the order of the code: the state of the dialog (class \<open>Oauth2\<close>), \<open>authorizePassword\<close> and
  \<open>buildFormData\<close>, \<open>authorizeRequest\<close> with what it makes of the answer, the reducer that keeps the token, and
  \<open>applySecurities\<close>, which puts it on every later request.

  Texts are of characters below 256 here. What the bundle hands to the browser or to other modules is an argument:
  resolving the token URL, \<open>JSON.stringify\<close>, the text of a JSON value in a template. The page is opened without a
  configuration of its own, so \<open>getConfigs()\<close> is empty.
\<close>

section \<open>The dialog\<close>

record oauth_dialog =
  od_name :: string
  od_flow :: string
  od_token_url :: string
  od_scopes :: "string list"
  od_client_id :: string
  od_client_secret :: string
  od_username :: string
  od_password :: string
  od_password_type :: string

text \<open>The constructor: \<open>known\<close> is what was authorized under that name before.\<close>

definition open_dialog :: "string \<Rightarrow> string \<Rightarrow> string \<Rightarrow> oauth_dialog option \<Rightarrow> oauth_dialog" where
  "open_dialog name flow token_url known =
     \<lparr>od_name = name, od_flow = flow, od_token_url = token_url,
      od_scopes = (case known of None \<Rightarrow> [] | Some k \<Rightarrow> od_scopes k),
      od_client_id = (case known of None \<Rightarrow> [] | Some k \<Rightarrow> od_client_id k),
      od_client_secret = (case known of None \<Rightarrow> [] | Some k \<Rightarrow> od_client_secret k),
      od_username = (case known of None \<Rightarrow> [] | Some k \<Rightarrow> od_username k),
      od_password = [],
      od_password_type = (case known of None \<Rightarrow> ''basic''
        | Some k \<Rightarrow> (if od_password_type k = [] then ''basic'' else od_password_type k))\<rparr>"

datatype dialog_event =
    UsernameTyped string
  | PasswordTyped string
  | PasswordTypeChosen string
  | ClientIdTyped string
  | ClientSecretTyped string
  | ScopeClicked string bool
  | AllScopes "string list"
  | NoScopes

definition on_scope_change :: "string \<Rightarrow> bool \<Rightarrow> oauth_dialog \<Rightarrow> oauth_dialog" where
  "on_scope_change scope checked d =
     (if checked \<and> scope \<notin> set (od_scopes d) then d\<lparr>od_scopes := od_scopes d @ [scope]\<rparr>
      else if \<not> checked \<and> scope \<in> set (od_scopes d) then d\<lparr>od_scopes := filter (\<lambda>s. s \<noteq> scope) (od_scopes d)\<rparr>
      else d)"

fun on_dialog :: "dialog_event \<Rightarrow> oauth_dialog \<Rightarrow> oauth_dialog" where
  "on_dialog (UsernameTyped s) d = d\<lparr>od_username := s\<rparr>"
| "on_dialog (PasswordTyped s) d = d\<lparr>od_password := s\<rparr>"
| "on_dialog (PasswordTypeChosen s) d = d\<lparr>od_password_type := s\<rparr>"
| "on_dialog (ClientIdTyped s) d = d\<lparr>od_client_id := s\<rparr>"
| "on_dialog (ClientSecretTyped s) d = d\<lparr>od_client_secret := s\<rparr>"
| "on_dialog (ScopeClicked s checked) d = on_scope_change s checked d"
| "on_dialog (AllScopes names) d = d\<lparr>od_scopes := names\<rparr>"
| "on_dialog NoScopes d = d\<lparr>od_scopes := []\<rparr>"

section \<open>The request\<close>

text \<open>\<open>.replace(/%20/g, "+")\<close>.\<close>

function plus_spaces :: "string \<Rightarrow> string" where
  "plus_spaces s =
     (if s = [] then []
      else if take 3 s = ''%20'' then CHR ''+'' # plus_spaces (drop 3 s)
      else hd s # plus_spaces (tl s))"
  by pat_completeness auto
termination
  by (relation "measure length") auto

declare plus_spaces.simps [simp del]

definition form_value :: "string \<Rightarrow> string" where
  "form_value s = plus_spaces (encode_uri_component s)"

definition build_form_data :: "(string, string) dict \<Rightarrow> string" where
  "build_form_data form =
     join ''&'' (map (\<lambda>(k, v). k @ ''='' @ form_value v) (filter (\<lambda>(k, v). v \<noteq> []) form))"

definition utils_btoa :: "string \<Rightarrow> js_error + string" where
  "utils_btoa s =
     map_sum id (\<lambda>b. map (\<lambda>c. char_of (unat c)) (to_string b Base64)) (from_string (js_of s) Utf8)"

definition set_client_id_and_secret :: "string \<Rightarrow> string \<Rightarrow> (string, string) dict \<Rightarrow> (string, string) dict" where
  "set_client_id_and_secret client_id client_secret form =
     (let with_id = (if client_id \<noteq> [] then dict_set ''client_id'' client_id form else form)
      in if client_secret \<noteq> [] then dict_set ''client_secret'' client_secret with_id else with_id)"

record token_request =
  tq_body :: string
  tq_url :: string
  tq_headers :: "(string, string) dict"

definition authorize_password :: "oauth_dialog \<Rightarrow> js_error + token_request" where
  "authorize_password d =
     (let form = [(''grant_type'', ''password''), (''scope'', join '' '' (od_scopes d)),
                  (''username'', od_username d), (''password'', od_password d)];
          request = (\<lambda>form headers.
            \<lparr>tq_body = build_form_data form, tq_url = od_token_url d, tq_headers = headers\<rparr>)
      in if od_password_type d = ''request-body''
         then Inr (request (set_client_id_and_secret (od_client_id d) (od_client_secret d) form) [])
         else if od_password_type d = ''basic''
         then (case utils_btoa (od_client_id d @ '':'' @ od_client_secret d) of
                 Inl e \<Rightarrow> Inl e
               | Inr code \<Rightarrow> Inr (request form [(''Authorization'', ''Basic '' @ code)]))
         else Inr (request form []))"

text \<open>\<open>authorizeRequest\<close>: what is fetched, a POST.\<close>

record fetched =
  fe_url :: string
  fe_headers :: "(string, string) dict"
  fe_body :: string

definition default_headers :: "(string, string) dict" where
  "default_headers =
     [(''Accept'', ''application/json, text/plain, */*''), (''Content-Type'', ''application/x-www-form-urlencoded''),
      (''X-Requested-With'', ''XMLHttpRequest'')]"

definition authorize_fetch :: "(string \<Rightarrow> string) \<Rightarrow> token_request \<Rightarrow> fetched" where
  "authorize_fetch resolved r =
     \<lparr>fe_url = resolved (tq_url r), fe_headers = fold (\<lambda>(k, v). dict_set k v) (tq_headers r) default_headers,
      fe_body = tq_body r\<rparr>"

section \<open>The answer\<close>

text \<open>How the fetch ends: a response with \<open>ok\<close>, its status text and its data, which is JSON or the text of a
  parse error; or a rejection with its text and the data of the response, if it had any and that is JSON.\<close>

datatype token_answer =
    Answered bool string "string + json"
  | Rejected string "json option"

datatype auth_outcome = Authorized oauth_dialog json | AuthErr string string

definition js_truthy :: "json \<Rightarrow> bool" where
  "js_truthy v =
     (case v of JNull \<Rightarrow> False | JBool b \<Rightarrow> b | JNum n \<Rightarrow> n \<noteq> 0 | JStr s \<Rightarrow> s \<noteq> [] | _ \<Rightarrow> True)"

text \<open>\<open>v.k\<close>, if it counts as true.\<close>

definition member :: "json \<Rightarrow> string \<Rightarrow> json option" where
  "member v k =
     (case v of
        JObj d \<Rightarrow> (case dict_get d k of None \<Rightarrow> None | Some x \<Rightarrow> (if js_truthy x then Some x else None))
      | _ \<Rightarrow> None)"

definition authorize_outcome ::
  "(json \<Rightarrow> string) \<Rightarrow> (json \<Rightarrow> string) \<Rightarrow> oauth_dialog \<Rightarrow> token_answer \<Rightarrow> auth_outcome" where
  "authorize_outcome json_text text_of d a =
     (case a of
        Answered ok status_text (Inl parse_error) \<Rightarrow> AuthErr (od_name d) parse_error
      | Answered ok status_text (Inr v) \<Rightarrow>
          (if \<not> ok then AuthErr (od_name d) status_text
           else if member v ''error'' \<noteq> None \<or> member v ''parseError'' \<noteq> None then AuthErr (od_name d) (json_text v)
           else Authorized d v)
      | Rejected message response \<Rightarrow>
          (let part = (\<lambda>label k. case response of None \<Rightarrow> []
                 | Some v \<Rightarrow> (case member v k of None \<Rightarrow> [] | Some x \<Rightarrow> label @ text_of x))
           in AuthErr (od_name d)
                (message @ part '', error: '' ''error'' @ part '', description: '' ''error_description'')))"

text \<open>The reducer of \<open>authorize_oauth2\<close>: the dialog with the members of the token, under its name.\<close>

definition object_assign :: "json \<Rightarrow> (string, json) dict" where
  "object_assign v =
     (case v of
        JObj d \<Rightarrow> d
      | JList xs \<Rightarrow> zip (map str_of_nat [0..<length xs]) xs
      | JStr s \<Rightarrow> zip (map str_of_nat [0..<length s]) (map (\<lambda>c. JStr [c]) s)
      | _ \<Rightarrow> [])"

type_synonym authorized = "(string, oauth_dialog \<times> (string, json) dict) dict"

definition keep_token :: "auth_outcome \<Rightarrow> authorized \<Rightarrow> authorized" where
  "keep_token outcome known =
     (case outcome of
        AuthErr _ _ \<Rightarrow> known
      | Authorized d v \<Rightarrow> dict_set (od_name d) (d, object_assign v) known)"

definition log_out :: "string list \<Rightarrow> authorized \<Rightarrow> authorized" where
  "log_out names known = fold dict_pop names known"

section \<open>Later requests\<close>

text \<open>\<open>x || y\<close> of a member that may be missing.\<close>

definition dict_truthy :: "(string, json) dict \<Rightarrow> string \<Rightarrow> json option" where
  "dict_truthy token k =
     (case dict_get token k of None \<Rightarrow> None | Some v \<Rightarrow> (if js_truthy v then Some v else None))"

text \<open>The header of an OAuth2 scheme: \<open>token_name\<close> is its \<open>x-tokenName\<close>; a missing member reads \<open>undefined\<close> in
  the template; a type that counts as true and is no string has no \<open>toLowerCase\<close>.\<close>

definition oauth2_header ::
  "(json \<Rightarrow> string) \<Rightarrow> string option \<Rightarrow> (string, json) dict \<Rightarrow> js_error + string" where
  "oauth2_header text_of token_name token =
     (let name = (case token_name of None \<Rightarrow> ''access_token'' | Some n \<Rightarrow> (if n = [] then ''access_token'' else n));
          value = (case dict_get token name of None \<Rightarrow> ''undefined'' | Some v \<Rightarrow> text_of v)
      in case dict_truthy token ''token_type'' of
           None \<Rightarrow> Inr (''Bearer '' @ value)
         | Some (JStr t) \<Rightarrow> Inr ((if lower t = ''bearer'' then ''Bearer'' else t) @ '' '' @ value)
         | Some _ \<Rightarrow> Inl (JsError ''u.toLowerCase is not a function''))"

text \<open>Every scheme of every requirement that was authorized sets the header, the last one wins.
  \<open>operation_security\<close> and \<open>spec_security\<close> are \<open>None\<close> where the document has no such list.\<close>

fun apply_schemes ::
  "(json \<Rightarrow> string) \<Rightarrow> (string \<Rightarrow> string option) \<Rightarrow> authorized \<Rightarrow> string list \<Rightarrow> (string, string) dict \<Rightarrow>
   js_error + (string, string) dict" where
  "apply_schemes text_of token_name known [] headers = Inr headers"
| "apply_schemes text_of token_name known (scheme # schemes) headers =
     (case dict_get known scheme of
        None \<Rightarrow> apply_schemes text_of token_name known schemes headers
      | Some (d, token) \<Rightarrow>
          (case oauth2_header text_of (token_name scheme) token of
             Inl e \<Rightarrow> Inl e
           | Inr h \<Rightarrow> apply_schemes text_of token_name known schemes (dict_set ''Authorization'' h headers)))"

definition apply_securities ::
  "(json \<Rightarrow> string) \<Rightarrow> (string \<Rightarrow> string option) \<Rightarrow> authorized \<Rightarrow> string list list option \<Rightarrow>
   string list list option \<Rightarrow> (string, string) dict \<Rightarrow> js_error + (string, string) dict" where
  "apply_securities text_of token_name known operation_security spec_security headers =
     (if known = [] \<or> operation_security = Some [] then Inr headers
      else apply_schemes text_of token_name known
             (concat (or_else operation_security (or_else spec_security []))) headers)"

end
