(* ===== verification/Buffer_Properties.thy ===== *)
theory Buffer_Properties
  imports Buffer_Js
begin

text \<open>
  \<open>Buffer.from\<close> and \<open>toString\<close> undo each other: for UTF-8 up to unpaired surrogates, for Base64, Latin-1 and UTF-16
  exactly. The reference for UTF-8 is \<open>points\<close>, the code points of a string; the loops of the code are compared
  with it on both sides, and the loop under a limit with the loop without one.
\<close>

section \<open>Bits\<close>

lemma bit_ones: "bit (push_bit k (mask m) :: 32 word) n \<longleftrightarrow> k \<le> n \<and> n < k + m \<and> n < 32"
  by (auto simp: bit_simps)

lemma bit_constants:
  "bit (15 :: 32 word) n \<longleftrightarrow> n < 4" "bit (31 :: 32 word) n \<longleftrightarrow> n < 5" "bit (63 :: 32 word) n \<longleftrightarrow> n < 6"
  "bit (1023 :: 32 word) n \<longleftrightarrow> n < 10" "bit (128 :: 32 word) n \<longleftrightarrow> n = 7" "bit (192 :: 32 word) n \<longleftrightarrow> 6 \<le> n \<and> n < 8"
  "bit (224 :: 32 word) n \<longleftrightarrow> 5 \<le> n \<and> n < 8" "bit (240 :: 32 word) n \<longleftrightarrow> 4 \<le> n \<and> n < 8"
  "bit (55296 :: 32 word) n \<longleftrightarrow> n = 11 \<or> n = 12 \<or> 14 \<le> n \<and> n < 16"
  "bit (56320 :: 32 word) n \<longleftrightarrow> 10 \<le> n \<and> n < 13 \<or> 14 \<le> n \<and> n < 16"
proof -
  have "(15 :: 32 word) = push_bit 0 (mask 4)" "(31 :: 32 word) = push_bit 0 (mask 5)"
    "(63 :: 32 word) = push_bit 0 (mask 6)" "(1023 :: 32 word) = push_bit 0 (mask 10)"
    "(128 :: 32 word) = push_bit 7 (mask 1)" "(192 :: 32 word) = push_bit 6 (mask 2)"
    "(224 :: 32 word) = push_bit 5 (mask 3)" "(240 :: 32 word) = push_bit 4 (mask 4)"
    "(55296 :: 32 word) = push_bit 11 (mask 2) OR push_bit 14 (mask 2)"
    "(56320 :: 32 word) = push_bit 10 (mask 3) OR push_bit 14 (mask 2)"
    by (simp_all add: mask_eq_exp_minus_1 push_bit_eq_mult)
  note eqs = this
  show "bit (15 :: 32 word) n \<longleftrightarrow> n < 4" "bit (31 :: 32 word) n \<longleftrightarrow> n < 5" "bit (63 :: 32 word) n \<longleftrightarrow> n < 6"
  "bit (1023 :: 32 word) n \<longleftrightarrow> n < 10" "bit (128 :: 32 word) n \<longleftrightarrow> n = 7" "bit (192 :: 32 word) n \<longleftrightarrow> 6 \<le> n \<and> n < 8"
  "bit (224 :: 32 word) n \<longleftrightarrow> 5 \<le> n \<and> n < 8" "bit (240 :: 32 word) n \<longleftrightarrow> 4 \<le> n \<and> n < 8"
  "bit (55296 :: 32 word) n \<longleftrightarrow> n = 11 \<or> n = 12 \<or> 14 \<le> n \<and> n < 16"
  "bit (56320 :: 32 word) n \<longleftrightarrow> 10 \<le> n \<and> n < 13 \<or> 14 \<le> n \<and> n < 16"
    by (subst eqs, simp only: bit_ones bit_or_iff, linarith)+
qed

lemmas bitwise = bit_or_iff bit_and_iff bit_push_bit_iff bit_drop_bit_eq o_apply possible_bit_word bit_constants

lemma unat_two_power: "m < 32 \<Longrightarrow> unat ((2 :: 32 word) ^ m) = 2 ^ m"
proof -
  assume m: "m < 32"
  have "(2 :: 32 word) ^ m = of_nat (2 ^ m)" by simp
  moreover have "(2 :: nat) ^ m < 2 ^ 32" using m by (intro power_strict_increasing) auto
  ultimately show ?thesis using m by (simp only: unsigned_of_nat) (simp add: take_bit_nat_eq_self)
qed

lemma high_bits:
  fixes p :: "32 word"
  assumes "p < 2 ^ m" and "m < 32" and "bit p n"
  shows "n < m"
proof (rule ccontr)
  assume ge: "\<not> n < m"
  have "unat p < unat ((2 :: 32 word) ^ m)" using assms(1) by (simp only: word_less_nat_alt)
    then have "unat p < 2 ^ m" using unat_two_power[OF assms(2)] by simp
  then have "take_bit m (unat p) = unat p" by (simp add: take_bit_nat_eq_self)
  then have "\<not> bit (unat p) n" using ge by (metis bit_take_bit_iff)
  then show False using assms(3) by (simp add: bit_unsigned_iff bit_imp_le_length)
qed


lemma less_from_bits:
  fixes p :: "32 word"
  assumes "m < 32" and "\<And>n. bit p n \<Longrightarrow> n < m"
  shows "p < 2 ^ m"
proof -
  have "take_bit m p = p" by (rule bit_word_eqI) (use assms(2) in \<open>auto simp: bit_take_bit_iff\<close>)
  then have "unat p = take_bit m (unat p)" by (metis unsigned_take_bit_eq)
  then have "unat p < 2 ^ m" by (metis take_bit_nat_less_exp)
  then show ?thesis using unat_two_power[OF assms(1)] by (simp only: word_less_nat_alt)
qed

lemma byte_back:
  fixes p :: "32 word"
  assumes "\<And>n. bit p n \<Longrightarrow> n < 8"
  shows "ucast (ucast p :: 8 word) = p"
  by (rule bit_word_eqI) (use assms in \<open>auto simp: bit_ucast_iff\<close>)

text \<open>A lead byte: the upper bits are fixed, the lower ones small.\<close>

lemma or_lead:
  fixes q c :: "32 word"
  assumes "q < 2 ^ m" and "m < 32" and "\<And>n. bit c n \<Longrightarrow> m \<le> n"
  shows "unat (q OR c) = unat c + unat q"
proof -
  have "c + q = c OR q"
    by (rule disjunctive_add) (use high_bits[OF assms(1,2)] assms(3) in force)
  moreover have "unat (c OR q) = unat c OR unat q" by (simp add: unsigned_or_eq)
  moreover have "unat c OR unat q = unat c + unat q"
    by (rule disjunctive_add[symmetric]) (use high_bits[OF assms(1,2)] assms(3) in \<open>force simp: bit_unsigned_iff\<close>)
  ultimately show ?thesis by (simp add: or.commute)
qed

lemma drop_less:
  fixes p :: "32 word"
  assumes "p < 2 ^ (m + k)" "m + k < 32"
  shows "drop_bit k p < 2 ^ m"
proof (rule less_from_bits)
  show "m < 32" using assms(2) by simp
  show "n < m" if "bit (drop_bit k p) n" for n
    using high_bits[OF assms, of "k + n"] that by (simp add: bit_drop_bit_eq)
qed

lemma continuation: "192 AND (63 AND p OR 128 :: 32 word) = 128" "192 AND (p AND 63 OR 128 :: 32 word) = 128"
  by (rule bit_word_eqI; unfold bitwise; auto)+

definition is_scalar :: "32 word \<Rightarrow> bool" where
  "is_scalar p \<longleftrightarrow> p < 1114112 \<and> \<not> (55295 < p \<and> p < 57344)"

lemma points_back:
  fixes p :: "32 word"
  shows "p < 2048 \<Longrightarrow> point_of_2 (drop_bit 6 p OR 192) (63 AND p OR 128) = p"
    and "p < 65536 \<Longrightarrow> point_of_3 (drop_bit 12 p OR 224) (drop_bit 6 p AND 63 OR 128) (63 AND p OR 128) = p"
    and "p < 2097152 \<Longrightarrow> point_of_4 (drop_bit 18 p OR 240) (drop_bit 12 p AND 63 OR 128)
      (drop_bit 6 p AND 63 OR 128) (63 AND p OR 128) = p"
proof -
  have two: "p < 2048 \<Longrightarrow> bit p n \<Longrightarrow> n < 11" and three: "p < 65536 \<Longrightarrow> bit p n \<Longrightarrow> n < 16"
    and four: "p < 2097152 \<Longrightarrow> bit p n \<Longrightarrow> n < 21" for n
    using high_bits[of p 11 n] high_bits[of p 16 n] high_bits[of p 21 n] by simp_all
  show "point_of_2 (drop_bit 6 p OR 192) (63 AND p OR 128) = p" if "p < 2048"
  proof (rule bit_word_eqI)
    fix n assume "n < LENGTH(32)"
    with two[OF that, of n] show "bit (point_of_2 (drop_bit 6 p OR 192) (63 AND p OR 128)) n = bit p n"
      unfolding point_of_2_def bitwise by auto
  qed
  show "point_of_3 (drop_bit 12 p OR 224) (drop_bit 6 p AND 63 OR 128) (63 AND p OR 128) = p" if "p < 65536"
  proof (rule bit_word_eqI)
    fix n assume "n < LENGTH(32)"
    with three[OF that, of n] show "bit (point_of_3 (drop_bit 12 p OR 224) (drop_bit 6 p AND 63 OR 128) (63 AND p OR 128)) n
        = bit p n"
      unfolding point_of_3_def bitwise by (cases "n < 6"; cases "n < 12") auto
  qed
  show "point_of_4 (drop_bit 18 p OR 240) (drop_bit 12 p AND 63 OR 128)
      (drop_bit 6 p AND 63 OR 128) (63 AND p OR 128) = p" if "p < 2097152"
  proof (rule bit_word_eqI)
    fix n assume "n < LENGTH(32)"
    with four[OF that, of n] show "bit (point_of_4 (drop_bit 18 p OR 240) (drop_bit 12 p AND 63 OR 128)
        (drop_bit 6 p AND 63 OR 128) (63 AND p OR 128)) n = bit p n"
      unfolding point_of_4_def bitwise by (cases "n < 6"; cases "n < 12"; cases "n < 18") auto
  qed
qed

lemma bytes_kept:
  fixes p :: "32 word"
  shows "ucast (ucast (63 AND p OR 128) :: 8 word) = (63 AND p OR 128 :: 32 word)"
    "ucast (ucast (p AND 63 OR 128) :: 8 word) = (p AND 63 OR 128 :: 32 word)"
    "p < 128 \<Longrightarrow> ucast (ucast p :: 8 word) = p"
    "p < 2048 \<Longrightarrow> ucast (ucast (drop_bit 6 p OR 192) :: 8 word) = drop_bit 6 p OR 192"
    "p < 65536 \<Longrightarrow> ucast (ucast (drop_bit 12 p OR 224) :: 8 word) = drop_bit 12 p OR 224"
    "p < 2097152 \<Longrightarrow> ucast (ucast (drop_bit 18 p OR 240) :: 8 word) = drop_bit 18 p OR 240"
  subgoal by (rule byte_back) (unfold bitwise, auto)
  subgoal by (rule byte_back) (unfold bitwise, auto)
  subgoal using high_bits[of p 7] by (intro byte_back) force
  subgoal using high_bits[of p 11] by (intro byte_back) (unfold bitwise, force)
  subgoal using high_bits[of p 16] by (intro byte_back) (unfold bitwise, force)
  subgoal using high_bits[of p 21] by (intro byte_back) (unfold bitwise, force)
  done

lemma lead_lengths:
  fixes p :: "32 word"
  shows "p < 128 \<Longrightarrow> sequence_length p = 1"
    "p < 2048 \<Longrightarrow> sequence_length (drop_bit 6 p OR 192) = 2"
    "p < 65536 \<Longrightarrow> sequence_length (drop_bit 12 p OR 224) = 3"
    "p < 1114112 \<Longrightarrow> sequence_length (drop_bit 18 p OR 240) = 4"
proof -
  show "sequence_length p = 1" if "p < 128" using that by (simp add: sequence_length_def word_less_nat_alt)
  show "sequence_length (drop_bit 6 p OR 192) = 2" if "p < 2048"
  proof -
    have q: "drop_bit 6 p < 2 ^ 5" using drop_less[of p 5 6] that by simp
    then have "unat (drop_bit 6 p OR 192) = unat (192 :: 32 word) + unat (drop_bit 6 p)"
      by (rule or_lead) (simp, unfold bit_constants, linarith)
    with q show ?thesis by (simp add: sequence_length_def word_less_nat_alt)
  qed
  show "sequence_length (drop_bit 12 p OR 224) = 3" if "p < 65536"
  proof -
    have q: "drop_bit 12 p < 2 ^ 4" using drop_less[of p 4 12] that by simp
    then have "unat (drop_bit 12 p OR 224) = unat (224 :: 32 word) + unat (drop_bit 12 p)"
      by (rule or_lead) (simp, unfold bit_constants, linarith)
    with q show ?thesis by (simp add: sequence_length_def word_less_nat_alt)
  qed
  show "sequence_length (drop_bit 18 p OR 240) = 4" if "p < 1114112"
  proof -
    have "p < 2097152" using that by (rule less_trans) simp
    then have q: "drop_bit 18 p < 2 ^ 3" using drop_less[of p 3 18] by simp
    then have "unat (drop_bit 18 p OR 240) = unat (240 :: 32 word) + unat (drop_bit 18 p)"
      by (rule or_lead) (simp, unfold bit_constants, linarith)
    with q show ?thesis by (simp add: sequence_length_def word_less_nat_alt)
  qed
qed


text \<open>One code point, written and read.\<close>

lemma read_back:
  assumes "is_scalar p"
  shows "read_point (utf8_bytes p @ rest) = Some p \<and>
    sequence_length (byte_at (utf8_bytes p @ rest) 0) = length (utf8_bytes p) \<and> utf8_bytes p \<noteq> []"
proof -
  consider (1) "p < 128" | (2) "\<not> p < 128" "p < 2048" | (3) "\<not> p < 2048" "p < 65536"
    | (4) "\<not> p < 65536" "p < 1114112"
    using assms by (auto simp: is_scalar_def)
  then show ?thesis
  proof cases
    case 1
    then show ?thesis
      by (simp add: read_point_def utf8_bytes_def byte_at_def bytes_kept lead_lengths Let_def)
  next
    case 2
    then have "127 < p" by (simp add: word_less_nat_alt)
    with 2 show ?thesis
      by (simp add: read_point_def utf8_bytes_def byte_at_def bytes_kept lead_lengths points_back Let_def
          continues_def continuation)
  next
    case 3
    then have "2047 < p" "\<not> p < 128" by (simp_all add: word_less_nat_alt)
    moreover have "p < 55296 \<or> 57343 < p" using assms 3 by (auto simp: is_scalar_def word_less_nat_alt)
    ultimately show ?thesis using 3
      by (simp add: read_point_def utf8_bytes_def byte_at_def bytes_kept lead_lengths points_back Let_def
          continues_def continuation)
  next
    case 4
    then have "65535 < p" "\<not> p < 128" "\<not> p < 2048" "p < 2097152" by (simp_all add: word_less_nat_alt)
    with 4 show ?thesis
      by (simp add: read_point_def utf8_bytes_def byte_at_def bytes_kept lead_lengths points_back Let_def
          continues_def continuation)
  qed
qed

lemma utf8_units_points:
  assumes "\<forall>p \<in> set ps. is_scalar p"
  shows "utf8_units (concat (map utf8_bytes ps)) = concat (map utf16_units ps)"
  using assms
proof (induction ps)
  case Nil
  show ?case by (simp add: utf8_units.simps)
next
  case (Cons p ps)
  note rb = read_back[of p "concat (map utf8_bytes ps)"]
  have "utf8_units (utf8_bytes p @ concat (map utf8_bytes ps)) =
      utf16_units p @ utf8_units (concat (map utf8_bytes ps))"
    by (subst utf8_units.simps) (use rb Cons.prems in simp)
  with Cons show ?case by simp
qed

section \<open>The reference\<close>

definition leads :: "16 word \<Rightarrow> bool" where
  "leads c \<longleftrightarrow> 55296 \<le> c \<and> c < 56320"

definition trails :: "16 word \<Rightarrow> bool" where
  "trails c \<longleftrightarrow> 56320 \<le> c \<and> c < 57344"

text \<open>The code points of a string, a surrogate without its partner as \<open>U+FFFD\<close>.\<close>

fun points :: "js_string \<Rightarrow> 32 word list" where
  "points [] = []"
| "points [c] = [if leads c \<or> trails c then 65533 else ucast c]"
| "points (c # d # cs) =
     (if leads c \<and> trails d then pair_point (ucast c) (ucast d) # points cs
      else (if leads c \<or> trails c then 65533 else ucast c) # points (d # cs))"

definition mend :: "js_string \<Rightarrow> js_string" where
  "mend s = concat (map utf16_units (points s))"

fun well_formed :: "js_string \<Rightarrow> bool" where
  "well_formed [] = True"
| "well_formed [c] = (\<not> leads c \<and> \<not> trails c)"
| "well_formed (c # d # cs) = (if leads c then trails d \<and> well_formed cs else \<not> trails c \<and> well_formed (d # cs))"

definition two_leads_at_end :: "js_string \<Rightarrow> bool" where
  "two_leads_at_end s = (case rev s of b # a # _ \<Rightarrow> leads a \<and> leads b | _ \<Rightarrow> False)"

lemma unat_ucast_unit: "unat (ucast (c :: 16 word) :: 32 word) = unat c"
proof -
  have "unat c < 2 ^ 32" by (rule less_trans[OF unsigned_less]) simp
  then show ?thesis by (simp add: unsigned_ucast_eq take_bit_nat_eq_self)
qed

lemma surrogate_tests:
  fixes c :: "16 word"
  shows "55295 < (ucast c :: 32 word) \<longleftrightarrow> 55296 \<le> unat c" "(ucast c :: 32 word) < 57344 \<longleftrightarrow> unat c < 57344"
    "56319 < (ucast c :: 32 word) \<longleftrightarrow> 56320 \<le> unat c" "(ucast c :: 32 word) < 56320 \<longleftrightarrow> unat c < 56320"
  by (auto simp: word_less_nat_alt unat_ucast_unit)

lemma leads_nat: "leads c \<longleftrightarrow> 55296 \<le> unat c \<and> unat c < 56320"
  by (simp add: leads_def word_less_nat_alt word_le_nat_alt)

lemma trails_nat: "trails c \<longleftrightarrow> 56320 \<le> unat c \<and> unat c < 57344"
  by (simp add: trails_def word_less_nat_alt word_le_nat_alt)


lemma ucast_ucast_unit: "ucast (ucast (c :: 16 word) :: 32 word) = c"
  by (rule bit_word_eqI) (auto simp: bit_ucast_iff)

lemma word_of_unat:
  fixes x y :: "32 word"
  shows "unat x = unat y \<Longrightarrow> x = y"
  by (simp add: word_unat_eq_iff)

text \<open>A pair of surrogates and its code point.\<close>

lemma pair_parts:
  assumes "leads c" and "trails d"
  obtains h l where "pair_point (ucast c) (ucast d) = 65536 + (push_bit 10 h OR l)"
    and "h < 2 ^ 10" and "l < 2 ^ 10" and "h OR 55296 = ucast c" and "l OR 56320 = ucast d"
proof -
  let ?h = "ucast c - 55296 :: 32 word" and ?l = "ucast d - 56320 :: 32 word"
  have "unat ?h = unat c - 55296" "unat ?l = unat d - 56320"
    using assms by (simp_all add: unat_sub_if' unat_ucast_unit leads_nat trails_nat)
  then have small: "?h < 2 ^ 10" "?l < 2 ^ 10"
    using assms by (simp_all add: word_less_nat_alt leads_nat trails_nat) linarith+
  have "unat (?h OR 55296) = unat (55296 :: 32 word) + unat ?h"
    by (rule or_lead[OF small(1)]) (simp, unfold bit_constants, linarith)
  moreover have "unat (?l OR 56320) = unat (56320 :: 32 word) + unat ?l"
    by (rule or_lead[OF small(2)]) (simp, unfold bit_constants, linarith)
  ultimately have "?h OR 55296 = ucast c" "?l OR 56320 = ucast d"
    using assms \<open>unat ?h = _\<close> \<open>unat ?l = _\<close>
    by (auto intro!: word_of_unat simp: unat_ucast_unit leads_nat trails_nat)
  with small that[of ?h ?l] show ?thesis by (simp add: pair_point_def)
qed

lemma pair_point_bounds:
  assumes "leads c" and "trails d"
  shows "65535 < pair_point (ucast c) (ucast d)" and "pair_point (ucast c) (ucast d) < 1114112"
    and "utf16_units (pair_point (ucast c) (ucast d)) = [c, d]"
proof -
  obtain h l where p: "pair_point (ucast c) (ucast d) = 65536 + (push_bit 10 h OR l)"
    and h: "h < 2 ^ 10" and l: "l < 2 ^ 10" and c: "h OR 55296 = ucast c" and d: "l OR 56320 = ucast d"
    using pair_parts[OF assms] .
  let ?q = "push_bit 10 h OR l"
  have hb: "bit h n \<Longrightarrow> n < 10" and lb: "bit l n \<Longrightarrow> n < 10" for n
    using high_bits[OF h] high_bits[OF l] by simp_all
  have "?q < 2 ^ 20"
  proof (rule less_from_bits)
    show "n < 20" if "bit ?q n" for n
      using that hb[of "n - 10"] lb[of n] by (auto simp: bit_or_iff bit_push_bit_iff)
  qed simp
  then have "unat ?q < 1048576" by (simp add: word_less_nat_alt)
  then have "unat (65536 + ?q) = 65536 + unat ?q" by (simp add: unat_word_ariths)
  then show big: "65535 < pair_point (ucast c) (ucast d)" and "pair_point (ucast c) (ucast d) < 1114112"
    using \<open>unat ?q < _\<close> p by (simp_all add: word_less_nat_alt)
  have "drop_bit 10 ?q AND 1023 = h"
  proof (rule bit_word_eqI)
    fix n assume "n < LENGTH(32)"
    then show "bit (drop_bit 10 ?q AND 1023) n = bit h n"
      using hb[of n] lb[of "10 + n"] unfolding bitwise by auto
  qed
  moreover have "56320 OR 1023 AND ?q = l OR 56320"
    by (rule bit_word_eqI) (unfold bitwise, use hb lb in auto)
  ultimately show "utf16_units (pair_point (ucast c) (ucast d)) = [c, d]"
    using big c d p by (simp add: utf16_units_def Let_def ucast_ucast_unit)
qed

lemma unit_scalar: "\<not> leads c \<Longrightarrow> \<not> trails c \<Longrightarrow> is_scalar (ucast c)"
proof -
  assume "\<not> leads c" "\<not> trails c"
  moreover have "unat c < 65536" using unsigned_less[of c] by simp
  ultimately show ?thesis
    by (auto simp: is_scalar_def leads_nat trails_nat surrogate_tests word_less_nat_alt unat_ucast_unit)
qed

lemma unit_units: "utf16_units (ucast c) = [c]"
proof -
  have "unat c < 65536" using unsigned_less[of c] by simp
  then have "\<not> 65535 < (ucast c :: 32 word)" by (simp add: word_less_nat_alt unat_ucast_unit)
  then show ?thesis by (simp add: utf16_units_def ucast_ucast_unit)
qed

lemma points_scalar: "\<forall>p \<in> set (points s). is_scalar p"
proof (induction s rule: points.induct)
  case (2 c)
  show ?case using unit_scalar[of c] by (auto simp: is_scalar_def word_less_nat_alt)
next
  case (3 c d cs)
  have "is_scalar 65533" by (simp add: is_scalar_def word_less_nat_alt)
  moreover have "is_scalar (pair_point (ucast c) (ucast d))" if "leads c" "trails d"
    using pair_point_bounds(1,2)[OF that] by (auto simp: is_scalar_def word_less_nat_alt)
  ultimately show ?case using 3 unit_scalar[of c] by auto
qed simp

lemma mend_well_formed: "well_formed s \<Longrightarrow> mend s = s"
  by (induction s rule: well_formed.induct)
    (auto simp: mend_def unit_units pair_point_bounds split: if_splits)

text \<open>The loop without a limit writes the code points; only a lead that follows a lead and ends the string is lost.\<close>

lemma two_leads_Cons: "two_leads_at_end cs \<Longrightarrow> two_leads_at_end (c # cs)"
  by (auto simp: two_leads_at_end_def split: list.splits)

lemma points_plain: "\<not> leads c \<Longrightarrow> points (c # cs) = (if trails c then 65533 else ucast c) # points cs"
  by (cases cs) auto

lemma replacement_bytes: "replacement = utf8_bytes 65533"
  by (simp add: replacement_def utf8_bytes_def)

lemma surrogate_test: "55295 < (ucast c :: 32 word) \<and> (ucast c :: 32 word) < 57344 \<longleftrightarrow> leads c \<or> trails c"
  by (auto simp: surrogate_tests leads_nat trails_nat)

lemma loop_unlimited [simp]: "spend n None = None" "room_left None"
  by (simp_all add: spend_def room_left_def)

lemma utf8_loop_Cons:
  "utf8_loop (c # cs) None None =
     (if leads c \<or> trails c
      then (if trails c \<or> cs = [] then replacement @ utf8_loop cs None None else utf8_loop cs (Some (ucast c)) None)
      else utf8_bytes (ucast c) @ utf8_loop cs None None)"
  "utf8_loop (c # cs) (Some u) None =
     (if trails c then utf8_bytes (pair_point u (ucast c)) @ utf8_loop cs None None
      else if leads c then replacement @ utf8_loop cs (Some (ucast c)) None
      else replacement @ utf8_bytes (ucast c) @ utf8_loop cs None None)"
  by (auto simp: Let_def surrogate_tests leads_nat trails_nat)

declare utf8_loop.simps(2) [simp del]

lemma utf8_loop_points:
  "(\<not> two_leads_at_end s \<longrightarrow> utf8_loop s None None = concat (map utf8_bytes (points s))) \<and>
   (\<forall>c. leads c \<longrightarrow> s \<noteq> [] \<longrightarrow> \<not> two_leads_at_end (c # s) \<longrightarrow>
      utf8_loop s (Some (ucast c)) None = concat (map utf8_bytes (points (c # s))))"
proof (induction s)
  case (Cons d ds)
  have excl: "trails d \<Longrightarrow> \<not> leads d" by (simp add: leads_nat trails_nat)
  have "utf8_loop (d # ds) None None = concat (map utf8_bytes (points (d # ds)))"
    if "\<not> two_leads_at_end (d # ds)"
    using Cons that two_leads_Cons[of ds d] excl
    by (cases ds) (auto simp: utf8_loop_Cons points_plain replacement_bytes)
  moreover have "utf8_loop (d # ds) (Some (ucast c)) None = concat (map utf8_bytes (points (c # d # ds)))"
    if "leads c" "\<not> two_leads_at_end (c # d # ds)" for c
  proof -
    have "\<not> two_leads_at_end (d # ds)" "\<not> two_leads_at_end ds"
      using that(2) two_leads_Cons by blast+
    moreover have "leads d \<Longrightarrow> ds \<noteq> []" using that by (auto simp: two_leads_at_end_def)
    ultimately show ?thesis using Cons that(1) excl
      by (auto simp: utf8_loop_Cons points_plain replacement_bytes)
  qed
  ultimately show ?case by blast
qed simp


lemma concat_bytes_empty: "concat (map utf8_bytes ps) = [] \<longleftrightarrow> ps = []"
  by (cases ps) (auto simp: utf8_bytes_def)

section \<open>Room\<close>

lemma width_length: "utf8_width p = int (length (utf8_bytes p))"
  by (simp add: utf8_width_def utf8_bytes_def)

lemma spend_Some [simp]: "spend n (Some k) = Some (k - n)" and room_left_Some [simp]: "room_left (Some k) = (0 \<le> k)"
  by (simp_all add: spend_def room_left_def)

lemma loop_in_room:
  "int (length (utf8_loop s lead None)) \<le> k \<Longrightarrow> utf8_loop s lead (Some k) = utf8_loop s lead None"
proof (induction s arbitrary: lead k)
  case (Cons c cs)
  then show ?case
    by (cases lead)
      (auto simp: utf8_loop.simps(2) Let_def width_length replacement_def split: if_splits)
qed simp

lemma loop_bound: "int (length (utf8_loop s lead (Some k))) \<le> max 0 k"
proof (induction s arbitrary: lead k)
  case (Cons c cs)
  let ?i = "ucast c :: 32 word"
  have IH: "int (length (utf8_loop cs l (Some (k - n)))) \<le> max 0 (k - n)" for l n by (rule Cons)
  show ?case
    using IH[of None "utf8_width ?i"] IH[of None 3] IH[of "Some ?i" 0] IH[of "Some ?i" 3]
      IH[of None "utf8_width (pair_point (the lead) ?i)"] IH[of None "3 + utf8_width ?i"]
    by (cases lead)
      (auto simp: utf8_loop.simps(2) Let_def width_length replacement_def max_def algebra_simps split: if_splits)
qed simp

lemma bytes_at_most_4: "length (utf8_bytes p) \<le> 4" and unit_bytes_at_most_3: "length (utf8_bytes (ucast (c :: 16 word))) \<le> 3"
proof -
  have "unat c < 65536" using unsigned_less[of c] by simp
  then have "(ucast c :: 32 word) < 65536" by (simp add: word_less_nat_alt unat_ucast_unit)
  then show "length (utf8_bytes (ucast c)) \<le> 3" by (simp add: utf8_bytes_def)
qed (simp add: utf8_bytes_def)

lemma loop_length: "length (utf8_loop s lead None) \<le> 3 * length s + (if lead = None then 0 else 3)"
proof (induction s arbitrary: lead)
  case (Cons c cs)
  have "length (utf8_loop cs None None) \<le> 3 * length cs" using Cons[of None] by simp
  moreover have "length (utf8_loop cs (Some (ucast c)) None) \<le> 3 * length cs + 3" using Cons[of "Some (ucast c)"] by simp
  ultimately show ?case
    using bytes_at_most_4[of "pair_point (the lead) (ucast c)"] unit_bytes_at_most_3[of c]
    by (cases lead) (auto simp: utf8_loop_Cons replacement_def)
qed simp

section \<open>Chunks\<close>

lemma from_chunks_all: "from_chunks units a = drop a units"
proof (induction units a rule: from_chunks.induct)
  case (1 units a)
  show ?case
  proof (cases "a < length units")
    case True
    with 1 have "from_chunks units a = take MAX_ARGUMENTS_LENGTH (drop a units) @ drop (a + MAX_ARGUMENTS_LENGTH) units"
      by (subst from_chunks.simps) simp
    also have "drop (a + MAX_ARGUMENTS_LENGTH) units = drop MAX_ARGUMENTS_LENGTH (drop a units)" by (simp add: add.commute)
    finally show ?thesis by (simp only: append_take_drop_id)
  next
    case False
    then show ?thesis by (subst from_chunks.simps) simp
  qed
qed

lemma decode_code_points_array_id [simp]: "decode_code_points_array units = units"
  by (simp add: decode_code_points_array_def from_chunks_all)

lemma array_slice_all [simp]: "array_slice 0 (length s) s = s"
  by (simp add: array_slice_def)

section \<open>There and back\<close>

lemma to_string_utf8: "to_string b Utf8 = utf8_units b"
  by (simp add: to_string_def utf8_slice_def utf8_units.simps)

lemma from_string_exact:
  assumes "byte_length_for s enc = Inr (length b)" and "bytes_for s enc (length b) = Inr b"
    and "int (length b) \<le> kMaxLength"
  shows "from_string s enc = Inr b"
  using assms by (simp add: from_string_def blit_def)

lemma from_string_utf8:
  assumes "3 * int (length s) \<le> kMaxLength"
  shows "from_string s Utf8 = Inr (utf8_loop s None None)"
proof (rule from_string_exact)
  let ?b = "utf8_loop s None None"
  show "byte_length_for s Utf8 = Inr (length ?b)" by (simp add: byte_length_for_def utf8_to_bytes_def)
  show "bytes_for s Utf8 (length ?b) = Inr ?b"
    using loop_in_room[of s None "int (length ?b)"] by (simp add: bytes_for_def utf8_to_bytes_def)
  show "int (length ?b) \<le> kMaxLength" using loop_length[of s None] assms by simp
qed

section \<open>The other encodings\<close>

text \<open>The text of a byte array: characters of the alphabet, then as many \<open>=\<close> as fill the last group.\<close>

lemma codes_in_alphabet:
  "code_of (x AND 63) \<in> set alphabet" "code_of (63 AND x) \<in> set alphabet"
  "code_of (drop_bit 2 (ucast (a :: 8 word))) \<in> set alphabet" "code_of (drop_bit 10 (pair_of a b)) \<in> set alphabet"
proof -
  have codes: "code_of y \<in> set alphabet" if "unat y < 64" for y
  proof -
    have "length alphabet = 64" by (simp add: alphabet_def)
    with that show ?thesis unfolding code_of_def by (intro nth_mem) simp
  qed
  have masked: "unat (z AND 63 :: 32 word) < 64" for z by (rule unat_sextet)
  show "code_of (x AND 63) \<in> set alphabet" "code_of (63 AND x) \<in> set alphabet"
    by (rule codes, rule unat_sextet)+
  show "code_of (drop_bit 2 (ucast (a :: 8 word))) \<in> set alphabet"
    by (rule codes) (subst high_bits_masked(1), rule masked)
  show "code_of (drop_bit 10 (pair_of a b)) \<in> set alphabet"
    by (rule codes) (subst high_bits_masked(2), rule masked)
qed

lemma encode_ref_shape:
  "\<exists>t. encode_ref b = t @ replicate ((4 - length t mod 4) mod 4) CHR ''='' \<and> set t \<subseteq> set alphabet \<and> length t \<noteq> 1"
proof (induction b rule: encode_ref.induct)
  case (4 a b c bs)
  then obtain t where t: "encode_ref bs = t @ replicate ((4 - length t mod 4) mod 4) CHR ''=''"
      "set t \<subseteq> set alphabet" "length t \<noteq> 1" by blast
  moreover have "set (tuple (group_of a b c)) \<subseteq> set alphabet" by (simp add: tuple_def codes_in_alphabet)
  ultimately show ?case by (intro exI[of _ "tuple (group_of a b c) @ t"]) simp
next
  case (2 a)
  have "set [code_of (drop_bit 2 (ucast a)), code_of (push_bit 4 (ucast a) AND 63)] \<subseteq> set alphabet"
    by (simp add: codes_in_alphabet del: push_bit_and)
  then show ?case
    by (intro exI[of _ "[code_of (drop_bit 2 (ucast a)), code_of (push_bit 4 (ucast a) AND 63)]"])
      (simp add: numeral_2_eq_2)
next
  case (3 a b)
  let ?t = "[code_of (drop_bit 10 (pair_of a b)), code_of (drop_bit 4 (pair_of a b) AND 63), code_of (push_bit 2 (pair_of a b) AND 63)]"
  have "set ?t \<subseteq> set alphabet" by (simp add: codes_in_alphabet del: push_bit_and)
  then show ?case by (intro exI[of _ ?t]) (simp del: push_bit_and)
qed simp

lemma alphabet_units:
  assumes "c \<in> set alphabet"
  shows "base64_unit (of_char c)" and "\<not> js_space (of_char c)" and "of_char c \<noteq> (of_char CHR ''='' :: 16 word)"
    and "char_of (unat (of_char c :: 16 word)) = c"
proof -
  have "list_all (\<lambda>c. base64_unit (of_char c) \<and> \<not> js_space (of_char c) \<and> of_char c \<noteq> (of_char CHR ''='' :: 16 word)
     \<and> char_of (unat (of_char c :: 16 word)) = c) alphabet" by code_simp
  with assms show "base64_unit (of_char c)" "\<not> js_space (of_char c)" "of_char c \<noteq> (of_char CHR ''='' :: 16 word)"
    "char_of (unat (of_char c :: 16 word)) = c" by (auto simp: list_all_iff)
qed

lemma js_trim_plain: "\<forall>c \<in> set s. \<not> js_space c \<Longrightarrow> js_trim s = s"
proof -
  have drop: "\<forall>c \<in> set s. \<not> js_space c \<Longrightarrow> dropWhile js_space s = s" for s by (cases s) auto
  assume "\<forall>c \<in> set s. \<not> js_space c"
  with drop[of s] drop[of "rev s"] show ?thesis by (simp add: js_trim_def)
qed

lemma base64clean_encoded: "base64clean (js_of (encode_ref b)) = encode_ref b"
proof -
  obtain t where t: "encode_ref b = t @ replicate ((4 - length t mod 4) mod 4) CHR ''=''"
      "set t \<subseteq> set alphabet" "length t \<noteq> 1" using encode_ref_shape by blast
  note unit = alphabet_units[OF subsetD[OF t(2)]]
  let ?eq = "of_char CHR ''='' :: 16 word"
  have "takeWhile (\<lambda>c. c \<noteq> ?eq) (js_of (encode_ref b)) = js_of t"
  proof -
    have "takeWhile (\<lambda>c. c \<noteq> ?eq) (js_of t @ js_of (replicate n CHR ''='')) = js_of t" for n
      using unit(3) by (subst takeWhile_append2) (auto simp: js_of_def takeWhile_replicate)
    then show ?thesis by (simp add: t(1) js_of_def)
  qed
  moreover have "js_trim (js_of t) = js_of t" by (rule js_trim_plain) (use unit(2) in \<open>auto simp: js_of_def\<close>)
  moreover have "filter base64_unit (js_of t) = js_of t" using unit(1) by (auto simp: js_of_def)
  moreover have "map (\<lambda>c. char_of (unat c)) (js_of t) = t"
    using unit(4) by (auto simp: js_of_def intro!: map_idI)
  moreover have "t = [] \<or> 2 \<le> length t" using t(3) by (cases t) (auto simp: Suc_le_eq)
  moreover have "t = [] \<Longrightarrow> encode_ref b = []" using t(1) by simp
  ultimately show ?thesis using t(1) by (auto simp: base64clean_def Let_def js_of_def)
qed

lemma to_string_base64: "to_string b Base64 = js_of (encode_ref b)"
  by (cases b) (auto simp: to_string_def base64_slice_def from_byte_array_ref js_of_def)

lemma from_string_base64:
  assumes "int (length b) \<le> kMaxLength"
  shows "from_string (to_string b Base64) Base64 = Inr b"
  using assms
  by (intro from_string_exact)
    (simp_all add: byte_length_for_def bytes_for_def base64_to_bytes_def to_string_base64 base64clean_encoded to_byte_array_ref)

lemma from_string_latin1:
  assumes "int (length b) \<le> kMaxLength"
  shows "from_string (to_string b Latin1) Latin1 = Inr b"
proof -
  have "ucast (255 AND (ucast x :: 16 word)) = x" for x :: "8 word"
  proof -
    have "255 AND (ucast x :: 16 word) = take_bit 8 (ucast x)" by (simp add: take_bit_eq_mask mask_eq_exp_minus_1 and.commute)
    moreover have "ucast (take_bit 8 (ucast x :: 16 word)) = x" by (rule bit_word_eqI) (auto simp: bit_simps)
    ultimately show ?thesis by simp
  qed
  then have "ascii_to_bytes (to_string b Latin1) = b" "length (to_string b Latin1) = length b"
    by (auto simp: ascii_to_bytes_def to_string_def latin1_slice_def intro!: map_idI)
  with assms show ?thesis
    by (intro from_string_exact) (simp_all add: byte_length_for_def bytes_for_def)
qed

lemma utf16le_exact: "length (utf16le_to_bytes s (2 * int (length s))) = 2 * length s
    \<and> utf16le_units (utf16le_to_bytes s (2 * int (length s))) = s"
proof (induction s)
  case (Cons c cs)
  have "ucast (ucast (take_bit 8 c) :: 8 word) + 256 * ucast (ucast (drop_bit 8 c) :: 8 word) = c"
  proof -
    let ?a = "ucast (ucast (take_bit 8 c) :: 8 word) :: 16 word" and ?b = "ucast (ucast (drop_bit 8 c) :: 8 word) :: 16 word"
    have "256 * ?b = push_bit 8 ?b" by (simp add: push_bit_eq_mult)
    moreover have "?a + push_bit 8 ?b = ?a OR push_bit 8 ?b"
      by (rule disjunctive_add) (auto simp: bit_simps)
    moreover have "?a OR push_bit 8 ?b = c"
      by (rule bit_word_eqI) (auto simp: bit_simps)
    ultimately show ?thesis by simp
  qed
  moreover have "2 * int (length (c # cs)) - 2 = 2 * int (length cs)" by simp
  ultimately show ?case using Cons by simp
qed simp

lemma to_string_utf16le:
  assumes "2 * int (length s) \<le> kMaxLength"
  shows "\<exists>b. from_string s Utf16le = Inr b \<and> to_string b Utf16le = s"
proof -
  let ?b = "utf16le_to_bytes s (2 * int (length s))"
  have "from_string s Utf16le = Inr ?b"
    using assms utf16le_exact[of s] by (intro from_string_exact) (simp_all add: byte_length_for_def bytes_for_def)
  moreover have "to_string ?b Utf16le = s"
    using utf16le_exact[of s] by (cases "?b = []") (auto simp: to_string_def utf16le_slice_def array_slice_def)
  ultimately show ?thesis by blast
qed

section \<open>Properties\<close>

text \<open>C16: whatever text is written as UTF-8 is read back, its unpaired surrogates as replacement characters; a
  text without any comes back unchanged. Only a lead surrogate at the very end and right after another
  one is dropped.\<close>

theorem utf8_round_trip:
  assumes "3 * int (length s) \<le> kMaxLength" and "\<not> two_leads_at_end s"
  shows "\<exists>b. from_string s Utf8 = Inr b \<and> to_string b Utf8 = mend s \<and> (well_formed s \<longrightarrow> mend s = s)"
proof -
  have "utf8_loop s None None = concat (map utf8_bytes (points s))" using utf8_loop_points assms(2) by blast
  then have "to_string (utf8_loop s None None) Utf8 = mend s"
    by (simp add: to_string_utf8 utf8_units_points[OF points_scalar] mend_def)
  then show ?thesis using from_string_utf8[OF assms(1)] mend_well_formed by blast
qed

text \<open>A letter, a letter outside ASCII, the euro sign, a face beyond the basic plane, and half of one.\<close>

lemma utf8_round_trip_witness:
  "\<exists>b. from_string [97, 0xE9, 0x20AC, 0xD83D, 0xDE00, 0xD83D] Utf8 = Inr b \<and>
     to_string b Utf8 = [97, 0xE9, 0x20AC, 0xD83D, 0xDE00, 0xFFFD]"
proof -
  let ?s = "[97, 0xE9, 0x20AC, 0xD83D, 0xDE00, 0xD83D] :: js_string"
  have "3 * int (length ?s) \<le> kMaxLength" by (simp add: kMaxLength_def)
  moreover have "\<not> two_leads_at_end ?s" by code_simp
  moreover have "mend ?s = [97, 0xE9, 0x20AC, 0xD83D, 0xDE00, 0xFFFD]" by code_simp
  ultimately show ?thesis using utf8_round_trip[of ?s] by metis
qed

text \<open>The dropped lead: two of them are written as one replacement character.\<close>

lemma second_lead_is_dropped:
  "from_string [0xD800, 0xD800] Utf8 = Inr [239, 191, 189]" "from_string [0xD800, 0xD800, 97] Utf8 = Inr [239, 191, 189, 239, 191, 189, 97]"
  by code_simp+

text \<open>Under a limit no more is written than there is room for.\<close>

lemma utf8_to_bytes_bound:
  assumes "0 < k"
  shows "int (length (utf8_to_bytes s (Some k))) \<le> k"
  using loop_bound[of s None k] assms by (simp add: utf8_to_bytes_def)

text \<open>Any bytes survive being written out as Base64 or as Latin-1 and read in again, and any text
  survives UTF-16.\<close>

theorem encodings_round_trip:
  assumes "int (length b) \<le> kMaxLength" and "2 * int (length s) \<le> kMaxLength"
  shows "from_string (to_string b Base64) Base64 = Inr b \<and> from_string (to_string b Latin1) Latin1 = Inr b \<and>
    (\<exists>c. from_string s Utf16le = Inr c \<and> to_string c Utf16le = s)"
  using from_string_base64[OF assms(1)] from_string_latin1[OF assms(1)] to_string_utf16le[OF assms(2)] by blast

lemma encodings_round_trip_witness:
  "from_string (to_string [0, 128, 255, 10] Base64) Base64 = Inr [0, 128, 255, 10] \<and>
   (\<exists>c. from_string [0xD800, 0] Utf16le = Inr c \<and> to_string c Utf16le = [0xD800, 0])"
proof -
  have "int (length [0, 128, 255, 10 :: 8 word]) \<le> kMaxLength" "2 * int (length [0xD800, 0 :: 16 word]) \<le> kMaxLength"
    by (simp_all add: kMaxLength_def)
  from encodings_round_trip[OF this] show ?thesis by blast
qed

end
