(* ===== verification/Swagger_Login.thy ===== *)
theory Swagger_Login
  imports Swagger_Auth Buffer_Properties
begin

text \<open>
  Logging in from the documentation page: what the Authorize dialog posts is what \<open>/token\<close> reads, and the token
  that comes back is on every later request, where the service takes it for the account that was typed in.

  The form parser of the framework and its reading of a \<open>Bearer\<close> header are arguments; \<open>reads_form\<close> is what
  \<open>application/x-www-form-urlencoded\<close> documents, \<open>urlencoded\<close> a parser that does it.
\<close>

section \<open>The server's side\<close>

definition form_text :: "(string, string) dict \<Rightarrow> string" where
  "form_text pairs = join ''&'' (map (\<lambda>(k, e). k @ ''='' @ e) pairs)"

definition plain_key :: "string \<Rightarrow> bool" where
  "plain_key k \<longleftrightarrow> list_all (\<lambda>c. is_lower_alnum c \<or> c = CHR ''_'') k"

definition plain_value :: "string \<Rightarrow> bool" where
  "plain_value e \<longleftrightarrow> list_all (\<lambda>c. is_unreserved c \<or> c = CHR ''%'' \<or> c = CHR ''+'') e"

definition reads_form :: "(string \<Rightarrow> string) \<Rightarrow> (string \<Rightarrow> (string, string) dict) \<Rightarrow> bool" where
  "reads_form decode form_of \<longleftrightarrow>
     (\<forall>pairs. distinct (map fst pairs) \<and> list_all (\<lambda>(k, e). plain_key k \<and> plain_value e) pairs \<and> pairs \<noteq> [] \<longrightarrow>
        form_of (form_text pairs) = map (\<lambda>(k, e). (k, query_value decode e)) pairs)"

definition reads_utf8 :: "(string \<Rightarrow> string) \<Rightarrow> bool" where
  "reads_utf8 decode \<longleftrightarrow> (\<forall>s. decode (utf8_encode s) = s)"

text \<open>\<open>OAuth2PasswordRequestForm\<close> wants a user name and a password, and a grant type \<open>password\<close> if any.\<close>

definition token_post ::
  "(string \<Rightarrow> (string, string) dict) \<Rightarrow> crypto \<Rightarrow> settings \<Rightarrow> 'w user_repository \<Rightarrow> int \<Rightarrow> string \<Rightarrow>
   ('w, token_data \<times> cookie) call" where
  "token_post form_of cr st repo issued body =
     (let form = form_of body
      in case (dict_get form ''username'', dict_get form ''password'') of
           (Some username, Some password) \<Rightarrow>
             (if dict_get form ''grant_type'' \<in> {None, Some ''password''}
              then token_endpoint cr st repo issued username password
              else raise_io (PyError ''RequestValidationError''))
         | _ \<Rightarrow> raise_io (PyError ''RequestValidationError''))"

definition token_json :: "token_data \<Rightarrow> json" where
  "token_json data = JObj [(''access_token'', JStr (td_access_token data)),
     (''token_type'', JStr (td_token_type data)), (''expires_in'', JNum (td_expires_in data))]"

section \<open>What the dialog encodes is what the form reads\<close>

lemma plus_spaces_nil [simp]: "plus_spaces [] = []"
  by (subst plus_spaces.simps) simp

lemma plus_spaces_skip: "c \<noteq> CHR ''%'' \<Longrightarrow> plus_spaces (c # s) = c # plus_spaces s"
  by (subst plus_spaces.simps) simp

lemma plus_spaces_space: "plus_spaces (''%20'' @ s) = CHR ''+'' # plus_spaces s"
  by (subst plus_spaces.simps) simp

lemma upper_hex_not: "n < 16 \<Longrightarrow> upper_hex n \<noteq> CHR ''%''" "n < 16 \<Longrightarrow> upper_hex n = CHR ''2'' \<longleftrightarrow> n = 2"
  "n < 16 \<Longrightarrow> upper_hex n = CHR ''0'' \<longleftrightarrow> n = 0"
proof -
  assume n: "n < 16"
  have "list_all (\<lambda>n. upper_hex n \<noteq> CHR ''%'' \<and> (upper_hex n = CHR ''2'' \<longleftrightarrow> n = 2) \<and> (upper_hex n = CHR ''0'' \<longleftrightarrow> n = 0)) [0..<16]"
    by code_simp
  with n show "upper_hex n \<noteq> CHR ''%''" "upper_hex n = CHR ''2'' \<longleftrightarrow> n = 2" "upper_hex n = CHR ''0'' \<longleftrightarrow> n = 0"
    by (auto simp: list_all_iff)
qed

lemma char_of_code_point: "char_of (code_point c) = c" and code_point_char_of: "code_point (char_of n) = n mod 256"
  and code_point_space: "code_point CHR '' '' = 32"
  by (simp_all add: code_point_def)

lemma code_point_parts: "code_point c div 16 < 16" "code_point c mod 16 < 16"
  using code_point_less[of c] by simp_all

lemma plus_spaces_byte:
  assumes "c \<noteq> CHR '' ''"
  shows "plus_spaces (percent_byte c @ s) = percent_byte c @ plus_spaces s"
proof -
  have "\<not> (code_point c div 16 = 2 \<and> code_point c mod 16 = 0)"
  proof
    assume "code_point c div 16 = 2 \<and> code_point c mod 16 = 0"
    then have "code_point c = 32" using div_mult_mod_eq[of "code_point c" 16] by simp
    then have "c = char_of (32 :: nat)" by (metis char_of_code_point)
    moreover have "char_of (32 :: nat) = CHR '' ''" by code_simp
    ultimately show False using assms by simp
  qed
  then have "take 3 (percent_byte c @ s) \<noteq> ''%20''"
    using upper_hex_not(2)[OF code_point_parts(1)] upper_hex_not(3)[OF code_point_parts(2)] by (auto simp: percent_byte_def)
  then have "plus_spaces (percent_byte c @ s) = CHR ''%'' # plus_spaces (tl (percent_byte c) @ s)"
    by (subst plus_spaces.simps) (simp add: percent_byte_def)
  then show ?thesis
    using upper_hex_not(1)[OF code_point_parts(1)] upper_hex_not(1)[OF code_point_parts(2)]
    by (simp add: percent_byte_def plus_spaces_skip)
qed

lemma plus_spaces_bytes:
  "CHR '' '' \<notin> set bs \<Longrightarrow> plus_spaces (concat (map percent_byte bs) @ s) = concat (map percent_byte bs) @ plus_spaces s"
proof (induction bs)
  case (Cons b bs)
  then have "b \<noteq> CHR '' ''" "CHR '' '' \<notin> set bs" by auto
  with Cons(1) show ?case by (simp add: plus_spaces_byte)
qed simp

definition form_char :: "char \<Rightarrow> string" where
  "form_char c = (if c = CHR '' '' then ''+''
     else if is_unreserved c then [c] else concat (map percent_byte (utf8_char c)))"

lemma utf8_char_no_space: "c \<noteq> CHR '' '' \<Longrightarrow> CHR '' '' \<notin> set (utf8_char c)"
proof
  assume c: "c \<noteq> CHR '' ''" and "CHR '' '' \<in> set (utf8_char c)"
  then consider "CHR '' '' = char_of (192 + code_point c div 64)" | "CHR '' '' = char_of (128 + code_point c mod 64)"
    by (auto simp: utf8_char_def Let_def split: if_splits)
  then show False
  proof cases
    case 1
    then have "32 = (192 + code_point c div 64) mod 256" by (metis code_point_char_of code_point_space)
    then show False using code_point_less[of c] by simp
  next
    case 2
    then have "32 = (128 + code_point c mod 64) mod 256" by (metis code_point_char_of code_point_space)
    then show False by simp
  qed
qed

lemma form_value_chars: "form_value s = concat (map form_char s)"
proof (induction s)
  case Nil
  show ?case by (simp add: form_value_def encode_uri_component_def)
next
  case (Cons c s)
  let ?r = "encode_uri_component s"
  have enc: "encode_uri_component (c # s) = (if is_unreserved c then [c] else concat (map percent_byte (utf8_char c))) @ ?r"
    by (simp add: encode_uri_component_def)
  have space: "c = CHR '' '' \<Longrightarrow> encode_uri_component (c # s) = ''%20'' @ ?r"
  proof -
    have "\<not> is_unreserved CHR '' ''" "concat (map percent_byte (utf8_char CHR '' '')) = ''%20''" by code_simp+
    then show "c = CHR '' '' \<Longrightarrow> encode_uri_component (c # s) = ''%20'' @ ?r" using enc by simp
  qed
  show ?case
  proof (cases "c = CHR '' ''")
    case True
    have "form_value (c # s) = CHR ''+'' # form_value s"
      unfolding form_value_def space[OF True] plus_spaces_space by (rule refl)
    with True Cons show ?thesis by (simp add: form_char_def)
  next
    case False
    then show ?thesis
      using Cons unreserved_ascii[of c] plus_spaces_bytes[OF utf8_char_no_space[OF False]]
      by (simp add: form_value_def enc form_char_def plus_spaces_skip)
  qed
qed

lemma unreserved_not_space: "is_unreserved c \<Longrightarrow> c \<noteq> CHR '' ''"
  by (auto simp: is_unreserved_def is_alnum_def is_lower_alnum_def code_point_def)

definition plain_char :: "char \<Rightarrow> bool" where
  "plain_char x \<longleftrightarrow> is_unreserved x \<or> x = CHR ''%'' \<or> x = CHR ''+''"

lemma plain_char_ascii: "plain_char x \<Longrightarrow> is_ascii x"
  using unreserved_ascii[of x] by (auto simp: plain_char_def is_ascii_def code_point_def)

lemma plain_hex: "n < 16 \<Longrightarrow> plain_char (upper_hex n)"
  by (auto simp: plain_char_def is_unreserved_def is_alnum_def is_lower_alnum_def upper_hex_def code_point_char_of Let_def)

lemma form_char_plain: "list_all plain_char (form_char c)"
proof -
  have "list_all plain_char (percent_byte b)" for b
    using plain_hex[OF code_point_parts(1)[of b]] plain_hex[OF code_point_parts(2)[of b]]
    by (simp add: percent_byte_def plain_char_def[of "CHR ''%''"])
  then have "list_all plain_char (concat (map percent_byte bs))" for bs by (induction bs) simp_all
  moreover have "plain_char CHR ''+''" "is_unreserved c \<Longrightarrow> plain_char c" by (simp_all add: plain_char_def)
  ultimately show ?thesis by (simp add: form_char_def)
qed

lemma form_value_plain: "plain_value (form_value s)" and form_value_ascii: "\<forall>x \<in> set (form_value s). is_ascii x"
proof -
  have "list_all plain_char (form_value s)"
    by (induction s) (simp_all add: form_value_chars form_char_plain)
  then show "plain_value (form_value s)" and "\<forall>x \<in> set (form_value s). is_ascii x"
    using plain_char_ascii by (auto simp: plain_value_def plain_char_def list_all_iff)
qed

definition plus_to_space :: "char \<Rightarrow> char" where
  "plus_to_space c = (if c = CHR ''+'' then CHR '' '' else c)"

lemma plus_to_space_eqs: "plus_to_space CHR ''+'' = CHR '' ''" "c \<noteq> CHR ''+'' \<Longrightarrow> plus_to_space c = c"
  by (simp_all add: plus_to_space_def)

lemma query_value_plus: "query_value decode s = unquote decode (map plus_to_space s)"
  by (simp add: query_value_def plus_to_space_def[abs_def])

lemma unquote_form_value: "unquote_to_bytes (map plus_to_space (form_value s)) = utf8_encode s"
proof (induction s)
  case (Cons c s)
  let ?r = "map plus_to_space (form_value s)"
  have rest: "map plus_to_space (form_value (c # s)) = map plus_to_space (form_char c) @ ?r"
    by (simp add: form_value_chars)
  consider "c = CHR '' ''" | "c \<noteq> CHR '' ''" "is_unreserved c" | "c \<noteq> CHR '' ''" "\<not> is_unreserved c" by blast
  then show ?case
  proof cases
    case 1
    have "utf8_encode (CHR '' '' # s) = CHR '' '' # utf8_encode s"
      by (simp add: utf8_encode_def utf8_char_def code_point_space)
    moreover have "map plus_to_space (form_value (c # s)) = CHR '' '' # ?r"
      unfolding rest unfolding 1 by (simp add: form_char_def plus_to_space_eqs)
    ultimately show ?thesis using Cons 1 by simp
  next
    case 2
    with unreserved_ascii[OF 2(2)] Cons show ?thesis
      by (simp add: rest form_char_def plus_to_space_eqs utf8_encode_def utf8_char_def Let_def)
  next
    case 3
    have "map plus_to_space (concat (map percent_byte bs)) = concat (map percent_byte bs)" for bs
      by (rule map_idI) (use percent_byte_ascii in \<open>auto simp: plus_to_space_eqs\<close>)
    with 3 Cons show ?thesis by (simp add: rest form_char_def unquote_percent_bytes utf8_encode_def)
  qed
qed (simp add: form_value_chars utf8_encode_def)

lemma unquote_ascii: "s \<noteq> [] \<Longrightarrow> \<forall>x \<in> set s. is_ascii x \<Longrightarrow> unquote decode s = decode (unquote_to_bytes s)"
proof (cases s)
  case (Cons a r)
  moreover assume "\<forall>x \<in> set s. is_ascii x"
  ultimately have "is_ascii a" "takeWhile is_ascii (a # r) = a # r" "dropWhile is_ascii r = []"
    by (auto simp: takeWhile_eq_all_conv)
  then have "unquote decode (a # r) = decode (unquote_to_bytes (a # r))"
    by (simp only: unquote.simps if_True append_Nil2)
  with Cons show ?thesis by simp
qed simp

lemma form_value_read:
  assumes "reads_utf8 decode"
  shows "query_value decode (form_value s) = s"
proof (cases s)
  case Nil
  then show ?thesis by (simp add: query_value_def form_value_chars)
next
  case (Cons c r)
  have "form_char c \<noteq> []" by (auto simp: form_char_def utf8_char_def percent_byte_def Let_def)
  then have "map plus_to_space (form_value s) \<noteq> []" by (simp add: Cons form_value_chars)
  moreover have "\<forall>x \<in> set (map plus_to_space (form_value s)). is_ascii x"
    using form_value_ascii by (auto simp: plus_to_space_def is_ascii_def code_point_def)
  ultimately have "unquote decode (map plus_to_space (form_value s)) = decode (unquote_to_bytes (map plus_to_space (form_value s)))"
    by (rule unquote_ascii)
  then have "query_value decode (form_value s) = decode (utf8_encode s)"
    by (simp only: query_value_plus unquote_form_value)
  with assms show ?thesis by (simp add: reads_utf8_def)
qed

text \<open>A form as the server reads it: every field that is not empty, as it was typed.\<close>

lemma form_posted:
  assumes "reads_form decode form_of" and "reads_utf8 decode"
    and "distinct (map fst form)" and "list_all plain_key (map fst form)" and "filter (\<lambda>(k, v). v \<noteq> []) form \<noteq> []"
  shows "form_of (build_form_data form) = filter (\<lambda>(k, v). v \<noteq> []) form"
proof -
  let ?kept = "filter (\<lambda>(k, v). v \<noteq> []) form"
  let ?pairs = "map (\<lambda>(k, v). (k, form_value v)) ?kept"
  have "build_form_data form = form_text ?pairs"
    by (simp add: build_form_data_def form_text_def comp_def case_prod_unfold)
  moreover have "distinct (map fst ?pairs)"
    using distinct_map_filter[OF assms(3)] by (simp add: comp_def case_prod_unfold)
  moreover have "list_all (\<lambda>(k, e). plain_key k \<and> plain_value e) ?pairs"
    using assms(4) form_value_plain by (auto simp: list_all_iff)
  ultimately have "form_of (build_form_data form) = map (\<lambda>(k, e). (k, query_value decode e)) ?pairs"
    using assms(1,5) unfolding reads_form_def by (metis (no_types, lifting) map_is_Nil_conv)
  also have "\<dots> = ?kept"
    by (simp add: comp_def case_prod_unfold form_value_read[OF assms(2)])
  finally show ?thesis .
qed

section \<open>A parser that reads forms\<close>

definition urlencoded :: "(string \<Rightarrow> string) \<Rightarrow> string \<Rightarrow> (string, string) dict" where
  "urlencoded decode text_body =
     map (\<lambda>part. case str_partition ''='' part of (k, _, v) \<Rightarrow> (query_value decode k, query_value decode v))
       (split_on CHR ''&'' text_body)"

lemma split_join: "parts \<noteq> [] \<Longrightarrow> \<forall>x \<in> set parts. c \<notin> set x \<Longrightarrow> split_on c (join [c] parts) = parts"
  by (induction "[c]" parts rule: join.induct) (simp_all add: split_on_no_sep split_on_append)

lemma str_partition_at: "c \<notin> set k \<Longrightarrow> str_partition [c] (k @ c # e) = (k, True, e)"
  by (induction k) auto

lemma plain_key_value: "plain_key k \<Longrightarrow> form_value k = k"
proof -
  assume "plain_key k"
  moreover have "is_unreserved CHR ''_''" by code_simp
  ultimately have "\<forall>c \<in> set k. is_unreserved c"
    by (auto simp: plain_key_def list_all_iff is_unreserved_def[of c for c] is_alnum_def)
  then have "\<forall>c \<in> set k. form_char c = [c]" using unreserved_not_space by (auto simp: form_char_def)
  then show ?thesis by (induction k) (simp_all add: form_value_chars)
qed

lemma urlencoded_reads_form:
  assumes "reads_utf8 decode"
  shows "reads_form decode (urlencoded decode)"
  unfolding reads_form_def
proof (intro allI impI)
  fix pairs :: "(string, string) dict"
  let ?parts = "map (\<lambda>(k, e). k @ ''='' @ e) pairs"
  assume "distinct (map fst pairs) \<and> list_all (\<lambda>(k, e). plain_key k \<and> plain_value e) pairs \<and> pairs \<noteq> []"
  then have plain: "\<forall>(k, e) \<in> set pairs. plain_key k \<and> plain_value e" and ne: "pairs \<noteq> []"
    by (auto simp: list_all_iff)
  have no: "plain_key k \<Longrightarrow> CHR ''='' \<notin> set k \<and> CHR ''&'' \<notin> set k" "plain_value e \<Longrightarrow> CHR ''&'' \<notin> set e" for k e
  proof -
    have "\<not> is_lower_alnum CHR ''=''" "\<not> is_lower_alnum CHR ''&''" "\<not> is_unreserved CHR ''&''" by code_simp+
    then show "plain_key k \<Longrightarrow> CHR ''='' \<notin> set k \<and> CHR ''&'' \<notin> set k" "plain_value e \<Longrightarrow> CHR ''&'' \<notin> set e"
      by (auto simp: plain_key_def plain_value_def list_all_iff)
  qed
  have "\<forall>x \<in> set ?parts. CHR ''&'' \<notin> set x" using plain no by fastforce
  then have "split_on CHR ''&'' (form_text pairs) = ?parts" using ne by (simp add: form_text_def split_join)
  then have "urlencoded decode (form_text pairs) =
      map (\<lambda>(k, e). case str_partition ''='' (k @ ''='' @ e) of (k, _, v) \<Rightarrow> (query_value decode k, query_value decode v)) pairs"
    by (simp add: urlencoded_def comp_def case_prod_unfold)
  also have "\<dots> = map (\<lambda>(k, e). (k, query_value decode e)) pairs"
  proof (rule map_cong[OF refl], clarify)
    fix k e assume "(k, e) \<in> set pairs"
    with plain have k: "plain_key k" by auto
    then have "query_value decode k = k" using form_value_read[OF assms, of k] plain_key_value by simp
    with no(1)[OF k] show "(case str_partition ''='' (k @ ''='' @ e) of (k, _, v) \<Rightarrow> (query_value decode k, query_value decode v)) =
        (k, query_value decode e)"
      by (simp add: str_partition_at)
  qed
  finally show "urlencoded decode (form_text pairs) = map (\<lambda>(k, e). (k, query_value decode e)) pairs" .
qed

fun utf8_decode :: "string \<Rightarrow> string" where
  "utf8_decode [] = []"
| "utf8_decode (c # s) =
     (if code_point c < 128 then c # utf8_decode s
      else (case s of [] \<Rightarrow> [c]
            | d # r \<Rightarrow> char_of (64 * (code_point c - 192) + (code_point d - 128)) # utf8_decode r))"

lemma utf8_decode_reads: "reads_utf8 utf8_decode"
  unfolding reads_utf8_def
proof
  fix s
  show "utf8_decode (utf8_encode s) = s"
  proof (induction s)
    case (Cons c s)
    show ?case
    proof (cases "code_point c < 128")
      case True
      with Cons show ?thesis by (simp add: utf8_encode_def utf8_char_def)
    next
      case False
      have parts: "192 + code_point c div 64 < 256" "128 + code_point c mod 64 < 256" using code_point_less[of c] by simp_all
      then have "code_point (char_of (192 + code_point c div 64)) = 192 + code_point c div 64"
        "code_point (char_of (128 + code_point c mod 64)) = 128 + code_point c mod 64"
        by (simp_all only: code_point_char_of mod_less)
      moreover have "64 * (code_point c div 64) + code_point c mod 64 = code_point c" by simp
      moreover have "utf8_encode (c # s) = char_of (192 + code_point c div 64) # char_of (128 + code_point c mod 64) # utf8_encode s"
        using False by (simp add: utf8_encode_def utf8_char_def Let_def)
      ultimately show ?thesis using Cons by (simp add: char_of_code_point)
    qed
  qed (simp add: utf8_encode_def)
qed

section \<open>From the dialog to a later request\<close>

lemma js_of_well_formed: "well_formed (js_of s)" and js_of_no_leads: "\<not> two_leads_at_end (js_of s)"
proof -
  have small: "\<not> leads (of_char c)" "\<not> trails (of_char c)" for c :: char
  proof -
    have less: "of_char c < (256 :: nat)" using code_point_less[of c] by (simp only: code_point_def)
    have "unat (of_char c :: 16 word) = of_char c mod 65536" by (simp add: of_char_def unsigned_of_nat take_bit_nat_def)
    moreover have "(of_char c :: nat) mod 65536 = of_char c" by (rule mod_less) (use less in linarith)
    ultimately have "unat (of_char c :: 16 word) < 256" using less by linarith
    then show "\<not> leads (of_char c)" "\<not> trails (of_char c)" unfolding leads_nat trails_nat by linarith+
  qed
  have "list_all (\<lambda>c. \<not> leads c \<and> \<not> trails c) t \<Longrightarrow> well_formed t" for t
    by (induction t rule: well_formed.induct) auto
  moreover have all: "list_all (\<lambda>c. \<not> leads c \<and> \<not> trails c) (js_of s)" by (simp add: js_of_def list_all_iff small)
  ultimately show "well_formed (js_of s)" by blast
  have "list_all (\<lambda>c. \<not> leads c) (rev (js_of s))" using all by (simp add: list_all_iff)
  then show "\<not> two_leads_at_end (js_of s)" by (auto simp: two_leads_at_end_def split: list.splits)
qed

lemma utils_btoa_total: "3 * int (length s) \<le> kMaxLength \<Longrightarrow> \<exists>code. utils_btoa s = Inr code"
  by (simp add: utils_btoa_def from_string_utf8 js_of_def)

definition dialog_form :: "oauth_dialog \<Rightarrow> (string, string) dict" where
  "dialog_form d =
     (let form = [(''grant_type'', ''password''), (''scope'', join '' '' (od_scopes d)),
                  (''username'', od_username d), (''password'', od_password d)]
      in if od_password_type d = ''request-body''
         then set_client_id_and_secret (od_client_id d) (od_client_secret d) form else form)"

lemma authorize_password_body:
  assumes "3 * int (length (od_client_id d) + length (od_client_secret d) + 1) \<le> kMaxLength"
  shows "\<exists>request. authorize_password d = Inr request \<and> tq_body request = build_form_data (dialog_form d)"
proof -
  have "3 * int (length (od_client_id d @ '':'' @ od_client_secret d)) \<le> kMaxLength" using assms by simp
  then obtain code where "utils_btoa (od_client_id d @ '':'' @ od_client_secret d) = Inr code" using utils_btoa_total by blast
  then show ?thesis by (simp add: authorize_password_def dialog_form_def Let_def)
qed

lemma dialog_form_ok:
  "distinct (map fst (dialog_form d))" "list_all plain_key (map fst (dialog_form d))"
  "dict_get (dialog_form d) ''username'' = Some (od_username d)" "dict_get (dialog_form d) ''password'' = Some (od_password d)"
  "dict_get (dialog_form d) ''grant_type'' = Some ''password''"
proof -
  have keys: "list_all plain_key [''grant_type'', ''scope'', ''username'', ''password'', ''client_id'', ''client_secret'']"
    by code_simp
  show "distinct (map fst (dialog_form d))" "list_all plain_key (map fst (dialog_form d))"
    "dict_get (dialog_form d) ''username'' = Some (od_username d)" "dict_get (dialog_form d) ''password'' = Some (od_password d)"
    "dict_get (dialog_form d) ''grant_type'' = Some ''password''"
    using keys by (simp_all add: dialog_form_def set_client_id_and_secret_def Let_def)
qed

text \<open>C13: who types a valid account and its password into the dialog of the documentation page is logged in: the form
  that is posted is read with what was typed, the token of the answer is kept, and every later request of the
  page for an operation that asks for the scheme carries it, so that the service lets exactly this account
  through, as far as its scopes go.\<close>

theorem docs_login_authorises:
  assumes parser: "reads_form decode form_of" and utf8: "reads_utf8 decode"
    and bearer: "\<forall>t. bearer_of (''Bearer '' @ t) = Some t" and template: "\<forall>t. text_of (JStr t) = t"
    and loaded: "cache_inv eng (uw_path w) (uw_cache w)" "answer eng (uw_path w) = Inr doc"
    and account: "entry_of doc (od_username d) = Some u" "checkpw cr (od_password d) (ue_hashed_password u) = Inr True"
    and typed: "od_username d \<noteq> []" "od_password d \<noteq> []"
      "3 * int (length (od_client_id d) + length (od_client_secret d) + 1) \<le> kMaxLength"
    and signed: "jwt_decode cr later (jwt_encode cr (issued_payload st issued (od_username d) (ue_scopes u))) =
      Inr (issued_payload st issued (od_username d) (ue_scopes u))"
  shows "\<exists>request data ck w' headers header t. authorize_password d = Inr request \<and>
    token_post form_of cr st (json_get_by_account eng) issued (fe_body (authorize_fetch resolved request)) w =
      (Inr (data, ck), w') \<and>
    apply_securities text_of (\<lambda>_. None)
      (keep_token (authorize_outcome json_text text_of d (Answered True status_text (Inr (token_json data)))) known)
      (Some [[od_name d]]) spec [] = Inr headers \<and>
    dict_get headers ''Authorization'' = Some header \<and> bearer_of header = Some t \<and>
    get_current_user cr later needed t =
      (if set needed \<subseteq> set (ue_scopes u) then Inr \<lparr>u_account = od_username d, u_scopes = ue_scopes u\<rparr>
       else Inl (forbidden needed (filter (\<lambda>s. s \<notin> set (ue_scopes u)) needed)))"
proof -
  let ?data = "generate_token cr st issued \<lparr>u_account = od_username d, u_scopes = ue_scopes u\<rparr>"
  let ?kept = "filter (\<lambda>(k, v). v \<noteq> []) (dialog_form d)"
  obtain request where request: "authorize_password d = Inr request" "tq_body request = build_form_data (dialog_form d)"
    using authorize_password_body[OF typed(3)] by blast
  have kept: "dict_get ?kept k = Some v" if "dict_get (dialog_form d) k = Some v" "v \<noteq> []" for k v
    using that dialog_form_ok(1)[of d] by (intro map_of_is_SomeI) (auto simp: distinct_map_filter dest: map_of_SomeD)
  have read: "dict_get ?kept ''username'' = Some (od_username d)" "dict_get ?kept ''password'' = Some (od_password d)"
    "dict_get ?kept ''grant_type'' = Some ''password''"
    using dialog_form_ok(3-5)[of d] typed(1,2) by (auto intro!: kept)
  then have "?kept \<noteq> []" by (metis map_of.simps(1) option.distinct(1))
  then have "form_of (build_form_data (dialog_form d)) = ?kept"
    using form_posted[OF parser utf8 dialog_form_ok(1,2)] by blast
  then have posted: "token_post form_of cr st (json_get_by_account eng) issued (tq_body request) w =
      token_endpoint cr st (json_get_by_account eng) issued (od_username d) (od_password d) w"
    by (simp only: token_post_def request(2) Let_def read) simp
  obtain w' where login: "token_endpoint cr st (json_get_by_account eng) issued (od_username d) (od_password d) w =
      (let data = ?data in (Inr (data, access_cookie (td_access_token data) (td_expires_in data)), w'))"
    using token_login[OF loaded account] .
  have header: "oauth2_header text_of None (object_assign (token_json ?data)) = Inr (''Bearer '' @ td_access_token ?data)"
  proof -
    have "lower ''bearer'' = ''bearer''" by code_simp
    then show ?thesis
      using template by (simp add: oauth2_header_def object_assign_def token_json_def dict_truthy_def js_truthy_def
          generate_token_def Let_def)
  qed
  let ?outcome = "authorize_outcome json_text text_of d (Answered True status_text (Inr (token_json ?data)))"
  have "?outcome = Authorized d (token_json ?data)"
    by (simp add: authorize_outcome_def member_def token_json_def)
  then have "dict_get (keep_token ?outcome known) (od_name d) = Some (d, object_assign (token_json ?data))"
    and "keep_token ?outcome known \<noteq> []"
    by (auto simp: keep_token_def dest: arg_cong[where f = "\<lambda>x. dict_get x (od_name d)"])
  then have "apply_securities text_of (\<lambda>_. None) (keep_token ?outcome known) (Some [[od_name d]]) spec [] =
      Inr [(''Authorization'', ''Bearer '' @ td_access_token ?data)]"
    using header by (simp add: apply_securities_def or_else_def)
  moreover note issued_token_user[where needed = needed, OF loaded(2) account(1) signed]
  moreover have "fe_body (authorize_fetch resolved request) = tq_body request" by (simp add: authorize_fetch_def)
  ultimately show ?thesis
    using request(1) posted login bearer by (simp add: Let_def)
qed

definition typed_dialog :: oauth_dialog where
  "typed_dialog = on_dialog (PasswordTyped ''secret'') (on_dialog (UsernameTyped ''ops'')
     (open_dialog ''OAuth2PasswordBearer'' ''password'' ''/token'' None))"

lemma docs_login_authorises_witness:
  "\<exists>request data ck w' t. authorize_password typed_dialog = Inr request \<and>
    token_post (urlencoded utf8_decode) sample_crypto sample_settings (json_get_by_account sample_engines) 0
      (fe_body (authorize_fetch id request)) sample_world = (Inr (data, ck), w') \<and>
    get_current_user sample_crypto 60 [''node:write''] t = Inr \<lparr>u_account = ''ops'', u_scopes = [''node:write'']\<rparr>"
proof -
  let ?u = "\<lparr>ue_account = ''ops'', ue_hashed_password = sample_hash, ue_scopes = [''node:write''], ue_policies = []\<rparr>"
  have dialog: "od_username typed_dialog = ''ops''" "od_password typed_dialog = ''secret''"
    "od_client_id typed_dialog = []" "od_client_secret typed_dialog = []"
    by (simp_all add: typed_dialog_def open_dialog_def)
  have "entry_of sample_doc (od_username typed_dialog) = Some ?u" by (simp add: entry_of_def sample_doc_def dialog)
  moreover have "checkpw sample_crypto (od_password typed_dialog) (ue_hashed_password ?u) = Inr True"
    by (simp add: sample_crypto_def dialog)
  moreover have "od_username typed_dialog \<noteq> []" "od_password typed_dialog \<noteq> []"
    "3 * int (length (od_client_id typed_dialog) + length (od_client_secret typed_dialog) + 1) \<le> kMaxLength"
    by (simp_all add: dialog kMaxLength_def)
  moreover have "jwt_decode sample_crypto 60 (jwt_encode sample_crypto
      (issued_payload sample_settings 0 (od_username typed_dialog) (ue_scopes ?u))) =
      Inr (issued_payload sample_settings 0 (od_username typed_dialog) (ue_scopes ?u))"
    by (simp add: sample_crypto_def dialog)
  ultimately show ?thesis
    using docs_login_authorises[OF urlencoded_reads_form[OF utf8_decode_reads] utf8_decode_reads,
        of "\<lambda>h. Some (drop 7 h)" "\<lambda>v. case v of JStr t \<Rightarrow> t | _ \<Rightarrow> []" sample_engines sample_world sample_doc
          typed_dialog ?u sample_crypto 60 sample_settings 0 id "\<lambda>_. []" "[]" "[]" None "[''node:write'']"]
      sample_world_ok
    by (simp add: dialog) blast
qed

text \<open>A password left empty is not posted at all, and the form is refused.\<close>

lemma empty_password_is_refused:
  assumes "reads_form decode form_of" and "reads_utf8 decode" and "od_password d = []"
  shows "token_post form_of cr st repo issued (build_form_data (dialog_form d)) w =
    (Inl (PyError ''RequestValidationError''), w)"
proof -
  let ?kept = "filter (\<lambda>(k, v). v \<noteq> []) (dialog_form d)"
  have "(''grant_type'', ''password'') \<in> set ?kept"
    using dialog_form_ok(5)[of d] by (auto dest: map_of_SomeD)
  then have "?kept \<noteq> []" by (metis empty_iff empty_set)
  then have "form_of (build_form_data (dialog_form d)) = ?kept"
    using form_posted[OF assms(1,2) dialog_form_ok(1,2)] by blast
  moreover have "''password'' \<notin> fst ` set ?kept"
  proof
    assume "''password'' \<in> fst ` set ?kept"
    then obtain v where "(''password'', v) \<in> set (dialog_form d)" "v \<noteq> []" by auto
    then have "dict_get (dialog_form d) ''password'' = Some v" using dialog_form_ok(1)[of d] by (intro map_of_is_SomeI)
    with \<open>v \<noteq> []\<close> show False using dialog_form_ok(4)[of d] assms(3) by simp
  qed
  then have "dict_get ?kept ''password'' = None" by (simp add: map_of_eq_None_iff)
  ultimately show ?thesis by (simp add: token_post_def Let_def raise_io_def split: option.split)
qed

end
