(* ===== verification/Spec2Isabelle.thy ===== *)
theory Spec2Isabelle
  imports Findings Live_Kube Routing Swagger_Login
begin

text \<open>
  Cluster-Service is a FastAPI service through which authenticated callers act on Kubernetes clusters
  (nodes, pods, namespaces, ConfigMaps) and on a deploy-service upstream (pipelines, inventory, remote
  commands). A request passes the request-id middleware, the token check with its scopes, the access
  policy for writes, a service, and a client; failures become typed exceptions that one handler turns
  into error bodies. In dry-run mode the clients are replaced by in-memory stand-ins, and nothing
  else is. The program proper is Python under src/app, with one browser script of its own, the log
  viewer, kept in a Python template; the only JavaScript file of the repository is the vendored, minified
  script of its documentation page, of which the parts that log in to the service are modelled as well.

  \<^bold>\<open>How the code is rendered.\<close> A Python operation that may raise and may change its world is a function
  \<open>'w \<Rightarrow> (exn + 'a) \<times> 'w\<close> (\<open>Prelude\<close>); a raise keeps the world as it is by then. A \<open>dict\<close> is an
  association list in insertion order, a pydantic model a \<open>record\<close>, an enumeration a \<open>datatype\<close>,
  \<open>None\<close> the \<open>None\<close> of an option. A string is a list of characters below 256; the standard library's
  text functions and the regular expressions the code uses are defined on them (\<open>Py_Text\<close>, with a
  derivative matcher for the patterns). A Python integer is \<open>int\<close> or \<open>nat\<close>, the bytes of the
  JavaScript modules are \<open>8 word\<close>, their strings UTF-16 code units, \<open>16 word\<close>. Libraries that are not in the repository are arguments: the
  Kubernetes SDK (the record \<open>core_v1_api\<close>), bcrypt and the JWT library (\<open>crypto\<close>), the HTTP library
  and the clock (\<open>upstream\<close>, \<open>'w clock\<close>), pydantic's conversions of scalars (\<open>conversions\<close>), the regular
  expression engine for policy rules, \<open>json.loads\<close>, UTF-8 decoding with replacement, random ids and the
  time. Log statements are left out of the operations; what a log line carries is \<open>Request_Log\<close>.

  \<^bold>\<open>The parts, in the order of the imports.\<close>
  \<^item> \<open>Label_Rules\<close>, \<open>Errors\<close>, \<open>Domain_Models\<close>: domain/label_rules.py, core/exceptions.py and
    domain/models.py with the settings. Names and keys are accepted by the code's patterns; lemmas
    say what these are in words, the trailing newline included.
  \<^item> \<open>Kube_Model\<close>, \<open>Kubernetes_Models\<close>: the SDK objects the code reads, the translation of SDK
    failures (services/kube_errors.py, kube_patch.py), and domain/kubernetes_models.py with its validators.
  \<^item> \<open>Node_Service\<close>, \<open>Node_Facts\<close>, \<open>Drain_Facts\<close>, \<open>Node_Batch\<close>: services/node_service.py and
    node_batch_service.py. \<open>Node_Facts\<close> says what each operation sends and answers on any API;
    \<open>Drain_Facts\<close> states the rules by which a pod is protected, apart from the code, and treats the eviction loop, whose wait is a partial function that returns \<open>None\<close> when it
    never ends, with its termination.
  \<^item> \<open>Dry_Run_Kube\<close>, \<open>Cluster_Contract\<close>, \<open>Dry_Run_Facts\<close>: services/dry_run_kube_client.py; the locale
    of what a client may rely on in a cluster, its lemmas for every node operation, and its
    interpretation by the dry-run cluster, once more with everything an operation leaves alone in its invariant.
  \<^item> \<open>Paging\<close>, \<open>Namespace_Service\<close>, \<open>Configmap_Service\<close>, \<open>Namespace_Facts\<close>: the paged listings and the
    two services; a listing takes its bound on pages from a contract of tiling pages.
  \<^item> \<open>Access_Policy\<close>, \<open>Policy_Service\<close>: domain/access_policy.py and services/policy_service.py.
  \<^item> \<open>Kube_Client\<close>, \<open>Live_Kube\<close>, \<open>Routes\<close>: services/kube_client.py with the cluster repositories, its calls on
    the real SDK with what they leave behind, and the Kubernetes endpoints of api/v1.
  \<^item> \<open>Users_Document\<close>, \<open>Users_File\<close>, \<open>Users_Machine\<close>: domain/users_document.py,
    repositories/json_users_file.py with the two repositories on it, check_users.py. \<open>Users_Document\<close>
    collects problems the way pydantic does; \<open>Users_File\<close> is the cache, with the locale \<open>users_store\<close> that the
    login and the policy rely on, interpreted by the JSON repositories; \<open>Users_Machine\<close> is the step relation
    of requests that load the file while it is replaced, with its invariant.
  \<^item> \<open>Login_Redirect\<close>, \<open>Auth\<close>: core/security.py, services/auth_service.py, the token dependencies and
    the redirect guard of core/dependencies.py, api/v1/auth.py, and the token and login endpoints of main.py.
  \<^item> \<open>Upstream\<close>: core/token_manager.py and the two clients of clients/, down to the requests they send,
    one call at a time. \<open>Token_Machine\<close> runs the same steps interleaved, from one await to the next:
    the lock of \<open>get_token\<close>, the \<open>refresh\<close> after a 401 that does not take it, and what is stored when.
  \<^item> \<open>Upstream_Models\<close>, \<open>Model_Round_Trips\<close>, \<open>Live_Proxy\<close>: the constructors of domain/pipeline_models.py,
    inventory_models.py and command_models.py, which the live clients are given as arguments in \<open>Upstream\<close>;
    how a model is sent and that it reads back; the POST routes from the body as it arrives.
  \<^item> \<open>Dry_Run_Deploy\<close>, \<open>Proxy\<close>, \<open>Dry_Run_Command\<close>: the two in-memory upstreams, the proxy services and
    their routes, and the server's side of the log viewer. The locale \<open>inventory_backend\<close> states what the inventory routes
    rely on, interpreted by each dry-run lookup.
  \<^item> \<open>Log_Viewer\<close>, \<open>Viewer_Properties\<close>, \<open>Viewer_Runs\<close>, \<open>Viewer_Login\<close>: the script of
    core/log_viewer_template.py with the state of its page (cursor, failures, interval, timer, table,
    panels) and one function per poll. \<open>log_source\<close> is the locale of a log a viewer can follow, interpreted by
    the dry-run command service behind its route and its cookie (\<open>browser_ask\<close>); \<open>Viewer_Login\<close> is the way
    of a refused page through core/login_template.py and back.
  \<^item> \<open>Application\<close>, \<open>Settings_Loading\<close>, \<open>Request_Log\<close>: what main.py decides; core/config.py from an environment
    to the settings of a started process; core/logging.py, its filters and the request id that
    concurrent requests share.
  \<^item> \<open>Routing\<close>: api/router.py with the decorators of the routers it mounts, as one table, and how a path is
    looked up in it.
  \<^item> \<open>Base64_Js\<close>, \<open>Buffer_Js\<close>, \<open>Buffer_Properties\<close>, \<open>Swagger_Auth\<close>, \<open>Swagger_Login\<close>: parts of
    static/docs-assets/swagger-ui-bundle.js, a file of two lines of minified code of which the second holds every
    module: Base64 (webpack module 67526), the strings and bytes of Buffer (48287), and the Authorize dialog of
    Swagger UI down to the requests it sends and the header it puts on later ones. \<open>Swagger_Login\<close> joins it to
    the token endpoint.

  \<^bold>\<open>What is shown.\<close> \<open>Node_Properties\<close>: a drain refuses before it evicts, reports its targets, ends, and
  empties exactly the evictable pods; only ready nodes are uncordoned; a batch never touches what the
  policy denied; no SDK failure escapes. \<open>Namespace_Properties\<close>: what an edit may send, that callers
  cannot forge provenance, that listings are complete. \<open>Policy_Properties\<close>: what the policy allows, and
  that no write route reaches a cluster without it. \<open>Users_Properties\<close>: an accepted users file is sound, an
  answer is never older than its request, a write follows the file. \<open>Auth_Properties\<close>: the token round
  trip, the scope gate, indistinguishable refusals, redirects that stay here. \<open>Upstream_Properties\<close>: the
  traffic of one call, observed by wrapping any upstream. \<open>Proxy_Properties\<close> and \<open>Command_Properties\<close>:
  invariant and lifecycle of the dry-run stores over all sequences of operations, and the log viewer's route.
  \<open>Viewer_Properties\<close>, \<open>Viewer_Runs\<close>, \<open>Viewer_Login\<close>: the invariant of the page under any polls, when it stops and
  how it recovers, that lost answers and other traffic neither repeat nor skip a line, that a login leads
  back. \<open>Token_Machine\<close>: a retry carries a token newer than the refusal, in every interleaving.
  \<open>Live_Proxy\<close>: what an upstream sent arrives unchanged. \<open>Application\<close>, \<open>Settings_Loading\<close>: what a serving process has
  checked. \<open>End_To_End\<close>: an answered write was authorised by
  the token and by the users file as it is. \<open>Live_Kube\<close>: every client
  is released once, whatever its operation did. \<open>Routing\<close>: the table is unambiguous but for one path, so a request
  reaches the route of its address. \<open>Base64_Js\<close>, \<open>Buffer_Properties\<close>: round trips and equivalence with plain
  Base64 and with UTF-8 by code points. \<open>Swagger_Login\<close>: what is typed into the dialog arrives at the token
  endpoint, and its token comes back on later requests. \<open>Findings\<close> collects where code and documentation part.

  \<^bold>\<open>Bounds.\<close> Nothing runs on fuel: loops are structural recursion or have a termination proof, except
  the wait of a drain, which is a partial function, and the listings, whose page count is bounded by the
  contract of the API. Times are whole seconds and JSON numbers are integers.

  \<^bold>\<open>Not modelled.\<close> The layout and style of the HTML pages, metrics, tracing, CORS, the OpenAPI
  metadata, and the routes the framework adds by itself (static files, the OpenAPI document); of the bundled
  script everything but the parts above: React, the renderer of the document and the HTTP client are
  third-party code that no behaviour of the service rests on; the file that should hold ReDoc and holds an
  error text. Awaits are scheduling points for the users file, the token manager, the request id and
  the polls of a viewer; the other operations are modelled one at a time.
\<close>

end
